(* ===== verification/H3_Prelude.thy ===== *)
theory H3_Prelude
  imports Main "HOL-Library.Word"
begin

text \<open>
  Shared vocabulary of the development: the machine integers of the crate, Rust's
  \<open>Result\<close> and \<open>Poll\<close>, the native status type with the operations the crate calls
  on it, the crate-root constants of \<open>lib.rs\<close>, the fact collections the component
  theories fill, and generic lemmas on words, lists and options.

  \<open>msquic::Status\<close> belongs to a package outside the repository. A status is its raw
  32-bit \<open>QUIC_STATUS\<close>; how a status code is encoded and decoded is platform code
  of that package, so the encoder, the decoder and \<open>is_ok\<close> are the fields of a record
  \<open>status_ops\<close> that every definition using them takes as an argument \<open>S\<close>. The locale
  \<open>status_codec\<close> names what the crate relies on.
\<close>

section \<open>Machine integers\<close>

type_synonym u8 = "8 word"
type_synonym u32 = "32 word"
type_synonym u64 = "64 word"
type_synonym usize = "64 word"
type_synonym bytes = "u8 list"

definition u32_MAX :: u32 where
  "u32_MAX = 0xFFFFFFFF"

text \<open>Rust's \<open>usize::saturating_sub\<close>.\<close>

definition saturating_sub :: "usize \<Rightarrow> usize \<Rightarrow> usize" where
  "saturating_sub a b = (if b \<le> a then a - b else 0)"

section \<open>Result and Poll\<close>

datatype ('a, 'e) result = Ok 'a | Err 'e

datatype 'a poll = PollPending | PollReady 'a

fun is_ok :: "('a, 'e) result \<Rightarrow> bool" where
  "is_ok (Ok _) = True"
| "is_ok (Err _) = False"

fun poll_map :: "('a \<Rightarrow> 'b) \<Rightarrow> 'a poll \<Rightarrow> 'b poll" where
  "poll_map f PollPending = PollPending"
| "poll_map f (PollReady x) = PollReady (f x)"

fun result_map :: "('a \<Rightarrow> 'b) \<Rightarrow> ('a, 'e) result \<Rightarrow> ('b, 'e) result" where
  "result_map f (Ok x) = Ok (f x)"
| "result_map f (Err e) = Err e"

text \<open>\<open>Option::unwrap_or\<close>.\<close>

fun unwrap_or :: "'a option \<Rightarrow> 'a \<Rightarrow> 'a" where
  "unwrap_or (Some x) d = x"
| "unwrap_or None d = d"

text \<open>A task's waker, identified by a number; \<open>Waker::wake\<close> is recorded where it matters.\<close>

type_synonym waker = nat

section \<open>The native status\<close>

datatype status = Status "32 word"

text \<open>The status codes the crate names; every other code of the package is \<open>StatusCode_other\<close>.\<close>

datatype status_code =
    QUIC_STATUS_ABORTED
  | QUIC_STATUS_CONNECTION_TIMEOUT
  | QUIC_STATUS_CONNECTION_IDLE
  | QUIC_STATUS_INTERNAL_ERROR
  | QUIC_STATUS_PENDING
  | StatusCode_other nat

record status_ops =
  status_new :: "status_code \<Rightarrow> status"
  try_as_status_code :: "status \<Rightarrow> status_code option"
  status_is_ok :: "status \<Rightarrow> bool"

text \<open>
  What the crate relies on: a status made from one of the codes it names reads back as
  that code, and none of those codes is a success.
\<close>

definition named_codes :: "status_code list" where
  "named_codes = [QUIC_STATUS_ABORTED, QUIC_STATUS_CONNECTION_TIMEOUT,
     QUIC_STATUS_CONNECTION_IDLE, QUIC_STATUS_INTERNAL_ERROR, QUIC_STATUS_PENDING]"

locale status_codec =
  fixes S :: status_ops
  assumes decode_new: "c \<in> set named_codes \<Longrightarrow> try_as_status_code S (status_new S c) = Some c"
    and new_not_ok: "c \<in> set named_codes \<Longrightarrow> \<not> status_is_ok S (status_new S c)"
begin

lemma status_new_eq_iff:
  assumes "c \<in> set named_codes" and "d \<in> set named_codes"
  shows "status_new S c = status_new S d \<longleftrightarrow> c = d"
proof
  assume "status_new S c = status_new S d"
  then have "Some c = Some d" using decode_new [OF assms(1)] decode_new [OF assms(2)] by metis
  then show "c = d" by simp
qed simp

end

text \<open>A codec for concrete evaluations: the Linux values of the five codes; any other code stands for its value.\<close>

fun ref_encode :: "status_code \<Rightarrow> status" where
  "ref_encode QUIC_STATUS_ABORTED = Status 125"
| "ref_encode QUIC_STATUS_CONNECTION_TIMEOUT = Status 110"
| "ref_encode QUIC_STATUS_CONNECTION_IDLE = Status 62"
| "ref_encode QUIC_STATUS_INTERNAL_ERROR = Status 5"
| "ref_encode QUIC_STATUS_PENDING = Status 0xFFFFFFFE"
| "ref_encode (StatusCode_other n) = Status (of_nat n)"

definition ref_decode :: "status \<Rightarrow> status_code option" where
  "ref_decode s = find (\<lambda>c. ref_encode c = s) named_codes"

definition ref_status :: status_ops where
  "ref_status = \<lparr>status_new = ref_encode, try_as_status_code = ref_decode,
     status_is_ok = (\<lambda>s. s = Status 0)\<rparr>"

section \<open>Crate-root constants\<close>

definition H3_INTERNAL_ERROR :: u64 where
  "H3_INTERNAL_ERROR = 0x0102"

definition internal_error_status :: "status_ops \<Rightarrow> status" where
  "internal_error_status S = status_new S QUIC_STATUS_INTERNAL_ERROR"

section \<open>Collections\<close>

named_theorems status_simps \<open>evaluation of the reference status codec\<close>
named_theorems slot_simps \<open>the terminal-cause slots\<close>
named_theorems chan_defs \<open>the reference channels\<close>
named_theorems conv_simps \<open>terminal to h3 error conversion\<close>
named_theorems reducer_defs \<open>the arms of the send reducer\<close>
named_theorems budget_defs \<open>receive accounting\<close>
named_theorems stream_defs \<open>stream callback and its helpers\<close>
named_theorems conn_defs \<open>connection callback and its helpers\<close>
named_theorems world_simps \<open>what an operation leaves unchanged\<close>

section \<open>Generic lemmas\<close>

lemma ref_status_simps [status_simps]:
  "status_new ref_status = ref_encode"
  "try_as_status_code ref_status = ref_decode"
  "status_is_ok ref_status s \<longleftrightarrow> s = Status 0"
  by (simp_all add: ref_status_def)

lemma ref_decode_simps [status_simps]:
  "ref_decode (Status 125) = Some QUIC_STATUS_ABORTED"
  "ref_decode (Status 110) = Some QUIC_STATUS_CONNECTION_TIMEOUT"
  "ref_decode (Status 62) = Some QUIC_STATUS_CONNECTION_IDLE"
  "ref_decode (Status 5) = Some QUIC_STATUS_INTERNAL_ERROR"
  "ref_decode (Status 0xFFFFFFFE) = Some QUIC_STATUS_PENDING"
  by (simp_all add: ref_decode_def named_codes_def)

interpretation ref_codec: status_codec ref_status
  by unfold_locales (auto simp: status_simps named_codes_def)

lemma unwrap_or_eq_case: "unwrap_or x d = (case x of Some y \<Rightarrow> y | None \<Rightarrow> d)"
  by (cases x) simp_all

lemma is_ok_iff: "is_ok r \<longleftrightarrow> (\<exists>x. r = Ok x)"
  by (cases r) simp_all

lemma not_is_ok_iff: "\<not> is_ok r \<longleftrightarrow> (\<exists>e. r = Err e)"
  by (cases r) simp_all

lemma poll_map_eq_Ready_iff [simp]:
  "poll_map f p = PollReady y \<longleftrightarrow> (\<exists>x. p = PollReady x \<and> y = f x)"
  by (cases p) auto

lemma poll_map_eq_Pending_iff [simp]: "poll_map f p = PollPending \<longleftrightarrow> p = PollPending"
  by (cases p) auto

text \<open>Casts of the crate: \<open>usize as u32\<close> keeps every value below \<open>2 ^ 32\<close>.\<close>

lemma unat_ucast_u32:
  fixes x :: u64
  assumes "unat x < 2 ^ 32"
  shows "unat (ucast x :: u32) = unat x"
  using assms by (simp add: unsigned_ucast_eq take_bit_eq_mod)

lemma u64_less_iff_unat: "(a :: u64) < b \<longleftrightarrow> unat a < unat b"
  by (simp add: word_less_nat_alt)

lemma u64_le_iff_unat: "(a :: u64) \<le> b \<longleftrightarrow> unat a \<le> unat b"
  by (simp add: word_le_nat_alt)

lemma unat_of_nat_u64: "n < 2 ^ 64 \<Longrightarrow> unat (of_nat n :: u64) = n"
  by (simp add: unat_of_nat take_bit_eq_mod)

lemma unat_add_u64: "unat (a :: u64) + unat b < 2 ^ 64 \<Longrightarrow> unat (a + b) = unat a + unat b"
  by (simp add: unat_word_ariths)

lemma unat_sub_u64: "(b :: u64) \<le> a \<Longrightarrow> unat (a - b) = unat a - unat b"
  by (simp add: unat_sub word_le_nat_alt)

lemma unat_saturating_sub: "unat (saturating_sub a b) = unat a - unat b"
  by (simp add: saturating_sub_def unat_sub_u64 u64_le_iff_unat)

end
