(* ===== verification/H3_Error.thy ===== *)
theory H3_Error
  imports H3_Prelude
begin

text \<open>
  The error vocabulary of \<open>error.rs\<close>: the outgoing-code clamp, the adapter-owned error
  types, the three scoped terminal enums, the h3 error values minted at the polling
  boundary and the four conversion helpers. The send reducer of the same file is in
  \<open>H3_Reducer\<close>.
\<close>

section \<open>Constants and the application-code clamp\<close>

definition MAX_QUIC_VARINT :: u64 where
  "MAX_QUIC_VARINT = push_bit 62 1 - 1"

definition MAX_ADAPTER_SEND :: u64 where
  "MAX_ADAPTER_SEND = 16 * 1024 * 1024"

definition clamp_application_code :: "u64 \<Rightarrow> u64" where
  "clamp_application_code code = min code MAX_QUIC_VARINT"

section \<open>Adapter-owned error types\<close>

text \<open>
  The error values that travel boxed inside an h3 error: the four public structs, and a
  bare native status. Each constructor has the fields of its struct.
\<close>

datatype dyn_error =
    OversizedSend usize u64
  | MsQuicTransportError status u64
  | LocalConnectionClose
  | LocalStreamReset u64
  | StatusError status

text \<open>Decimal rendering of an integer by \<open>write!\<close>, and the \<open>Display\<close> of each type.\<close>

fun dec :: "nat \<Rightarrow> string" where
  "dec n = (if n < 10 then [char_of (48 + n)] else dec (n div 10) @ [char_of (48 + n mod 10)])"

text \<open>Reading a decimal numeral back.\<close>

fun undec :: "string \<Rightarrow> nat" where
  "undec s = foldl (\<lambda>n c. 10 * n + (of_char c - 48)) 0 s"

fun display_error :: "(status \<Rightarrow> string) \<Rightarrow> dyn_error \<Rightarrow> string" where
  "display_error show_status (OversizedSend len max_bytes) =
     ''send_data payload of '' @ dec (unat len) @ '' bytes exceeds configured ceiling ('' @
     dec (unat max_bytes) @ '' bytes)''"
| "display_error show_status (MsQuicTransportError status error_code) =
     ''QUIC transport shutdown: status '' @ show_status status @ '' (transport error_code '' @
     dec (unat error_code) @ '')''"
| "display_error show_status LocalConnectionClose = ''connection closed locally by the application''"
| "display_error show_status (LocalStreamReset code) =
     ''send stream reset locally with code '' @ dec (unat code)"
| "display_error show_status (StatusError status) = show_status status"

section \<open>Scoped terminal enums\<close>

datatype connection_terminal =
    CT_PeerApplication u64
  | CT_Timeout
  | CT_Transport status u64
  | CT_LocalClose
  | CT_Internal string

fun conn_is_provisional :: "connection_terminal \<Rightarrow> bool" where
  "conn_is_provisional CT_LocalClose = True"
| "conn_is_provisional _ = False"

datatype receive_terminal =
    RT_Fin
  | RT_Reset u64
  | RT_Connection connection_terminal
  | RT_Internal string

datatype send_terminal =
    ST_Stopped u64
  | ST_Connection connection_terminal
  | ST_LocalReset u64
  | ST_Failed status
  | ST_ProvisionalAbort
  | ST_Internal string

fun send_is_provisional :: "send_terminal \<Rightarrow> bool" where
  "send_is_provisional ST_ProvisionalAbort = True"
| "send_is_provisional _ = False"

definition aborted_status :: "status_ops \<Rightarrow> status" where
  "aborted_status S = status_new S QUIC_STATUS_ABORTED"

section \<open>h3 error values and the conversions\<close>

text \<open>The variants of h3's two incoming-error enums.\<close>

datatype connection_error_incoming =
    ApplicationClose u64
  | CE_Timeout
  | InternalError string
  | Undefined dyn_error

datatype stream_error_incoming =
    ConnectionErrorIncoming connection_error_incoming
  | StreamTerminated u64
  | Unknown dyn_error

fun convert_conn :: "connection_terminal \<Rightarrow> connection_error_incoming" where
  "convert_conn (CT_PeerApplication code) = ApplicationClose code"
| "convert_conn CT_Timeout = CE_Timeout"
| "convert_conn (CT_Transport status error_code) = Undefined (MsQuicTransportError status error_code)"
| "convert_conn CT_LocalClose = Undefined LocalConnectionClose"
| "convert_conn (CT_Internal msg) = InternalError msg"

fun convert_send :: "status_ops \<Rightarrow> send_terminal \<Rightarrow> stream_error_incoming" where
  "convert_send S (ST_Stopped code) = StreamTerminated code"
| "convert_send S (ST_Connection reason) = ConnectionErrorIncoming (convert_conn reason)"
| "convert_send S (ST_LocalReset code) = Unknown (LocalStreamReset code)"
| "convert_send S (ST_Failed status) = Unknown (StatusError status)"
| "convert_send S ST_ProvisionalAbort = Unknown (StatusError (aborted_status S))"
| "convert_send S (ST_Internal msg) = ConnectionErrorIncoming (InternalError msg)"

fun convert_recv :: "receive_terminal \<Rightarrow> (bytes option, stream_error_incoming) result" where
  "convert_recv RT_Fin = Ok None"
| "convert_recv (RT_Reset code) = Err (StreamTerminated code)"
| "convert_recv (RT_Connection reason) = Err (ConnectionErrorIncoming (convert_conn reason))"
| "convert_recv (RT_Internal msg) = Err (ConnectionErrorIncoming (InternalError msg))"

text \<open>The one-shot, non-sticky errors of \<open>send_data\<close>.\<close>

datatype send_operation_error =
    SOE_OversizedSend usize u64
  | SOE_Misuse string

fun convert_send_op :: "send_operation_error \<Rightarrow> stream_error_incoming" where
  "convert_send_op (SOE_OversizedSend len ceiling) = Unknown (OversizedSend len ceiling)"
| "convert_send_op (SOE_Misuse msg) = ConnectionErrorIncoming (InternalError msg)"

declare dec.simps [simp del]

section \<open>Lemmas\<close>

lemma MAX_QUIC_VARINT_eq: "MAX_QUIC_VARINT = 0x3FFFFFFFFFFFFFFF"
  by (simp add: MAX_QUIC_VARINT_def push_bit_eq_mult)

lemma conn_is_provisional_iff: "conn_is_provisional t \<longleftrightarrow> t = CT_LocalClose"
  by (cases t) simp_all

lemma send_is_provisional_iff: "send_is_provisional t \<longleftrightarrow> t = ST_ProvisionalAbort"
  by (cases t) simp_all

lemma convert_conn_inj: "convert_conn a = convert_conn b \<longleftrightarrow> a = b"
  by (cases a; cases b) auto

lemma undec_dec: "undec (dec n) = n"
proof (induction n rule: dec.induct)
  case (1 n)
  show ?case
  proof (cases "n < 10")
    case True
    then show ?thesis by (simp add: dec.simps [of n] of_char_of)
  next
    case False
    have "of_char (char_of (48 + n mod 10) :: char) = 48 + n mod 10"
      by (simp add: of_char_of)
    with 1 [OF False] False show ?thesis by (simp add: dec.simps [of n])
  qed
qed

lemma dec_inj: "dec m = dec n \<longleftrightarrow> m = n"
  by (metis undec_dec)

section \<open>Properties\<close>

text \<open>
  Every application code handed to the native library fits a QUIC 62-bit varint, a
  code that already fits is unchanged, and a larger one becomes exactly the maximum.
\<close>

theorem clamp_application_code_correct:
  "unat (clamp_application_code code) < 2 ^ 62 \<and>
   clamp_application_code code =
     (if unat code < 2 ^ 62 then code else MAX_QUIC_VARINT) \<and>
   clamp_application_code (clamp_application_code code) = clamp_application_code code"
proof -
  have "unat MAX_QUIC_VARINT = 2 ^ 62 - 1" by (simp add: MAX_QUIC_VARINT_eq)
  then show ?thesis
    by (auto simp: clamp_application_code_def min_def word_le_nat_alt)
qed

text \<open>
  A receive half reports the clean end-of-stream \<open>Ok(None)\<close> for a FIN and for nothing
  else: a peer reset, a connection failure and an internal fault are always errors, and a
  reset keeps the peer's code.
\<close>

theorem convert_recv_clean_eof_iff:
  "(convert_recv t = Ok None \<longleftrightarrow> t = RT_Fin) \<and>
   (convert_recv t = Err (StreamTerminated c) \<longleftrightarrow> t = RT_Reset c) \<and>
   convert_recv t \<noteq> Ok (Some b)"
  by (cases t) auto

text \<open>
  An HTTP/3 application code reported to h3 is always the peer's own. A connection
  error is \<open>ApplicationClose c\<close> only for a peer close with code \<open>c\<close>, so the QUIC transport
  code that accompanies a transport shutdown is never presented as one, and a send half
  reports \<open>StreamTerminated c\<close> only for a peer \<open>STOP_SENDING\<close> with code \<open>c\<close>, never for a
  local reset.
\<close>

theorem application_code_only_from_peer:
  "(convert_conn t = ApplicationClose c \<longleftrightarrow> t = CT_PeerApplication c) \<and>
   (convert_send S s = StreamTerminated c \<longleftrightarrow> s = ST_Stopped c) \<and>
   (convert_send S s = ConnectionErrorIncoming (ApplicationClose c) \<longleftrightarrow>
      s = ST_Connection (CT_PeerApplication c))"
proof (intro conjI)
  show "convert_conn t = ApplicationClose c \<longleftrightarrow> t = CT_PeerApplication c" for t c
    by (cases t) auto
  then show "convert_send S s = ConnectionErrorIncoming (ApplicationClose c) \<longleftrightarrow>
      s = ST_Connection (CT_PeerApplication c)"
    by (cases s) auto
  show "convert_send S s = StreamTerminated c \<longleftrightarrow> s = ST_Stopped c"
    by (cases s) auto
qed

end
