(* ===== verification/H3_Scenario.thy ===== *)
theory H3_Scenario
  imports H3_Prelude "HOL-Library.Monad_Syntax"
begin

text \<open>
  Vocabulary of the theories that replay the unit tests of the crate. A test is an executable program in the
  option monad: a failed assertion, an \<open>unwrap\<close> of an error or a panic is \<open>None\<close>. The channels, the status codec
  and the payload sources are the reference instances of the model; what a test passes to code
  outside the repository only to observe the crate's side of it is modelled by what the
  test observes.
\<close>

definition check :: "bool \<Rightarrow> unit option" where
  "check b = (if b then Some () else None)"

definition passes :: "'a option \<Rightarrow> bool" where
  "passes t \<longleftrightarrow> t \<noteq> None"

fun unwrap :: "('a, 'e) result \<Rightarrow> 'a option" where
  "unwrap (Ok a) = Some a"
| "unwrap (Err e) = None"

text \<open>A loop over the cases of a table.\<close>

fun each :: "('a \<Rightarrow> unit option) \<Rightarrow> 'a list \<Rightarrow> unit option" where
  "each f [] = Some ()"
| "each f (x # xs) = do {f x; each f xs}"

text \<open>\<open>str::contains\<close>.\<close>

fun contains :: "string \<Rightarrow> string \<Rightarrow> bool" where
  "contains s [] \<longleftrightarrow> s = []"
| "contains s (c # t) \<longleftrightarrow> take (length s) (c # t) = s \<or> contains s t"

text \<open>Status codes only the tests name, with their Linux values.\<close>

abbreviation QUIC_STATUS_SUCCESS :: status_code where
  "QUIC_STATUS_SUCCESS \<equiv> StatusCode_other 0"

abbreviation QUIC_STATUS_INVALID_PARAMETER :: status_code where
  "QUIC_STATUS_INVALID_PARAMETER \<equiv> StatusCode_other 22"

abbreviation QUIC_STATUS_HANDSHAKE_FAILURE :: status_code where
  "QUIC_STATUS_HANDSHAKE_FAILURE \<equiv> StatusCode_other 103"

abbreviation QUIC_STATUS_TLS_ERROR :: status_code where
  "QUIC_STATUS_TLS_ERROR \<equiv> StatusCode_other 126"

lemma check_simps [simp]: "check True = Some ()" "check False = None"
  by (simp_all add: check_def)

lemma each_iff: "each f xs = Some () \<longleftrightarrow> list_all (\<lambda>x. f x = Some ()) xs"
  by (induction xs) (auto simp: Option.bind_eq_Some_conv)

lemma passes_check [simp]: "passes (check b) = b"
  by (simp add: passes_def check_def)

end
