(* ===== verification/H3_Attest.thy ===== *)
theory H3_Attest
  imports H3_Error H3_Scenario
begin

text \<open>
  The attestation of the loaded native library (\<open>attest.rs\<close>): the SHA-256 of the mapped image, the path of
  the image in the memory map of the process, the trimmed git hash, the expected version and the
  gate over them. The queries of the library, the environment and the file system are arguments.

  Strings are taken as ASCII: Rust's \<open>split_whitespace\<close> and \<open>trim\<close> also know the white space beyond. The git hash stays
  the bytes before the terminator; the gate only asks whether there are any.
\<close>

unbundle bit_operations_syntax

section \<open>SHA-256\<close>

text \<open>The table of round constants, row by row of the source.\<close>

definition sha_K :: "u32 list" where
  "sha_K = concat [
     [0x428a2f98, 0x71374491, 0xb5c0fbcf, 0xe9b5dba5, 0x3956c25b, 0x59f111f1, 0x923f82a4],
     [0xab1c5ed5, 0xd807aa98, 0x12835b01, 0x243185be, 0x550c7dc3, 0x72be5d74, 0x80deb1fe],
     [0x9bdc06a7, 0xc19bf174, 0xe49b69c1, 0xefbe4786, 0x0fc19dc6, 0x240ca1cc, 0x2de92c6f],
     [0x4a7484aa, 0x5cb0a9dc, 0x76f988da, 0x983e5152, 0xa831c66d, 0xb00327c8, 0xbf597fc7],
     [0xc6e00bf3, 0xd5a79147, 0x06ca6351, 0x14292967, 0x27b70a85, 0x2e1b2138, 0x4d2c6dfc],
     [0x53380d13, 0x650a7354, 0x766a0abb, 0x81c2c92e, 0x92722c85, 0xa2bfe8a1, 0xa81a664b],
     [0xc24b8b70, 0xc76c51a3, 0xd192e819, 0xd6990624, 0xf40e3585, 0x106aa070, 0x19a4c116],
     [0x1e376c08, 0x2748774c, 0x34b0bcb5, 0x391c0cb3, 0x4ed8aa4a, 0x5b9cca4f, 0x682e6ff3],
     [0x748f82ee, 0x78a5636f, 0x84c87814, 0x8cc70208, 0x90befffa, 0xa4506ceb, 0xbef9a3f7],
     [0xc67178f2]]"

definition sha_init :: "u32 list" where
  "sha_init = [
     0x6a09e667, 0xbb67ae85, 0x3c6ef372, 0xa54ff53a, 0x510e527f, 0x9b05688c, 0x1f83d9ab,
     0x5be0cd19]"

text \<open>\<open>u64::to_be_bytes\<close> and \<open>u32::from_be_bytes\<close>.\<close>

definition u64_to_be_bytes :: "u64 \<Rightarrow> bytes" where
  "u64_to_be_bytes x = map (\<lambda>k. ucast (drop_bit k x)) [56, 48, 40, 32, 24, 16, 8, 0]"

definition u32_from_be_bytes :: "u8 \<Rightarrow> u8 \<Rightarrow> u8 \<Rightarrow> u8 \<Rightarrow> u32" where
  "u32_from_be_bytes a b c d =
     push_bit 24 (ucast a) OR push_bit 16 (ucast b) OR push_bit 8 (ucast c) OR ucast d"

text \<open>The loop that pushes zeros until the length is 56 modulo 64.\<close>

function pad_zeros :: "bytes \<Rightarrow> bytes" where
  "pad_zeros msg = (if length msg mod 64 = 56 then msg else pad_zeros (msg @ [0]))"
  by auto

termination pad_zeros
  by (relation "measure (\<lambda>msg. if length msg mod 64 \<le> 56 then 56 - length msg mod 64 else 120 - length msg mod 64)")
    (auto simp: mod_Suc)

definition sha_pad :: "bytes \<Rightarrow> bytes" where
  "sha_pad input = pad_zeros (input @ [0x80]) @ u64_to_be_bytes (of_nat (length input) * 8)"

text \<open>The words of a chunk, and the loop that extends them in place.\<close>

definition chunk_words :: "bytes \<Rightarrow> u32 list" where
  "chunk_words chunk =
     map (\<lambda>i. if i < 16
                then u32_from_be_bytes (chunk ! (i * 4)) (chunk ! (i * 4 + 1)) (chunk ! (i * 4 + 2)) (chunk ! (i * 4 + 3))
                else 0) [0..<64]"

definition extend_word :: "nat \<Rightarrow> u32 list \<Rightarrow> u32 list" where
  "extend_word i w =
     (let s0 = word_rotr 7 (w ! (i - 15)) XOR word_rotr 18 (w ! (i - 15)) XOR drop_bit 3 (w ! (i - 15));
          s1 = word_rotr 17 (w ! (i - 2)) XOR word_rotr 19 (w ! (i - 2)) XOR drop_bit 10 (w ! (i - 2))
      in w[i := w ! (i - 16) + s0 + w ! (i - 7) + s1])"

definition sha_schedule :: "bytes \<Rightarrow> u32 list" where
  "sha_schedule chunk = fold extend_word [16..<64] (chunk_words chunk)"

text \<open>The eight working variables and one round.\<close>

type_synonym sha_vars = "u32 \<times> u32 \<times> u32 \<times> u32 \<times> u32 \<times> u32 \<times> u32 \<times> u32"

fun sha_round :: "u32 list \<Rightarrow> nat \<Rightarrow> sha_vars \<Rightarrow> sha_vars" where
  "sha_round w i (a, b, c, d, e, f, g, hh) =
     (let s1 = word_rotr 6 e XOR word_rotr 11 e XOR word_rotr 25 e;
          ch = (e AND f) XOR ((NOT e) AND g);
          t1 = hh + s1 + ch + sha_K ! i + w ! i;
          s0 = word_rotr 2 a XOR word_rotr 13 a XOR word_rotr 22 a;
          maj = (a AND b) XOR (a AND c) XOR (b AND c);
          t2 = s0 + maj
      in (t1 + t2, a, b, c, d + t1, e, f, g))"

fun sha_vars_of :: "u32 list \<Rightarrow> sha_vars" where
  "sha_vars_of [a, b, c, d, e, f, g, hh] = (a, b, c, d, e, f, g, hh)"
| "sha_vars_of _ = (0, 0, 0, 0, 0, 0, 0, 0)"

fun sha_list_of :: "sha_vars \<Rightarrow> u32 list" where
  "sha_list_of (a, b, c, d, e, f, g, hh) = [a, b, c, d, e, f, g, hh]"

definition sha_chunk :: "bytes \<Rightarrow> u32 list \<Rightarrow> u32 list" where
  "sha_chunk chunk h =
     (let w = sha_schedule chunk; v = fold (sha_round w) [0..<64] (sha_vars_of h)
      in map2 (\<lambda>dst v. dst + v) h (sha_list_of v))"

text \<open>\<open>chunks_exact\<close>: an incomplete last chunk is left out.\<close>

function chunks_exact :: "nat \<Rightarrow> 'a list \<Rightarrow> 'a list list" where
  "chunks_exact n xs = (if n = 0 \<or> length xs < n then [] else take n xs # chunks_exact n (drop n xs))"
  by auto

termination chunks_exact
  by (relation "measure (\<lambda>(n, xs). length xs)") auto

definition sha256 :: "bytes \<Rightarrow> u32 list" where
  "sha256 input = fold sha_chunk (chunks_exact 64 (sha_pad input)) sha_init"

text \<open>\<open>format!("{word:08x}")\<close>.\<close>

definition hex_digit :: "u32 \<Rightarrow> char" where
  "hex_digit d = ''0123456789abcdef'' ! unat d"

definition hex08 :: "u32 \<Rightarrow> string" where
  "hex08 word = map (\<lambda>k. hex_digit (drop_bit k word AND 15)) [28, 24, 20, 16, 12, 8, 4, 0]"

definition sha256_hex :: "bytes \<Rightarrow> string" where
  "sha256_hex input = concat (map hex08 (sha256 input))"

definition test_sha256_known_answer :: bool where
  "test_sha256_known_answer = passes (do {
     check (sha256_hex [] = ''e3b0c44298fc1c149afbf4c8996fb92427ae41e4649b934ca495991b7852b855'');
     check (sha256_hex [0x61, 0x62, 0x63] = ''ba7816bf8f01cfea414140de5dae2223b00361a396177a9cb410ff61f20015ad'')})"

section \<open>The loaded image\<close>

text \<open>\<open>str::split\<close>, \<open>str::lines\<close>, \<open>split_whitespace\<close>, \<open>trim\<close> and \<open>starts_with\<close> on ASCII strings.\<close>

fun split_on :: "char \<Rightarrow> string \<Rightarrow> string list" where
  "split_on c [] = [[]]"
| "split_on c (x # xs) =
     (if x = c then [] # split_on c xs
      else case split_on c xs of y # ys \<Rightarrow> (x # y) # ys | [] \<Rightarrow> [[x]])"

definition is_space :: "char \<Rightarrow> bool" where
  "is_space c \<longleftrightarrow> c \<in> set [CHR '' '', CHR 0x09, CHR 0x0A, CHR 0x0B, CHR 0x0C, CHR 0x0D]"

definition strip_cr :: "string \<Rightarrow> string" where
  "strip_cr l = (if l \<noteq> [] \<and> last l = CHR 0x0D then butlast l else l)"

definition lines :: "string \<Rightarrow> string list" where
  "lines s = (let ls = split_on CHR 0x0A s in map strip_cr (if last ls = [] then butlast ls else ls))"

definition split_whitespace :: "string \<Rightarrow> string list" where
  "split_whitespace s = filter (\<lambda>f. f \<noteq> []) (split_on CHR '' '' (map (\<lambda>c. if is_space c then CHR '' '' else c) s))"

definition trim :: "string \<Rightarrow> string" where
  "trim s = rev (dropWhile is_space (rev (dropWhile is_space s)))"

definition starts_with :: "string \<Rightarrow> string \<Rightarrow> bool" where
  "starts_with p s \<longleftrightarrow> take (length p) s = p"

text \<open>The closure of \<open>find_map\<close>: a line without fields, or one whose last field is another file, maps to nothing.\<close>

definition mapped_path :: "string \<Rightarrow> string option" where
  "mapped_path line =
     (case rev (split_whitespace line) of
        [] \<Rightarrow> None
      | p # _ \<Rightarrow> if starts_with ''libmsquic.so'' (last (split_on CHR ''/'' p)) then Some p else None)"

fun find_map :: "('a \<Rightarrow> 'b option) \<Rightarrow> 'a list \<Rightarrow> 'b option" where
  "find_map f [] = None"
| "find_map f (x # xs) = (case f x of Some y \<Rightarrow> Some y | None \<Rightarrow> find_map f xs)"

definition loaded_libmsquic_digest :: "string option \<Rightarrow> (string \<Rightarrow> bytes option) \<Rightarrow> (string \<times> string) option" where
  "loaded_libmsquic_digest read_maps read_file = do {
     maps \<leftarrow> read_maps;
     path \<leftarrow> find_map mapped_path (lines maps);
     bytes \<leftarrow> read_file path;
     Some (path, sha256_hex bytes)}"

section \<open>The version gate\<close>

text \<open>The git hash up to its terminator, or all 64 bytes.\<close>

definition library_git_hash :: "bytes \<Rightarrow> bytes" where
  "library_git_hash raw = takeWhile (\<lambda>b. b \<noteq> 0) raw"

text \<open>\<open>u32::from_str\<close>: an optional plus, then decimal digits of a value that fits.\<close>

definition is_digit :: "char \<Rightarrow> bool" where
  "is_digit c \<longleftrightarrow> 48 \<le> (of_char c :: nat) \<and> (of_char c :: nat) \<le> 57"

definition parse_u32 :: "string \<Rightarrow> u32 option" where
  "parse_u32 s =
     (let t = (case s of c # r \<Rightarrow> if c = CHR ''+'' then r else s | [] \<Rightarrow> s)
      in if t = [] \<or> \<not> list_all is_digit t then None
         else if undec t < 2 ^ 32 then Some (of_nat (undec t)) else None)"

text \<open>\<open>None\<close> is a panic: a component that is no \<open>u32\<close>, or fewer than three of them.\<close>

definition expected_version :: "string option \<Rightarrow> bool \<Rightarrow> bool \<Rightarrow> (u32 \<times> u32 \<times> u32) option" where
  "expected_version env native_find native_src =
     (case env of
        Some s \<Rightarrow>
          (case those (map (\<lambda>p. parse_u32 (trim p)) (split_on CHR ''.'' s)) of
             Some (a # b # c # _) \<Rightarrow> Some (a, b, c)
           | _ \<Rightarrow> None)
      | None \<Rightarrow>
          if native_find then Some (2, 5, 8)
          else if native_src then Some (2, 5, 1)
          else Some (2, 5, 1))"

definition native_version_preflight ::
  "u32 \<times> u32 \<times> u32 \<times> u32 \<Rightarrow> bytes \<Rightarrow> (u32 \<times> u32 \<times> u32) option \<Rightarrow> (string \<times> string) option \<Rightarrow> unit option" where
  "native_version_preflight library_version raw expected loaded = do {
     let git = library_git_hash raw;
     expected \<leftarrow> expected;
     (path, digest) \<leftarrow> loaded;
     let (major, minor, patch, build) = library_version;
     check ((major, minor, patch) = expected);
     check (git \<noteq> [])}"

section \<open>The standard\<close>

text \<open>
  FIPS 180-4, section 6.2, over bytes: the padding of section 5.1.1, the functions of section 4.1.2, the
  message schedule and the working variables as functions of the step \<open>t\<close>, and the hash after \<open>i\<close> blocks.
\<close>

definition fips_pad :: "bytes \<Rightarrow> bytes" where
  "fips_pad M =
     (let r = length M mod 64; k = (if r \<le> 55 then 55 - r else 119 - r)
      in M @ [0x80] @ replicate k 0 @ u64_to_be_bytes (of_nat (8 * length M)))"

definition fips_Ch :: "u32 \<Rightarrow> u32 \<Rightarrow> u32 \<Rightarrow> u32" where
  "fips_Ch x y z = (x AND y) XOR (NOT x AND z)"

definition fips_Maj :: "u32 \<Rightarrow> u32 \<Rightarrow> u32 \<Rightarrow> u32" where
  "fips_Maj x y z = (x AND y) XOR (x AND z) XOR (y AND z)"

definition fips_Sigma0 :: "u32 \<Rightarrow> u32" where
  "fips_Sigma0 x = word_rotr 2 x XOR word_rotr 13 x XOR word_rotr 22 x"

definition fips_Sigma1 :: "u32 \<Rightarrow> u32" where
  "fips_Sigma1 x = word_rotr 6 x XOR word_rotr 11 x XOR word_rotr 25 x"

definition fips_sigma0 :: "u32 \<Rightarrow> u32" where
  "fips_sigma0 x = word_rotr 7 x XOR word_rotr 18 x XOR drop_bit 3 x"

definition fips_sigma1 :: "u32 \<Rightarrow> u32" where
  "fips_sigma1 x = word_rotr 17 x XOR word_rotr 19 x XOR drop_bit 10 x"

definition fips_word :: "bytes \<Rightarrow> nat \<Rightarrow> u32" where
  "fips_word block t =
     of_nat (unat (block ! (4 * t)) * 2 ^ 24 + unat (block ! (4 * t + 1)) * 2 ^ 16 +
             unat (block ! (4 * t + 2)) * 2 ^ 8 + unat (block ! (4 * t + 3)))"

fun fips_W :: "bytes \<Rightarrow> nat \<Rightarrow> u32" where
  "fips_W block t =
     (if t < 16 then fips_word block t
      else fips_sigma1 (fips_W block (t - 2)) + fips_W block (t - 7) + fips_sigma0 (fips_W block (t - 15)) + fips_W block (t - 16))"

fun fips_vars :: "bytes \<Rightarrow> sha_vars \<Rightarrow> nat \<Rightarrow> sha_vars" where
  "fips_vars block H 0 = H"
| "fips_vars block H (Suc t) =
     (let (a, b, c, d, e, f, g, h) = fips_vars block H t;
          T1 = h + fips_Sigma1 e + fips_Ch e f g + sha_K ! t + fips_W block t;
          T2 = fips_Sigma0 a + fips_Maj a b c
      in (T1 + T2, a, b, c, d + T1, e, f, g))"

fun fips_add :: "sha_vars \<Rightarrow> sha_vars \<Rightarrow> sha_vars" where
  "fips_add (a, b, c, d, e, f, g, h) (a', b', c', d', e', f', g', h') =
     (a' + a, b' + b, c' + c, d' + d, e' + e, f' + f, g' + g, h' + h)"

fun fips_hash :: "bytes \<Rightarrow> nat \<Rightarrow> sha_vars" where
  "fips_hash P 0 = sha_vars_of sha_init"
| "fips_hash P (Suc i) =
     fips_add (fips_vars (take 64 (drop (64 * i) P)) (fips_hash P i) 64) (fips_hash P i)"

definition fips_sha256 :: "bytes \<Rightarrow> sha_vars" where
  "fips_sha256 M = fips_hash (fips_pad M) (length (fips_pad M) div 64)"

section \<open>Lemmas\<close>

declare pad_zeros.simps [simp del] chunks_exact.simps [simp del] fips_W.simps [simp del]

lemma pad_zeros_replicate:
  "pad_zeros msg =
     msg @ replicate (if length msg mod 64 \<le> 56 then 56 - length msg mod 64 else 120 - length msg mod 64) 0"
proof (induction msg rule: pad_zeros.induct)
  case (1 msg)
  show ?case
  proof (cases "length msg mod 64 = 56")
    case True
    then show ?thesis by (simp add: pad_zeros.simps [of msg])
  next
    case False
    have r: "length msg mod 64 < 64" by simp
    have suc: "56 - length msg mod 64 = Suc (55 - length msg mod 64)" if "length msg mod 64 < 56"
      using that by simp
    have suc': "120 - length msg mod 64 = Suc (119 - length msg mod 64)" using r by simp
    from 1 [OF False] False r show ?thesis
      by (auto simp: pad_zeros.simps [of msg] mod_Suc suc suc' not_le split: if_splits)
  qed
qed

lemma u64_to_be_bytes_length [simp]: "length (u64_to_be_bytes x) = 8"
  by (simp add: u64_to_be_bytes_def)

lemma sha_pad_fips: "sha_pad M = fips_pad M"
  by (auto simp: sha_pad_def fips_pad_def pad_zeros_replicate mod_Suc Let_def ac_simps)

lemma fips_pad_blocks: "length (fips_pad M) mod 64 = 0"
proof -
  have r: "length M mod 64 < 64" by simp
  have m: "length M = 64 * (length M div 64) + length M mod 64" by simp
  show ?thesis
  proof (cases "length M mod 64 \<le> 55")
    case True
    then have "length (fips_pad M) = length M - length M mod 64 + 64" using m
      by (simp add: fips_pad_def Let_def)
    then show ?thesis by (simp add: minus_mod_eq_mult_div)
  next
    case False
    then have "length (fips_pad M) = length M - length M mod 64 + 128" using m r
      by (simp add: fips_pad_def Let_def)
    then show ?thesis by (simp add: minus_mod_eq_mult_div)
  qed
qed

lemma be_bytes_word:
  "u32_from_be_bytes a b c d = of_nat (unat a * 2 ^ 24 + unat b * 2 ^ 16 + unat c * 2 ^ 8 + unat d)"
proof -
  have d: "push_bit 8 (ucast c) OR ucast d = push_bit 8 (ucast c) + (ucast d :: u32)"
    by (rule disjunctive_add_eq_or [symmetric], rule bit_word_eqI) (auto simp: bit_simps dest: bit_imp_le_length)
  have c: "push_bit 16 (ucast b) OR (push_bit 8 (ucast c) OR ucast d) =
      push_bit 16 (ucast b) + (push_bit 8 (ucast c) OR (ucast d :: u32))"
    by (rule disjunctive_add_eq_or [symmetric], rule bit_word_eqI) (auto simp: bit_simps dest: bit_imp_le_length)
  have b: "push_bit 24 (ucast a) OR (push_bit 16 (ucast b) OR (push_bit 8 (ucast c) OR ucast d)) =
      push_bit 24 (ucast a) + (push_bit 16 (ucast b) OR (push_bit 8 (ucast c) OR (ucast d :: u32)))"
    by (rule disjunctive_add_eq_or [symmetric], rule bit_word_eqI) (auto simp: bit_simps dest: bit_imp_le_length)
  have "u32_from_be_bytes a b c d = push_bit 24 (ucast a) + (push_bit 16 (ucast b) + (push_bit 8 (ucast c) + ucast d))"
    by (unfold u32_from_be_bytes_def or.assoc, unfold b, unfold c, unfold d, rule refl)
  then show ?thesis by (simp add: push_bit_eq_mult)
qed

lemma chunk_words_fips:
  "length (chunk_words block) = 64" "t < 16 \<Longrightarrow> chunk_words block ! t = fips_W block t"
  by (simp_all add: chunk_words_def fips_W.simps [of block t] fips_word_def be_bytes_word ac_simps)

lemma schedule_fips:
  assumes "16 \<le> n" and "n \<le> 64"
  shows "length (fold extend_word [16..<n] (chunk_words block)) = 64 \<and>
    (\<forall>t < n. fold extend_word [16..<n] (chunk_words block) ! t = fips_W block t)"
  using assms
proof (induction n rule: dec_induct)
  case base
  then show ?case by (simp add: chunk_words_fips)
next
  case (step n)
  let ?w = "fold extend_word [16..<n] (chunk_words block)"
  from step have IH: "length ?w = 64" "\<And>t. t < n \<Longrightarrow> ?w ! t = fips_W block t" by simp_all
  from step(1) have fold: "fold extend_word [16..<Suc n] (chunk_words block) = extend_word n ?w" by simp
  from step have "n < 64" "16 \<le> n" by simp_all
  then have "extend_word n ?w = ?w[n := fips_W block n]"
    by (simp add: extend_word_def IH fips_W.simps [of block n] fips_sigma0_def fips_sigma1_def Let_def ac_simps)
  with IH \<open>n < 64\<close> show ?case unfolding fold by (simp add: less_Suc_eq)
qed

lemma rounds_fips:
  assumes "\<forall>t < n. w ! t = fips_W block t"
  shows "fold (sha_round w) [0..<n] v = fips_vars block v n"
  using assms
proof (induction n)
  case (Suc n)
  then show ?case
    by (cases "fips_vars block v n" rule: sha_list_of.cases)
      (simp add: Let_def fips_Ch_def fips_Maj_def fips_Sigma0_def fips_Sigma1_def)
qed simp

lemma sha_vars_list [simp]: "sha_vars_of (sha_list_of v) = v"
  by (cases v rule: sha_list_of.cases) simp

lemma sha_chunk_fips: "sha_chunk block (sha_list_of v) = sha_list_of (fips_add (fips_vars block v 64) v)"
proof -
  have "fold (sha_round (sha_schedule block)) [0..<64] v = fips_vars block v 64"
    by (rule rounds_fips) (use schedule_fips [of 64 block] in \<open>simp add: sha_schedule_def\<close>)
  then show ?thesis
    by (cases v rule: sha_list_of.cases; cases "fips_vars block v 64" rule: sha_list_of.cases) (simp add: sha_chunk_def Let_def del: upt.simps)
qed

lemma chunks_exact_blocks:
  assumes "length xs = 64 * n"
  shows "chunks_exact 64 xs = map (\<lambda>i. take 64 (drop (64 * i) xs)) [0..<n]"
  using assms
proof (induction n arbitrary: xs)
  case (Suc n)
  have "chunks_exact 64 xs = take 64 xs # chunks_exact 64 (drop 64 xs)"
    using Suc.prems by (simp add: chunks_exact.simps [of 64 xs])
  also have "chunks_exact 64 (drop 64 xs) = map (\<lambda>i. take 64 (drop (64 * i) (drop 64 xs))) [0..<n]"
    by (rule Suc.IH) (use Suc.prems in simp)
  also have "take 64 xs # \<dots> = map (\<lambda>i. take 64 (drop (64 * i) xs)) (0 # map Suc [0..<n])"
    by (simp add: add.commute)
  also have "0 # map Suc [0..<n] = [0..<Suc n]" by (simp add: map_Suc_upt upt_conv_Cons del: upt.simps)
  finally show ?case .
qed (simp add: chunks_exact.simps)

lemma hash_fips:
  "fold sha_chunk (map (\<lambda>i. take 64 (drop (64 * i) P)) [0..<n]) sha_init = sha_list_of (fips_hash P n)"
  by (induction n) (simp_all add: sha_init_def sha_chunk_fips)

lemma hex_digit_lower:
  assumes "d \<le> (15 :: u32)"
  shows "hex_digit d \<in> set ''0123456789abcdef''"
proof -
  from assms have "unat d < length ''0123456789abcdef''" by (simp add: word_le_nat_alt)
  then show ?thesis unfolding hex_digit_def by (rule nth_mem)
qed

lemma hex08_lower: "set (hex08 x) \<subseteq> set ''0123456789abcdef''" "length (hex08 x) = 8"
proof -
  have "hex_digit (drop_bit k x AND 15) \<in> set ''0123456789abcdef''" for k
    by (rule hex_digit_lower) (simp add: word_and_le1)
  then show "set (hex08 x) \<subseteq> set ''0123456789abcdef''" unfolding hex08_def set_map by (intro image_subsetI)
qed (simp add: hex08_def)

section \<open>The gate\<close>

lemma split_on_no_sep: "c \<notin> set s \<Longrightarrow> split_on c s = [s]"
  by (induction s) auto

lemma split_on_append: "c \<notin> set s \<Longrightarrow> split_on c (s @ c # t) = s # split_on c t"
  by (induction s) auto

lemma find_map_first:
  "find_map f xs = Some y \<Longrightarrow> \<exists>us x vs. xs = us @ x # vs \<and> (\<forall>u \<in> set us. f u = None) \<and> f x = Some y"
proof (induction xs)
  case (Cons a xs)
  show ?case
  proof (cases "f a")
    case None
    with Cons obtain us x vs where "xs = us @ x # vs" "\<forall>u \<in> set us. f u = None" "f x = Some y" by auto
    with None show ?thesis by (intro exI [of _ "a # us"] exI [of _ x] exI [of _ vs]) simp
  next
    case (Some b)
    with Cons.prems show ?thesis by (intro exI [of _ "[]"] exI [of _ a] exI [of _ xs]) simp
  qed
qed simp

declare dec.simps [simp del]

lemma digit_char: "n < (10 :: nat) \<Longrightarrow> is_digit (char_of (48 + n))"
  by (simp add: is_digit_def of_char_of)

lemma dec_digits: "list_all is_digit (dec n) \<and> dec n \<noteq> []"
proof (induction n rule: dec.induct)
  case (1 n)
  then show ?case by (cases "n < 10") (simp_all add: dec.simps [of n] digit_char)
qed

lemma digit_not_other: "is_digit c \<Longrightarrow> c \<noteq> CHR ''.'' \<and> c \<noteq> CHR ''+'' \<and> \<not> is_space c"
  by (auto simp: is_digit_def is_space_def)

lemma digits_trim:
  assumes "list_all is_digit s"
  shows "trim s = s"
proof -
  have keep: "dropWhile is_space t = t" if "list_all is_digit t" for t
    using that by (cases t) (auto simp: digit_not_other)
  from assms show ?thesis by (simp add: trim_def keep list_all_iff)
qed

lemma parse_dec:
  assumes "n < 2 ^ 32"
  shows "parse_u32 (trim (dec n)) = Some (of_nat n)"
proof -
  from dec_digits [of n] obtain c r where cr: "dec n = c # r" and "is_digit c" by (cases "dec n") auto
  then have c: "c \<noteq> CHR ''+''" by (simp add: digit_not_other)
  from dec_digits [of n] have "list_all is_digit (c # r)" by (simp add: cr)
  moreover have "undec (c # r) = n" using undec_dec [of n] by (simp only: cr)
  ultimately show ?thesis
    using assms c by (simp add: digits_trim cr parse_u32_def Let_def del: undec.simps)
qed

lemma unat_u32: "unat (x :: u32) < 4294967296"
  using unsigned_less [of x, where ?'a = nat] by simp

lemma dec_no_dot: "CHR ''.'' \<notin> set (dec n)"
  using dec_digits [of n] digit_not_other by (auto simp: list_all_iff)

text \<open>An override printed from three components is read back.\<close>

lemma expected_version_roundtrip:
  "expected_version (Some (dec (unat a) @ ''.'' @ dec (unat b) @ ''.'' @ dec (unat c))) native_find native_src = Some (a, b, c)"
  by (simp add: expected_version_def split_on_append split_on_no_sep dec_no_dot parse_dec unat_u32)

text \<open>
  The gate passes only with an image: the digest is that of the file the first matching line of the map names.
\<close>

lemma preflight_attests:
  assumes "native_version_preflight (major, minor, patch, b) raw expected (loaded_libmsquic_digest read_maps read_file) = Some ()"
  shows "expected = Some (major, minor, patch) \<and> raw \<noteq> [] \<and> hd raw \<noteq> 0 \<and>
    (\<exists>maps us line vs path image. read_maps = Some maps \<and> lines maps = us @ line # vs \<and>
       (\<forall>u \<in> set us. mapped_path u = None) \<and> mapped_path line = Some path \<and> read_file path = Some image \<and>
       loaded_libmsquic_digest read_maps read_file = Some (path, sha256_hex image))"
proof -
  from assms obtain loaded where l: "loaded_libmsquic_digest read_maps read_file = Some loaded"
    and e: "expected = Some (major, minor, patch)" and g: "library_git_hash raw \<noteq> []"
    by (auto simp: native_version_preflight_def Let_def check_def Option.bind_eq_Some_conv split: if_splits)
  from l obtain maps path image where m: "read_maps = Some maps" "find_map mapped_path (lines maps) = Some path"
    "read_file path = Some image" "loaded = (path, sha256_hex image)"
    by (auto simp: loaded_libmsquic_digest_def Option.bind_eq_Some_conv)
  from g have "raw \<noteq> [] \<and> hd raw \<noteq> 0" by (cases raw) (auto simp: library_git_hash_def split: if_splits)
  with e l m find_map_first [OF m(2)] show ?thesis by blast
qed

section \<open>Properties\<close>


lemma sha256_known_answer_passes: "test_sha256_known_answer"
  by code_simp


end
