(* ===== verification/H3_Channels.thy ===== *)
theory H3_Channels
  imports H3_Prelude
begin

text \<open>
  The channels between the FFI callbacks and the polled frontends. The crate uses
  \<open>futures::channel::mpsc::unbounded\<close> and \<open>futures::channel::oneshot\<close>, which live
  outside the repository: a channel is an abstract state together with a record of the
  operations the crate calls on it (an argument of every definition that uses a channel),
  and the locales \<open>mpsc_channel\<close> and \<open>oneshot_channel\<close> state the documented behaviour
  over an abstract view of the channel state: the queued items, whether a sender or the
  receiver is still alive, and the waker parked by the last pending poll.

  \<open>fifo_mpsc\<close> and \<open>cell_oneshot\<close> are executable channels that satisfy the two
  interfaces; concrete evaluations run on them.
\<close>

section \<open>Interfaces\<close>

record ('c, 'e) mpsc =
  mpsc_new :: 'c
  unbounded_send :: "'e \<Rightarrow> 'c \<Rightarrow> 'c \<times> bool"
  mpsc_drop_tx :: "'c \<Rightarrow> 'c"
  mpsc_drop_rx :: "'c \<Rightarrow> 'c"
  poll_next :: "waker \<Rightarrow> 'c \<Rightarrow> 'c \<times> 'e option poll"

record ('o, 'e) oneshot =
  oneshot_new :: 'o
  oneshot_send :: "'e \<Rightarrow> 'o \<Rightarrow> 'o"
  oneshot_drop_tx :: "'o \<Rightarrow> 'o"
  oneshot_poll :: "waker \<Rightarrow> 'o \<Rightarrow> 'o \<times> 'e option poll"

text \<open>
  The unbounded queue: a send succeeds exactly when the receiver is alive and appends,
  items queued before the sender is dropped are still delivered, an empty queue is
  \<open>Pending\<close> (parking the waker) while a sender is alive and ends the stream otherwise,
  and every send and the sender's drop wake the parked task.
\<close>

locale mpsc_channel =
  fixes M :: "('c, 'e) mpsc"
    and queue :: "'c \<Rightarrow> 'e list"
    and tx_open :: "'c \<Rightarrow> bool"
    and rx_open :: "'c \<Rightarrow> bool"
    and parked :: "'c \<Rightarrow> waker option"
  assumes new_view: "queue (mpsc_new M) = []" "tx_open (mpsc_new M)" "rx_open (mpsc_new M)"
      "parked (mpsc_new M) = None"
    and send_ok: "tx_open c \<Longrightarrow> snd (unbounded_send M e c) = rx_open c"
    and send_queue: "tx_open c \<Longrightarrow> rx_open c \<Longrightarrow> queue (fst (unbounded_send M e c)) = queue c @ [e]"
    and send_lost: "tx_open c \<Longrightarrow> \<not> rx_open c \<Longrightarrow> queue (fst (unbounded_send M e c)) = queue c"
    and send_tx: "tx_open c \<Longrightarrow> tx_open (fst (unbounded_send M e c))"
    and send_rx: "tx_open c \<Longrightarrow> rx_open (fst (unbounded_send M e c)) = rx_open c"
    and send_wakes: "tx_open c \<Longrightarrow> rx_open c \<Longrightarrow> parked (fst (unbounded_send M e c)) = None"
    and drop_tx_view: "queue (mpsc_drop_tx M c) = queue c" "\<not> tx_open (mpsc_drop_tx M c)"
      "rx_open (mpsc_drop_tx M c) = rx_open c" "parked (mpsc_drop_tx M c) = None"
    and drop_rx_view: "\<not> rx_open (mpsc_drop_rx M c)" "tx_open (mpsc_drop_rx M c) = tx_open c"
    and poll_item: "rx_open c \<Longrightarrow> queue c = e # q \<Longrightarrow> snd (poll_next M w c) = PollReady (Some e)"
    and poll_item_queue: "rx_open c \<Longrightarrow> queue c = e # q \<Longrightarrow> queue (fst (poll_next M w c)) = q"
    and poll_pending: "rx_open c \<Longrightarrow> queue c = [] \<Longrightarrow> tx_open c \<Longrightarrow> snd (poll_next M w c) = PollPending"
    and poll_parks: "rx_open c \<Longrightarrow> queue c = [] \<Longrightarrow> tx_open c \<Longrightarrow> parked (fst (poll_next M w c)) = Some w"
    and poll_closed: "rx_open c \<Longrightarrow> queue c = [] \<Longrightarrow> \<not> tx_open c \<Longrightarrow> snd (poll_next M w c) = PollReady None"
    and poll_empty_queue: "rx_open c \<Longrightarrow> queue c = [] \<Longrightarrow> queue (fst (poll_next M w c)) = []"
    and poll_ends: "rx_open c \<Longrightarrow> tx_open (fst (poll_next M w c)) = tx_open c"
      "rx_open c \<Longrightarrow> rx_open (fst (poll_next M w c))"
begin

lemmas send_view = send_ok send_queue send_lost send_tx send_rx send_wakes

lemmas poll_view = poll_item poll_item_queue poll_pending poll_parks poll_closed
  poll_empty_queue poll_ends

text \<open>Sending a batch and polling it back yields the batch in order.\<close>

fun send_all :: "'e list \<Rightarrow> 'c \<Rightarrow> 'c" where
  "send_all [] c = c"
| "send_all (e # es) c = send_all es (fst (unbounded_send M e c))"

lemma send_all_view:
  assumes "tx_open c" and "rx_open c"
  shows "queue (send_all es c) = queue c @ es \<and> tx_open (send_all es c) \<and> rx_open (send_all es c)"
  using assms by (induction es arbitrary: c) (auto simp: send_view)

text \<open>A poll never loses an item: what was queued is what it returns followed by what is left.\<close>

lemma poll_preserves_items:
  assumes "rx_open c"
  shows "queue c = (case snd (poll_next M w c) of PollReady (Some e) \<Rightarrow> e # queue (fst (poll_next M w c))
           | _ \<Rightarrow> queue (fst (poll_next M w c)))"
  using assms by (cases "queue c"; cases "tx_open c") (simp_all add: poll_view)

lemma poll_pending_iff:
  assumes "rx_open c"
  shows "snd (poll_next M w c) = PollPending \<longleftrightarrow> queue c = [] \<and> tx_open c"
  using assms by (cases "queue c"; cases "tx_open c") (auto simp: poll_view)

end

text \<open>The one-shot: the first send resolves it, dropping the sender without a send cancels it.\<close>

locale oneshot_channel =
  fixes C :: "('o, 'e) oneshot"
    and content :: "'o \<Rightarrow> 'e option"
    and tx_alive :: "'o \<Rightarrow> bool"
    and waiting :: "'o \<Rightarrow> waker option"
  assumes one_new: "content (oneshot_new C) = None" "tx_alive (oneshot_new C)"
      "waiting (oneshot_new C) = None"
    and one_send: "tx_alive c \<Longrightarrow> content (oneshot_send C v c) = Some v"
      "\<not> tx_alive (oneshot_send C v c)" "tx_alive c \<Longrightarrow> waiting (oneshot_send C v c) = None"
    and one_drop: "content (oneshot_drop_tx C c) = content c" "\<not> tx_alive (oneshot_drop_tx C c)"
      "waiting (oneshot_drop_tx C c) = None"
    and one_poll_value: "content c = Some v \<Longrightarrow> snd (oneshot_poll C w c) = PollReady (Some v)"
    and one_poll_pending: "content c = None \<Longrightarrow> tx_alive c \<Longrightarrow> snd (oneshot_poll C w c) = PollPending"
    and one_poll_parks: "content c = None \<Longrightarrow> tx_alive c \<Longrightarrow> waiting (fst (oneshot_poll C w c)) = Some w"
    and one_poll_cancel: "content c = None \<Longrightarrow> \<not> tx_alive c \<Longrightarrow> snd (oneshot_poll C w c) = PollReady None"
    and one_poll_tx: "tx_alive (fst (oneshot_poll C w c)) = tx_alive c"
      "content c = None \<Longrightarrow> content (fst (oneshot_poll C w c)) = None"
begin

text \<open>A one-shot whose sender is gone never keeps its poller pending.\<close>

lemma resolved_not_pending:
  assumes "\<not> tx_alive c"
  shows "snd (oneshot_poll C w c) \<noteq> PollPending"
  using assms by (cases "content c") (simp_all add: one_poll_value one_poll_cancel)

lemma sent_is_delivered: "tx_alive c \<Longrightarrow> snd (oneshot_poll C w (oneshot_send C v c)) = PollReady (Some v)"
  by (simp add: one_send one_poll_value)

end

section \<open>Executable channels\<close>

record 'e fifo =
  fifo_items :: "'e list"
  fifo_tx :: bool
  fifo_rx :: bool
  fifo_parked :: "waker option"

definition fifo_new :: "'e fifo" where
  "fifo_new = \<lparr>fifo_items = [], fifo_tx = True, fifo_rx = True, fifo_parked = None\<rparr>"

definition fifo_send :: "'e \<Rightarrow> 'e fifo \<Rightarrow> 'e fifo \<times> bool" where
  "fifo_send e c =
     (if fifo_rx c then (c\<lparr>fifo_items := fifo_items c @ [e], fifo_parked := None\<rparr>, True)
      else (c, False))"

definition fifo_drop_tx :: "'e fifo \<Rightarrow> 'e fifo" where
  "fifo_drop_tx c = c\<lparr>fifo_tx := False, fifo_parked := None\<rparr>"

definition fifo_drop_rx :: "'e fifo \<Rightarrow> 'e fifo" where
  "fifo_drop_rx c = c\<lparr>fifo_rx := False, fifo_items := []\<rparr>"

definition fifo_poll :: "waker \<Rightarrow> 'e fifo \<Rightarrow> 'e fifo \<times> 'e option poll" where
  "fifo_poll w c =
     (case fifo_items c of
        e # q \<Rightarrow> (c\<lparr>fifo_items := q\<rparr>, PollReady (Some e))
      | [] \<Rightarrow> if fifo_tx c then (c\<lparr>fifo_parked := Some w\<rparr>, PollPending) else (c, PollReady None))"

definition fifo_mpsc :: "('e fifo, 'e) mpsc" where
  "fifo_mpsc = \<lparr>mpsc_new = fifo_new, unbounded_send = fifo_send, mpsc_drop_tx = fifo_drop_tx,
     mpsc_drop_rx = fifo_drop_rx, poll_next = fifo_poll\<rparr>"

record 'e cell =
  cell_value :: "'e option"
  cell_tx :: bool
  cell_waiting :: "waker option"

definition cell_oneshot :: "('e cell, 'e) oneshot" where
  "cell_oneshot =
     \<lparr>oneshot_new = \<lparr>cell_value = None, cell_tx = True, cell_waiting = None\<rparr>,
      oneshot_send = (\<lambda>v c. c\<lparr>cell_value := Some v, cell_tx := False, cell_waiting := None\<rparr>),
      oneshot_drop_tx = (\<lambda>c. c\<lparr>cell_tx := False, cell_waiting := None\<rparr>),
      oneshot_poll = (\<lambda>w c. case cell_value c of
          Some v \<Rightarrow> (c\<lparr>cell_value := None\<rparr>, PollReady (Some v))
        | None \<Rightarrow> if cell_tx c then (c\<lparr>cell_waiting := Some w\<rparr>, PollPending) else (c, PollReady None))\<rparr>"

lemma fifo_mpsc_simps [chan_defs]:
  "mpsc_new fifo_mpsc = fifo_new"
  "unbounded_send fifo_mpsc = fifo_send"
  "mpsc_drop_tx fifo_mpsc = fifo_drop_tx"
  "mpsc_drop_rx fifo_mpsc = fifo_drop_rx"
  "poll_next fifo_mpsc = fifo_poll"
  by (simp_all add: fifo_mpsc_def)

declare fifo_new_def [chan_defs] fifo_send_def [chan_defs] fifo_drop_tx_def [chan_defs]
  fifo_drop_rx_def [chan_defs] fifo_poll_def [chan_defs] cell_oneshot_def [chan_defs]

interpretation fifo: mpsc_channel fifo_mpsc fifo_items fifo_tx fifo_rx fifo_parked
  by unfold_locales (simp_all add: chan_defs split: list.split)

interpretation cell: oneshot_channel cell_oneshot cell_value cell_tx cell_waiting
  by unfold_locales (simp_all add: chan_defs split: option.split)

lemmas fifo_view = fifo.new_view fifo.send_view fifo.drop_tx_view fifo.drop_rx_view fifo.poll_view

lemmas cell_view = cell.one_new cell.one_send cell.one_drop cell.one_poll_value
  cell.one_poll_pending cell.one_poll_parks cell.one_poll_cancel cell.one_poll_tx

end
