(* ===== verification/H3_Reducer.thy ===== *)
theory H3_Reducer
  imports H3_Error
begin

text \<open>
  The pure send-side reducer of \<open>error.rs\<close>: the ordered send events, the bookkeeping
  \<open>SendState\<close>, the inputs and commands, and \<open>transition\<close>, one definition per arm of the
  source's match and one that dispatches. The reducer mutates only its state and emits one
  command; the executor loops that run the commands are in \<open>H3_Send_Stream\<close>.
\<close>

section \<open>Vocabulary\<close>

datatype send_event =
    Complete bool
  | TerminalWake
  | FinishComplete bool

record send_state =
  send_submitting :: bool
  send_inprogress :: bool
  finish_submitting :: bool
  finish_started :: bool
  finish_complete :: bool
  reset_submitting :: bool

definition send_state_new :: send_state where
  "send_state_new = \<lparr>send_submitting = False, send_inprogress = False, finish_submitting = False,
     finish_started = False, finish_complete = False, reset_submitting = False\<rparr>"

definition submission_reserved :: "send_state \<Rightarrow> bool" where
  "submission_reserved st \<longleftrightarrow> send_submitting st \<or> finish_submitting st \<or> reset_submitting st"

datatype terminal_continuation = K_SendData | K_PollReady | K_PollFinish | K_Reset

datatype send_poll = SP_Pending | SP_Event send_event | SP_Closed

datatype send_payload =
    SendPayload_Empty
  | SendPayload_NonEmpty u32
  | SendPayload_Oversized usize u64

datatype send_input =
    SendRequested send_payload "send_terminal option"
  | SendSubmitted "(unit, status) result" "send_terminal option"
  | PollReadyIn send_poll "send_terminal option"
  | PollFinishIn send_poll "send_terminal option"
  | ResetIn u64 "send_terminal option"
  | GracefulSubmitted "(unit, status) result" "send_terminal option"
  | ResetSubmitted u64 "(unit, status) result" "send_terminal option"
  | TerminalPublished send_terminal terminal_continuation

datatype send_command =
    Cmd_Pending
  | NoOp
  | ReturnSent
  | SubmitSend
  | SubmitGraceful
  | SubmitReset u64
  | RepollFinish
  | RepollReady
  | PublishTerminal send_terminal terminal_continuation
  | ReturnImmediateError send_operation_error
  | ReturnReady
  | ReturnFinished
  | ReturnError send_terminal

definition definitive :: "send_terminal option \<Rightarrow> send_terminal option" where
  "definitive terminal =
     (case terminal of Some w \<Rightarrow> if send_is_provisional w then None else Some w | None \<Rightarrow> None)"

definition provisional_pending :: "send_terminal option \<Rightarrow> bool" where
  "provisional_pending terminal = (case terminal of Some w \<Rightarrow> send_is_provisional w | None \<Rightarrow> False)"

section \<open>The arms of transition\<close>

text \<open>\<open>*Submitted\<close> bookkeeping: the reservation is cleared before any winner is applied.\<close>

definition on_SendSubmitted ::
  "send_state \<Rightarrow> (unit, status) result \<Rightarrow> send_terminal option \<Rightarrow> send_state \<times> send_command" where
  "on_SendSubmitted st res terminal =
     (if \<not> send_submitting st then
        (st, PublishTerminal (ST_Internal ''SendSubmitted without reservation'') K_SendData)
      else let st = st\<lparr>send_submitting := False\<rparr> in
        (case res of
           Ok _ \<Rightarrow>
             (st\<lparr>send_inprogress := True\<rparr>,
              (case definitive terminal of Some w \<Rightarrow> ReturnError w | None \<Rightarrow> ReturnSent))
         | Err status \<Rightarrow>
             (st, PublishTerminal (unwrap_or (definitive terminal) (ST_Failed status)) K_SendData)))"

definition on_GracefulSubmitted ::
  "send_state \<Rightarrow> (unit, status) result \<Rightarrow> send_terminal option \<Rightarrow> send_state \<times> send_command" where
  "on_GracefulSubmitted st res terminal =
     (if \<not> finish_submitting st then
        (st, PublishTerminal (ST_Internal ''GracefulSubmitted without reservation'') K_PollFinish)
      else let st = st\<lparr>finish_submitting := False\<rparr> in
        (case res of
           Ok _ \<Rightarrow> (st\<lparr>finish_started := True\<rparr>, RepollFinish)
         | Err status \<Rightarrow>
             (st, PublishTerminal (unwrap_or (definitive terminal) (ST_Failed status)) K_PollFinish)))"

definition on_ResetSubmitted ::
  "send_state \<Rightarrow> u64 \<Rightarrow> (unit, status) result \<Rightarrow> send_terminal option \<Rightarrow> send_state \<times> send_command" where
  "on_ResetSubmitted st code res terminal =
     (if \<not> reset_submitting st then
        (st, PublishTerminal (ST_Internal ''ResetSubmitted without reservation'') K_Reset)
      else let st = st\<lparr>reset_submitting := False\<rparr>;
               candidate = (case res of
                   Ok _ \<Rightarrow> unwrap_or (definitive terminal) (ST_LocalReset code)
                 | Err status \<Rightarrow> unwrap_or (definitive terminal) (ST_Failed status))
           in (st, PublishTerminal candidate K_Reset))"

text \<open>The resolved winner of a publish, tagged with the method that asked for it.\<close>

definition on_TerminalPublished ::
  "send_state \<Rightarrow> send_terminal \<Rightarrow> terminal_continuation \<Rightarrow> send_state \<times> send_command" where
  "on_TerminalPublished st winner k =
     (st,
      if send_is_provisional winner then
        (case k of K_PollReady \<Rightarrow> RepollReady | K_PollFinish \<Rightarrow> RepollFinish
                 | K_SendData \<Rightarrow> NoOp | K_Reset \<Rightarrow> NoOp)
      else
        (case k of K_Reset \<Rightarrow> NoOp | _ \<Rightarrow> ReturnError winner))"

definition on_SendRequested ::
  "send_state \<Rightarrow> send_payload \<Rightarrow> send_terminal option \<Rightarrow> send_state \<times> send_command" where
  "on_SendRequested st payload terminal =
     (case definitive terminal of
        Some w \<Rightarrow> (st, ReturnError w)
      | None \<Rightarrow>
          if send_inprogress st \<or> send_submitting st \<or> finish_submitting st
             \<or> finish_started st \<or> finish_complete st then
            (st, ReturnImmediateError
                   (SOE_Misuse ''send_data called while a send is already in progress''))
          else
            (case payload of
               SendPayload_Empty \<Rightarrow> (st, ReturnSent)
             | SendPayload_Oversized len ceiling \<Rightarrow>
                 (st, ReturnImmediateError (SOE_OversizedSend len ceiling))
             | SendPayload_NonEmpty _ \<Rightarrow> (st\<lparr>send_submitting := True\<rparr>, SubmitSend)))"

definition on_Reset ::
  "send_state \<Rightarrow> u64 \<Rightarrow> send_terminal option \<Rightarrow> send_state \<times> send_command" where
  "on_Reset st code terminal =
     (if finish_complete st \<or> definitive terminal \<noteq> None then (st, NoOp)
      else if submission_reserved st then
        (st, PublishTerminal (ST_Internal ''reset during submission reservation'') K_Reset)
      else (st\<lparr>reset_submitting := True\<rparr>, SubmitReset code))"

definition on_PollReady ::
  "status_ops \<Rightarrow> send_state \<Rightarrow> send_poll \<Rightarrow> send_terminal option \<Rightarrow> send_state \<times> send_command" where
  "on_PollReady S st poll terminal =
     (if submission_reserved st then
        (st, PublishTerminal (ST_Internal ''poll_ready during submission reservation'') K_PollReady)
      else case definitive terminal of
        Some w \<Rightarrow> (st\<lparr>send_inprogress := False\<rparr>, ReturnError w)
      | None \<Rightarrow>
        if finish_started st then (st, ReturnError (ST_Internal ''poll_ready after finish''))
        else let provisional = provisional_pending terminal in
        (case poll of
           SP_Closed \<Rightarrow>
             (st, PublishTerminal
                (if provisional then ST_Failed (aborted_status S)
                 else ST_Internal ''send channel closed without a terminal'') K_PollReady)
         | SP_Event (Complete cancelled) \<Rightarrow>
             if \<not> cancelled then
               (if \<not> send_inprogress st then
                  (st, PublishTerminal (ST_Internal ''SendComplete without an outstanding send'') K_PollReady)
                else (st\<lparr>send_inprogress := False\<rparr>, ReturnReady))
             else
               (if \<not> send_inprogress st then
                  (st, PublishTerminal
                         (ST_Internal ''cancelled SendComplete without an outstanding send'') K_PollReady)
                else (st\<lparr>send_inprogress := False\<rparr>, PublishTerminal ST_ProvisionalAbort K_PollReady))
         | SP_Event TerminalWake \<Rightarrow>
             (st, PublishTerminal
                (if provisional then ST_Failed (aborted_status S)
                 else ST_Internal ''terminal wake without a terminal'') K_PollReady)
         | SP_Event (FinishComplete _) \<Rightarrow>
             (st, PublishTerminal (ST_Internal ''finish event observed on poll_ready'') K_PollReady)
         | SP_Pending \<Rightarrow>
             (st, if send_inprogress st then Cmd_Pending
                  else if provisional then Cmd_Pending else ReturnReady)))"

definition on_PollFinish_event ::
  "status_ops \<Rightarrow> send_state \<Rightarrow> send_poll \<Rightarrow> send_terminal option \<Rightarrow> send_state \<times> send_command" where
  "on_PollFinish_event S st poll terminal =
     (let provisional = provisional_pending terminal in
      case poll of
        SP_Closed \<Rightarrow>
          (st, PublishTerminal
             (if provisional then ST_Failed (aborted_status S)
              else ST_Internal ''send channel closed without a terminal'') K_PollFinish)
      | SP_Event (Complete cancelled) \<Rightarrow>
          if \<not> cancelled \<and> \<not> finish_started st then
            (if \<not> send_inprogress st then
               (st, PublishTerminal (ST_Internal ''SendComplete without an outstanding send'') K_PollFinish)
             else (st\<lparr>send_inprogress := False, finish_submitting := True\<rparr>, SubmitGraceful))
          else if cancelled \<and> \<not> finish_started st then
            (if \<not> send_inprogress st then
               (st, PublishTerminal
                      (ST_Internal ''cancelled SendComplete without an outstanding send'') K_PollFinish)
             else (st\<lparr>send_inprogress := False\<rparr>, PublishTerminal ST_ProvisionalAbort K_PollFinish))
          else (st, PublishTerminal (ST_Internal ''impossible poll_finish event/state'') K_PollFinish)
      | SP_Event TerminalWake \<Rightarrow>
          (st, PublishTerminal
             (if provisional then ST_Failed (aborted_status S)
              else ST_Internal ''terminal wake without a terminal'') K_PollFinish)
      | SP_Pending \<Rightarrow>
          if finish_started st then (st, Cmd_Pending)
          else if send_inprogress st then (st, Cmd_Pending)
          else if provisional then (st, Cmd_Pending)
          else (st\<lparr>finish_submitting := True\<rparr>, SubmitGraceful)
      | SP_Event (FinishComplete _) \<Rightarrow>
          (st, PublishTerminal (ST_Internal ''impossible poll_finish event/state'') K_PollFinish))"

definition on_PollFinish ::
  "status_ops \<Rightarrow> send_state \<Rightarrow> send_poll \<Rightarrow> send_terminal option \<Rightarrow> send_state \<times> send_command" where
  "on_PollFinish S st poll terminal =
     (if finish_complete st then (st, ReturnFinished)
      else if submission_reserved st then
        (st, PublishTerminal (ST_Internal ''poll_finish during submission reservation'') K_PollFinish)
      else case poll of
        SP_Event (FinishComplete graceful) \<Rightarrow>
          if \<not> finish_started st then
            (st, PublishTerminal (ST_Internal ''finish complete without a started finish'') K_PollFinish)
          else if graceful then (st\<lparr>finish_complete := True\<rparr>, ReturnFinished)
          else (st, PublishTerminal
                      (unwrap_or (definitive terminal) (ST_Failed (aborted_status S))) K_PollFinish)
      | _ \<Rightarrow>
          (case definitive terminal of
             Some w \<Rightarrow> (st\<lparr>send_inprogress := False\<rparr>, ReturnError w)
           | None \<Rightarrow> on_PollFinish_event S st poll terminal))"

fun transition :: "status_ops \<Rightarrow> send_state \<Rightarrow> send_input \<Rightarrow> send_state \<times> send_command" where
  "transition S st (SendSubmitted res terminal) = on_SendSubmitted st res terminal"
| "transition S st (GracefulSubmitted res terminal) = on_GracefulSubmitted st res terminal"
| "transition S st (ResetSubmitted code res terminal) = on_ResetSubmitted st code res terminal"
| "transition S st (TerminalPublished winner k) = on_TerminalPublished st winner k"
| "transition S st (SendRequested payload terminal) = on_SendRequested st payload terminal"
| "transition S st (ResetIn code terminal) = on_Reset st code terminal"
| "transition S st (PollReadyIn poll terminal) = on_PollReady S st poll terminal"
| "transition S st (PollFinishIn poll terminal) = on_PollFinish S st poll terminal"

section \<open>Well-formed bookkeeping\<close>

text \<open>
  At most one native submission is reserved; a reserved data send excludes an outstanding one
  and any finish; a finish is reserved, started or complete only with no data send in flight;
  a complete finish was started.
\<close>

definition send_state_wf :: "send_state \<Rightarrow> bool" where
  "send_state_wf st \<longleftrightarrow>
     (send_submitting st \<longrightarrow> \<not> finish_submitting st \<and> \<not> reset_submitting st
        \<and> \<not> send_inprogress st \<and> \<not> finish_started st) \<and>
     (finish_submitting st \<longrightarrow> \<not> reset_submitting st \<and> \<not> send_inprogress st \<and> \<not> finish_started st) \<and>
     (finish_started st \<longrightarrow> \<not> send_inprogress st) \<and>
     (finish_complete st \<longrightarrow> finish_started st \<and> \<not> submission_reserved st)"

text \<open>The terminal snapshot an input carries.\<close>

fun input_terminal :: "send_input \<Rightarrow> send_terminal option" where
  "input_terminal (SendRequested _ t) = t"
| "input_terminal (SendSubmitted _ t) = t"
| "input_terminal (PollReadyIn _ t) = t"
| "input_terminal (PollFinishIn _ t) = t"
| "input_terminal (ResetIn _ t) = t"
| "input_terminal (GracefulSubmitted _ t) = t"
| "input_terminal (ResetSubmitted _ _ t) = t"
| "input_terminal (TerminalPublished w _) = Some w"

text \<open>The commands that ask the executor for a native call.\<close>

fun is_submit :: "send_command \<Rightarrow> bool" where
  "is_submit SubmitSend = True"
| "is_submit SubmitGraceful = True"
| "is_submit (SubmitReset _) = True"
| "is_submit _ = False"

text \<open>
  The inputs a serialized caller can feed: \<open>send_data\<close> is never entered while a \<open>reset\<close>
  call still holds its reservation, since \<open>reset\<close> returns only after its
  \<open>ResetSubmitted\<close>. The reachable reducer states are those such inputs lead to.
\<close>

fun serialized_input :: "send_state \<Rightarrow> send_input \<Rightarrow> bool" where
  "serialized_input st (SendRequested _ _) = (\<not> reset_submitting st)"
| "serialized_input st _ = True"

inductive reducer_reach :: "status_ops \<Rightarrow> send_state \<Rightarrow> bool" for S where
  reach_new: "reducer_reach S send_state_new"
| reach_step: "reducer_reach S st \<Longrightarrow> serialized_input st i \<Longrightarrow> reducer_reach S (fst (transition S st i))"

declare on_SendSubmitted_def [reducer_defs] on_GracefulSubmitted_def [reducer_defs]
  on_ResetSubmitted_def [reducer_defs] on_TerminalPublished_def [reducer_defs]
  on_SendRequested_def [reducer_defs] on_Reset_def [reducer_defs] on_PollReady_def [reducer_defs]
  on_PollFinish_def [reducer_defs] on_PollFinish_event_def [reducer_defs]
  submission_reserved_def [reducer_defs] Let_def [reducer_defs]

section \<open>Lemmas\<close>

lemmas reducer_splits = if_splits option.splits result.splits send_payload.splits
  send_poll.splits send_event.splits terminal_continuation.splits

lemma definitive_Some_iff: "definitive t = Some w \<longleftrightarrow> t = Some w \<and> \<not> send_is_provisional w"
  by (auto simp: definitive_def split: option.splits if_splits)

lemma definitive_None_iff: "definitive t = None \<longleftrightarrow> t = None \<or> t = Some ST_ProvisionalAbort"
  by (auto simp: definitive_def send_is_provisional_iff split: option.splits if_splits)

lemma definitive_simps [simp]:
  "definitive None = None"
  "definitive (Some ST_ProvisionalAbort) = None"
  "\<not> send_is_provisional w \<Longrightarrow> definitive (Some w) = Some w"
  by (simp_all add: definitive_def)

lemma provisional_pending_iff [simp]: "provisional_pending t \<longleftrightarrow> t = Some ST_ProvisionalAbort"
  by (auto simp: provisional_pending_def send_is_provisional_iff split: option.splits)

lemma send_state_wf_new: "send_state_wf send_state_new"
  by (simp add: send_state_wf_def send_state_new_def submission_reserved_def)

lemma transition_wf:
  assumes "send_state_wf st" and "serialized_input st i"
  shows "send_state_wf (fst (transition S st i))"
  using assms by (cases i) (auto simp: reducer_defs send_state_wf_def split: reducer_splits)

lemma reducer_reach_wf: "reducer_reach S st \<Longrightarrow> send_state_wf st"
  by (induction rule: reducer_reach.induct) (simp_all add: send_state_wf_new transition_wf)

section \<open>Properties\<close>

text \<open>
  C23: the provisional cancellation marker is never surfaced by the reducer. Whatever the
  state and the input, a command that returns an error to the caller carries an authoritative
  cause, and the marker is published only for a cancelled completion of an outstanding send.
\<close>

theorem transition_never_surfaces_provisional:
  "(snd (transition S st i) = ReturnError t \<longrightarrow> \<not> send_is_provisional t) \<and>
   (snd (transition S st i) = PublishTerminal ST_ProvisionalAbort k \<longrightarrow>
      send_inprogress st \<and>
      (i = PollReadyIn (SP_Event (Complete True)) (input_terminal i) \<or>
       i = PollFinishIn (SP_Event (Complete True)) (input_terminal i)))"
proof (intro conjI impI)
  show "\<not> send_is_provisional t" if "snd (transition S st i) = ReturnError t"
    using that by (cases i) (auto simp: reducer_defs definitive_Some_iff split: reducer_splits)
  assume p: "snd (transition S st i) = PublishTerminal ST_ProvisionalAbort k"
  then show "send_inprogress st"
    by (cases i) (auto simp: reducer_defs unwrap_or_eq_case definitive_Some_iff split: reducer_splits)
  from p show "i = PollReadyIn (SP_Event (Complete True)) (input_terminal i) \<or>
       i = PollFinishIn (SP_Event (Complete True)) (input_terminal i)"
    by (cases i) (auto simp: reducer_defs unwrap_or_eq_case definitive_Some_iff split: reducer_splits)
qed

theorem transition_never_surfaces_provisional_witness:
  "\<not> send_is_provisional (ST_Stopped 7) \<and>
   snd (transition ref_status send_state_new (PollReadyIn SP_Pending (Some (ST_Stopped 7)))) =
     ReturnError (ST_Stopped 7)"
proof
  show e: "snd (transition ref_status send_state_new (PollReadyIn SP_Pending (Some (ST_Stopped 7)))) =
      ReturnError (ST_Stopped 7)"
    by (simp add: reducer_defs send_state_new_def)
  show "\<not> send_is_provisional (ST_Stopped 7)"
    using transition_never_surfaces_provisional [of ref_status send_state_new
        "PollReadyIn SP_Pending (Some (ST_Stopped 7))" "ST_Stopped 7" K_Reset] e by blast
qed

text \<open>
  C37: the bookkeeping invariant. In every state reachable by serialized callers at most one
  native submission is reserved, no data send is outstanding while a finish is reserved or
  started, and a complete finish was started and holds no reservation.
\<close>

theorem reducer_reach_invariant:
  assumes "reducer_reach S st"
  shows "\<not> (send_submitting st \<and> finish_submitting st) \<and> \<not> (send_submitting st \<and> reset_submitting st) \<and>
    \<not> (finish_submitting st \<and> reset_submitting st) \<and>
    \<not> (send_inprogress st \<and> (send_submitting st \<or> finish_submitting st \<or> finish_started st)) \<and>
    (finish_complete st \<longrightarrow> finish_started st \<and> \<not> submission_reserved st)"
  using reducer_reach_wf [OF assms] by (auto simp: send_state_wf_def)

theorem reducer_reach_invariant_witness:
  "\<not> (send_submitting (send_state_new\<lparr>send_submitting := True\<rparr>) \<and>
      finish_submitting (send_state_new\<lparr>send_submitting := True\<rparr>))"
proof -
  have "reducer_reach ref_status
      (fst (transition ref_status send_state_new (SendRequested (SendPayload_NonEmpty 5) None)))"
    by (rule reach_step [OF reach_new]) (simp add: send_state_new_def)
  then have "reducer_reach ref_status (send_state_new\<lparr>send_submitting := True\<rparr>)"
    by (simp add: reducer_defs send_state_new_def)
  from reducer_reach_invariant [OF this] show ?thesis by blast
qed

text \<open>
  C19: at most one native call per reservation. In a reachable state a command asks for a
  native submission only when none is reserved, it reserves exactly the matching flag, and the
  matching \<open>*Submitted\<close> input clears that flag whatever the native result and whatever
  terminal raced in.
\<close>

theorem one_submission_per_reservation:
  assumes "reducer_reach S st" and "serialized_input st i"
  shows "(is_submit (snd (transition S st i)) \<longrightarrow>
       \<not> submission_reserved st \<and>
       send_submitting (fst (transition S st i)) = (snd (transition S st i) = SubmitSend) \<and>
       finish_submitting (fst (transition S st i)) = (snd (transition S st i) = SubmitGraceful) \<and>
       reset_submitting (fst (transition S st i)) =
         (\<exists>c. snd (transition S st i) = SubmitReset c)) \<and>
     \<not> send_submitting (fst (transition S st (SendSubmitted r t))) \<and>
     \<not> finish_submitting (fst (transition S st (GracefulSubmitted r t))) \<and>
     \<not> reset_submitting (fst (transition S st (ResetSubmitted c r t)))"
proof (intro conjI impI)
  assume sub: "is_submit (snd (transition S st i))"
  then show "\<not> submission_reserved st"
    using assms(2) reducer_reach_wf [OF assms(1)]
    by (cases i) (auto simp: reducer_defs send_state_wf_def split: reducer_splits)
  then show "send_submitting (fst (transition S st i)) = (snd (transition S st i) = SubmitSend)"
    and "finish_submitting (fst (transition S st i)) = (snd (transition S st i) = SubmitGraceful)"
    and "reset_submitting (fst (transition S st i)) = (\<exists>c. snd (transition S st i) = SubmitReset c)"
    using sub by (cases i; auto simp: reducer_defs split: reducer_splits)+
qed (auto simp: reducer_defs split: result.split)

theorem one_submission_per_reservation_witness:
  "send_submitting (fst (transition ref_status send_state_new
     (SendRequested (SendPayload_NonEmpty 5) None)))"
proof -
  have "is_submit (snd (transition ref_status send_state_new (SendRequested (SendPayload_NonEmpty 5) None)))"
    and c: "snd (transition ref_status send_state_new (SendRequested (SendPayload_NonEmpty 5) None)) = SubmitSend"
    by (simp_all add: reducer_defs send_state_new_def)
  moreover have "serialized_input send_state_new (SendRequested (SendPayload_NonEmpty 5) None)"
    by (simp add: send_state_new_def)
  ultimately show ?thesis
    using one_submission_per_reservation [OF reach_new [of ref_status],
        of "SendRequested (SendPayload_NonEmpty 5) None" "Ok ()" None 0] by simp
qed

text \<open>
  A completed graceful finish is absorbing. Once \<open>finish_complete\<close> holds in a reachable
  state no input clears it, \<open>poll_finish\<close> keeps returning success even if a terminal cause is
  published later, \<open>reset\<close> is a no-op and no input reaches the native library again.
\<close>

theorem finish_complete_absorbing:
  assumes "reducer_reach S st" and "finish_complete st"
  shows "finish_complete (fst (transition S st i)) \<and>
    \<not> is_submit (snd (transition S st i)) \<and>
    transition S st (PollFinishIn p t) = (st, ReturnFinished) \<and>
    transition S st (ResetIn c t) = (st, NoOp)"
  using assms(2) reducer_reach_wf [OF assms(1)]
  by (cases i) (auto simp: reducer_defs send_state_wf_def split: reducer_splits)

theorem finish_complete_absorbing_witness:
  "transition ref_status (send_state_new\<lparr>finish_started := True, finish_complete := True\<rparr>)
     (PollFinishIn SP_Closed (Some (ST_Stopped 3))) =
   (send_state_new\<lparr>finish_started := True, finish_complete := True\<rparr>, ReturnFinished)"
proof -
  let ?s1 = "fst (transition ref_status send_state_new (PollFinishIn SP_Pending None))"
  let ?s2 = "fst (transition ref_status ?s1 (GracefulSubmitted (Ok ()) None))"
  let ?s3 = "fst (transition ref_status ?s2 (PollFinishIn (SP_Event (FinishComplete True)) None))"
  have r: "reducer_reach ref_status ?s3"
    by (intro reach_step reach_new) simp_all
  have e: "?s3 = send_state_new\<lparr>finish_started := True, finish_complete := True\<rparr>"
    by (simp add: reducer_defs send_state_new_def)
  show ?thesis
    using finish_complete_absorbing [OF r, of "PollFinishIn SP_Closed (Some (ST_Stopped 3))"
        SP_Closed "Some (ST_Stopped 3)" 0] unfolding e by simp
qed

text \<open>
  Success is never invented. \<open>poll_ready\<close> succeeds only with no terminal cause, not
  even a provisional one, and either an uncancelled completion of the outstanding send or
  nothing outstanding; \<open>poll_finish\<close> succeeds only when the finish is already complete or a
  graceful completion of a started finish arrives.
\<close>

theorem success_is_justified:
  "(snd (transition S st (PollReadyIn p t)) = ReturnReady \<longrightarrow>
      definitive t = None \<and> \<not> submission_reserved st \<and> \<not> finish_started st \<and>
      (p = SP_Event (Complete False) \<and> send_inprogress st \<or>
       p = SP_Pending \<and> \<not> send_inprogress st \<and> t = None)) \<and>
   (snd (transition S st (PollFinishIn p t)) = ReturnFinished \<longrightarrow>
      finish_complete st \<or> finish_started st \<and> p = SP_Event (FinishComplete True))"
  by (auto simp: reducer_defs definitive_None_iff split: reducer_splits)

theorem success_is_justified_witness:
  "snd (transition ref_status send_state_new (PollReadyIn SP_Pending None)) = ReturnReady \<and>
   definitive None = None"
  using success_is_justified [of ref_status send_state_new SP_Pending None]
  by (simp add: reducer_defs send_state_new_def)

text \<open>
  The reservation guard of \<open>send_data\<close> does not cover a reset. With a reset
  reserved and nothing else, a \<open>SendRequested\<close> input still emits a native send, so two native
  operations are reserved at once; the other three methods refuse in that state.
\<close>

theorem send_requested_ignores_reset_reservation:
  "transition S (send_state_new\<lparr>reset_submitting := True\<rparr>) (SendRequested (SendPayload_NonEmpty n) None) =
     (send_state_new\<lparr>reset_submitting := True, send_submitting := True\<rparr>, SubmitSend) \<and>
   \<not> is_submit (snd (transition S (send_state_new\<lparr>reset_submitting := True\<rparr>) (PollReadyIn p t))) \<and>
   \<not> is_submit (snd (transition S (send_state_new\<lparr>reset_submitting := True\<rparr>) (PollFinishIn p t))) \<and>
   \<not> is_submit (snd (transition S (send_state_new\<lparr>reset_submitting := True\<rparr>) (ResetIn c t)))"
  by (simp add: reducer_defs send_state_new_def)

end
