(* ===== verification/H3_Terminal.thy ===== *)
theory H3_Terminal
  imports H3_Reducer
begin

text \<open>
  The terminal-cause slots of \<open>terminal.rs\<close>. A slot is an \<open>Arc<Mutex<_>>\<close> whose every
  access goes through \<open>lock_recover\<close>, so each operation below is one atomic step on the
  guarded value; a poisoned lock is recovered, never propagated, so poisoning has no effect
  on the value and does not appear. The connection slot is the record \<open>conn_terminal_state\<close>
  and the send slot an optional \<open>send_terminal\<close>.

  Both slots follow one rule, first writer wins except that a provisional cause may be
  refined: the locale \<open>refinable_slot\<close> states it once and is interpreted for both.
\<close>

section \<open>The connection slot\<close>

record conn_terminal_state =
  ct_terminal :: "connection_terminal option"
  ct_observed :: bool

definition conn_terminal_default :: conn_terminal_state where
  "conn_terminal_default = \<lparr>ct_terminal = None, ct_observed = False\<rparr>"

definition ct_record :: "connection_terminal \<Rightarrow> conn_terminal_state \<Rightarrow> conn_terminal_state" where
  "ct_record candidate st =
     (if ct_observed st then st
      else case ct_terminal st of
        None \<Rightarrow> st\<lparr>ct_terminal := Some candidate\<rparr>
      | Some existing \<Rightarrow>
          if conn_is_provisional existing \<and> \<not> conn_is_provisional candidate
          then st\<lparr>ct_terminal := Some candidate\<rparr> else st)"

definition ct_observe :: "conn_terminal_state \<Rightarrow> conn_terminal_state \<times> connection_terminal option" where
  "ct_observe st = (st\<lparr>ct_observed := True\<rparr>, ct_terminal st)"

definition has_internal :: "conn_terminal_state \<Rightarrow> bool" where
  "has_internal st = (case ct_terminal st of Some (CT_Internal _) \<Rightarrow> True | _ \<Rightarrow> False)"

definition terminal_is_some :: "conn_terminal_state \<Rightarrow> bool" where
  "terminal_is_some st \<longleftrightarrow> ct_terminal st \<noteq> None"

definition record_conn_terminal :: "connection_terminal \<Rightarrow> conn_terminal_state \<Rightarrow> conn_terminal_state" where
  "record_conn_terminal candidate slot = ct_record candidate slot"

definition observe_conn_winner :: "conn_terminal_state \<Rightarrow> conn_terminal_state \<times> connection_terminal option" where
  "observe_conn_winner slot = ct_observe slot"

definition commit_conn :: "conn_terminal_state \<Rightarrow> conn_terminal_state \<times> connection_terminal option" where
  "commit_conn slot = (if terminal_is_some slot then ct_observe slot else (slot, None))"

definition peek_conn_terminal :: "conn_terminal_state \<Rightarrow> connection_terminal option" where
  "peek_conn_terminal slot = ct_terminal slot"

section \<open>The send slot\<close>

type_synonym send_slot = "send_terminal option"

definition new_send_terminal_slot :: send_slot where
  "new_send_terminal_slot = None"

definition load_winner :: "send_slot \<Rightarrow> send_terminal option" where
  "load_winner slot = slot"

definition publish_send :: "send_terminal \<Rightarrow> send_slot \<Rightarrow> send_slot \<times> send_terminal" where
  "publish_send candidate slot =
     (case slot of
        None \<Rightarrow> (Some candidate, candidate)
      | Some existing \<Rightarrow>
          if send_is_provisional existing \<and> \<not> send_is_provisional candidate
          then (Some candidate, candidate) else (slot, existing))"

section \<open>Classification\<close>

definition classify_transport :: "status_ops \<Rightarrow> status \<Rightarrow> u64 \<Rightarrow> connection_terminal" where
  "classify_transport S status error_code =
     (case try_as_status_code S status of
        Some QUIC_STATUS_CONNECTION_TIMEOUT \<Rightarrow> CT_Timeout
      | Some QUIC_STATUS_CONNECTION_IDLE \<Rightarrow> CT_Timeout
      | _ \<Rightarrow> CT_Transport status error_code)"

definition classify_conn_shutdown ::
  "status_ops \<Rightarrow> bool \<Rightarrow> bool \<Rightarrow> u64 \<Rightarrow> status \<Rightarrow> connection_terminal" where
  "classify_conn_shutdown S by_app closed_remotely error_code status =
     (if by_app then (if closed_remotely then CT_PeerApplication error_code else CT_LocalClose)
      else classify_transport S status error_code)"

section \<open>The abstract rule\<close>

text \<open>
  The winner of a list of candidates in the order they were published: the first
  authoritative one, or the first one when all are provisional.
\<close>

definition slot_winner :: "('a \<Rightarrow> bool) \<Rightarrow> 'a list \<Rightarrow> 'a option" where
  "slot_winner prov cs =
     (case filter (\<lambda>c. \<not> prov c) cs of c # _ \<Rightarrow> Some c
      | [] \<Rightarrow> (case cs of [] \<Rightarrow> None | c # _ \<Rightarrow> Some c))"

text \<open>The operations the rest of the crate performs on the connection slot.\<close>

datatype conn_slot_op = OpRecord connection_terminal | OpObserve | OpCommit | OpPeek

fun conn_slot_step :: "conn_slot_op \<Rightarrow> conn_terminal_state \<Rightarrow> conn_terminal_state" where
  "conn_slot_step (OpRecord c) st = record_conn_terminal c st"
| "conn_slot_step OpObserve st = fst (observe_conn_winner st)"
| "conn_slot_step OpCommit st = fst (commit_conn st)"
| "conn_slot_step OpPeek st = st"

text \<open>
  The candidates recorded before the first effective freeze: an \<open>observe\<close>, or a commit that
  finds a cause.
\<close>

fun pre_freeze :: "bool \<Rightarrow> conn_slot_op list \<Rightarrow> connection_terminal list" where
  "pre_freeze present [] = []"
| "pre_freeze present (OpRecord c # ops) = c # pre_freeze True ops"
| "pre_freeze present (OpObserve # ops) = []"
| "pre_freeze present (OpCommit # ops) = (if present then [] else pre_freeze present ops)"
| "pre_freeze present (OpPeek # ops) = pre_freeze present ops"

text \<open>What an unfrozen slot stores after one record.\<close>

definition conn_put :: "connection_terminal \<Rightarrow> connection_terminal option \<Rightarrow> connection_terminal option" where
  "conn_put c t = ct_terminal (record_conn_terminal c \<lparr>ct_terminal = t, ct_observed = False\<rparr>)"

section \<open>One rule for both slots\<close>

locale refinable_slot =
  fixes prov :: "'a \<Rightarrow> bool"
    and put :: "'a \<Rightarrow> 'a option \<Rightarrow> 'a option"
  assumes put_empty: "put c None = Some c"
    and put_refine: "prov x \<Longrightarrow> \<not> prov c \<Longrightarrow> put c (Some x) = Some c"
    and put_keep: "\<not> prov x \<or> prov c \<Longrightarrow> put c (Some x) = Some x"
begin

lemma put_Some: "put c (Some x) = Some (if prov x \<and> \<not> prov c then c else x)"
  by (simp add: put_refine put_keep)

lemma put_occupied: "put c s \<noteq> None"
  by (cases s) (simp_all add: put_empty put_Some)

lemma fold_put_authoritative: "\<not> prov x \<Longrightarrow> fold put cs (Some x) = Some x"
  by (induction cs) (simp_all add: put_keep)

lemma fold_put_provisional:
  "prov x \<Longrightarrow> fold put cs (Some x) =
     (case filter (\<lambda>c. \<not> prov c) cs of c # _ \<Rightarrow> Some c | [] \<Rightarrow> Some x)"
  by (induction cs) (simp_all add: put_Some fold_put_authoritative)

lemma fold_put: "fold put cs None = slot_winner prov cs"
  by (cases cs)
    (simp_all add: slot_winner_def put_empty fold_put_authoritative fold_put_provisional split: list.split)

lemma put_authoritative_iff: "put c s = Some x \<Longrightarrow> \<not> prov c \<Longrightarrow> \<not> prov x"
  by (cases s) (auto simp: put_empty put_Some split: if_splits)

end

lemma slot_winner_Nil [simp]: "slot_winner prov [] = None"
  by (simp add: slot_winner_def)

lemma slot_winner_mem: "slot_winner prov cs = Some c \<Longrightarrow> c \<in> set cs"
proof -
  assume w: "slot_winner prov cs = Some c"
  show ?thesis
  proof (cases "filter (\<lambda>c. \<not> prov c) cs")
    case Nil
    with w show ?thesis by (auto simp: slot_winner_def split: list.splits)
  next
    case (Cons d ds)
    then have "d \<in> set (filter (\<lambda>c. \<not> prov c) cs)" by simp
    then have "d \<in> set cs" by auto
    with w Cons show ?thesis by (simp add: slot_winner_def)
  qed
qed

lemma slot_winner_None_iff: "slot_winner prov cs = None \<longleftrightarrow> cs = []"
  by (auto simp: slot_winner_def split: list.splits)

interpretation conn_slot: refinable_slot conn_is_provisional conn_put
  by unfold_locales (auto simp: conn_put_def record_conn_terminal_def ct_record_def)

interpretation send_slot: refinable_slot send_is_provisional "\<lambda>c s. fst (publish_send c s)"
  by unfold_locales (auto simp: publish_send_def)

section \<open>Lemmas\<close>

lemma record_conn_terminal_unobserved:
  "\<not> ct_observed st \<Longrightarrow> record_conn_terminal c st = st\<lparr>ct_terminal := conn_put c (ct_terminal st)\<rparr>"
  by (cases st) (auto simp: conn_put_def record_conn_terminal_def ct_record_def split: option.splits)

lemma record_conn_terminal_observed [slot_simps]:
  "ct_observed st \<Longrightarrow> record_conn_terminal c st = st"
  by (simp add: record_conn_terminal_def ct_record_def)

lemma record_keeps_observed [slot_simps]:
  "ct_observed (record_conn_terminal c st) = ct_observed st"
  by (simp add: record_conn_terminal_def ct_record_def split: option.split)

lemma record_occupies:
  "\<not> ct_observed st \<Longrightarrow> ct_terminal (record_conn_terminal c st) \<noteq> None"
  by (simp add: record_conn_terminal_unobserved conn_slot.put_occupied)

lemma record_keeps_occupied [slot_simps]:
  "ct_terminal st \<noteq> None \<Longrightarrow> ct_terminal (record_conn_terminal c st) \<noteq> None"
  by (auto simp: record_conn_terminal_def ct_record_def split: option.splits)

lemma commit_conn_Some_iff:
  "snd (commit_conn st) = Some t \<longleftrightarrow> ct_terminal st = Some t"
  by (auto simp: commit_conn_def terminal_is_some_def ct_observe_def)

lemma commit_conn_simps [slot_simps]:
  "ct_terminal st = None \<Longrightarrow> commit_conn st = (st, None)"
  "ct_terminal st = Some t \<Longrightarrow> commit_conn st = (st\<lparr>ct_observed := True\<rparr>, Some t)"
  "ct_terminal (fst (commit_conn st)) = ct_terminal st"
  "snd (commit_conn st) = ct_terminal st"
  by (simp_all add: commit_conn_def terminal_is_some_def ct_observe_def)

lemma conn_slot_run_frozen:
  "ct_observed st \<Longrightarrow>
   ct_terminal (fold conn_slot_step ops st) = ct_terminal st \<and> ct_observed (fold conn_slot_step ops st)"
proof (induction ops arbitrary: st)
  case (Cons op ops)
  have "ct_observed (conn_slot_step op st) \<and> ct_terminal (conn_slot_step op st) = ct_terminal st"
    using Cons.prems
    by (cases op) (simp_all add: slot_simps observe_conn_winner_def ct_observe_def commit_conn_def)
  with Cons.IH show ?case by simp
qed simp

lemma publish_send_snd: "Some (snd (publish_send c s)) = fst (publish_send c s)"
  by (simp add: publish_send_def split: option.split)

lemma publish_send_authoritative:
  "\<not> send_is_provisional w \<Longrightarrow> publish_send c (Some w) = (Some w, w)"
  by (simp add: publish_send_def)

lemma publish_send_refines:
  "\<not> send_is_provisional c \<Longrightarrow> \<not> send_is_provisional (snd (publish_send c s))"
  by (auto simp: publish_send_def split: option.split)

lemma conn_slot_run_spec:
  assumes "\<not> ct_observed st"
  shows "ct_terminal (fold conn_slot_step ops st) =
    fold conn_put (pre_freeze (ct_terminal st \<noteq> None) ops) (ct_terminal st)"
  using assms
proof (induction ops arbitrary: st)
  case (Cons op ops)
  show ?case
  proof (cases op)
    case (OpRecord c)
    then show ?thesis
      using Cons.IH [of "record_conn_terminal c st"] Cons.prems
      by (simp add: slot_simps record_conn_terminal_unobserved conn_slot.put_occupied)
  next
    case OpObserve
    have "ct_observed (fst (observe_conn_winner st))"
      by (simp add: observe_conn_winner_def ct_observe_def)
    from conn_slot_run_frozen [OF this] show ?thesis
      by (simp add: OpObserve) (simp add: observe_conn_winner_def ct_observe_def)
  next
    case OpCommit
    show ?thesis
    proof (cases "ct_terminal st")
      case None
      then show ?thesis using Cons OpCommit by (simp add: slot_simps)
    next
      case (Some t)
      have "ct_observed (st\<lparr>ct_observed := True\<rparr>)" by simp
      from conn_slot_run_frozen [OF this] show ?thesis
        using Some by (simp add: OpCommit slot_simps)
    qed
  next
    case OpPeek
    then show ?thesis using Cons by simp
  qed
qed simp

section \<open>Properties\<close>

text \<open>
  C14: the connection slot implements the scoped first-writer rule. After any interleaving
  of records, observations, commits and peeks from the fresh slot, the stored cause is the
  first authoritative candidate recorded before the first effective freeze, or the first
  provisional one if there was no authoritative candidate.
\<close>

theorem conn_slot_refines_first_writer:
  "ct_terminal (fold conn_slot_step ops conn_terminal_default) =
     slot_winner conn_is_provisional (pre_freeze False ops)"
  using conn_slot_run_spec [of conn_terminal_default ops]
  by (simp add: conn_terminal_default_def conn_slot.fold_put)

text \<open>
  C25: one cause per connection. Once a commit has delivered a cause, every later commit and
  peek returns the same cause whatever is recorded in between, while a commit on an empty slot
  delivers nothing and changes nothing, so a cause recorded afterwards is still delivered.
\<close>

theorem commit_delivers_one_cause:
  assumes "snd (commit_conn st) = Some t"
  shows "snd (commit_conn (fold conn_slot_step ops (fst (commit_conn st)))) = Some t \<and>
    peek_conn_terminal (fold conn_slot_step ops (fst (commit_conn st))) = Some t \<and>
    (ct_terminal st0 = None \<longrightarrow> commit_conn st0 = (st0, None)) \<and>
    snd (commit_conn (record_conn_terminal c (fst (commit_conn conn_terminal_default)))) = Some c"
proof -
  from assms have t: "ct_terminal st = Some t" by (simp add: commit_conn_Some_iff)
  have "ct_observed (fst (commit_conn st))" using t by (simp add: slot_simps)
  from conn_slot_run_frozen [OF this, of ops] t
  have "ct_terminal (fold conn_slot_step ops (fst (commit_conn st))) = Some t"
    by (simp add: slot_simps)
  then show ?thesis
    by (simp add: slot_simps peek_conn_terminal_def conn_terminal_default_def
        record_conn_terminal_def ct_record_def)
qed

theorem commit_delivers_one_cause_witness:
  "snd (commit_conn (fold conn_slot_step [OpRecord (CT_PeerApplication 9), OpObserve]
      (fst (commit_conn \<lparr>ct_terminal = Some CT_LocalClose, ct_observed = False\<rparr>)))) = Some CT_LocalClose"
proof -
  have "snd (commit_conn \<lparr>ct_terminal = Some CT_LocalClose, ct_observed = False\<rparr>) = Some CT_LocalClose"
    by (simp add: slot_simps)
  from commit_delivers_one_cause [OF this] show ?thesis by blast
qed

text \<open>
  The send slot implements the same rule and \<open>publish_send\<close> reports the value that owns
  the slot. In particular the provisional cancellation marker never masks an authoritative
  cause published later, and an authoritative cause is never overwritten.
\<close>

theorem send_slot_refines_first_writer:
  "fold (\<lambda>c s. fst (publish_send c s)) cs new_send_terminal_slot = slot_winner send_is_provisional cs \<and>
   load_winner (fst (publish_send c s)) = Some (snd (publish_send c s)) \<and>
   (\<not> send_is_provisional c \<longrightarrow> \<not> send_is_provisional (snd (publish_send c s)))"
  by (simp add: send_slot.fold_put new_send_terminal_slot_def load_winner_def publish_send_snd
      publish_send_refines)

theorem send_slot_refines_first_writer_witness:
  "fold (\<lambda>c s. fst (publish_send c s)) [ST_ProvisionalAbort, ST_Stopped 4, ST_LocalReset 1]
     new_send_terminal_slot = Some (ST_Stopped 4)"
  using send_slot_refines_first_writer [of "[ST_ProvisionalAbort, ST_Stopped 4, ST_LocalReset 1]"
      "ST_Stopped 4" None]
  by (simp add: slot_winner_def)

text \<open>
  A stream-level connection shutdown is classified the way MsQuic documents its flags: a
  peer code only for an application close by the remote side, the provisional local close only
  for an application close by this side, a timeout for the two timeout statuses, and otherwise
  the transport status with its wire code.
\<close>

theorem classify_conn_shutdown_cases:
  assumes "status_codec S"
  shows "(classify_conn_shutdown S by_app remote code s = CT_PeerApplication c \<longleftrightarrow>
        by_app \<and> remote \<and> c = code) \<and>
    (conn_is_provisional (classify_conn_shutdown S by_app remote code s) \<longleftrightarrow> by_app \<and> \<not> remote) \<and>
    classify_conn_shutdown S False remote code (status_new S QUIC_STATUS_CONNECTION_IDLE) = CT_Timeout \<and>
    classify_conn_shutdown S False remote code (status_new S QUIC_STATUS_CONNECTION_TIMEOUT) = CT_Timeout \<and>
    classify_conn_shutdown S False remote code (status_new S QUIC_STATUS_ABORTED) =
      CT_Transport (status_new S QUIC_STATUS_ABORTED) code"
  using status_codec.decode_new [OF assms]
  by (simp add: classify_conn_shutdown_def classify_transport_def named_codes_def
      split: option.split status_code.split) blast

theorem classify_conn_shutdown_cases_witness:
  "classify_conn_shutdown ref_status False True 77 (status_new ref_status QUIC_STATUS_CONNECTION_IDLE) = CT_Timeout"
  using classify_conn_shutdown_cases [OF ref_codec.status_codec_axioms] by blast

end
