(* ===== verification/H3_Config.thy ===== *)
theory H3_Config
  imports H3_Error
begin

text \<open>
  The validated memory-budget configuration of \<open>config.rs\<close>: the three caps, their defaults,
  the builder and the shared validation. Private fields make \<open>Default\<close>, \<open>try_new\<close> and the
  builder's \<open>build\<close> the only ways to obtain a configuration.
\<close>

section \<open>Configuration\<close>

definition MAX_RECV_BUFFER :: usize where
  "MAX_RECV_BUFFER = 1024 * 1024"

definition DEFAULT_MAX_RECV_UNITS :: usize where
  "DEFAULT_MAX_RECV_UNITS = 16384"

record h3_config =
  max_send_bytes :: u64
  max_recv_bytes :: usize
  max_recv_units :: usize

definition h3_config_default :: h3_config where
  "h3_config_default = \<lparr>max_send_bytes = MAX_ADAPTER_SEND, max_recv_bytes = MAX_RECV_BUFFER,
     max_recv_units = DEFAULT_MAX_RECV_UNITS\<rparr>"

datatype config_error = SendSize | RecvBytes | RecvUnits

definition validate :: "u64 \<Rightarrow> usize \<Rightarrow> usize \<Rightarrow> (h3_config, config_error) result" where
  "validate send_bytes recv_bytes recv_units =
     (if send_bytes = 0 \<or> ucast u32_MAX \<le> send_bytes then Err SendSize
      else if recv_bytes = 0 then Err RecvBytes
      else if recv_units = 0 then Err RecvUnits
      else Ok \<lparr>max_send_bytes = send_bytes, max_recv_bytes = recv_bytes, max_recv_units = recv_units\<rparr>)"

definition try_new :: "u64 \<Rightarrow> usize \<Rightarrow> usize \<Rightarrow> (h3_config, config_error) result" where
  "try_new send_bytes recv_bytes recv_units = validate send_bytes recv_bytes recv_units"

fun display_config_error :: "config_error \<Rightarrow> string" where
  "display_config_error SendSize =
     ''max_send_bytes must be non-zero and less than u32::MAX ('' @ dec (unat u32_MAX) @ '')''"
| "display_config_error RecvBytes = ''max_recv_bytes must be non-zero''"
| "display_config_error RecvUnits = ''max_recv_units must be non-zero''"

section \<open>Builder\<close>

record h3_config_builder =
  cb_max_send_bytes :: u64
  cb_max_recv_bytes :: usize
  cb_max_recv_units :: usize

definition builder_default :: h3_config_builder where
  "builder_default = (let d = h3_config_default in
     \<lparr>cb_max_send_bytes = max_send_bytes d, cb_max_recv_bytes = max_recv_bytes d,
      cb_max_recv_units = max_recv_units d\<rparr>)"

definition builder :: h3_config_builder where
  "builder = builder_default"

definition with_max_send_bytes :: "u64 \<Rightarrow> h3_config_builder \<Rightarrow> h3_config_builder" where
  "with_max_send_bytes n b = b\<lparr>cb_max_send_bytes := n\<rparr>"

definition with_max_recv_bytes :: "usize \<Rightarrow> h3_config_builder \<Rightarrow> h3_config_builder" where
  "with_max_recv_bytes n b = b\<lparr>cb_max_recv_bytes := n\<rparr>"

definition with_max_recv_units :: "usize \<Rightarrow> h3_config_builder \<Rightarrow> h3_config_builder" where
  "with_max_recv_units n b = b\<lparr>cb_max_recv_units := n\<rparr>"

definition build :: "h3_config_builder \<Rightarrow> (h3_config, config_error) result" where
  "build b = validate (cb_max_send_bytes b) (cb_max_recv_bytes b) (cb_max_recv_units b)"

text \<open>The range every constructible configuration satisfies.\<close>

definition config_valid :: "h3_config \<Rightarrow> bool" where
  "config_valid c \<longleftrightarrow> 0 < unat (max_send_bytes c) \<and> unat (max_send_bytes c) < 2 ^ 32 - 1 \<and>
     max_recv_bytes c \<noteq> 0 \<and> max_recv_units c \<noteq> 0"

section \<open>Lemmas\<close>

lemma unat_u32_MAX: "unat u32_MAX = 2 ^ 32 - 1"
  by (simp add: u32_MAX_def)

lemma u32_MAX_le_iff: "(ucast u32_MAX :: u64) \<le> n \<longleftrightarrow> 2 ^ 32 - 1 \<le> unat n"
  by (simp add: u32_MAX_def word_le_nat_alt)

lemma validate_Ok_iff:
  "validate s r u = Ok c \<longleftrightarrow>
     config_valid c \<and> c = \<lparr>max_send_bytes = s, max_recv_bytes = r, max_recv_units = u\<rparr>"
  by (auto simp: validate_def config_valid_def u32_MAX_le_iff unat_eq_zero word_neq_0_conv
      unat_gt_0 not_le)

lemma validate_Err_iff:
  "validate s r u = Err SendSize \<longleftrightarrow> unat s = 0 \<or> 2 ^ 32 - 1 \<le> unat s"
  "validate s r u = Err RecvBytes \<longleftrightarrow> 0 < unat s \<and> unat s < 2 ^ 32 - 1 \<and> r = 0"
  "validate s r u = Err RecvUnits \<longleftrightarrow> 0 < unat s \<and> unat s < 2 ^ 32 - 1 \<and> r \<noteq> 0 \<and> u = 0"
  by (auto simp: validate_def u32_MAX_le_iff unat_eq_zero unat_gt_0 not_le split: if_splits)

lemma config_valid_default: "config_valid h3_config_default"
  by (simp add: config_valid_def h3_config_default_def MAX_ADAPTER_SEND_def MAX_RECV_BUFFER_def
      DEFAULT_MAX_RECV_UNITS_def)

section \<open>Properties\<close>

text \<open>
  Validation is exact. \<open>validate\<close> accepts precisely the in-range triples, unchanged, and
  reports the first out-of-range cap in the order send size, receive bytes, receive units; the
  defaults are in range, and a builder whose three caps were set builds what \<open>try_new\<close> builds.
\<close>

theorem config_validation_exact:
  "(try_new s r u = Ok c \<longleftrightarrow>
      config_valid c \<and> c = \<lparr>max_send_bytes = s, max_recv_bytes = r, max_recv_units = u\<rparr>) \<and>
   (try_new s r u = Err SendSize \<longleftrightarrow> unat s = 0 \<or> 2 ^ 32 - 1 \<le> unat s) \<and>
   (try_new s r u = Err RecvBytes \<longleftrightarrow> 0 < unat s \<and> unat s < 2 ^ 32 - 1 \<and> r = 0) \<and>
   (try_new s r u = Err RecvUnits \<longleftrightarrow> 0 < unat s \<and> unat s < 2 ^ 32 - 1 \<and> r \<noteq> 0 \<and> u = 0) \<and>
   build builder = Ok h3_config_default \<and>
   build (with_max_recv_units u (with_max_recv_bytes r (with_max_send_bytes s builder))) = try_new s r u"
proof -
  have "build builder = Ok h3_config_default"
    using config_valid_default validate_Ok_iff
    by (simp add: build_def builder_def builder_default_def Let_def)
  then show ?thesis
    by (simp add: try_new_def validate_Ok_iff validate_Err_iff)
      (simp add: build_def with_max_send_bytes_def with_max_recv_bytes_def with_max_recv_units_def)
qed

end
