(* ===== verification/H3_Buffer.thy ===== *)
theory H3_Buffer
  imports H3_Reducer H3_Config
begin

text \<open>
  The owned send payload of \<open>buffer.rs\<close> and the payload classification of \<open>send_data\<close>
  (\<open>classify_payload\<close> of \<open>stream.rs\<close>).

  \<open>Bytes\<close>, \<open>Buf\<close> and \<open>BufferRef\<close> belong to packages outside the repository. A \<open>Bytes\<close> is
  the address of its heap storage with its content (moving it moves neither); a source buffer
  is a record of the two \<open>Buf\<close> operations the crate calls, with the documented behaviour in
  the locale \<open>buf_source\<close>; the constructor of a \<open>BufferRef\<close> is an argument.
\<close>

section \<open>Length classification\<close>

datatype send_len = SendLen_Empty | SendLen_NonEmpty | SendLen_Oversized

definition classify_send_len :: "usize \<Rightarrow> u64 \<Rightarrow> send_len" where
  "classify_send_len remaining ceiling =
     (if remaining = 0 then SendLen_Empty
      else if ceiling < remaining then SendLen_Oversized
      else SendLen_NonEmpty)"

definition classify_payload :: "usize \<Rightarrow> u64 \<Rightarrow> send_payload" where
  "classify_payload remaining ceiling =
     (case classify_send_len remaining ceiling of
        SendLen_Empty \<Rightarrow> SendPayload_Empty
      | SendLen_Oversized \<Rightarrow> SendPayload_Oversized remaining ceiling
      | SendLen_NonEmpty \<Rightarrow> SendPayload_NonEmpty (ucast remaining))"

section \<open>The owned buffer\<close>

record heap_bytes =
  storage :: nat
  content_of :: bytes

record buffer_ref =
  ref_Length :: u32
  ref_Buffer :: nat

record 'b buf_ops =
  remaining :: "'b \<Rightarrow> usize"
  copy_to_bytes :: "usize \<Rightarrow> 'b \<Rightarrow> 'b \<times> heap_bytes"

record send_buffer =
  sb_buffers :: "buffer_ref list"
  sb_bytes :: heap_bytes

definition send_buffer_new :: "(nat \<Rightarrow> usize \<Rightarrow> buffer_ref) \<Rightarrow> heap_bytes \<Rightarrow> send_buffer" where
  "send_buffer_new ref_from b =
     \<lparr>sb_buffers = [ref_from (storage b) (of_nat (length (content_of b)))], sb_bytes = b\<rparr>"

definition buffers :: "send_buffer \<Rightarrow> buffer_ref list" where
  "buffers sb = sb_buffers sb"

definition copy_into_send_buffer ::
  "(nat \<Rightarrow> usize \<Rightarrow> buffer_ref) \<Rightarrow> 'b buf_ops \<Rightarrow> 'b \<Rightarrow> 'b \<times> send_buffer" where
  "copy_into_send_buffer ref_from Bu src =
     (let (src', b) = copy_to_bytes Bu (remaining Bu src) src in (src', send_buffer_new ref_from b))"

section \<open>Interfaces\<close>

text \<open>
  \<open>Buf\<close>: \<open>remaining\<close> is the number of unread bytes (of a buffer that fits the address
  space) and \<open>copy_to_bytes\<close> consumes exactly the next bytes into one owned allocation.
\<close>

locale buf_source =
  fixes Bu :: "'b buf_ops" and rest :: "'b \<Rightarrow> bytes" and fits :: "'b \<Rightarrow> bool"
  assumes remaining_rest: "fits b \<Longrightarrow> unat (remaining Bu b) = length (rest b)"
    and copy_content: "fits b \<Longrightarrow> n \<le> remaining Bu b \<Longrightarrow>
      content_of (snd (copy_to_bytes Bu n b)) = take (unat n) (rest b)"
    and copy_rest: "fits b \<Longrightarrow> n \<le> remaining Bu b \<Longrightarrow>
      rest (fst (copy_to_bytes Bu n b)) = drop (unat n) (rest b)"
begin

lemma copy_all:
  assumes "fits b"
  shows "content_of (snd (copy_to_bytes Bu (remaining Bu b) b)) = rest b"
    and "rest (fst (copy_to_bytes Bu (remaining Bu b) b)) = []"
  using assms by (simp_all add: copy_content copy_rest remaining_rest)

end

text \<open>The native constructor: pointer kept, length cast to \<open>u32\<close>.\<close>

definition native_buffer_ref :: "nat \<Rightarrow> usize \<Rightarrow> buffer_ref" where
  "native_buffer_ref p n = \<lparr>ref_Length = ucast n, ref_Buffer = p\<rparr>"

text \<open>A byte slice as a source (the benchmark's \<open>&[u8]\<close>), with the address the next
  allocation gets.\<close>

definition slice_buf :: "(nat \<times> bytes) buf_ops" where
  "slice_buf = \<lparr>remaining = (\<lambda>(p, bs). of_nat (length bs)),
     copy_to_bytes = (\<lambda>n (p, bs). ((Suc p, drop (unat n) bs), \<lparr>storage = p, content_of = take (unat n) bs\<rparr>))\<rparr>"

section \<open>Lemmas\<close>

interpretation slice: buf_source slice_buf snd "\<lambda>(p, bs). length bs < 2 ^ 64"
  by unfold_locales (auto simp: slice_buf_def unat_of_nat_u64)

lemma classify_payload_NonEmpty_iff:
  "classify_payload n ceiling = SendPayload_NonEmpty l \<longleftrightarrow> n \<noteq> 0 \<and> n \<le> ceiling \<and> l = ucast n"
  by (auto simp: classify_payload_def classify_send_len_def not_less)

section \<open>Properties\<close>

text \<open>
  The payload split is exact and the narrowing cast never truncates. Under any validated
  configuration a length is classified \<open>Empty\<close> iff it is zero, \<open>Oversized\<close> (with the
  requested length and the ceiling) iff it exceeds the ceiling, and otherwise \<open>NonEmpty\<close>
  with a 32-bit length equal to the requested one.
\<close>

theorem classify_payload_exact:
  assumes "config_valid c"
  shows "(classify_payload n (max_send_bytes c) = SendPayload_Empty \<longleftrightarrow> n = 0) \<and>
    (classify_payload n (max_send_bytes c) = SendPayload_Oversized m k \<longleftrightarrow>
       unat (max_send_bytes c) < unat n \<and> m = n \<and> k = max_send_bytes c) \<and>
    (classify_payload n (max_send_bytes c) = SendPayload_NonEmpty l \<longrightarrow>
       unat l = unat n \<and> 0 < unat l \<and> unat l \<le> unat (max_send_bytes c))"
proof (intro conjI impI)
  show "classify_payload n (max_send_bytes c) = SendPayload_Empty \<longleftrightarrow> n = 0"
    by (auto simp: classify_payload_def classify_send_len_def)
  show "classify_payload n (max_send_bytes c) = SendPayload_Oversized m k \<longleftrightarrow>
       unat (max_send_bytes c) < unat n \<and> m = n \<and> k = max_send_bytes c"
    by (auto simp: classify_payload_def classify_send_len_def u64_less_iff_unat)
  assume "classify_payload n (max_send_bytes c) = SendPayload_NonEmpty l"
  then have n: "n \<noteq> 0" "n \<le> max_send_bytes c" "l = ucast n"
    by (simp_all add: classify_payload_NonEmpty_iff)
  with assms have "unat n < 2 ^ 32"
    by (simp add: config_valid_def word_le_nat_alt)
  with n show "unat l = unat n" and "0 < unat l" and "unat l \<le> unat (max_send_bytes c)"
    by (simp_all add: unat_ucast_u32 unat_gt_0 word_le_nat_alt)
qed

theorem classify_payload_exact_witness:
  "classify_payload 5 (max_send_bytes h3_config_default) = SendPayload_NonEmpty 5 \<and> unat (5 :: u32) = unat (5 :: u64)"
proof -
  have e: "classify_payload 5 (max_send_bytes h3_config_default) = SendPayload_NonEmpty 5"
    by (simp add: classify_payload_def classify_send_len_def h3_config_default_def MAX_ADAPTER_SEND_def)
  with classify_payload_exact [OF config_valid_default, of 5 0 0 5] show ?thesis by blast
qed

text \<open>
  The production copy path owns exactly the payload. \<open>copy_into_send_buffer\<close> consumes the
  whole source, its single native descriptor points at the owned storage, and for a payload
  within a validated ceiling the descriptor's 32-bit length is the payload's length.
\<close>

theorem copy_into_send_buffer_exact:
  assumes "buf_source Bu rest fits" and "fits src"
    and "config_valid c" and "remaining Bu src \<le> max_send_bytes c"
    and "copy_into_send_buffer native_buffer_ref Bu src = (src', sb)"
  shows "content_of (sb_bytes sb) = rest src \<and> rest src' = [] \<and>
    (\<exists>r. buffers sb = [r] \<and> ref_Buffer r = storage (sb_bytes sb) \<and>
       unat (ref_Length r) = length (rest src))"
proof -
  obtain b where b: "copy_to_bytes Bu (remaining Bu src) src = (src', b)"
    and sb: "sb = send_buffer_new native_buffer_ref b"
    using assms(5) by (auto simp: copy_into_send_buffer_def split: prod.splits)
  have all: "content_of b = rest src" "rest src' = []"
    using buf_source.copy_all [OF assms(1,2)] b by simp_all
  have len: "length (rest src) = unat (remaining Bu src)"
    using buf_source.remaining_rest [OF assms(1,2)] by simp
  then have "length (rest src) < 2 ^ 32"
    using assms(3,4) by (simp add: config_valid_def word_le_nat_alt)
  then have "unat (ucast (of_nat (length (rest src)) :: u64) :: u32) = length (rest src)"
    by (simp add: unat_ucast_u32 unat_of_nat_u64)
  then show ?thesis
    using all by (simp add: sb send_buffer_new_def native_buffer_ref_def buffers_def)
qed

theorem copy_into_send_buffer_exact_witness:
  "content_of (sb_bytes (snd (copy_into_send_buffer native_buffer_ref slice_buf (3, [1, 2])))) = [1, 2]"
proof -
  have "remaining slice_buf (3, [1, 2 :: u8]) \<le> max_send_bytes h3_config_default"
    by (simp add: slice_buf_def h3_config_default_def MAX_ADAPTER_SEND_def)
  from copy_into_send_buffer_exact [OF slice.buf_source_axioms _ config_valid_default this]
  show ?thesis by (cases "copy_into_send_buffer native_buffer_ref slice_buf (3, [1, 2])") auto
qed

end
