(* ===== verification/H3_Callback.thy ===== *)
theory H3_Callback
  imports H3_Prelude
begin

text \<open>
  Panic containment at the FFI boundary (\<open>callback.rs\<close>): \<open>guard_callback\<close>, the injectable
  force-close seam with its three implementations, and the contract every callback class
  shares. A callback body returns or panics; \<open>catch_unwind\<close> turns either into an \<open>outcome\<close>,
  with whatever the body had changed before it panicked.
\<close>

section \<open>The guard\<close>

datatype 'r outcome = Returned 'r | Panicked

datatype cb_class = Cb_Connection | Cb_Stream | Cb_Listener

definition guard_callback ::
  "('c \<Rightarrow> bool) \<Rightarrow> 'r \<Rightarrow> ('c \<Rightarrow> 'c \<times> 'r outcome) \<Rightarrow> ('c \<Rightarrow> 'c \<times> 'r) \<Rightarrow> 'c \<Rightarrow> 'c \<times> 'r" where
  "guard_callback is_poisoned poisoned_result body recover ctx =
     (if is_poisoned ctx then (ctx, poisoned_result)
      else case body ctx of
        (ctx', Returned r) \<Rightarrow> (ctx', r)
      | (ctx', Panicked) \<Rightarrow> recover ctx')"

section \<open>Locks\<close>

text \<open>
  A mutex with its poison flag (\<open>lock_recover\<close> of \<open>lib.rs\<close>). A thread that panics while it holds the lock poisons it and
  leaves what it had written; \<open>lock()\<close> on a poisoned mutex is an error that still carries the value.
\<close>

record 'a mutex =
  mx_value :: 'a
  mx_poisoned :: bool

definition mutex_new :: "'a \<Rightarrow> 'a mutex" where
  "mutex_new v = \<lparr>mx_value = v, mx_poisoned = False\<rparr>"

definition mutex_lock :: "'a mutex \<Rightarrow> ('a, 'a) result" where
  "mutex_lock m = (if mx_poisoned m then Err (mx_value m) else Ok (mx_value m))"

definition lock_recover :: "'a mutex \<Rightarrow> 'a" where
  "lock_recover m = (case mutex_lock m of Ok guard \<Rightarrow> guard | Err poisoned \<Rightarrow> poisoned)"

text \<open>A critical section entered through \<open>lock_recover\<close>, which returns or panics.\<close>

definition locked :: "('a \<Rightarrow> 'a \<times> 'r outcome) \<Rightarrow> 'a mutex \<Rightarrow> 'a mutex \<times> 'r outcome" where
  "locked body m =
     (let (v, out) = body (lock_recover m)
      in (m\<lparr>mx_value := v, mx_poisoned := mx_poisoned m \<or> out = Panicked\<rparr>, out))"

section \<open>The force-close seam\<close>

datatype connection_shutdown_flags = CONNECTION_SHUTDOWN_NONE

datatype stream_shutdown_flags =
    SHUTDOWN_GRACEFUL | SHUTDOWN_ABORT_SEND | SHUTDOWN_ABORT_RECEIVE | SHUTDOWN_ABORT

datatype force_shutdown =
    FS_Connection connection_shutdown_flags
  | FS_Stream stream_shutdown_flags

text \<open>
  \<open>ShutdownSeam\<close> for the borrowed connection handle, the borrowed stream handle and the
  no-op. The native shutdown downcalls are arguments; the stream one is fallible and its
  result is discarded.
\<close>

definition connection_ref_force_shutdown ::
  "(connection_shutdown_flags \<Rightarrow> u64 \<Rightarrow> 'w \<Rightarrow> 'w) \<Rightarrow> force_shutdown \<Rightarrow> u64 \<Rightarrow> 'w \<Rightarrow> 'w" where
  "connection_ref_force_shutdown native_shutdown request code w =
     (case request of FS_Connection flags \<Rightarrow> native_shutdown flags code w | FS_Stream _ \<Rightarrow> w)"

definition stream_ref_force_shutdown ::
  "(stream_shutdown_flags \<Rightarrow> u64 \<Rightarrow> 'w \<Rightarrow> 'w \<times> (unit, status) result) \<Rightarrow>
   force_shutdown \<Rightarrow> u64 \<Rightarrow> 'w \<Rightarrow> 'w" where
  "stream_ref_force_shutdown native_shutdown request code w =
     (case request of FS_Stream flags \<Rightarrow> fst (native_shutdown flags code w) | FS_Connection _ \<Rightarrow> w)"

definition no_shutdown :: "force_shutdown \<Rightarrow> u64 \<Rightarrow> 'w \<Rightarrow> 'w" where
  "no_shutdown request code w = w"

section \<open>The contract of a callback class\<close>

text \<open>A run of guarded events: each event has its poison disposition and its body.\<close>

fun guarded_run ::
  "('c \<Rightarrow> bool) \<Rightarrow> ('ev \<Rightarrow> 'r) \<Rightarrow> ('ev \<Rightarrow> 'c \<Rightarrow> 'c \<times> 'r outcome) \<Rightarrow> ('ev \<Rightarrow> 'c \<Rightarrow> 'c \<times> 'r) \<Rightarrow>
   'ev list \<Rightarrow> 'c \<Rightarrow> 'c \<times> 'r list" where
  "guarded_run is_poisoned disp body recover [] c = (c, [])"
| "guarded_run is_poisoned disp body recover (e # es) c =
     (let (c', r) = guard_callback is_poisoned (disp e) (body e) (recover e) c;
          (c'', rs) = guarded_run is_poisoned disp body recover es c'
      in (c'', r # rs))"

text \<open>
  Every class poisons its context when it recovers from a panic, and no body that returns
  changes the poison flag.
\<close>

locale guarded_class =
  fixes is_poisoned :: "'c \<Rightarrow> bool"
    and disp :: "'ev \<Rightarrow> 'r"
    and body :: "'ev \<Rightarrow> 'c \<Rightarrow> 'c \<times> 'r outcome"
    and recover :: "'ev \<Rightarrow> 'c \<Rightarrow> 'c \<times> 'r"
  assumes recover_poisons: "is_poisoned (fst (recover e c))"
    and body_keeps_poison: "body e c = (c', Returned r) \<Longrightarrow> is_poisoned c' = is_poisoned c"
begin

text \<open>A poisoned context is inert: no later event changes it and each gets its disposition.\<close>

lemma poisoned_inert:
  "is_poisoned c \<Longrightarrow> guarded_run is_poisoned disp body recover es c = (c, map disp es)"
  by (induction es) (simp_all add: guard_callback_def)

lemma panic_recovers_once:
  assumes "\<not> is_poisoned c" and "body e c = (c', Panicked)"
  shows "guarded_run is_poisoned disp body recover (e # es) c =
    (fst (recover e c'), snd (recover e c') # map disp es)"
  using assms poisoned_inert [OF recover_poisons [of e c']]
  by (cases "recover e c'") (simp add: guard_callback_def)

lemma returned_passes_through:
  assumes "\<not> is_poisoned c" and "body e c = (c', Returned r)"
  shows "guard_callback is_poisoned (disp e) (body e) (recover e) c = (c', r) \<and> \<not> is_poisoned c'"
  using assms body_keeps_poison [OF assms(2)] by (simp add: guard_callback_def)

end

text \<open>A panic on one thread costs no other thread the lock: every section runs on what the previous one left.\<close>

lemma lock_recover_total: "lock_recover m = mx_value m"
  by (simp add: lock_recover_def mutex_lock_def)

lemma locked_sections:
  "mx_value (fold (\<lambda>body m. fst (locked body m)) bodies m) = fold (\<lambda>body v. fst (body v)) bodies (mx_value m)"
  by (induction bodies arbitrary: m) (simp_all add: locked_def lock_recover_total case_prod_beta)

end
