(* ===== verification/H3_Recv_Budget.thy ===== *)
theory H3_Recv_Budget
  imports H3_Config
begin

text \<open>
  Per-stream receive backpressure (\<open>RecvState\<close>, \<open>RecvBudget\<close> and \<open>Admit\<close> of
  \<open>stream.rs\<close>). Both transitions run under one lock, so each is one atomic step. The
  counters keep their 64-bit width: the additions wrap as in a release build, and the
  invariant below shows they never do. \<open>publish\<close>, the closure \<open>admit\<close> runs as its last
  step, acts on a state \<open>'w\<close> of the caller.
\<close>

section \<open>Receive accounting\<close>

record recv_state =
  buffered :: usize
  units :: usize
  pend_outstanding :: bool
  pending_indication_len :: u64
  peak :: usize
  peak_units :: usize

definition recv_state_default :: recv_state where
  "recv_state_default = \<lparr>buffered = 0, units = 0, pend_outstanding = False,
     pending_indication_len = 0, peak = 0, peak_units = 0\<rparr>"

record recv_budget =
  rb_state :: recv_state
  rb_max_bytes :: usize
  rb_max_units :: usize

definition recv_budget_new :: "usize \<Rightarrow> usize \<Rightarrow> recv_budget" where
  "recv_budget_new max_bytes max_units =
     \<lparr>rb_state = recv_state_default, rb_max_bytes = max_bytes, rb_max_units = max_units\<rparr>"

definition recv_budget_default :: recv_budget where
  "recv_budget_default = recv_budget_new MAX_RECV_BUFFER DEFAULT_MAX_RECV_UNITS"

datatype admit_decision = Accepted | Pend | PublishFailed

text \<open>The increments and the pend decision, before \<open>publish\<close> runs.\<close>

definition admit_charge :: "usize \<Rightarrow> bool \<Rightarrow> recv_budget \<Rightarrow> recv_state \<times> bool" where
  "admit_charge tot charge_unit b =
     (let st = rb_state b;
          st = st\<lparr>buffered := buffered st + tot\<rparr>;
          st = (if peak st < buffered st then st\<lparr>peak := buffered st\<rparr> else st);
          st = (if charge_unit then
                  (let st = st\<lparr>units := units st + 1\<rparr>
                   in if peak_units st < units st then st\<lparr>peak_units := units st\<rparr> else st)
                else st);
          pend = (rb_max_bytes b \<le> buffered st \<or> rb_max_units b \<le> units st);
          st = (if pend then st\<lparr>pend_outstanding := True, pending_indication_len := tot\<rparr> else st)
      in (st, pend))"

definition admit ::
  "usize \<Rightarrow> bool \<Rightarrow> ('w \<Rightarrow> 'w \<times> bool) \<Rightarrow> recv_budget \<Rightarrow> 'w \<Rightarrow> recv_budget \<times> 'w \<times> admit_decision" where
  "admit tot charge_unit publish b w =
     (let prev = rb_state b;
          (st, pend) = admit_charge tot charge_unit b;
          (w', published) = publish w
      in if published then (b\<lparr>rb_state := st\<rparr>, w', if pend then Pend else Accepted)
         else (b\<lparr>rb_state := st\<lparr>buffered := buffered prev, units := units prev, peak := peak prev,
                  peak_units := peak_units prev, pend_outstanding := pend_outstanding prev,
                  pending_indication_len := pending_indication_len prev\<rparr>\<rparr>, w', PublishFailed))"

definition on_drained :: "usize \<Rightarrow> recv_budget \<Rightarrow> recv_budget \<times> u64 option" where
  "on_drained len b =
     (let st = rb_state b;
          st = st\<lparr>buffered := saturating_sub (buffered st) len\<rparr>;
          st = st\<lparr>units := saturating_sub (units st) 1\<rparr>
      in if pend_outstanding st \<and> buffered st < rb_max_bytes b \<and> units st < rb_max_units b then
           (b\<lparr>rb_state := st\<lparr>pend_outstanding := False, pending_indication_len := 0\<rparr>\<rparr>,
            Some (pending_indication_len st))
         else (b\<lparr>rb_state := st\<rparr>, None))"

section \<open>The pend protocol\<close>

text \<open>
  \<open>budget_reach B U n b q g\<close>: the budget \<open>b\<close> with caps \<open>B\<close> and \<open>U\<close> is reachable with the
  lengths \<open>q\<close> queued for the drain, every indication so far at most \<open>n\<close> bytes, and \<open>g\<close> the
  length of the indication whose completion is outstanding. MsQuic's contract is the guard of
  the three receive steps: no receive callback while an indication is pended. A drain delivers
  the oldest queued \<open>Data\<close>.
\<close>

inductive budget_reach ::
  "usize \<Rightarrow> usize \<Rightarrow> nat \<Rightarrow> recv_budget \<Rightarrow> usize list \<Rightarrow> u64 option \<Rightarrow> bool" for B U n where
  br_new: "budget_reach B U n (recv_budget_new B U) [] None"
| br_data: "budget_reach B U n b q None \<Longrightarrow> 0 < unat tot \<Longrightarrow> unat tot \<le> n \<Longrightarrow>
    admit tot True (\<lambda>_. ((), True)) b () = (b', u, a) \<Longrightarrow>
    budget_reach B U n b' (q @ [tot]) (if a = Pend then Some tot else None)"
| br_empty: "budget_reach B U n b q None \<Longrightarrow>
    admit 0 False (\<lambda>_. ((), True)) b () = (b', u, a) \<Longrightarrow>
    budget_reach B U n b' q (if a = Pend then Some 0 else None)"
| br_lost: "budget_reach B U n b q None \<Longrightarrow>
    admit tot c (\<lambda>_. ((), False)) b () = (b', u, a) \<Longrightarrow> budget_reach B U n b' q None"
| br_drain: "budget_reach B U n b (l # q) g \<Longrightarrow> on_drained l b = (b', r) \<Longrightarrow>
    budget_reach B U n b' q (if r = None then g else None)"

text \<open>Draining every queued \<open>Data\<close> in order, collecting the completions handed to the native stream.\<close>

fun drain_all :: "usize list \<Rightarrow> recv_budget \<Rightarrow> recv_budget \<times> u64 list" where
  "drain_all [] b = (b, [])"
| "drain_all (l # q) b =
     (let (b', r) = on_drained l b; (b'', rs) = drain_all q b'
      in (b'', (case r of None \<Rightarrow> rs | Some x \<Rightarrow> x # rs)))"

text \<open>The accounting invariant.\<close>

definition over_limit :: "recv_budget \<Rightarrow> bool" where
  "over_limit b \<longleftrightarrow> rb_max_bytes b \<le> buffered (rb_state b) \<or> rb_max_units b \<le> units (rb_state b)"

definition budget_inv :: "nat \<Rightarrow> recv_budget \<Rightarrow> usize list \<Rightarrow> u64 option \<Rightarrow> bool" where
  "budget_inv n b q g \<longleftrightarrow>
     unat (buffered (rb_state b)) = sum_list (map unat q) \<and>
     unat (units (rb_state b)) = length q \<and>
     (pend_outstanding (rb_state b) \<longleftrightarrow> over_limit b) \<and>
     g = (if pend_outstanding (rb_state b) then Some (pending_indication_len (rb_state b)) else None) \<and>
     buffered (rb_state b) \<le> peak (rb_state b) \<and> units (rb_state b) \<le> peak_units (rb_state b) \<and>
     unat (peak (rb_state b)) \<le> unat (rb_max_bytes b) - 1 + n \<and>
     unat (peak_units (rb_state b)) \<le> unat (rb_max_units b)"

declare admit_def [budget_defs] admit_charge_def [budget_defs] on_drained_def [budget_defs]
  Let_def [budget_defs] over_limit_def [budget_defs]

section \<open>Lemmas\<close>

lemma admit_lost:
  "\<not> snd (publish w) \<Longrightarrow> admit tot c publish b w = (b, fst (publish w), PublishFailed)"
  by (cases b; cases "rb_state b"; cases "publish w") (auto simp: budget_defs)

lemma admit_published:
  assumes "snd (publish w)"
  shows "admit tot c publish b w =
    (b\<lparr>rb_state := fst (admit_charge tot c b)\<rparr>, fst (publish w),
     if snd (admit_charge tot c b) then Pend else Accepted)"
  using assms by (cases "publish w") (simp add: admit_def split: prod.split)

lemma admit_charge_counts:
  "buffered (fst (admit_charge tot c b)) = buffered (rb_state b) + tot"
  "units (fst (admit_charge tot c b)) = (if c then units (rb_state b) + 1 else units (rb_state b))"
  by (simp_all add: admit_charge_def Let_def)

lemma admit_charge_peaks:
  "peak (fst (admit_charge tot c b)) =
     (if peak (rb_state b) < buffered (rb_state b) + tot then buffered (rb_state b) + tot
      else peak (rb_state b))"
  "peak_units (fst (admit_charge tot c b)) =
     (if c \<and> peak_units (rb_state b) < units (rb_state b) + 1 then units (rb_state b) + 1
      else peak_units (rb_state b))"
  by (simp_all add: admit_charge_def Let_def)

lemma admit_charge_pend:
  "snd (admit_charge tot c b) =
     (rb_max_bytes b \<le> buffered (rb_state b) + tot \<or>
      rb_max_units b \<le> (if c then units (rb_state b) + 1 else units (rb_state b)))"
  "pend_outstanding (fst (admit_charge tot c b)) =
     (pend_outstanding (rb_state b) \<or> snd (admit_charge tot c b))"
  "pending_indication_len (fst (admit_charge tot c b)) =
     (if snd (admit_charge tot c b) then tot else pending_indication_len (rb_state b))"
  by (simp_all add: admit_charge_def Let_def)

lemmas admit_charge_fields = admit_charge_counts admit_charge_peaks admit_charge_pend

lemma admit_caps:
  "rb_max_bytes (fst (admit tot c publish b w)) = rb_max_bytes b"
  "rb_max_units (fst (admit tot c publish b w)) = rb_max_units b"
  by (simp_all add: admit_def Let_def split: prod.split)

lemma on_drained_caps:
  "rb_max_bytes (fst (on_drained l b)) = rb_max_bytes b"
  "rb_max_units (fst (on_drained l b)) = rb_max_units b"
  by (simp_all add: on_drained_def Let_def)

lemma budget_inv_data:
  assumes "budget_inv n b q None" and "unat tot \<le> n" and "unat (rb_max_bytes b) + n < 2 ^ 64"
    and "rb_max_bytes b \<noteq> 0" and "rb_max_units b \<noteq> 0"
    and "charge = (0 < unat tot)"
    and r: "admit tot charge (\<lambda>_. ((), True)) b () = (b', u, a)"
  shows "budget_inv n b' (if charge then q @ [tot] else q) (if a = Pend then Some tot else None)"
proof -
  let ?s = "rb_state b"
  have under: "\<not> over_limit b" and pend: "\<not> pend_outstanding ?s"
    using assms(1) by (auto simp: budget_inv_def split: if_splits)
  have buf: "unat (buffered ?s + tot) = unat (buffered ?s) + unat tot"
    using under assms(2,3) by (intro unat_add_u64) (simp add: over_limit_def word_le_nat_alt)
  have uni: "unat (units ?s + 1) = unat (units ?s) + 1"
    using under unsigned_less [of "rb_max_units b", where ?'a = nat]
    by (subst unat_add_u64) (simp_all add: over_limit_def word_le_nat_alt)
  have b': "b' = b\<lparr>rb_state := fst (admit_charge tot charge b)\<rparr>"
    and a: "a = Pend \<longleftrightarrow> snd (admit_charge tot charge b)"
    using r by (auto simp: admit_published split: if_splits)
  have tot0: "unat tot = 0" if "\<not> charge" using that assms(6) by simp
  have old: "unat (buffered ?s) = sum_list (map unat q)" "unat (units ?s) = length q"
    "unat (buffered ?s) \<le> unat (peak ?s)" "unat (units ?s) \<le> unat (peak_units ?s)"
    "unat (peak ?s) \<le> unat (rb_max_bytes b) - 1 + n" "unat (peak_units ?s) \<le> unat (rb_max_units b)"
    using assms(1) by (simp_all add: budget_inv_def word_le_nat_alt)
  have lim: "unat (buffered ?s) < unat (rb_max_bytes b)" "unat (units ?s) < unat (rb_max_units b)"
    using under by (simp_all add: over_limit_def word_le_nat_alt not_le)
  then have fit: "sum_list (map unat q) + unat tot \<le> unat (rb_max_bytes b) + n - Suc 0"
    using old(1) assms(2) by linarith
  show ?thesis
    unfolding budget_inv_def b' a over_limit_def
    using pend buf uni tot0 old lim fit
    by (cases charge) (simp_all add: admit_charge_fields word_le_nat_alt word_less_nat_alt)
qed

lemma budget_inv_drain:
  assumes "budget_inv n b (l # q) g" and "on_drained l b = (b', r)"
  shows "budget_inv n b' q (if r = None then g else None)"
  using assms
  by (auto simp: budget_inv_def budget_defs unat_saturating_sub word_le_nat_alt word_less_nat_alt
      split: if_splits)

lemma budget_reach_caps:
  "budget_reach B U n b q g \<Longrightarrow> rb_max_bytes b = B \<and> rb_max_units b = U"
proof (induction rule: budget_reach.induct)
  case br_new
  show ?case by (simp add: recv_budget_new_def)
next
  case (br_data b q tot b' u a)
  then show ?case using admit_caps [of tot True "\<lambda>_. ((), True)" b "()"] by simp
next
  case (br_empty b q b' u a)
  then show ?case using admit_caps [of 0 False "\<lambda>_. ((), True)" b "()"] by simp
next
  case (br_lost b q tot c b' u a)
  then show ?case using admit_caps [of tot c "\<lambda>_. ((), False)" b "()"] by simp
next
  case (br_drain b l q g b' r)
  then show ?case using on_drained_caps [of l b] by simp
qed

lemma budget_reach_inv:
  assumes "budget_reach B U n b q g" and "unat B + n < 2 ^ 64" and "B \<noteq> 0" and "U \<noteq> 0"
  shows "budget_inv n b q g"
  using assms(1)
proof (induction rule: budget_reach.induct)
  case br_new
  show ?case
    using assms(3,4)
    by (simp add: budget_inv_def recv_budget_new_def recv_state_default_def over_limit_def word_le_nat_alt
        unat_eq_zero)
next
  case (br_data b q tot b' u a)
  then show ?case
    using budget_inv_data [of n b q tot True] budget_reach_caps [of B U n b] assms(2-4) by auto
next
  case (br_empty b q b' u a)
  then show ?case
    using budget_inv_data [of n b q 0 False] budget_reach_caps [of B U n b] assms(2-4) by auto
next
  case (br_lost b q tot c b' u a)
  then show ?case by (simp add: admit_lost)
next
  case (br_drain b l q g b' r)
  then show ?case using budget_inv_drain by blast
qed

lemma drain_all_completes:
  assumes "budget_inv n b q g" and "rb_max_bytes b \<noteq> 0" and "rb_max_units b \<noteq> 0"
  shows "snd (drain_all q b) = (case g of None \<Rightarrow> [] | Some x \<Rightarrow> [x]) \<and>
    budget_inv n (fst (drain_all q b)) [] None"
  using assms
proof (induction q arbitrary: b g)
  case Nil
  then have "\<not> over_limit b"
    by (auto simp: budget_inv_def over_limit_def word_le_nat_alt unat_eq_zero)
  with Nil show ?case by (auto simp: budget_inv_def)
next
  case (Cons l q)
  obtain b' r where d: "on_drained l b = (b', r)" by fastforce
  from budget_inv_drain [OF Cons.prems(1) d]
  have inv: "budget_inv n b' q (if r = None then g else None)" .
  have r: "r = None \<or> (\<exists>x. r = Some x \<and> g = Some x)"
    using Cons.prems(1) d by (auto simp: budget_inv_def budget_defs split: if_splits)
  from Cons.IH [OF inv] Cons.prems(2,3) on_drained_caps [of l b] d r show ?case
    by (auto split: prod.split)
qed

section \<open>Properties\<close>

text \<open>
  A failed hand-off leaves no trace. When the frontend is gone and \<open>publish\<close> fails,
  \<open>admit\<close> restores the byte count, the unit count, both watermarks and the pend fields exactly.
\<close>

theorem admit_rolls_back:
  assumes "\<not> snd (publish w)"
  shows "admit tot c publish b w = (b, fst (publish w), PublishFailed)"
  using assms by (rule admit_lost)

theorem admit_rolls_back_witness:
  "admit 7 True (\<lambda>w. (w, False)) recv_budget_default () = (recv_budget_default, (), PublishFailed)"
  using admit_rolls_back [of "\<lambda>w. (w, False)" "()" 7 True recv_budget_default] by simp

text \<open>
  Receive memory is bounded and exactly accounted. With nonzero caps and indications of
  at most \<open>n\<close> bytes, in every reachable state the byte counter is the total length of the
  queued data, the unit counter is the number of queued events, the peaks never pass
  \<open>max_bytes - 1 + n\<close> bytes (the budget plus one in-flight indication) and \<open>max_units\<close> units,
  and no counter wraps.
\<close>

theorem recv_budget_bounded:
  assumes "budget_reach B U n b q g" and "unat B + n < 2 ^ 64" and "B \<noteq> 0" and "U \<noteq> 0"
  shows "unat (buffered (rb_state b)) = sum_list (map unat q) \<and>
    unat (units (rb_state b)) = length q \<and>
    sum_list (map unat q) \<le> unat (peak (rb_state b)) \<and>
    unat (peak (rb_state b)) \<le> unat B - 1 + n \<and>
    length q \<le> unat (peak_units (rb_state b)) \<and>
    unat (peak_units (rb_state b)) \<le> unat U"
  using budget_reach_inv [OF assms] budget_reach_caps [OF assms(1)]
  by (auto simp: budget_inv_def word_le_nat_alt)

theorem recv_budget_bounded_witness:
  "unat (buffered (rb_state (fst (admit 6 True (\<lambda>_. ((), True)) (recv_budget_new 10 4) ())))) =
     sum_list (map unat [6 :: usize])"
proof -
  let ?r = "admit 6 True (\<lambda>_. ((), True)) (recv_budget_new 10 4) ()"
  obtain b' u a where r: "?r = (b', u, a)" by (cases ?r)
  have "budget_reach 10 4 8 b' ([] @ [6]) (if a = Pend then Some 6 else None)"
    by (rule br_data [OF br_new _ _ r]) simp_all
  from recv_budget_bounded [OF this] r show ?thesis by simp
qed

text \<open>
  C38: a pended stream is never stuck. A pend is outstanding exactly when a cap is reached;
  then data is queued, and draining everything queued completes the pended indication exactly
  once, with its full length, and leaves the stream unpaused. With no pend outstanding draining
  completes nothing.
\<close>

theorem pended_stream_rearms:
  assumes "budget_reach B U n b q g" and "unat B + n < 2 ^ 64" and "B \<noteq> 0" and "U \<noteq> 0"
  shows "(pend_outstanding (rb_state b) \<longleftrightarrow> over_limit b) \<and>
    (g \<noteq> None \<longleftrightarrow> pend_outstanding (rb_state b)) \<and>
    (g \<noteq> None \<longrightarrow> q \<noteq> []) \<and>
    snd (drain_all q b) = (case g of None \<Rightarrow> [] | Some len \<Rightarrow> [len]) \<and>
    \<not> pend_outstanding (rb_state (fst (drain_all q b)))"
proof -
  have inv: "budget_inv n b q g" by (rule budget_reach_inv [OF assms])
  have caps: "rb_max_bytes b \<noteq> 0" "rb_max_units b \<noteq> 0"
    using budget_reach_caps [OF assms(1)] assms(3,4) by simp_all
  have nonempty: "q \<noteq> []" if "g \<noteq> None"
  proof
    assume "q = []"
    with inv caps that show False
      by (auto simp: budget_inv_def over_limit_def word_le_nat_alt unat_eq_zero split: if_splits)
  qed
  from drain_all_completes [OF inv caps] inv nonempty show ?thesis
    by (auto simp: budget_inv_def)
qed

theorem pended_stream_rearms_witness:
  "snd (drain_all [12 :: usize] (fst (admit 12 True (\<lambda>_. ((), True)) (recv_budget_new 10 4) ()))) = [12]"
proof -
  let ?r = "admit 12 True (\<lambda>_. ((), True)) (recv_budget_new 10 4) ()"
  obtain b' u a where r: "?r = (b', u, a)" by (cases ?r)
  then have a: "a = Pend"
    by (auto simp: budget_defs recv_budget_new_def recv_state_default_def)
  have "budget_reach 10 4 20 b' ([] @ [12]) (if a = Pend then Some 12 else None)"
    by (rule br_data [OF br_new _ _ r]) simp_all
  from pended_stream_rearms [OF this] r a show ?thesis by simp
qed

text \<open>
  Under the default configuration the byte budget binds first for frames of at least 64
  bytes: with that many bytes in every queued event, a stream at its unit cap is also at its
  byte cap, so the unit cap never pauses a stream that the byte budget would not.
\<close>

theorem default_byte_budget_binds_first:
  assumes "budget_reach MAX_RECV_BUFFER DEFAULT_MAX_RECV_UNITS n b q g" and "n < 2 ^ 63"
    and "\<forall>l \<in> set q. 64 \<le> unat l"
  shows "pend_outstanding (rb_state b) \<longleftrightarrow> MAX_RECV_BUFFER \<le> buffered (rb_state b)"
proof -
  have caps: "MAX_RECV_BUFFER \<noteq> 0" "DEFAULT_MAX_RECV_UNITS \<noteq> 0"
    "unat MAX_RECV_BUFFER = 64 * 16384" "unat DEFAULT_MAX_RECV_UNITS = 16384"
    by (simp_all add: MAX_RECV_BUFFER_def DEFAULT_MAX_RECV_UNITS_def)
  have "unat MAX_RECV_BUFFER + n < 2 ^ 64" using assms(2) caps by simp
  from budget_reach_inv [OF assms(1) this caps(1,2)] have inv: "budget_inv n b q g" .
  have "64 * length q \<le> sum_list (map unat q)"
    using assms(3) by (induction q) auto
  with inv budget_reach_caps [OF assms(1)] caps show ?thesis
    by (auto simp: budget_inv_def over_limit_def word_le_nat_alt)
qed

theorem default_byte_budget_binds_first_witness:
  "\<not> pend_outstanding (rb_state (fst (admit 100 True (\<lambda>_. ((), True)) recv_budget_default ())))"
proof -
  let ?r = "admit 100 True (\<lambda>_. ((), True)) recv_budget_default ()"
  obtain b' u a where r: "?r = (b', u, a)" by (cases ?r)
  have "budget_reach MAX_RECV_BUFFER DEFAULT_MAX_RECV_UNITS 100 b' ([] @ [100]) (if a = Pend then Some 100 else None)"
    by (rule br_data [OF br_new _ _ r [unfolded recv_budget_default_def]]) simp_all
  from default_byte_budget_binds_first [OF this]
  have "pend_outstanding (rb_state b') \<longleftrightarrow> MAX_RECV_BUFFER \<le> buffered (rb_state b')" by simp
  moreover have "buffered (rb_state b') = 100"
    using r by (auto simp: admit_published admit_charge_counts recv_budget_default_def
        recv_budget_new_def recv_state_default_def)
  ultimately show ?thesis using r by (simp add: MAX_RECV_BUFFER_def)
qed

end
