(* ===== verification/H3_Stream.thy ===== *)
theory H3_Stream
  imports H3_Channels H3_Terminal H3_Buffer H3_Callback H3_Recv_Budget
begin

text \<open>
  The callback side of one stream (\<open>stream.rs\<close>): the context the FFI callback owns, the state
  it shares with the two frontend halves, \<open>stream_callback\<close> with one definition per event arm,
  the poison disposition, the panic recovery and the guarded handler that is registered with
  the native library.

  The state behind every \<open>Arc\<close> and channel of a stream is one record \<open>stream_world\<close>: the
  three channels, the send slot, the connection slot, the receive budget, the heap of boxed
  send buffers and a native state \<open>'n\<close> the model never looks into. A sender the context holds as an
  \<open>Option\<close> is a flag of the context (is it still \<open>Some\<close>?) and the channel of the world.
\<close>

section \<open>State\<close>

datatype receive_event =
    RE_Data bytes
  | RE_Fin
  | RE_Reset u64
  | RE_Connection connection_terminal
  | RE_Internal string

record ('o, 's, 'r) stream_env =
  se_status :: status_ops
  se_start :: "('o, (u64, status) result) oneshot"
  se_send :: "('s, send_event) mpsc"
  se_recv :: "('r, receive_event) mpsc"

record ('o, 's, 'r, 'n) stream_world =
  w_start :: 'o
  w_send :: 's
  w_recv :: 'r
  w_send_slot :: send_slot
  w_conn_slot :: conn_terminal_state
  w_budget :: recv_budget
  w_heap :: "nat \<Rightarrow> send_buffer option"
  w_next :: nat
  w_frees :: "nat list"
  w_native :: 'n

record stream_send_ctx =
  sx_start :: bool
  sx_send :: bool
  sx_receive :: bool
  receive_terminal_sent :: bool
  sx_poisoned :: bool

type_synonym ('o, 's, 'r, 'n) stream_st = "stream_send_ctx \<times> ('o, 's, 'r, 'n) stream_world"

text \<open>
  The native stream events with the fields the crate reads; a null \<open>client_context\<close> is 0, the
  receive flags are reduced to FIN, and every other event is \<open>SE_Other\<close>.
\<close>

datatype stream_event =
    SE_StartComplete status u64
  | SE_SendComplete bool nat
  | SE_Receive u64 "bytes list" bool
  | SE_PeerSendShutdown
  | SE_PeerSendAborted u64
  | SE_PeerReceiveAborted u64
  | SE_SendShutdownComplete bool
  | SE_ShutdownComplete bool bool bool u64 status
  | SE_Other

section \<open>Construction\<close>

text \<open>
  \<open>stream_ctx_channel_pre_id\<close>: fresh channels, a fresh send slot and a fresh budget from the
  connection's caps, around the connection's shared slot. The heap and the native state are the
  surroundings the new stream is created in.
\<close>

definition stream_ctx_new :: stream_send_ctx where
  "stream_ctx_new = \<lparr>sx_start = True, sx_send = True, sx_receive = True,
     receive_terminal_sent = False, sx_poisoned = False\<rparr>"

definition stream_ctx_channel_pre_id ::
  "('o, 's, 'r) stream_env \<Rightarrow> conn_terminal_state \<Rightarrow> h3_config \<Rightarrow> 'n \<Rightarrow> ('o, 's, 'r, 'n) stream_st" where
  "stream_ctx_channel_pre_id E conn_terminal config n =
     (stream_ctx_new,
      \<lparr>w_start = oneshot_new (se_start E), w_send = mpsc_new (se_send E), w_recv = mpsc_new (se_recv E),
       w_send_slot = new_send_terminal_slot, w_conn_slot = conn_terminal,
       w_budget = recv_budget_new (max_recv_bytes config) (max_recv_units config),
       w_heap = (\<lambda>_. None), w_next = 1, w_frees = [], w_native = n\<rparr>)"

section \<open>Boxes\<close>

text \<open>
  \<open>Box::into_raw\<close> yields a fresh non-null address; \<open>drop(Box::from_raw(p))\<close> removes the box and
  is recorded, so that reclaiming an address twice shows up as a repeated entry.
\<close>

definition box_into_raw :: "send_buffer \<Rightarrow> ('o, 's, 'r, 'n) stream_world \<Rightarrow> ('o, 's, 'r, 'n) stream_world \<times> nat" where
  "box_into_raw buf w =
     (w\<lparr>w_heap := (w_heap w)(w_next w \<mapsto> buf), w_next := Suc (w_next w)\<rparr>, w_next w)"

definition box_drop :: "nat \<Rightarrow> ('o, 's, 'r, 'n) stream_world \<Rightarrow> ('o, 's, 'r, 'n) stream_world" where
  "box_drop p w = w\<lparr>w_heap := (w_heap w)(p := None), w_frees := p # w_frees w\<rparr>"

section \<open>Channel ends held by the context\<close>

text \<open>\<open>if let Some(send) = ctx.send.as_ref() { let _ = send.unbounded_send(ev); }\<close>\<close>

definition ctx_send_event ::
  "('o, 's, 'r) stream_env \<Rightarrow> send_event \<Rightarrow> ('o, 's, 'r, 'n) stream_st \<Rightarrow> ('o, 's, 'r, 'n) stream_st" where
  "ctx_send_event E ev st =
     (let (c, w) = st in
      if sx_send c then (c, w\<lparr>w_send := fst (unbounded_send (se_send E) ev (w_send w))\<rparr>) else (c, w))"

text \<open>\<open>take()\<close> of the three senders: the sender, if still there, is dropped.\<close>

definition take_send ::
  "('o, 's, 'r) stream_env \<Rightarrow> ('o, 's, 'r, 'n) stream_st \<Rightarrow> ('o, 's, 'r, 'n) stream_st" where
  "take_send E st =
     (let (c, w) = st in
      if sx_send c then (c\<lparr>sx_send := False\<rparr>, w\<lparr>w_send := mpsc_drop_tx (se_send E) (w_send w)\<rparr>) else (c, w))"

definition take_receive ::
  "('o, 's, 'r) stream_env \<Rightarrow> ('o, 's, 'r, 'n) stream_st \<Rightarrow> ('o, 's, 'r, 'n) stream_st" where
  "take_receive E st =
     (let (c, w) = st in
      if sx_receive c then (c\<lparr>sx_receive := False\<rparr>, w\<lparr>w_recv := mpsc_drop_tx (se_recv E) (w_recv w)\<rparr>) else (c, w))"

definition take_start ::
  "('o, 's, 'r) stream_env \<Rightarrow> ('o, 's, 'r, 'n) stream_st \<Rightarrow> ('o, 's, 'r, 'n) stream_st" where
  "take_start E st =
     (let (c, w) = st in
      if sx_start c then (c\<lparr>sx_start := False\<rparr>, w\<lparr>w_start := oneshot_drop_tx (se_start E) (w_start w)\<rparr>) else (c, w))"

text \<open>\<open>if let Some(tx) = ctx.start.take() { let _ = tx.send(result); }\<close>\<close>

definition resolve_start ::
  "('o, 's, 'r) stream_env \<Rightarrow> (u64, status) result \<Rightarrow> ('o, 's, 'r, 'n) stream_st \<Rightarrow> ('o, 's, 'r, 'n) stream_st" where
  "resolve_start E res st =
     (let (c, w) = st in
      if sx_start c then (c\<lparr>sx_start := False\<rparr>, w\<lparr>w_start := oneshot_send (se_start E) res (w_start w)\<rparr>) else (c, w))"

text \<open>\<open>publish_send\<close> on the shared slot, its result discarded.\<close>

definition ctx_publish_send :: "send_terminal \<Rightarrow> ('o, 's, 'r, 'n) stream_st \<Rightarrow> ('o, 's, 'r, 'n) stream_st" where
  "ctx_publish_send t st =
     (let (c, w) = st in (c, w\<lparr>w_send_slot := fst (publish_send t (w_send_slot w))\<rparr>))"

definition publish_recv_terminal ::
  "('o, 's, 'r) stream_env \<Rightarrow> receive_event \<Rightarrow> ('o, 's, 'r, 'n) stream_st \<Rightarrow> ('o, 's, 'r, 'n) stream_st" where
  "publish_recv_terminal E ev st =
     (let (c, w) = st in
      if receive_terminal_sent c then (c, w)
      else let w = (if sx_receive c
                    then w\<lparr>w_recv := fst (unbounded_send (se_recv E) ev (w_recv w))\<rparr> else w)
           in take_receive E (c\<lparr>receive_terminal_sent := True\<rparr>, w))"

section \<open>The callback\<close>

definition cb_StartComplete ::
  "('o, 's, 'r) stream_env \<Rightarrow> status \<Rightarrow> u64 \<Rightarrow> ('o, 's, 'r, 'n) stream_st \<Rightarrow> ('o, 's, 'r, 'n) stream_st" where
  "cb_StartComplete E status sid st =
     resolve_start E (if status_is_ok (se_status E) status then Ok sid else Err status) st"

definition cb_SendComplete ::
  "('o, 's, 'r) stream_env \<Rightarrow> bool \<Rightarrow> nat \<Rightarrow> ('o, 's, 'r, 'n) stream_st \<Rightarrow> ('o, 's, 'r, 'n) stream_st" where
  "cb_SendComplete E cancelled client_context st =
     (if client_context \<noteq> 0 then
        ctx_send_event E (Complete cancelled) (fst st, box_drop client_context (snd st))
      else
        ctx_send_event E TerminalWake
          (ctx_publish_send (ST_Internal ''SendComplete missing client context'') st))"

definition publish_data ::
  "('o, 's, 'r) stream_env \<Rightarrow> bool \<Rightarrow> bytes \<Rightarrow> ('o, 's, 'r, 'n) stream_world \<Rightarrow> ('o, 's, 'r, 'n) stream_world \<times> bool" where
  "publish_data E has_sender b w =
     (if b = [] then (w, True)
      else if has_sender then
        (let (ch, sent) = unbounded_send (se_recv E) (RE_Data b) (w_recv w) in (w\<lparr>w_recv := ch\<rparr>, sent))
      else (w, False))"

definition cb_Receive ::
  "('o, 's, 'r) stream_env \<Rightarrow> bytes list \<Rightarrow> bool \<Rightarrow> ('o, 's, 'r, 'n) stream_st \<Rightarrow>
   ('o, 's, 'r, 'n) stream_st \<times> (unit, status) result" where
  "cb_Receive E bufs fin st =
     (let (c, w) = st;
          (st, pend) =
            (if \<not> receive_terminal_sent c \<and> sx_receive c then
               (let tot = of_nat (sum_list (map length bufs));
                    b = concat (filter (\<lambda>br. br \<noteq> []) bufs);
                    (bud, w', a) = admit tot (b \<noteq> []) (publish_data E (sx_receive c) b) (w_budget w) w;
                    st = (c, w'\<lparr>w_budget := bud\<rparr>)
                in case a of
                     Pend \<Rightarrow> (st, True)
                   | Accepted \<Rightarrow> (st, False)
                   | PublishFailed \<Rightarrow> (take_receive E st, False))
             else ((c, w), False));
          st = (if fin then publish_recv_terminal E RE_Fin st else st)
      in (st, if pend then Err (status_new (se_status E) QUIC_STATUS_PENDING) else Ok ()))"

definition cb_PeerReceiveAborted ::
  "('o, 's, 'r) stream_env \<Rightarrow> u64 \<Rightarrow> ('o, 's, 'r, 'n) stream_st \<Rightarrow> ('o, 's, 'r, 'n) stream_st" where
  "cb_PeerReceiveAborted E error_code st =
     ctx_send_event E TerminalWake (ctx_publish_send (ST_Stopped error_code) st)"

definition ctx_record_conn :: "connection_terminal \<Rightarrow> ('o, 's, 'r, 'n) stream_st \<Rightarrow> ('o, 's, 'r, 'n) stream_st" where
  "ctx_record_conn reason st =
     (let (c, w) = st in (c, w\<lparr>w_conn_slot := record_conn_terminal reason (w_conn_slot w)\<rparr>))"

definition cb_ShutdownComplete ::
  "('o, 's, 'r) stream_env \<Rightarrow> bool \<Rightarrow> bool \<Rightarrow> bool \<Rightarrow> u64 \<Rightarrow> status \<Rightarrow> ('o, 's, 'r, 'n) stream_st \<Rightarrow> ('o, 's, 'r, 'n) stream_st" where
  "cb_ShutdownComplete E connection_shutdown by_app closed_remotely error_code close_status st =
     (let st = (if connection_shutdown then
                  (let reason = classify_conn_shutdown (se_status E) by_app closed_remotely error_code close_status;
                       st = ctx_record_conn reason st;
                       st = publish_recv_terminal E (RE_Connection reason) st
                   in ctx_publish_send (ST_Connection reason) st)
                else st)
      in take_start E (take_send E (take_receive E st)))"

fun stream_callback ::
  "('o, 's, 'r) stream_env \<Rightarrow> stream_event \<Rightarrow> ('o, 's, 'r, 'n) stream_st \<Rightarrow>
   ('o, 's, 'r, 'n) stream_st \<times> (unit, status) result" where
  "stream_callback E (SE_StartComplete status sid) st = (cb_StartComplete E status sid st, Ok ())"
| "stream_callback E (SE_SendComplete cancelled cc) st = (cb_SendComplete E cancelled cc st, Ok ())"
| "stream_callback E (SE_Receive tbl bufs fin) st = cb_Receive E bufs fin st"
| "stream_callback E SE_PeerSendShutdown st = (publish_recv_terminal E RE_Fin st, Ok ())"
| "stream_callback E (SE_PeerSendAborted code) st = (publish_recv_terminal E (RE_Reset code) st, Ok ())"
| "stream_callback E (SE_PeerReceiveAborted code) st = (cb_PeerReceiveAborted E code st, Ok ())"
| "stream_callback E (SE_SendShutdownComplete graceful) st = (ctx_send_event E (FinishComplete graceful) st, Ok ())"
| "stream_callback E (SE_ShutdownComplete cs by_app remote code s) st =
     (cb_ShutdownComplete E cs by_app remote code s st, Ok ())"
| "stream_callback E SE_Other st = (st, Ok ())"

section \<open>Poison, recovery and the registered handler\<close>

fun stream_poison_disp :: "status_ops \<Rightarrow> stream_event \<Rightarrow> (unit, status) result" where
  "stream_poison_disp S (SE_ShutdownComplete _ _ _ _ _) = Ok ()"
| "stream_poison_disp S _ = Err (internal_error_status S)"

definition stream_recover ::
  "('o, 's, 'r) stream_env \<Rightarrow>
   (force_shutdown \<Rightarrow> u64 \<Rightarrow> 'n \<Rightarrow> 'n) \<Rightarrow>
   ('o, 's, 'r, 'n) stream_st \<Rightarrow> ('o, 's, 'r, 'n) stream_st \<times> (unit, status) result" where
  "stream_recover E seam st =
     (let (c, w) = st;
          st = (c, w\<lparr>w_native := seam (FS_Stream SHUTDOWN_ABORT) H3_INTERNAL_ERROR (w_native w)\<rparr>);
          st = ctx_publish_send (ST_Internal ''stream callback panicked'') st;
          st = ctx_send_event E TerminalWake st;
          st = take_send E st;
          st = publish_recv_terminal E (RE_Internal ''stream callback panicked'') st;
          (c, w) = resolve_start E (Err (internal_error_status (se_status E))) st
      in ((c\<lparr>sx_poisoned := True\<rparr>, w), Err (internal_error_status (se_status E))))"

text \<open>
  The closure \<open>attach\<close> and \<open>open_and_start\<close> register: the body under \<open>guard_callback\<close>.
  \<open>pan ev st = Some st'\<close> says the body panics on this event after reaching \<open>st'\<close>.
\<close>

definition stream_body ::
  "('o, 's, 'r) stream_env \<Rightarrow> (stream_event \<Rightarrow> ('o, 's, 'r, 'n) stream_st \<Rightarrow> ('o, 's, 'r, 'n) stream_st option) \<Rightarrow>
   stream_event \<Rightarrow> ('o, 's, 'r, 'n) stream_st \<Rightarrow> ('o, 's, 'r, 'n) stream_st \<times> (unit, status) result outcome" where
  "stream_body E pan ev st =
     (case pan ev st of
        Some st' \<Rightarrow> (st', Panicked)
      | None \<Rightarrow> (let (st', r) = stream_callback E ev st in (st', Returned r)))"

definition stream_handler ::
  "('o, 's, 'r) stream_env \<Rightarrow>
   (force_shutdown \<Rightarrow> u64 \<Rightarrow> 'n \<Rightarrow> 'n) \<Rightarrow>
   (stream_event \<Rightarrow> ('o, 's, 'r, 'n) stream_st \<Rightarrow> ('o, 's, 'r, 'n) stream_st option) \<Rightarrow>
   stream_event \<Rightarrow> ('o, 's, 'r, 'n) stream_st \<Rightarrow> ('o, 's, 'r, 'n) stream_st \<times> (unit, status) result" where
  "stream_handler E seam pan ev st =
     guard_callback (\<lambda>st. sx_poisoned (fst st)) (stream_poison_disp (se_status E) ev)
       (stream_body E pan ev) (stream_recover E seam) st"

text \<open>A run of callback events with no frontend activity in between.\<close>

fun stream_run ::
  "('o, 's, 'r) stream_env \<Rightarrow> stream_event list \<Rightarrow> ('o, 's, 'r, 'n) stream_st \<Rightarrow> ('o, 's, 'r, 'n) stream_st" where
  "stream_run E [] st = st"
| "stream_run E (ev # evs) st = stream_run E evs (fst (stream_callback E ev st))"

text \<open>
  What the receive half must be told, as a function of the native events alone: the non-empty
  indications in order, then the first terminal of the receive scope and nothing after it; a
  stream-local shutdown ends the sequence without a terminal.
\<close>

fun recv_out :: "status_ops \<Rightarrow> stream_event \<Rightarrow> receive_event list" where
  "recv_out S (SE_Receive tbl bufs fin) =
     (if concat bufs = [] then [] else [RE_Data (concat bufs)]) @ (if fin then [RE_Fin] else [])"
| "recv_out S SE_PeerSendShutdown = [RE_Fin]"
| "recv_out S (SE_PeerSendAborted code) = [RE_Reset code]"
| "recv_out S (SE_ShutdownComplete cs by_app remote code s) =
     (if cs then [RE_Connection (classify_conn_shutdown S by_app remote code s)] else [])"
| "recv_out S _ = []"

fun recv_ends :: "stream_event \<Rightarrow> bool" where
  "recv_ends (SE_Receive tbl bufs fin) = fin"
| "recv_ends SE_PeerSendShutdown = True"
| "recv_ends (SE_PeerSendAborted code) = True"
| "recv_ends (SE_ShutdownComplete cs by_app remote code s) = True"
| "recv_ends _ = False"

fun recv_spec :: "status_ops \<Rightarrow> stream_event list \<Rightarrow> receive_event list" where
  "recv_spec S [] = []"
| "recv_spec S (ev # evs) = recv_out S ev @ (if recv_ends ev then [] else recv_spec S evs)"

text \<open>The payload of the data events.\<close>

fun data_of :: "receive_event \<Rightarrow> bytes" where
  "data_of (RE_Data b) = b"
| "data_of _ = []"

fun is_data :: "receive_event \<Rightarrow> bool" where
  "is_data (RE_Data _) = True"
| "is_data _ = False"

fun indication :: "stream_event \<Rightarrow> bytes" where
  "indication (SE_Receive tbl bufs fin) = concat bufs"
| "indication _ = []"

text \<open>The events up to and including the first that ends the receive scope.\<close>

fun upto_end :: "stream_event list \<Rightarrow> stream_event list" where
  "upto_end [] = []"
| "upto_end (ev # evs) = ev # (if recv_ends ev then [] else upto_end evs)"

text \<open>
  The flags of the context agree with the channels it sends into, and once a receive terminal
  was published the receive sender is gone.
\<close>

definition ctx_sync ::
  "('r \<Rightarrow> bool) \<Rightarrow> ('s \<Rightarrow> bool) \<Rightarrow> ('o \<Rightarrow> bool) \<Rightarrow> ('o, 's, 'r, 'n) stream_st \<Rightarrow> bool" where
  "ctx_sync rtx stx alive st \<longleftrightarrow>
     sx_receive (fst st) = rtx (w_recv (snd st)) \<and> sx_send (fst st) = stx (w_send (snd st)) \<and>
     sx_start (fst st) = alive (w_start (snd st)) \<and>
     (receive_terminal_sent (fst st) \<longrightarrow> \<not> sx_receive (fst st))"

text \<open>A reference environment for concrete evaluations.\<close>

definition ref_env ::
  "((u64, status) result cell, send_event fifo, receive_event fifo) stream_env" where
  "ref_env = \<lparr>se_status = ref_status, se_start = cell_oneshot, se_send = fifo_mpsc, se_recv = fifo_mpsc\<rparr>"

declare box_into_raw_def [stream_defs] box_drop_def [stream_defs] ctx_send_event_def [stream_defs]
  take_send_def [stream_defs] take_receive_def [stream_defs] take_start_def [stream_defs]
  resolve_start_def [stream_defs] ctx_publish_send_def [stream_defs]
  publish_recv_terminal_def [stream_defs] cb_StartComplete_def [stream_defs]
  cb_SendComplete_def [stream_defs] publish_data_def [stream_defs]
  cb_PeerReceiveAborted_def [stream_defs] ctx_record_conn_def [stream_defs]
  cb_ShutdownComplete_def [stream_defs] Let_def [stream_defs]

section \<open>Lemmas\<close>

lemma ref_env_simps [simp]:
  "se_status ref_env = ref_status" "se_start ref_env = cell_oneshot"
  "se_send ref_env = fifo_mpsc" "se_recv ref_env = fifo_mpsc"
  by (simp_all add: ref_env_def)

lemma concat_filter_nonempty [simp]: "concat (filter (\<lambda>b. b \<noteq> []) bs) = concat bs"
  by (induction bs) auto

lemma length_concat_sum: "length (concat bs) = sum_list (map length bs)"
  by (induction bs) auto

lemma publish_definitive:
  "\<not> send_is_provisional c \<Longrightarrow> definitive (fst (publish_send c s)) \<noteq> None"
  by (auto simp: publish_send_def definitive_def split: option.split)

lemma take_receive_idle: "\<not> sx_receive c \<Longrightarrow> take_receive E (c, w) = (c, w)"
  by (simp add: take_receive_def)

text \<open>
  The receive arm on an open receive scope: what the channel and the budget see is exactly
  \<open>publish_data\<close> under \<open>admit\<close>.
\<close>

lemma cb_Receive_open:
  assumes "\<not> receive_terminal_sent c" and "sx_receive c"
    and "admit (of_nat (sum_list (map length bufs))) (concat bufs \<noteq> [])
          (publish_data E True (concat bufs)) (w_budget w) w = (bud, w', a)"
  shows "cb_Receive E bufs fin (c, w) =
    ((if fin then publish_recv_terminal E RE_Fin else (\<lambda>st. st))
       (if a = PublishFailed then take_receive E (c, w'\<lparr>w_budget := bud\<rparr>) else (c, w'\<lparr>w_budget := bud\<rparr>)),
     if a = Pend then Err (status_new (se_status E) QUIC_STATUS_PENDING) else Ok ())"
  using assms by (cases a) (simp_all add: cb_Receive_def)

lemma cb_Receive_closed:
  assumes "receive_terminal_sent c \<or> \<not> sx_receive c"
  shows "cb_Receive E bufs fin (c, w) =
    ((if fin then publish_recv_terminal E RE_Fin else (\<lambda>st. st)) (c, w), Ok ())"
  using assms by (auto simp: cb_Receive_def)

text \<open>What an admission can do to the world outside the budget.\<close>

lemma publish_data_frame:
  "fst (publish_data E h b w) = w\<lparr>w_recv := w_recv (fst (publish_data E h b w))\<rparr>"
  by (simp add: publish_data_def split: prod.split)

lemma admit_world: "fst (snd (admit t u p b w)) = fst (p w)"
  by (simp add: admit_def Let_def split: prod.split)

lemma admit_failed_iff: "snd (snd (admit t u p b w)) = PublishFailed \<longleftrightarrow> \<not> snd (p w)"
  by (cases "p w") (simp add: admit_def Let_def split: prod.split)

lemma cb_Receive_frame:
  assumes "cb_Receive E bufs fin (c, w) = ((c', w'), r)"
  shows "sx_start c' = sx_start c \<and> sx_send c' = sx_send c \<and> sx_poisoned c' = sx_poisoned c \<and>
    w' = w\<lparr>w_recv := w_recv w', w_budget := w_budget w'\<rparr>"
proof (cases "receive_terminal_sent c \<or> \<not> sx_receive c")
  case True
  with assms show ?thesis
    by (cases w) (auto simp: cb_Receive_closed publish_recv_terminal_def take_receive_def split: if_splits)
next
  case False
  obtain bud w1 a where ad: "admit (of_nat (sum_list (map length bufs))) (concat bufs \<noteq> [])
      (publish_data E True (concat bufs)) (w_budget w) w = (bud, w1, a)"
    by (metis prod_cases3)
  then obtain ch where w1: "w1 = w\<lparr>w_recv := ch\<rparr>"
    using admit_world [of _ _ "publish_data E True (concat bufs)" "w_budget w" w]
      publish_data_frame [of E True "concat bufs" w] by (metis fst_conv snd_conv)
  show ?thesis
    using assms False
    by (auto simp: cb_Receive_open [OF _ _ ad] w1 publish_recv_terminal_def take_receive_def split: if_splits)
qed

section \<open>The callback over its channels\<close>

text \<open>
  What the callback side relies on: the three channels behave as documented. The facts below
  hold for every such environment.
\<close>

locale stream_channels =
  recv: mpsc_channel "se_recv E" rq rtx rrx rpark +
  send: mpsc_channel "se_send E" sq stx srx spark +
  start: oneshot_channel "se_start E" content alive waiting
  for E :: "('o, 's, 'r) stream_env" and rq rtx rrx rpark sq stx srx spark content alive waiting
begin

lemma take_receive_view:
  "w_recv (snd (take_receive E (c, w))) = (if sx_receive c then mpsc_drop_tx (se_recv E) (w_recv w) else w_recv w)"
  "fst (take_receive E (c, w)) = c\<lparr>sx_receive := False\<rparr>"
  by (simp_all add: take_receive_def)

lemma pre_id_sync: "ctx_sync rtx stx alive (stream_ctx_channel_pre_id E conn cfg n)"
  by (simp add: ctx_sync_def stream_ctx_channel_pre_id_def stream_ctx_new_def recv.new_view
      send.new_view start.one_new)

lemma publish_recv_terminal_sync:
  assumes "ctx_sync rtx stx alive (c, w)"
  shows "ctx_sync rtx stx alive (publish_recv_terminal E ev (c, w))"
    and "sx_receive (fst (publish_recv_terminal E ev (c, w))) = False"
    and "rrx (w_recv w) \<Longrightarrow> rrx (w_recv (snd (publish_recv_terminal E ev (c, w))))"
    and "rrx (w_recv w) \<Longrightarrow> rq (w_recv (snd (publish_recv_terminal E ev (c, w)))) =
      rq (w_recv w) @ (if sx_receive c then [ev] else [])"
  using assms
  by (auto simp: ctx_sync_def publish_recv_terminal_def take_receive_def Let_def recv.drop_tx_view
      recv.send_view)

lemma publish_data_view:
  assumes "rtx (w_recv w)" and "rrx (w_recv w)"
  shows "snd (publish_data E True b w)" and "rtx (w_recv (fst (publish_data E True b w)))"
    and "rrx (w_recv (fst (publish_data E True b w)))"
    and "rq (w_recv (fst (publish_data E True b w))) = rq (w_recv w) @ (if b = [] then [] else [RE_Data b])"
  using assms by (auto simp: publish_data_def recv.send_view case_prod_beta)

lemma cb_Receive_step:
  assumes sync: "ctx_sync rtx stx alive (c, w)" and rx: "rrx (w_recv w)"
    and r: "cb_Receive E bufs fin (c, w) = ((c', w'), res)"
  shows "ctx_sync rtx stx alive (c', w') \<and> rrx (w_recv w') \<and> sx_receive c' = (sx_receive c \<and> \<not> fin) \<and>
    rq (w_recv w') = rq (w_recv w) @ (if sx_receive c then recv_out (se_status E) (SE_Receive n bufs fin) else [])"
proof (cases "sx_receive c")
  case False
  then show ?thesis
    using r sync rx publish_recv_terminal_sync [OF sync, of RE_Fin]
    by (simp add: cb_Receive_closed split: if_splits)
next
  case True
  with sync have open_scope: "\<not> receive_terminal_sent c" "rtx (w_recv w)"
    by (auto simp: ctx_sync_def)
  obtain bud w1 a where ad: "admit (of_nat (sum_list (map length bufs))) (concat bufs \<noteq> [])
      (publish_data E True (concat bufs)) (w_budget w) w = (bud, w1, a)"
    by (metis prod_cases3)
  have w1: "w1 = fst (publish_data E True (concat bufs) w)"
    using admit_world [of _ _ "publish_data E True (concat bufs)" "w_budget w" w] ad
    by (metis fst_conv snd_conv)
  have a: "a \<noteq> PublishFailed"
    using admit_failed_iff [of _ _ "publish_data E True (concat bufs)" "w_budget w" w] ad
      publish_data_view(1) [OF open_scope(2) rx] by (metis snd_conv)
  let ?w2 = "w1\<lparr>w_budget := bud\<rparr>"
  have frame: "w_send w1 = w_send w" "w_start w1 = w_start w"
    using publish_data_frame [of E True "concat bufs" w] unfolding w1
    by (metis stream_world.select_convs stream_world.surjective stream_world.update_convs(3))+
  have sync2: "ctx_sync rtx stx alive (c, ?w2)"
    using sync open_scope(1) True publish_data_view(2) [OF open_scope(2) rx] frame
    by (simp add: ctx_sync_def w1)
  have q2: "rq (w_recv ?w2) = rq (w_recv w) @ (if concat bufs = [] then [] else [RE_Data (concat bufs)])"
    and rx2: "rrx (w_recv ?w2)"
    using publish_data_view(3,4) [OF open_scope(2) rx] by (simp_all add: w1)
  show ?thesis
    using r a sync2 q2 rx2 True publish_recv_terminal_sync [OF sync2, of RE_Fin]
    by (auto simp: cb_Receive_open [OF open_scope(1) True ad] split: if_splits)
qed

text \<open>Dropping all three senders closes the context's ends and leaves the queued items.\<close>

lemma take_all_view:
  assumes "ctx_sync rtx stx alive st"
  shows "ctx_sync rtx stx alive (take_start E (take_send E (take_receive E st)))"
    and "fst (take_start E (take_send E (take_receive E st))) =
      (fst st)\<lparr>sx_start := False, sx_send := False, sx_receive := False\<rparr>"
    and "rq (w_recv (snd (take_start E (take_send E (take_receive E st))))) = rq (w_recv (snd st))"
    and "rrx (w_recv (snd (take_start E (take_send E (take_receive E st))))) = rrx (w_recv (snd st))"
  using assms
  by (cases st, cases "sx_receive (fst st)"; cases "sx_send (fst st)"; cases "sx_start (fst st)";
      simp add: take_start_def take_send_def take_receive_def ctx_sync_def recv.drop_tx_view
        send.drop_tx_view start.one_drop)+

lemma slot_writes_sync:
  "ctx_sync rtx stx alive (ctx_publish_send t st) = ctx_sync rtx stx alive st"
  "ctx_sync rtx stx alive (ctx_record_conn t' st) = ctx_sync rtx stx alive st"
  "fst (ctx_publish_send t st) = fst st" "fst (ctx_record_conn t' st) = fst st"
  "w_recv (snd (ctx_publish_send t st)) = w_recv (snd st)"
  "w_recv (snd (ctx_record_conn t' st)) = w_recv (snd st)"
  by (cases st; simp add: ctx_publish_send_def ctx_record_conn_def ctx_sync_def)+

lemma ctx_send_event_frame:
  "ctx_sync rtx stx alive st \<Longrightarrow> ctx_sync rtx stx alive (ctx_send_event E e st)"
  "fst (ctx_send_event E e st) = fst st"
  "w_recv (snd (ctx_send_event E e st)) = w_recv (snd st)"
proof -
  obtain c w where st: "st = (c, w)" by fastforce
  show "ctx_sync rtx stx alive st \<Longrightarrow> ctx_sync rtx stx alive (ctx_send_event E e st)"
    using send.send_tx [of "w_send w" e] by (auto simp: st ctx_send_event_def ctx_sync_def)
  show "fst (ctx_send_event E e st) = fst st" "w_recv (snd (ctx_send_event E e st)) = w_recv (snd st)"
    by (simp_all add: st ctx_send_event_def)
qed

lemma box_drop_sync:
  "ctx_sync rtx stx alive (c, box_drop p w) = ctx_sync rtx stx alive (c, w)"
  "w_recv (box_drop p w) = w_recv w"
  by (simp_all add: box_drop_def ctx_sync_def)

lemma cb_ShutdownComplete_step:
  assumes "ctx_sync rtx stx alive st" and "rrx (w_recv (snd st))"
  shows "ctx_sync rtx stx alive (cb_ShutdownComplete E cs a r e s st) \<and>
    rrx (w_recv (snd (cb_ShutdownComplete E cs a r e s st))) \<and>
    \<not> sx_receive (fst (cb_ShutdownComplete E cs a r e s st)) \<and>
    rq (w_recv (snd (cb_ShutdownComplete E cs a r e s st))) = rq (w_recv (snd st)) @
      (if sx_receive (fst st) then recv_out (se_status E) (SE_ShutdownComplete cs a r e s) else [])"
proof -
  let ?t = "classify_conn_shutdown (se_status E) a r e s"
  obtain c w where rc: "ctx_record_conn ?t st = (c, w)" by fastforce
  with assms slot_writes_sync(2,4,6) [of ?t st] have cw: "ctx_sync rtx stx alive (c, w)" "rrx (w_recv w)"
    "c = fst st" "w_recv w = w_recv (snd st)" by (metis fst_conv snd_conv)+
  let ?m = "ctx_publish_send (ST_Connection ?t) (publish_recv_terminal E (RE_Connection ?t) (c, w))"
  have m: "ctx_sync rtx stx alive ?m" "rrx (w_recv (snd ?m))"
    "rq (w_recv (snd ?m)) = rq (w_recv (snd st)) @ (if sx_receive (fst st) then [RE_Connection ?t] else [])"
    using publish_recv_terminal_sync [OF cw(1), of "RE_Connection ?t"] cw by (simp_all add: slot_writes_sync)
  show ?thesis
    using take_all_view [OF m(1)] take_all_view [OF assms(1)] m(2,3) assms(2)
    by (simp add: cb_ShutdownComplete_def Let_def rc)
qed

text \<open>One callback event, on every branch: the receive queue grows by what the event must tell.\<close>

lemma stream_callback_step:
  assumes sync: "ctx_sync rtx stx alive (c, w)" and rx: "rrx (w_recv w)"
    and r: "stream_callback E ev (c, w) = ((c', w'), res)"
  shows "ctx_sync rtx stx alive (c', w') \<and> rrx (w_recv w') \<and>
    sx_receive c' = (sx_receive c \<and> \<not> recv_ends ev) \<and>
    rq (w_recv w') = rq (w_recv w) @ (if sx_receive c then recv_out (se_status E) ev else [])"
proof (cases ev)
  case (SE_Receive n bufs fin)
  with cb_Receive_step [OF sync rx, of bufs fin c' w' res n] r show ?thesis by simp
next
  case SE_PeerSendShutdown
  with r publish_recv_terminal_sync [OF sync, of RE_Fin] rx show ?thesis by auto
next
  case (SE_PeerSendAborted code)
  with r publish_recv_terminal_sync [OF sync, of "RE_Reset code"] rx show ?thesis by auto
next
  case (SE_ShutdownComplete cs by_app remote code s)
  with r cb_ShutdownComplete_step [OF sync, of cs by_app remote code s] rx show ?thesis by simp
next
  case (SE_SendComplete cancelled cc)
  with r sync rx ctx_send_event_frame(1) [of "(c, box_drop cc w)"] show ?thesis
    by (simp add: cb_SendComplete_def ctx_send_event_frame slot_writes_sync box_drop_sync split: if_splits)
      (metis ctx_send_event_frame slot_writes_sync box_drop_sync fst_conv snd_conv sync)+
next
  case (SE_StartComplete s sid)
  with r sync rx show ?thesis
    by (cases "sx_start c") (auto simp: cb_StartComplete_def resolve_start_def ctx_sync_def start.one_send)
next
  case (SE_PeerReceiveAborted code)
  with r sync rx show ?thesis
    by (simp add: cb_PeerReceiveAborted_def)
      (metis ctx_send_event_frame slot_writes_sync fst_conv snd_conv sync)
next
  case (SE_SendShutdownComplete graceful)
  with r sync rx show ?thesis
    by simp (metis ctx_send_event_frame fst_conv snd_conv sync)
next
  case SE_Other
  with r sync rx show ?thesis by simp
qed

lemma stream_run_recv:
  assumes "ctx_sync rtx stx alive st" and "rrx (w_recv (snd st))"
  shows "ctx_sync rtx stx alive (stream_run E evs st) \<and> rrx (w_recv (snd (stream_run E evs st))) \<and>
    rq (w_recv (snd (stream_run E evs st))) =
      rq (w_recv (snd st)) @ (if sx_receive (fst st) then recv_spec (se_status E) evs else [])"
  using assms
proof (induction evs arbitrary: st)
  case (Cons ev evs)
  obtain c w where st: "st = (c, w)" by fastforce
  obtain c' w' res where r: "stream_callback E ev (c, w) = ((c', w'), res)" by (metis prod.exhaust)
  from stream_callback_step [OF _ _ r] Cons.prems st
  have step: "ctx_sync rtx stx alive (c', w')" "rrx (w_recv w')"
    "sx_receive c' = (sx_receive c \<and> \<not> recv_ends ev)"
    "rq (w_recv w') = rq (w_recv w) @ (if sx_receive c then recv_out (se_status E) ev else [])" by simp_all
  from Cons.IH [of "(c', w')"] step show ?case by (simp add: st r)
qed simp

text \<open>
  The recovery from a panic, whatever state the body had reached: every sender is gone, so no
  poller of the three channels can stay pending, and the connection slot is not touched.
\<close>

lemma stream_recover_view:
  assumes sync: "ctx_sync rtx stx alive (c, w)" and r: "stream_recover E seam (c, w) = ((c', w'), res)"
  shows "\<not> rtx (w_recv w') \<and> \<not> stx (w_send w') \<and> \<not> alive (w_start w') \<and> sx_poisoned c' \<and>
    res = Err (internal_error_status (se_status E)) \<and>
    w_conn_slot w' = w_conn_slot w \<and> w_budget w' = w_budget w \<and> w_heap w' = w_heap w \<and>
    definitive (w_send_slot w') \<noteq> None \<and>
    (rrx (w_recv w) \<longrightarrow> rq (w_recv w') =
       rq (w_recv w) @ (if sx_receive c then [RE_Internal ''stream callback panicked''] else [])) \<and>
    (sx_start c \<longrightarrow> content (w_start w') = Some (Err (internal_error_status (se_status E)))) \<and>
    w_native w' = seam (FS_Stream SHUTDOWN_ABORT) H3_INTERNAL_ERROR (w_native w)"
proof -
  let ?slot = "fst (publish_send (ST_Internal ''stream callback panicked'') (w_send_slot w))"
  have slot: "definitive ?slot \<noteq> None" by (rule publish_definitive) simp
  from sync have flags: "sx_receive c = rtx (w_recv w)" "sx_send c = stx (w_send w)"
    "sx_start c = alive (w_start w)" "receive_terminal_sent c \<Longrightarrow> \<not> sx_receive c"
    by (auto simp: ctx_sync_def)
  show ?thesis
    using r slot flags(4)
    by (cases "sx_receive c"; cases "sx_send c"; cases "sx_start c"; cases "receive_terminal_sent c")
      (auto simp: stream_recover_def ctx_publish_send_def ctx_send_event_def take_send_def
        publish_recv_terminal_def take_receive_def resolve_start_def Let_def flags recv.drop_tx_view
        send.drop_tx_view start.one_send recv.send_queue)
qed

end

interpretation ref_stream: stream_channels ref_env fifo_items fifo_tx fifo_rx fifo_parked
    fifo_items fifo_tx fifo_rx fifo_parked cell_value cell_tx cell_waiting
  unfolding stream_channels_def ref_env_simps
  by (simp add: fifo.mpsc_channel_axioms cell.oneshot_channel_axioms)

section \<open>The handler as a guarded class\<close>

lemma publish_recv_terminal_poison [simp]:
  "sx_poisoned (fst (publish_recv_terminal E ev st)) = sx_poisoned (fst st)"
  by (cases st) (simp add: publish_recv_terminal_def take_receive_def Let_def)

lemma stream_callback_poison:
  "stream_callback E ev st = (st', r) \<Longrightarrow> sx_poisoned (fst st') = sx_poisoned (fst st)"
proof (induction E ev st rule: stream_callback.induct)
  case (3 E tbl bufs fin st)
  then show ?case using cb_Receive_frame [of E bufs fin "fst st" "snd st" "fst st'" "snd st'" r] by simp
next
  case (8 E cs by_app remote code s st)
  have t: "sx_poisoned (fst (take_start E (take_send E (take_receive E st)))) = sx_poisoned (fst st)" for st :: "('a, 'b, 'c, 'd) stream_st"
    by (cases st) (simp add: take_start_def take_send_def take_receive_def)
  have u: "sx_poisoned (fst (ctx_publish_send x st)) = sx_poisoned (fst st)"
    "sx_poisoned (fst (ctx_record_conn y st)) = sx_poisoned (fst st)" for x y and st :: "('a, 'b, 'c, 'd) stream_st"
    by (cases st; simp add: ctx_publish_send_def ctx_record_conn_def)+
  from 8 show ?case by (auto simp: cb_ShutdownComplete_def Let_def t u split: if_splits)
qed (auto simp: cb_StartComplete_def resolve_start_def cb_SendComplete_def ctx_send_event_def
    ctx_publish_send_def cb_PeerReceiveAborted_def split: if_splits prod.splits)

interpretation stream_cb: guarded_class "\<lambda>st. sx_poisoned (fst st)" "stream_poison_disp (se_status E)"
    "stream_body E pan" "\<lambda>_. stream_recover E seam"
  for E :: "('o, 's, 'r) stream_env" and seam :: "force_shutdown \<Rightarrow> u64 \<Rightarrow> 'n \<Rightarrow> 'n"
    and pan :: "stream_event \<Rightarrow> ('o, 's, 'r, 'n) stream_st \<Rightarrow> ('o, 's, 'r, 'n) stream_st option"
proof unfold_locales
  show "sx_poisoned (fst (fst (stream_recover E seam c)))" for c :: "('o, 's, 'r, 'n) stream_st"
    by (simp add: stream_recover_def Let_def split: prod.split)
  show "sx_poisoned (fst c') = sx_poisoned (fst c)" if "stream_body E pan e c = (c', Returned r)" for e c c' r
    using that by (auto simp: stream_body_def split: option.splits prod.splits dest: stream_callback_poison)
qed

section \<open>The receive specification\<close>

lemma recv_out_shape:
  "\<exists>ds ts. recv_out S ev = map RE_Data ds @ ts \<and> concat ds = indication ev \<and> [] \<notin> set ds \<and>
     (\<forall>t \<in> set ts. \<not> is_data t) \<and> length ts \<le> 1 \<and> (\<not> recv_ends ev \<longrightarrow> ts = [])"
proof (cases ev)
  case (SE_Receive tbl bufs fin)
  show ?thesis
    by (rule exI [of _ "if concat bufs = [] then [] else [concat bufs]"], rule exI [of _ "if fin then [RE_Fin] else []"])
      (auto simp: SE_Receive)
qed (rule exI [of _ "[]"], rule exI [of _ "recv_out S ev"], simp)+

lemma recv_spec_shape:
  "\<exists>ds ts. recv_spec S evs = map RE_Data ds @ ts \<and> concat ds = concat (map indication (upto_end evs)) \<and>
     [] \<notin> set ds \<and> (\<forall>t \<in> set ts. \<not> is_data t) \<and> length ts \<le> 1"
proof (induction evs)
  case (Cons ev evs)
  obtain ds ts where out: "recv_out S ev = map RE_Data ds @ ts" "concat ds = indication ev" "[] \<notin> set ds"
    "\<forall>t \<in> set ts. \<not> is_data t" "length ts \<le> 1" "\<not> recv_ends ev \<Longrightarrow> ts = []"
    using recv_out_shape [of S ev] by blast
  obtain ds' ts' where ih: "recv_spec S evs = map RE_Data ds' @ ts'"
    "concat ds' = concat (map indication (upto_end evs))" "[] \<notin> set ds'"
    "\<forall>t \<in> set ts'. \<not> is_data t" "length ts' \<le> 1"
    using Cons.IH by blast
  show ?case
  proof (cases "recv_ends ev")
    case True
    then show ?thesis using out by (intro exI [of _ ds] exI [of _ ts]) simp
  next
    case False
    with out ih show ?thesis by (intro exI [of _ "ds @ ds'"] exI [of _ ts']) auto
  qed
qed simp

section \<open>Properties\<close>

text \<open>
  C26: the receive half is told exactly what the native events say. For every run of callback
  events on a fresh stream whose receiver is alive, the receive queue is the specified sequence:
  every non-empty indication as one data event, in order and byte for byte, up to the first event
  that ends the receive scope, then at most one terminal and nothing after it.
\<close>

theorem receive_queue_refines_spec:
  assumes "stream_channels E rq rtx rrx rpark sq stx srx spark content alive waiting"
  shows "rq (w_recv (snd (stream_run E evs (stream_ctx_channel_pre_id E conn cfg n)))) =
      recv_spec (se_status E) evs \<and>
    (\<exists>ds ts. recv_spec (se_status E) evs = map RE_Data ds @ ts \<and>
       concat ds = concat (map indication (upto_end evs)) \<and> [] \<notin> set ds \<and>
       (\<forall>t \<in> set ts. \<not> is_data t) \<and> length ts \<le> 1)"
proof -
  note L = assms [THEN stream_channels.axioms(1)]
  let ?st = "stream_ctx_channel_pre_id E conn cfg n"
  have "rrx (w_recv (snd ?st))" "rq (w_recv (snd ?st)) = []" "sx_receive (fst ?st)"
    using mpsc_channel.new_view [OF L] by (simp_all add: stream_ctx_channel_pre_id_def stream_ctx_new_def)
  with stream_channels.stream_run_recv [OF assms stream_channels.pre_id_sync [OF assms], of conn cfg n evs]
  show ?thesis using recv_spec_shape by simp
qed

theorem receive_queue_refines_spec_witness:
  "fifo_items (w_recv (snd (stream_run ref_env
      [SE_Receive 3 [[1, 2], [], [3]] False, SE_Receive 0 [] False, SE_Receive 1 [[4]] True, SE_PeerSendShutdown]
      (stream_ctx_channel_pre_id ref_env conn_terminal_default h3_config_default ())))) =
   [RE_Data [1, 2, 3], RE_Data [4], RE_Fin]"
  using receive_queue_refines_spec [OF ref_stream.stream_channels_axioms,
      of "[SE_Receive 3 [[1, 2], [], [3]] False, SE_Receive 0 [] False, SE_Receive 1 [[4]] True, SE_PeerSendShutdown]"
        conn_terminal_default h3_config_default "()"]
  by simp

text \<open>
  C29: a panic in the stream callback is contained. Whatever state the body had reached, the
  handler answers \<open>INTERNAL_ERROR\<close>, aborts the stream, closes all three channels (so no sender,
  receiver or opener stays pending), leaves a definitive send terminal, resolves a pending opener
  with an error, appends one internal terminal to an open receive scope, and leaves the shared
  connection slot as the body left it; every later event is inert and gets its poison disposition.
\<close>

theorem stream_panic_contained:
  assumes "stream_channels E rq rtx rrx rpark sq stx srx spark content alive waiting"
    and "\<not> sx_poisoned (fst st)" and "pan ev st = Some (c, w)" and "ctx_sync rtx stx alive (c, w)"
  shows "\<exists>c' w'. guarded_run (\<lambda>st. sx_poisoned (fst st)) (stream_poison_disp (se_status E)) (stream_body E pan)
        (\<lambda>_. stream_recover E seam) (ev # evs) st =
      ((c', w'), Err (internal_error_status (se_status E)) # map (stream_poison_disp (se_status E)) evs) \<and>
    \<not> rtx (w_recv w') \<and> \<not> stx (w_send w') \<and> \<not> alive (w_start w') \<and>
    w_conn_slot w' = w_conn_slot w \<and> definitive (w_send_slot w') \<noteq> None \<and>
    (sx_start c \<longrightarrow> content (w_start w') = Some (Err (internal_error_status (se_status E)))) \<and>
    (rrx (w_recv w) \<longrightarrow> rq (w_recv w') =
       rq (w_recv w) @ (if sx_receive c then [RE_Internal ''stream callback panicked''] else [])) \<and>
    w_native w' = seam (FS_Stream SHUTDOWN_ABORT) H3_INTERNAL_ERROR (w_native w)"
proof -
  obtain c' w' res where r: "stream_recover E seam (c, w) = ((c', w'), res)" by (metis prod.exhaust)
  have "stream_body E pan ev st = ((c, w), Panicked)" using assms(3) by (simp add: stream_body_def)
  from stream_cb.panic_recovers_once [OF assms(2) this, of seam evs]
    stream_channels.stream_recover_view [OF assms(1,4) r] show ?thesis
    by (simp add: r)
qed

theorem stream_panic_contained_witness:
  "\<exists>c' w'. guarded_run (\<lambda>st. sx_poisoned (fst st)) (stream_poison_disp ref_status)
      (stream_body ref_env (\<lambda>ev st. Some st)) (\<lambda>_. stream_recover ref_env no_shutdown)
      [SE_PeerSendShutdown, SE_ShutdownComplete False False False 0 (Status 0)]
      (stream_ctx_channel_pre_id ref_env conn_terminal_default h3_config_default ()) =
    ((c', w'), [Err (Status 5), Ok ()]) \<and>
    fifo_items (w_recv w') = [RE_Internal ''stream callback panicked'']"
proof -
  obtain c w where st: "stream_ctx_channel_pre_id ref_env conn_terminal_default h3_config_default () = (c, w)"
    by fastforce
  then have p: "\<not> sx_poisoned (fst (c, w))" "sx_receive c" "fifo_rx (w_recv w)" "fifo_items (w_recv w) = []"
    by (auto simp: stream_ctx_channel_pre_id_def stream_ctx_new_def chan_defs)
  have sync: "ctx_sync fifo_tx fifo_tx cell_tx (c, w)"
    using ref_stream.pre_id_sync [of conn_terminal_default h3_config_default "()"] st by simp
  show ?thesis
    using stream_panic_contained [OF ref_stream.stream_channels_axioms p(1) _ sync,
        of "\<lambda>ev st. Some st" SE_PeerSendShutdown no_shutdown "[SE_ShutdownComplete False False False 0 (Status 0)]"] p st
    by (auto simp: internal_error_status_def status_simps)
qed

end
