(* ===== verification/H3_Send_Stream.thy ===== *)
theory H3_Send_Stream
  imports H3_Stream "HOL-Library.Monad_Syntax"
begin

text \<open>
  The send half of a stream (\<open>stream.rs\<close>): the command-executor seam with its production
  implementation, the owned-buffer submission, the terminal resolution and commit, and the
  four executor loops \<open>poll_ready\<close>, \<open>send_data\<close>, \<open>poll_finish\<close> and \<open>reset\<close> that run the
  reducer of \<open>H3_Reducer\<close>.

  A loop is its iteration (one definition per method) under \<open>drive\<close>, which runs it with fuel
  and lets other threads change the shared world between two iterations (the argument \<open>rely\<close>;
  the identity when nothing interferes). \<open>loop_fuel\<close> iterations always suffice.
\<close>

section \<open>State and seams\<close>

record 'i send_stream_receive_ctx =
  ss_id :: 'i
  ss_max_send_bytes :: u64
  ss_reducer :: send_state

type_synonym ('i, 'o, 's, 'r, 'n) send_st =
  "'i send_stream_receive_ctx \<times> ('o, 's, 'r, 'n) stream_world"

text \<open>The native stream handle: the downcalls of \<open>msquic::Stream\<close> the crate makes.\<close>

record 'n native_stream =
  ns_send :: "buffer_ref list \<Rightarrow> nat \<Rightarrow> 'n \<Rightarrow> 'n \<times> (unit, status) result"
  ns_shutdown :: "stream_shutdown_flags \<Rightarrow> u64 \<Rightarrow> 'n \<Rightarrow> 'n \<times> (unit, status) result"
  ns_receive_complete :: "u64 \<Rightarrow> 'n \<Rightarrow> 'n"

record 'w send_exec =
  submit_send :: "send_buffer \<Rightarrow> 'w \<Rightarrow> 'w \<times> (unit, status) result"
  submit_graceful :: "'w \<Rightarrow> 'w \<times> (unit, status) result"
  submit_reset :: "u64 \<Rightarrow> 'w \<Rightarrow> 'w \<times> (unit, status) result"

definition submit_owned_send ::
  "send_buffer \<Rightarrow> (buffer_ref list \<Rightarrow> nat \<Rightarrow> 'n \<Rightarrow> 'n \<times> (unit, status) result) \<Rightarrow>
   ('o, 's, 'r, 'n) stream_world \<Rightarrow> ('o, 's, 'r, 'n) stream_world \<times> (unit, status) result" where
  "submit_owned_send buf native w =
     (let (w, cc) = box_into_raw buf w;
          (n, res) = native (buffers buf) cc (w_native w);
          w = w\<lparr>w_native := n\<rparr>
      in case res of
           Err status \<Rightarrow> (box_drop cc w, Err status)
         | Ok _ \<Rightarrow> (w, Ok ()))"

definition shutdown_call ::
  "'n native_stream \<Rightarrow> stream_shutdown_flags \<Rightarrow> u64 \<Rightarrow> ('o, 's, 'r, 'n) stream_world \<Rightarrow>
   ('o, 's, 'r, 'n) stream_world \<times> (unit, status) result" where
  "shutdown_call N flags code w =
     (let (n, res) = ns_shutdown N flags code (w_native w) in (w\<lparr>w_native := n\<rparr>, res))"

definition stream_executor :: "'n native_stream \<Rightarrow> ('o, 's, 'r, 'n) stream_world send_exec" where
  "stream_executor N =
     \<lparr>submit_send = (\<lambda>buf w. submit_owned_send buf (ns_send N) w),
      submit_graceful = shutdown_call N SHUTDOWN_GRACEFUL 0,
      submit_reset = shutdown_call N SHUTDOWN_ABORT_SEND\<rparr>"

section \<open>Terminal resolution\<close>

definition resolve_terminal :: "('o, 's, 'r, 'n) stream_world \<Rightarrow> send_terminal option" where
  "resolve_terminal w =
     (case load_winner (w_send_slot w) of
        Some (ST_Connection fallback) \<Rightarrow>
          Some (ST_Connection (unwrap_or (peek_conn_terminal (w_conn_slot w)) fallback))
      | Some ST_ProvisionalAbort \<Rightarrow>
          (case peek_conn_terminal (w_conn_slot w) of
             Some reason \<Rightarrow> Some (ST_Connection reason)
           | None \<Rightarrow> Some ST_ProvisionalAbort)
      | None \<Rightarrow> map_option ST_Connection (peek_conn_terminal (w_conn_slot w))
      | other \<Rightarrow> other)"

definition commit_send_winner ::
  "send_terminal \<Rightarrow> ('o, 's, 'r, 'n) stream_world \<Rightarrow> ('o, 's, 'r, 'n) stream_world \<times> send_terminal" where
  "commit_send_winner t w =
     (case t of
        ST_Connection fallback \<Rightarrow>
          (let (slot, c) = commit_conn (w_conn_slot w)
           in (w\<lparr>w_conn_slot := slot\<rparr>, ST_Connection (unwrap_or c fallback)))
      | other \<Rightarrow> (w, other))"

definition poll_send_channel ::
  "('o, 's, 'r) stream_env \<Rightarrow> waker \<Rightarrow> ('o, 's, 'r, 'n) stream_world \<Rightarrow>
   ('o, 's, 'r, 'n) stream_world \<times> send_poll" where
  "poll_send_channel E cx w =
     (let (ch, p) = poll_next (se_send E) cx (w_send w)
      in (w\<lparr>w_send := ch\<rparr>,
          case p of
            PollReady (Some ev) \<Rightarrow> SP_Event ev
          | PollReady None \<Rightarrow> SP_Closed
          | PollPending \<Rightarrow> SP_Pending))"

text \<open>The publish arm shared by the four loops.\<close>

definition publish_winner ::
  "send_terminal \<Rightarrow> ('o, 's, 'r, 'n) stream_world \<Rightarrow> ('o, 's, 'r, 'n) stream_world \<times> send_terminal" where
  "publish_winner candidate w =
     (let (slot, winner) = publish_send candidate (w_send_slot w) in (w\<lparr>w_send_slot := slot\<rparr>, winner))"

section \<open>Loops\<close>

datatype ('i, 'a) iteration = Continue 'i | Return 'a

fun drive ::
  "(nat \<Rightarrow> 'w \<Rightarrow> 'w) \<Rightarrow> ('i \<Rightarrow> 'c \<times> 'w \<Rightarrow> ('c \<times> 'w) \<times> ('i, 'a) iteration) \<Rightarrow>
   nat \<Rightarrow> 'i \<Rightarrow> 'c \<times> 'w \<Rightarrow> (('c \<times> 'w) \<times> 'a) option" where
  "drive rely f 0 input st = None"
| "drive rely f (Suc n) input st =
     (case f input (fst st, rely n (snd st)) of
        (st', Return a) \<Rightarrow> Some (st', a)
      | (st', Continue input') \<Rightarrow> drive rely f n input' st')"

definition loop_fuel :: nat where
  "loop_fuel = 6"

definition calm :: "nat \<Rightarrow> 'w \<Rightarrow> 'w" where
  "calm n w = w"

section \<open>poll_ready\<close>

definition poll_ready_input ::
  "('o, 's, 'r) stream_env \<Rightarrow> waker \<Rightarrow> ('o, 's, 'r, 'n) stream_world \<Rightarrow>
   ('o, 's, 'r, 'n) stream_world \<times> send_input" where
  "poll_ready_input E cx w = (let (w, p) = poll_send_channel E cx w in (w, PollReadyIn p (resolve_terminal w)))"

definition poll_ready_iter ::
  "('o, 's, 'r) stream_env \<Rightarrow> waker \<Rightarrow> send_input \<Rightarrow> ('i, 'o, 's, 'r, 'n) send_st \<Rightarrow>
   ('i, 'o, 's, 'r, 'n) send_st \<times> (send_input, (unit, stream_error_incoming) result poll) iteration" where
  "poll_ready_iter E cx input st =
     (let (s, w) = st;
          (red, cmd) = transition (se_status E) (ss_reducer s) input;
          s = s\<lparr>ss_reducer := red\<rparr>
      in case cmd of
           Cmd_Pending \<Rightarrow> ((s, w), Return PollPending)
         | ReturnReady \<Rightarrow> ((s, w), Return (PollReady (Ok ())))
         | ReturnError t \<Rightarrow>
             (let (w, t) = commit_send_winner t w
              in ((s, w), Return (PollReady (Err (convert_send (se_status E) t)))))
         | RepollReady \<Rightarrow> (let (w, input) = poll_ready_input E cx w in ((s, w), Continue input))
         | PublishTerminal candidate k \<Rightarrow>
             (let (w, winner) = publish_winner candidate w in ((s, w), Continue (TerminalPublished winner k)))
         | _ \<Rightarrow> ((s, w), Return (PollReady (Err
                   (convert_send (se_status E) (ST_Internal ''unexpected poll_ready command''))))))"

definition poll_ready ::
  "('o, 's, 'r) stream_env \<Rightarrow> (nat \<Rightarrow> ('o, 's, 'r, 'n) stream_world \<Rightarrow> ('o, 's, 'r, 'n) stream_world) \<Rightarrow> waker \<Rightarrow>
   ('i, 'o, 's, 'r, 'n) send_st \<Rightarrow>
   (('i, 'o, 's, 'r, 'n) send_st \<times> (unit, stream_error_incoming) result poll) option" where
  "poll_ready E rely cx st =
     (let (s, w) = st in
      if finish_started (ss_reducer s) then
        (case resolve_terminal w of
           Some t \<Rightarrow>
             (let (w, t) = commit_send_winner t w
              in Some ((s, w), PollReady (Err (convert_send (se_status E) t))))
         | None \<Rightarrow> Some ((s, w), PollReady (Err
                     (convert_send (se_status E) (ST_Internal ''poll_ready after finish'')))))
      else
        (let (w, input) = poll_ready_input E cx w
         in drive rely (poll_ready_iter E cx) loop_fuel input (s, w)))"

section \<open>send_data\<close>

definition send_data_iter ::
  "('o, 's, 'r) stream_env \<Rightarrow> ('o, 's, 'r, 'n) stream_world send_exec \<Rightarrow> (nat \<Rightarrow> usize \<Rightarrow> buffer_ref) \<Rightarrow>
   'b buf_ops \<Rightarrow> send_input \<Rightarrow>
   ('i send_stream_receive_ctx \<times> 'b) \<times> ('o, 's, 'r, 'n) stream_world \<Rightarrow>
   (('i send_stream_receive_ctx \<times> 'b) \<times> ('o, 's, 'r, 'n) stream_world) \<times>
     (send_input, (unit, stream_error_incoming) result) iteration" where
  "send_data_iter E X ref_from Bu input st =
     (let ((s, wb), w) = st;
          (red, cmd) = transition (se_status E) (ss_reducer s) input;
          s = s\<lparr>ss_reducer := red\<rparr>
      in case cmd of
           ReturnSent \<Rightarrow> (((s, wb), w), Return (Ok ()))
         | ReturnImmediateError e \<Rightarrow> (((s, wb), w), Return (Err (convert_send_op e)))
         | ReturnError t \<Rightarrow>
             (let (w, t) = commit_send_winner t w
              in (((s, wb), w), Return (Err (convert_send (se_status E) t))))
         | SubmitSend \<Rightarrow>
             (let (wb, buf) = copy_into_send_buffer ref_from Bu wb;
                  (w, res) = submit_send X buf w
              in (((s, wb), w), Continue (SendSubmitted res (resolve_terminal w))))
         | PublishTerminal candidate k \<Rightarrow>
             (let (w, winner) = publish_winner candidate w
              in (((s, wb), w), Continue (TerminalPublished winner k)))
         | _ \<Rightarrow> (((s, wb), w), Return (Err
                   (convert_send (se_status E) (ST_Internal ''unexpected send_data command'')))))"

definition send_data ::
  "('o, 's, 'r) stream_env \<Rightarrow> (nat \<Rightarrow> ('o, 's, 'r, 'n) stream_world \<Rightarrow> ('o, 's, 'r, 'n) stream_world) \<Rightarrow>
   ('o, 's, 'r, 'n) stream_world send_exec \<Rightarrow> (nat \<Rightarrow> usize \<Rightarrow> buffer_ref) \<Rightarrow> 'b buf_ops \<Rightarrow> 'b \<Rightarrow>
   ('i, 'o, 's, 'r, 'n) send_st \<Rightarrow>
   (('i, 'o, 's, 'r, 'n) send_st \<times> (unit, stream_error_incoming) result) option" where
  "send_data E rely X ref_from Bu wb st =
     (let (s, w) = st;
          payload = classify_payload (remaining Bu wb) (ss_max_send_bytes s)
      in map_option (\<lambda>(((s, wb), w), r). ((s, w), r))
           (drive rely (send_data_iter E X ref_from Bu) loop_fuel
              (SendRequested payload (resolve_terminal w)) ((s, wb), w)))"

section \<open>poll_finish\<close>

definition poll_finish_input ::
  "('o, 's, 'r) stream_env \<Rightarrow> waker \<Rightarrow> ('o, 's, 'r, 'n) stream_world \<Rightarrow>
   ('o, 's, 'r, 'n) stream_world \<times> send_input" where
  "poll_finish_input E cx w = (let (w, p) = poll_send_channel E cx w in (w, PollFinishIn p (resolve_terminal w)))"

definition poll_finish_iter ::
  "('o, 's, 'r) stream_env \<Rightarrow> ('o, 's, 'r, 'n) stream_world send_exec \<Rightarrow> waker \<Rightarrow> send_input \<Rightarrow>
   ('i, 'o, 's, 'r, 'n) send_st \<Rightarrow>
   ('i, 'o, 's, 'r, 'n) send_st \<times> (send_input, (unit, stream_error_incoming) result poll) iteration" where
  "poll_finish_iter E X cx input st =
     (let (s, w) = st;
          (red, cmd) = transition (se_status E) (ss_reducer s) input;
          s = s\<lparr>ss_reducer := red\<rparr>
      in case cmd of
           Cmd_Pending \<Rightarrow> ((s, w), Return PollPending)
         | ReturnFinished \<Rightarrow> ((s, w), Return (PollReady (Ok ())))
         | ReturnError t \<Rightarrow>
             (let (w, t) = commit_send_winner t w
              in ((s, w), Return (PollReady (Err (convert_send (se_status E) t)))))
         | SubmitGraceful \<Rightarrow>
             (let (w, res) = submit_graceful X w
              in ((s, w), Continue (GracefulSubmitted res (resolve_terminal w))))
         | RepollFinish \<Rightarrow> (let (w, input) = poll_finish_input E cx w in ((s, w), Continue input))
         | PublishTerminal candidate k \<Rightarrow>
             (let (w, winner) = publish_winner candidate w in ((s, w), Continue (TerminalPublished winner k)))
         | _ \<Rightarrow> ((s, w), Return (PollReady (Err
                   (convert_send (se_status E) (ST_Internal ''unexpected poll_finish command''))))))"

definition poll_finish ::
  "('o, 's, 'r) stream_env \<Rightarrow> (nat \<Rightarrow> ('o, 's, 'r, 'n) stream_world \<Rightarrow> ('o, 's, 'r, 'n) stream_world) \<Rightarrow>
   ('o, 's, 'r, 'n) stream_world send_exec \<Rightarrow> waker \<Rightarrow> ('i, 'o, 's, 'r, 'n) send_st \<Rightarrow>
   (('i, 'o, 's, 'r, 'n) send_st \<times> (unit, stream_error_incoming) result poll) option" where
  "poll_finish E rely X cx st =
     (let (s, w) = st; (w, input) = poll_finish_input E cx w
      in drive rely (poll_finish_iter E X cx) loop_fuel input (s, w))"

section \<open>reset\<close>

definition reset_iter ::
  "('o, 's, 'r) stream_env \<Rightarrow> ('o, 's, 'r, 'n) stream_world send_exec \<Rightarrow> send_input \<Rightarrow>
   ('i, 'o, 's, 'r, 'n) send_st \<Rightarrow> ('i, 'o, 's, 'r, 'n) send_st \<times> (send_input, unit) iteration" where
  "reset_iter E X input st =
     (let (s, w) = st;
          (red, cmd) = transition (se_status E) (ss_reducer s) input;
          s = s\<lparr>ss_reducer := red\<rparr>
      in case cmd of
           NoOp \<Rightarrow> ((s, w), Return ())
         | SubmitReset c \<Rightarrow>
             (let (w, res) = submit_reset X c w
              in ((s, w), Continue (ResetSubmitted c res (resolve_terminal w))))
         | PublishTerminal candidate k \<Rightarrow>
             (let (w, winner) = publish_winner candidate w in ((s, w), Continue (TerminalPublished winner k)))
         | _ \<Rightarrow> ((s, w), Return ()))"

definition reset ::
  "('o, 's, 'r) stream_env \<Rightarrow> (nat \<Rightarrow> ('o, 's, 'r, 'n) stream_world \<Rightarrow> ('o, 's, 'r, 'n) stream_world) \<Rightarrow>
   ('o, 's, 'r, 'n) stream_world send_exec \<Rightarrow> u64 \<Rightarrow> ('i, 'o, 's, 'r, 'n) send_st \<Rightarrow>
   ('i, 'o, 's, 'r, 'n) send_st option" where
  "reset E rely X reset_code st =
     map_option fst (drive rely (reset_iter E X) loop_fuel
       (ResetIn (clamp_application_code reset_code) (resolve_terminal (snd st))) st)"

definition send_id :: "'i send_stream_receive_ctx \<Rightarrow> 'i" where
  "send_id s = ss_id s"

section \<open>Specification vocabulary\<close>

text \<open>How many more iterations a loop can take, from the bookkeeping and the next input.\<close>

fun ready_rank :: "send_input \<Rightarrow> 'i send_stream_receive_ctx \<Rightarrow> nat" where
  "ready_rank (PollReadyIn _ _) s = (if send_inprogress (ss_reducer s) then 3 else 1)"
| "ready_rank (TerminalPublished x _) s =
     (if send_is_provisional x then (if send_inprogress (ss_reducer s) then 4 else 2) else 0)"
| "ready_rank _ s = 0"

fun finish_rank :: "send_input \<Rightarrow> 'i send_stream_receive_ctx \<Rightarrow> nat" where
  "finish_rank (PollFinishIn _ _) s =
     (if finish_started (ss_reducer s) then 1 else if send_inprogress (ss_reducer s) then 5 else 3)"
| "finish_rank (TerminalPublished x _) s =
     (if send_is_provisional x
      then Suc (if finish_started (ss_reducer s) then 1 else if send_inprogress (ss_reducer s) then 5 else 3)
      else 0)"
| "finish_rank (GracefulSubmitted _ _) s = 2"
| "finish_rank _ s = 0"

fun submit_rank :: "send_input \<Rightarrow> 'c \<Rightarrow> nat" where
  "submit_rank (SendRequested _ _) c = 2"
| "submit_rank (SendSubmitted _ _) c = 1"
| "submit_rank (ResetIn _ _) c = 2"
| "submit_rank (ResetSubmitted _ _ _) c = 1"
| "submit_rank _ c = 0"

fun ready_loop_input :: "send_input \<Rightarrow> bool" where
  "ready_loop_input (PollReadyIn _ _) = True"
| "ready_loop_input (TerminalPublished _ _) = True"
| "ready_loop_input _ = False"

fun finish_loop_input :: "send_input \<Rightarrow> bool" where
  "finish_loop_input (PollFinishIn _ _) = True"
| "finish_loop_input (GracefulSubmitted _ _) = True"
| "finish_loop_input (TerminalPublished _ _) = True"
| "finish_loop_input _ = False"

fun send_loop_input :: "send_input \<Rightarrow> bool" where
  "send_loop_input (SendRequested _ _) = True"
| "send_loop_input (SendSubmitted _ _) = True"
| "send_loop_input (TerminalPublished _ _) = True"
| "send_loop_input _ = False"

fun reset_loop_input :: "send_input \<Rightarrow> bool" where
  "reset_loop_input (ResetIn _ _) = True"
| "reset_loop_input (ResetSubmitted _ _ _) = True"
| "reset_loop_input (TerminalPublished _ _) = True"
| "reset_loop_input _ = False"

text \<open>
  A connection cause in the send slot is backed by the shared connection slot; the callback
  records there before it publishes here.
\<close>

definition conn_backed :: "('o, 's, 'r, 'n) stream_world \<Rightarrow> bool" where
  "conn_backed w \<longleftrightarrow>
     (case w_send_slot w of Some (ST_Connection _) \<Rightarrow> ct_terminal (w_conn_slot w) \<noteq> None | _ \<Rightarrow> True)"

text \<open>The cause a frontend was given is the frozen winner of the connection slot.\<close>

definition frozen_cause :: "connection_terminal \<Rightarrow> ('o, 's, 'r, 'n) stream_world \<Rightarrow> bool" where
  "frozen_cause r w \<longleftrightarrow> ct_observed (w_conn_slot w) \<and> ct_terminal (w_conn_slot w) = Some r"

definition delivered_terminal :: "send_terminal \<Rightarrow> ('o, 's, 'r, 'n) stream_world \<Rightarrow> bool" where
  "delivered_terminal t w \<longleftrightarrow>
     (case t of ST_Connection r \<Rightarrow> frozen_cause r w | ST_ProvisionalAbort \<Rightarrow> False | _ \<Rightarrow> True)"

text \<open>The interference the callbacks of the same stream and connection cause.\<close>

definition respects_slots :: "(('o, 's, 'r, 'n) stream_world \<Rightarrow> ('o, 's, 'r, 'n) stream_world) \<Rightarrow> bool" where
  "respects_slots f \<longleftrightarrow>
     (\<forall>w. (conn_backed w \<longrightarrow> conn_backed (f w)) \<and>
          (ct_terminal (w_conn_slot w) \<noteq> None \<longrightarrow> ct_terminal (w_conn_slot (f w)) \<noteq> None))"

text \<open>The invariant the three delivering loops keep.\<close>

definition backed_input :: "send_input \<Rightarrow> 'c \<Rightarrow> ('o, 's, 'r, 'n) stream_world \<Rightarrow> bool" where
  "backed_input i c w \<longleftrightarrow> conn_backed w \<and>
     (\<forall>r. input_terminal i = Some (ST_Connection r) \<longrightarrow> ct_terminal (w_conn_slot w) \<noteq> None)"

text \<open>What one iteration of a delivering loop owes: its error is delivered (or, where \<open>imm\<close> allows, one of the
  immediate errors of \<open>send_data\<close>), its next input is backed.\<close>

definition iteration_ok ::
  "status_ops \<Rightarrow> bool \<Rightarrow> (send_input \<Rightarrow> bool) \<Rightarrow> ('a \<Rightarrow> stream_error_incoming option) \<Rightarrow>
   ('c \<times> ('o, 's, 'r, 'n) stream_world) \<times> (send_input, 'a) iteration \<Rightarrow> bool" where
  "iteration_ok S imm L err r =
     (case r of
        ((c, w), Continue i) \<Rightarrow> backed_input i c w \<and> L i
      | ((c, w), Return a) \<Rightarrow>
          (\<forall>e. err a = Some e \<longrightarrow>
             (\<exists>t. e = convert_send S t \<and> delivered_terminal t w) \<or> imm \<and> (\<exists>op. e = convert_send_op op)))"

fun poll_error :: "(unit, stream_error_incoming) result poll \<Rightarrow> stream_error_incoming option" where
  "poll_error (PollReady (Err e)) = Some e"
| "poll_error _ = None"

fun result_error :: "(unit, stream_error_incoming) result \<Rightarrow> stream_error_incoming option" where
  "result_error (Err e) = Some e"
| "result_error _ = None"

text \<open>When \<open>send_data\<close> hands a payload of this length to the native library.\<close>

definition send_accepts ::
  "'i send_stream_receive_ctx \<Rightarrow> ('o, 's, 'r, 'n) stream_world \<Rightarrow> usize \<Rightarrow> bool" where
  "send_accepts s w len \<longleftrightarrow>
     definitive (resolve_terminal w) = None \<and>
     \<not> send_inprogress (ss_reducer s) \<and> \<not> send_submitting (ss_reducer s) \<and>
     \<not> finish_submitting (ss_reducer s) \<and> \<not> finish_started (ss_reducer s) \<and>
     \<not> finish_complete (ss_reducer s) \<and> len \<noteq> 0 \<and> len \<le> ss_max_send_bytes s"

text \<open>What the native library and the box heap hold: the part of the world a send may change.\<close>

definition native_view ::
  "('o, 's, 'r, 'n) stream_world \<Rightarrow> 'n \<times> (nat \<Rightarrow> send_buffer option) \<times> nat \<times> nat list" where
  "native_view w = (w_native w, w_heap w, w_next w, w_frees w)"

text \<open>A native stream that accepts every call and logs it, and a fresh send half, for evaluation.\<close>

datatype native_call =
    NC_Send "buffer_ref list" nat
  | NC_Shutdown stream_shutdown_flags u64
  | NC_ReceiveComplete u64

definition log_native :: "native_call list native_stream" where
  "log_native =
     \<lparr>ns_send = (\<lambda>bufs cc log. (log @ [NC_Send bufs cc], Ok ())),
      ns_shutdown = (\<lambda>flags code log. (log @ [NC_Shutdown flags code], Ok ())),
      ns_receive_complete = (\<lambda>len log. log @ [NC_ReceiveComplete len])\<rparr>"

definition ref_sctx :: "nat send_stream_receive_ctx" where
  "ref_sctx = \<lparr>ss_id = 4, ss_max_send_bytes = MAX_ADAPTER_SEND, ss_reducer = send_state_new\<rparr>"

definition ref_world ::
  "conn_terminal_state \<Rightarrow>
   ((u64, status) result cell, send_event fifo, receive_event fifo, native_call list) stream_world" where
  "ref_world conn = snd (stream_ctx_channel_pre_id ref_env conn h3_config_default [])"

text \<open>What holds between the iterations of \<open>reset\<close> started on \<open>(s, w)\<close>.\<close>

fun reset_inv ::
  "'n native_stream \<Rightarrow> u64 \<Rightarrow> ('i, 'o, 's, 'r, 'n) send_st \<Rightarrow> send_input \<Rightarrow>
   'i send_stream_receive_ctx \<Rightarrow> ('o, 's, 'r, 'n) stream_world \<Rightarrow> bool" where
  "reset_inv N code (s, w) (ResetIn c t) c' v \<longleftrightarrow> v = w \<and> c' = s \<and> c = code \<and> t = resolve_terminal w"
| "reset_inv N code (s, w) (ResetSubmitted c r t) c' v \<longleftrightarrow>
     v = w\<lparr>w_native := fst (ns_shutdown N SHUTDOWN_ABORT_SEND code (w_native w))\<rparr>"
| "reset_inv N code (s, w) (TerminalPublished x k) c' v \<longleftrightarrow>
     (\<exists>sl n. v = w\<lparr>w_native := n, w_send_slot := sl\<rparr> \<and> definitive sl \<noteq> None \<and>
        (n = w_native w \<or> n = fst (ns_shutdown N SHUTDOWN_ABORT_SEND code (w_native w))))"
| "reset_inv N code (s, w) _ c' v \<longleftrightarrow> False"

text \<open>A poll result of a pending channel is only ever paired with the waker that poll parked.\<close>

fun pending_input :: "send_input \<Rightarrow> bool" where
  "pending_input (PollReadyIn SP_Pending _) = True"
| "pending_input (PollFinishIn SP_Pending _) = True"
| "pending_input _ = False"

definition park_inv ::
  "('s \<Rightarrow> send_event list) \<Rightarrow> ('s \<Rightarrow> bool) \<Rightarrow> ('s \<Rightarrow> waker option) \<Rightarrow> waker \<Rightarrow> (send_input \<Rightarrow> bool) \<Rightarrow>
   send_input \<Rightarrow> ('o, 's, 'r, 'n) stream_world \<Rightarrow> bool" where
  "park_inv sq srx spark cx L i w \<longleftrightarrow> srx (w_send w) \<and> L i \<and>
     (pending_input i \<longrightarrow> spark (w_send w) = Some cx \<and> sq (w_send w) = [])"

text \<open>
  A run in which a send is cancelled, the caller sends again before a cause is known and the native
  library accepts, completes and finishes: the results of \<open>send_data\<close>, \<open>poll_ready\<close>,
  \<open>send_data\<close>, \<open>poll_finish\<close> and \<open>poll_ready\<close> in that order.
\<close>

definition late_abort_run ::
  "((unit, stream_error_incoming) result \<times> (unit, stream_error_incoming) result poll \<times>
    (unit, stream_error_incoming) result \<times> (unit, stream_error_incoming) result poll \<times>
    (unit, stream_error_incoming) result poll) option" where
  "late_abort_run = do {
     let X = stream_executor log_native;
     ((s, w), r1) \<leftarrow> send_data ref_env calm X native_buffer_ref slice_buf (50, [1]) (ref_sctx, ref_world conn_terminal_default);
     let (c, w) = fst (stream_callback ref_env (SE_SendComplete True 1) (stream_ctx_new, w));
     ((s, w), r2) \<leftarrow> poll_ready ref_env calm 7 (s, w);
     ((s, w), r3) \<leftarrow> send_data ref_env calm X native_buffer_ref slice_buf (60, [2]) (s, w);
     let (c, w) = fst (stream_callback ref_env (SE_SendComplete False 2) (c, w));
     ((s, w), r4) \<leftarrow> poll_finish ref_env calm X 7 (s, w);
     (_, r5) \<leftarrow> poll_ready ref_env calm 7 (s, w);
     Some (r1, r2, r3, r4, r5)
   }"

section \<open>What the reducer asks each loop to do\<close>

lemma nonprovisional_unwrap [simp]:
  "\<not> send_is_provisional d \<Longrightarrow> \<not> send_is_provisional (unwrap_or (definitive t) d)"
  by (auto simp: definitive_def unwrap_or_eq_case split: option.splits)

lemma definitive_nonprovisional: "definitive t = Some w \<Longrightarrow> \<not> send_is_provisional w \<and> t = Some w"
  by (auto simp: definitive_def split: option.splits if_splits)

lemma ready_commands:
  assumes "transition S st (PollReadyIn p t) = (st', cmd)"
  shows "cmd = Cmd_Pending \<and> p = SP_Pending \<or> cmd = ReturnReady \<or>
    (\<exists>x. cmd = ReturnError x \<and> \<not> send_is_provisional x \<and> (t = Some x \<or> (\<exists>m. x = ST_Internal m))) \<or>
    (\<exists>c. cmd = PublishTerminal c K_PollReady \<and> (\<forall>r. c \<noteq> ST_Connection r) \<and>
       (send_is_provisional c \<longrightarrow> send_inprogress st \<and> \<not> send_inprogress st'))"
  using assms
  by (auto simp: reducer_defs dest: definitive_nonprovisional split: reducer_splits)

lemma published_commands:
  assumes "transition S st (TerminalPublished x k) = (st', cmd)"
  shows "st' = st \<and> (cmd = ReturnError x \<and> \<not> send_is_provisional x \<or>
    cmd = RepollReady \<and> send_is_provisional x \<and> k = K_PollReady \<or>
    cmd = RepollFinish \<and> send_is_provisional x \<and> k = K_PollFinish \<or> cmd = NoOp)"
  using assms by (auto simp: reducer_defs split: reducer_splits)

lemma unwrap_definitive_conn [simp]:
  "(\<And>x. d \<noteq> ST_Connection x) \<Longrightarrow>
   unwrap_or (definitive t) d = ST_Connection r \<longleftrightarrow> t = Some (ST_Connection r)"
  by (auto simp: definitive_def unwrap_or_eq_case split: option.splits)

lemma finish_commands:
  assumes "transition S st (PollFinishIn p t) = (st', cmd)"
  shows "cmd = Cmd_Pending \<and> p = SP_Pending \<or> cmd = ReturnFinished \<or>
    (\<exists>x. cmd = ReturnError x \<and> \<not> send_is_provisional x \<and> t = Some x) \<or>
    cmd = SubmitGraceful \<and> \<not> finish_started st' \<and> \<not> finish_started st \<or>
    (\<exists>c. cmd = PublishTerminal c K_PollFinish \<and> (\<forall>r. c = ST_Connection r \<longrightarrow> t = Some c) \<and>
       (send_is_provisional c \<longrightarrow>
          send_inprogress st \<and> \<not> finish_started st \<and> \<not> send_inprogress st' \<and> \<not> finish_started st'))"
  using assms
  by (auto simp: reducer_defs send_is_provisional_iff
      dest: definitive_nonprovisional split: reducer_splits)

lemma requested_commands:
  assumes "transition S st (SendRequested pl t) = (st', cmd)"
  shows "cmd = ReturnSent \<or> (\<exists>e. cmd = ReturnImmediateError e) \<or>
    (\<exists>x. cmd = ReturnError x \<and> \<not> send_is_provisional x \<and> t = Some x) \<or> cmd = SubmitSend"
  using assms by (auto simp: reducer_defs dest: definitive_nonprovisional split: reducer_splits)

lemma send_submitted_commands:
  assumes "transition S st (SendSubmitted r t) = (st', cmd)"
  shows "cmd = ReturnSent \<or> (\<exists>x. cmd = ReturnError x \<and> \<not> send_is_provisional x \<and> t = Some x) \<or>
    (\<exists>c. cmd = PublishTerminal c K_SendData \<and> \<not> send_is_provisional c \<and>
       (\<forall>r. c = ST_Connection r \<longrightarrow> t = Some c))"
  using assms
  by (auto simp: reducer_defs dest: definitive_nonprovisional split: reducer_splits)

lemma graceful_submitted_commands:
  assumes "transition S st (GracefulSubmitted r t) = (st', cmd)"
  shows "cmd = RepollFinish \<and> finish_started st' \<or>
    (\<exists>c. cmd = PublishTerminal c K_PollFinish \<and> \<not> send_is_provisional c \<and>
       (\<forall>r. c = ST_Connection r \<longrightarrow> t = Some c))"
  using assms
  by (auto simp: reducer_defs dest: definitive_nonprovisional split: reducer_splits)

lemma reset_commands:
  assumes "transition S st (ResetIn code t) = (st', cmd)"
  shows "cmd = NoOp \<or> (\<exists>m. cmd = PublishTerminal (ST_Internal m) K_Reset) \<or> cmd = SubmitReset code"
  using assms by (auto simp: reducer_defs split: reducer_splits)

lemma reset_submitted_commands:
  assumes "transition S st (ResetSubmitted code r t) = (st', cmd)"
  shows "\<exists>c. cmd = PublishTerminal c K_Reset \<and> \<not> send_is_provisional c"
  using assms by (auto simp: reducer_defs split: reducer_splits)

section \<open>Running a loop\<close>

text \<open>
  A loop returns when a measure of the local state and the input drops with every iteration;
  the shared world, which other threads may change, has no part in it.
\<close>

lemma drive_returns:
  assumes "\<And>i c w c' w' i'. P i c \<Longrightarrow> f i (c, w) = ((c', w'), Continue i') \<Longrightarrow> P i' c' \<and> m i' c' < (m i c :: nat)"
    and "P i c" and "m i c < n"
  shows "\<exists>r. drive rely f n i (c, w) = Some r"
  using assms(2,3)
proof (induction n arbitrary: i c w)
  case (Suc n)
  obtain st a where f: "f i (c, rely n w) = (st, a)" by fastforce
  show ?case
  proof (cases a)
    case (Continue i')
    obtain c' w' where st: "st = (c', w')" by fastforce
    from assms(1) [OF Suc.prems(1)] f Continue st have "P i' c'" "m i' c' < m i c" by blast+
    with Suc.prems(2) have "\<exists>r. drive rely f n i' (c', w') = Some r" by (intro Suc.IH) simp_all
    with f Continue st show ?thesis by simp
  qed (simp add: f)
qed simp

text \<open>An invariant of the iterations that interference respects holds of what is returned.\<close>

lemma drive_invariant:
  assumes "drive rely f n i (c, w) = Some (st, a)" and "P i c w"
    and "\<And>n i c w. P i c w \<Longrightarrow> P i c (rely n w)"
    and "\<And>i c w c' w' i'. P i c w \<Longrightarrow> f i (c, w) = ((c', w'), Continue i') \<Longrightarrow> P i' c' w'"
    and "\<And>i c w c' w' a. P i c w \<Longrightarrow> f i (c, w) = ((c', w'), Return a) \<Longrightarrow> Q (c', w') a"
  shows "Q st a"
  using assms(1,2)
proof (induction n arbitrary: i c w)
  case (Suc n)
  obtain st' x where f: "f i (c, rely n w) = (st', x)" by fastforce
  obtain c' w' where st': "st' = (c', w')" by fastforce
  have P: "P i c (rely n w)" using Suc.prems(2) by (rule assms(3))
  show ?case
  proof (cases x)
    case (Continue i')
    with f st' Suc.prems(1) have "drive rely f n i' (c', w') = Some (st, a)" by simp
    moreover have "P i' c' w'" using assms(4) [OF P] f st' Continue by simp
    ultimately show ?thesis by (rule Suc.IH)
  next
    case (Return b)
    with f st' Suc.prems(1) assms(5) [OF P, of c' w' b] show ?thesis by auto
  qed
qed simp

section \<open>The loops return\<close>

lemma publish_winner_nonprovisional [simp]:
  "\<not> send_is_provisional c \<Longrightarrow> \<not> send_is_provisional (snd (publish_winner c w))"
  using publish_send_refines [of c "w_send_slot w"] by (simp add: publish_winner_def case_prod_beta)

lemma poll_ready_rank:
  assumes "ready_loop_input i" and "poll_ready_iter E cx i (s, w) = ((s', w'), Continue i')"
  shows "ready_loop_input i' \<and> ready_rank i' s' < ready_rank i s"
proof -
  obtain red cmd where t: "transition (se_status E) (ss_reducer s) i = (red, cmd)" by fastforce
  from assms(1) show ?thesis
  proof (cases rule: ready_loop_input.elims(2))
    case (1 p x)
    from ready_commands [OF t [unfolded 1]] assms(2) t show ?thesis
      by (auto simp: 1 case_prod_beta poll_ready_iter_def )
  next
    case (2 x k)
    from published_commands [OF t [unfolded 2]] assms(2) t show ?thesis
      by (auto simp: 2 case_prod_beta poll_ready_iter_def poll_ready_input_def)
  qed
qed

lemma poll_finish_rank:
  assumes "finish_loop_input i" and "poll_finish_iter E X cx i (s, w) = ((s', w'), Continue i')"
  shows "finish_loop_input i' \<and> finish_rank i' s' < finish_rank i s"
proof -
  obtain red cmd where t: "transition (se_status E) (ss_reducer s) i = (red, cmd)" by fastforce
  from assms(1) show ?thesis
  proof (cases rule: finish_loop_input.elims(2))
    case (1 p x)
    from finish_commands [OF t [unfolded 1]] assms(2) t show ?thesis
      by (auto simp: 1 case_prod_beta poll_finish_iter_def )
  next
    case (2 r x)
    from graceful_submitted_commands [OF t [unfolded 2]] assms(2) t show ?thesis
      by (auto simp: 2 case_prod_beta poll_finish_iter_def poll_finish_input_def )
  next
    case (3 x k)
    from published_commands [OF t [unfolded 3]] assms(2) t show ?thesis
      by (auto simp: 3 case_prod_beta poll_finish_iter_def poll_finish_input_def)
  qed
qed

lemma send_data_rank:
  assumes "send_loop_input i" and "send_data_iter E X ref_from Bu i (sb, w) = ((sb', w'), Continue i')"
  shows "send_loop_input i' \<and> submit_rank i' sb' < submit_rank i sb"
proof -
  obtain s wb where sb: "sb = (s, wb)" by fastforce
  obtain red cmd where t: "transition (se_status E) (ss_reducer s) i = (red, cmd)" by fastforce
  from assms(1) show ?thesis
  proof (cases rule: send_loop_input.elims(2))
    case (1 pl x)
    from requested_commands [OF t [unfolded 1]] assms(2) t show ?thesis
      by (auto simp: 1 case_prod_beta sb send_data_iter_def)
  next
    case (2 r x)
    from send_submitted_commands [OF t [unfolded 2]] assms(2) t show ?thesis
      by (auto simp: 2 case_prod_beta sb send_data_iter_def)
  next
    case (3 x k)
    from published_commands [OF t [unfolded 3]] assms(2) t show ?thesis
      by (auto simp: 3 case_prod_beta sb send_data_iter_def)
  qed
qed

lemma reset_rank:
  assumes "reset_loop_input i" and "reset_iter E X i (s, w) = ((s', w'), Continue i')"
  shows "reset_loop_input i' \<and> submit_rank i' s' < submit_rank i s"
proof -
  obtain red cmd where t: "transition (se_status E) (ss_reducer s) i = (red, cmd)" by fastforce
  from assms(1) show ?thesis
  proof (cases rule: reset_loop_input.elims(2))
    case (1 code x)
    from reset_commands [OF t [unfolded 1]] assms(2) t show ?thesis
      by (auto simp: 1 case_prod_beta reset_iter_def)
  next
    case (2 code r x)
    from reset_submitted_commands [OF t [unfolded 2]] assms(2) t show ?thesis
      by (auto simp: 2 case_prod_beta reset_iter_def)
  next
    case (3 x k)
    from published_commands [OF t [unfolded 3]] assms(2) t show ?thesis
      by (auto simp: 3 case_prod_beta reset_iter_def)
  qed
qed

lemma poll_ready_returns: "\<exists>r. poll_ready E rely cx st = Some r"
proof -
  obtain s w where st: "st = (s, w)" by fastforce
  show ?thesis
  proof (cases "finish_started (ss_reducer s)")
    case True
    then show ?thesis by (auto simp: poll_ready_def st split: option.split prod.split)
  next
    case False
    obtain w' p x where i: "poll_ready_input E cx w = (w', PollReadyIn p x)"
      by (cases "poll_send_channel E cx w") (simp add: poll_ready_input_def)
    have "\<exists>r. drive rely (poll_ready_iter E cx) loop_fuel (PollReadyIn p x) (s, w') = Some r"
      by (rule drive_returns [where P = "\<lambda>i _. ready_loop_input i" and m = ready_rank], erule (1) poll_ready_rank)
        (simp_all add: loop_fuel_def)
    with False i show ?thesis by (simp add: poll_ready_def st)
  qed
qed

lemma send_data_returns: "\<exists>r. send_data E rely X ref_from Bu wb st = Some r"
proof -
  obtain s w where st: "st = (s, w)" by fastforce
  have "\<exists>r. drive rely (send_data_iter E X ref_from Bu) loop_fuel
      (SendRequested (classify_payload (remaining Bu wb) (ss_max_send_bytes s)) (resolve_terminal w)) ((s, wb), w) = Some r"
    by (rule drive_returns [where P = "\<lambda>i _. send_loop_input i" and m = submit_rank], erule (1) send_data_rank)
      (simp_all add: loop_fuel_def)
  then show ?thesis by (auto simp: send_data_def st)
qed

lemma poll_finish_returns: "\<exists>r. poll_finish E rely X cx st = Some r"
proof -
  obtain s w where st: "st = (s, w)" by fastforce
  obtain w' p x where i: "poll_finish_input E cx w = (w', PollFinishIn p x)"
    by (cases "poll_send_channel E cx w") (simp add: poll_finish_input_def)
  have "\<exists>r. drive rely (poll_finish_iter E X cx) loop_fuel (PollFinishIn p x) (s, w') = Some r"
    by (rule drive_returns [where P = "\<lambda>i _. finish_loop_input i" and m = finish_rank], erule (1) poll_finish_rank)
      (simp_all add: loop_fuel_def)
  with i show ?thesis by (simp add: poll_finish_def st)
qed

lemma reset_returns: "\<exists>r. reset E rely X code st = Some r"
proof -
  obtain s w where st: "st = (s, w)" by fastforce
  have "\<exists>r. drive rely (reset_iter E X) loop_fuel
      (ResetIn (clamp_application_code code) (resolve_terminal w)) (s, w) = Some r"
    by (rule drive_returns [where P = "\<lambda>i _. reset_loop_input i" and m = submit_rank], erule (1) reset_rank)
      (simp_all add: loop_fuel_def)
  then show ?thesis by (auto simp: reset_def st)
qed

section \<open>Delivered causes are frozen\<close>

lemma resolve_terminal_backed:
  "conn_backed w \<Longrightarrow> resolve_terminal w = Some (ST_Connection r) \<Longrightarrow> ct_terminal (w_conn_slot w) \<noteq> None"
  by (auto simp: resolve_terminal_def conn_backed_def load_winner_def peek_conn_terminal_def
      split: option.splits send_terminal.splits)

lemma commit_send_winner_delivered:
  assumes "\<not> send_is_provisional t" and "\<And>r. t = ST_Connection r \<Longrightarrow> ct_terminal (w_conn_slot w) \<noteq> None"
  shows "delivered_terminal (snd (commit_send_winner t w)) (fst (commit_send_winner t w))"
  using assms
  by (cases t) (auto simp: commit_send_winner_def delivered_terminal_def frozen_cause_def slot_simps
      case_prod_beta)

lemma publish_winner_backed:
  assumes "conn_backed w" and "\<And>r. c = ST_Connection r \<Longrightarrow> ct_terminal (w_conn_slot w) \<noteq> None"
  shows "conn_backed (fst (publish_winner c w))"
    and "snd (publish_winner c w) = ST_Connection r \<Longrightarrow> ct_terminal (w_conn_slot (fst (publish_winner c w))) \<noteq> None"
  using assms
  by (auto simp: publish_winner_def conn_backed_def publish_send_def split: option.splits send_terminal.splits if_splits)

lemma slots_frame:
  "w_send_slot (fst (poll_send_channel E cx w)) = w_send_slot w"
  "w_conn_slot (fst (poll_send_channel E cx w)) = w_conn_slot w"
  "w_send_slot (fst (submit_owned_send buf nf w)) = w_send_slot w"
  "w_conn_slot (fst (submit_owned_send buf nf w)) = w_conn_slot w"
  "w_send_slot (fst (shutdown_call N fl code w)) = w_send_slot w"
  "w_conn_slot (fst (shutdown_call N fl code w)) = w_conn_slot w"
  by (simp_all add: poll_send_channel_def submit_owned_send_def box_into_raw_def box_drop_def
      shutdown_call_def case_prod_beta Let_def split: result.split)

lemma conn_backed_frame:
  "w_send_slot w' = w_send_slot w \<Longrightarrow> w_conn_slot w' = w_conn_slot w \<Longrightarrow> conn_backed w' = conn_backed w"
  by (auto simp: conn_backed_def split: option.splits send_terminal.splits)

lemma stream_executor_simps [simp]:
  "submit_send (stream_executor N) = (\<lambda>buf w. submit_owned_send buf (ns_send N) w)"
  "submit_graceful (stream_executor N) = shutdown_call N SHUTDOWN_GRACEFUL 0"
  "submit_reset (stream_executor N) = shutdown_call N SHUTDOWN_ABORT_SEND"
  by (simp_all add: stream_executor_def)

lemmas backed_simps = backed_input_def slots_frame conn_backed_frame [OF slots_frame(1,2)]
  conn_backed_frame [OF slots_frame(3,4)] conn_backed_frame [OF slots_frame(5,6)]

lemma resolve_input_backed:
  "conn_backed w \<Longrightarrow> backed_input (PollReadyIn p (resolve_terminal w)) c w"
  "conn_backed w \<Longrightarrow> backed_input (PollFinishIn p (resolve_terminal w)) c w"
  "conn_backed w \<Longrightarrow> backed_input (SendRequested pl (resolve_terminal w)) c w"
  "conn_backed w \<Longrightarrow> backed_input (SendSubmitted res (resolve_terminal w)) c w"
  "conn_backed w \<Longrightarrow> backed_input (GracefulSubmitted res (resolve_terminal w)) c w"
  by (auto simp: backed_input_def dest: resolve_terminal_backed)

lemma error_delivered:
  assumes "\<not> send_is_provisional t" and "\<forall>r. t = ST_Connection r \<longrightarrow> ct_terminal (w_conn_slot w) \<noteq> None"
  shows "\<exists>t'. convert_send S (snd (commit_send_winner t w)) = convert_send S t' \<and>
    delivered_terminal t' (fst (commit_send_winner t w))"
  using commit_send_winner_delivered [OF assms(1), of w] assms(2) by blast

lemma published_backed:
  assumes "conn_backed w" and "\<forall>r. c = ST_Connection r \<longrightarrow> ct_terminal (w_conn_slot w) \<noteq> None"
  shows "backed_input (TerminalPublished (snd (publish_winner c w)) k) s (fst (publish_winner c w))"
  using publish_winner_backed [OF assms(1), of c] assms(2) by (auto simp: backed_input_def)

lemma internal_delivered:
  "\<exists>t. convert_send S (ST_Internal m) = convert_send S t \<and> delivered_terminal t w"
  by (rule exI [of _ "ST_Internal m"]) (simp add: delivered_terminal_def)

lemma poll_ready_backed:
  assumes "backed_input i s w" and "ready_loop_input i"
  shows "iteration_ok (se_status E) False ready_loop_input poll_error (poll_ready_iter E cx i (s, w))"
proof -
  obtain red cmd where t: "transition (se_status E) (ss_reducer s) i = (red, cmd)" by fastforce
  have bk: "conn_backed w" using assms(1) by (simp add: backed_input_def)
  from assms(2) show ?thesis
  proof (cases rule: ready_loop_input.elims(2))
    case (1 p x)
    from ready_commands [OF t [unfolded 1]]
    consider "cmd = Cmd_Pending \<or> cmd = ReturnReady"
      | y where "cmd = ReturnError y" "\<not> send_is_provisional y" "x = Some y \<or> (\<exists>m. y = ST_Internal m)"
      | c where "cmd = PublishTerminal c K_PollReady" "\<forall>r. c \<noteq> ST_Connection r" by blast
    then show ?thesis
    proof cases
      case 1
      with t show ?thesis by (auto simp: poll_ready_iter_def iteration_ok_def)
    next
      case 2
      with error_delivered [of y w "se_status E"] assms(1) t show ?thesis
        by (auto simp: poll_ready_iter_def iteration_ok_def case_prod_beta backed_input_def \<open>i = PollReadyIn p x\<close>)
    next
      case 3
      with published_backed [OF bk, of c] t show ?thesis
        by (simp add: poll_ready_iter_def iteration_ok_def case_prod_beta)
    qed
  next
    case (2 x k)
    from published_commands [OF t [unfolded 2]]
    consider "cmd = ReturnError x" "\<not> send_is_provisional x" | "cmd = RepollReady"
      | "cmd = RepollFinish \<or> cmd = NoOp" by blast
    then show ?thesis
    proof cases
      case 1
      with error_delivered [of x w "se_status E"] assms(1) t show ?thesis
        by (auto simp: poll_ready_iter_def iteration_ok_def case_prod_beta backed_input_def \<open>i = TerminalPublished x k\<close>)
    next
      case 2
      with bk t show ?thesis
        by (simp add: poll_ready_iter_def poll_ready_input_def iteration_ok_def case_prod_beta
            resolve_input_backed conn_backed_frame [OF slots_frame(1,2)])
    next
      case 3
      with internal_delivered t show ?thesis by (auto simp: poll_ready_iter_def iteration_ok_def simp del: convert_send.simps)
    qed
  qed
qed

lemma poll_finish_backed:
  assumes "backed_input i s w" and "finish_loop_input i"
  shows "iteration_ok (se_status E) False finish_loop_input poll_error
    (poll_finish_iter E (stream_executor N) cx i (s, w))"
proof -
  obtain red cmd where t: "transition (se_status E) (ss_reducer s) i = (red, cmd)" by fastforce
  have bk: "conn_backed w" using assms(1) by (simp add: backed_input_def)
  have rep: ?thesis if "cmd = RepollFinish"
    using that bk t
    by (simp add: poll_finish_iter_def poll_finish_input_def iteration_ok_def case_prod_beta
        resolve_input_backed conn_backed_frame [OF slots_frame(1,2)])
  have pub: ?thesis if "cmd = PublishTerminal c K_PollFinish" "\<forall>r. c = ST_Connection r \<longrightarrow> input_terminal i = Some c" for c
    using that published_backed [OF bk, of c] assms(1) t
    by (auto simp: poll_finish_iter_def iteration_ok_def case_prod_beta backed_input_def)
  have err: ?thesis if "cmd = ReturnError y" "\<not> send_is_provisional y" "input_terminal i = Some y" for y
    using that error_delivered [of y w "se_status E"] assms(1) t
    by (auto simp: poll_finish_iter_def iteration_ok_def case_prod_beta backed_input_def)
  from assms(2) show ?thesis
  proof (cases rule: finish_loop_input.elims(2))
    case (1 p x)
    from finish_commands [OF t [unfolded 1]]
    consider "cmd = Cmd_Pending \<or> cmd = ReturnFinished"
      | y where "cmd = ReturnError y" "\<not> send_is_provisional y" "x = Some y" | "cmd = SubmitGraceful"
      | c where "cmd = PublishTerminal c K_PollFinish" "\<forall>r. c = ST_Connection r \<longrightarrow> x = Some c" by blast
    then show ?thesis
    proof cases
      case 1
      with t show ?thesis by (auto simp: poll_finish_iter_def iteration_ok_def)
    next
      case 3
      with bk t show ?thesis
        by (simp add: poll_finish_iter_def iteration_ok_def case_prod_beta resolve_input_backed
            conn_backed_frame [OF slots_frame(5,6)])
    qed (use err pub \<open>i = PollFinishIn p x\<close> in auto)
  next
    case (2 r x)
    with graceful_submitted_commands [OF t [unfolded 2]] rep pub show ?thesis by auto
  next
    case (3 x k)
    from published_commands [OF t [unfolded 3]]
    consider "cmd = ReturnError x" "\<not> send_is_provisional x" | "cmd = RepollFinish"
      | "cmd = RepollReady \<or> cmd = NoOp" by blast
    then show ?thesis
    proof cases
      case 3
      with internal_delivered t show ?thesis
        by (auto simp: poll_finish_iter_def iteration_ok_def simp del: convert_send.simps)
    qed (use err rep \<open>i = TerminalPublished x k\<close> in auto)
  qed
qed

lemma send_data_backed:
  assumes "backed_input i sb w" and "send_loop_input i"
  shows "iteration_ok (se_status E) True send_loop_input result_error
    (send_data_iter E (stream_executor N) ref_from Bu i (sb, w))"
proof -
  obtain s wb where sb: "sb = (s, wb)" by fastforce
  obtain red cmd where t: "transition (se_status E) (ss_reducer s) i = (red, cmd)" by fastforce
  have bk: "conn_backed w" using assms(1) by (simp add: backed_input_def)
  have pub: ?thesis if "cmd = PublishTerminal c K_SendData" "\<forall>r. c = ST_Connection r \<longrightarrow> input_terminal i = Some c" for c
    using that published_backed [OF bk, of c] assms(1) t
    by (auto simp: sb send_data_iter_def iteration_ok_def case_prod_beta backed_input_def)
  have err: ?thesis if "cmd = ReturnError y" "\<not> send_is_provisional y" "input_terminal i = Some y" for y
    using that error_delivered [of y w "se_status E"] assms(1) t
    by (auto simp: sb send_data_iter_def iteration_ok_def case_prod_beta backed_input_def)
  have sent: ?thesis if "cmd = ReturnSent \<or> cmd = ReturnImmediateError e" for e
    using that t by (auto simp: sb send_data_iter_def iteration_ok_def)
  from assms(2) show ?thesis
  proof (cases rule: send_loop_input.elims(2))
    case (1 pl x)
    have sub: ?thesis if "cmd = SubmitSend"
      using that bk t
      by (simp add: sb send_data_iter_def iteration_ok_def case_prod_beta resolve_input_backed
          conn_backed_frame [OF slots_frame(3,4)])
    from requested_commands [OF t [unfolded 1]] sent err sub \<open>i = SendRequested pl x\<close> show ?thesis by auto
  next
    case (2 r x)
    with send_submitted_commands [OF t [unfolded 2]] sent err pub show ?thesis by auto
  next
    case (3 x k)
    from published_commands [OF t [unfolded 3]]
    consider "cmd = ReturnError x" "\<not> send_is_provisional x"
      | "cmd = RepollFinish \<or> cmd = RepollReady \<or> cmd = NoOp" by blast
    then show ?thesis
    proof cases
      case 2
      with internal_delivered t show ?thesis
        by (auto simp: sb send_data_iter_def iteration_ok_def simp del: convert_send.simps)
    qed (use err \<open>i = TerminalPublished x k\<close> in auto)
  qed
qed

lemma drive_delivered:
  assumes "\<And>i c w. backed_input i c w \<Longrightarrow> L i \<Longrightarrow> iteration_ok S imm L err (f i (c, w))"
    and "drive rely f n i (c, w) = Some ((c', w'), a)" and "backed_input i c w" and "L i"
    and "\<And>n. respects_slots (rely n)"
  shows "\<forall>e. err a = Some e \<longrightarrow>
    (\<exists>t. e = convert_send S t \<and> delivered_terminal t w') \<or> imm \<and> (\<exists>op. e = convert_send_op op)"
proof -
  have "case (c', w') of (c', w') \<Rightarrow> \<forall>e. err a = Some e \<longrightarrow>
    (\<exists>t. e = convert_send S t \<and> delivered_terminal t w') \<or> imm \<and> (\<exists>op. e = convert_send_op op)"
  proof (rule drive_invariant [OF assms(2), where P = "\<lambda>i c w. backed_input i c w \<and> L i"])
    show "backed_input i c w \<and> L i" using assms(3,4) by simp
    show "backed_input i c (rely n w) \<and> L i" if "backed_input i c w \<and> L i" for n i c w
      using that assms(5) [of n] by (auto simp: backed_input_def respects_slots_def)
    show "backed_input i' c' w' \<and> L i'"
      if "backed_input i c w \<and> L i" "f i (c, w) = ((c', w'), Continue i')" for i c w c' w' i'
      using assms(1) [of i c w] that by (simp add: iteration_ok_def)
    show "case (c', w') of (c', w') \<Rightarrow> \<forall>e. err a = Some e \<longrightarrow>
        (\<exists>t. e = convert_send S t \<and> delivered_terminal t w') \<or> imm \<and> (\<exists>op. e = convert_send_op op)"
      if "backed_input i c w \<and> L i" "f i (c, w) = ((c', w'), Return a)" for i c w c' w' a
      using assms(1) [of i c w] that by (simp add: iteration_ok_def)
  qed
  then show ?thesis by simp
qed

section \<open>Effects on the native stream and the boxes\<close>

lemma native_view_frame [world_simps]:
  "native_view (fst (commit_send_winner t w)) = native_view w"
  "native_view (fst (publish_winner c w)) = native_view w"
  "native_view (fst (poll_send_channel E cx w)) = native_view w"
  by (simp_all add: native_view_def commit_send_winner_def publish_winner_def poll_send_channel_def
      case_prod_beta split: send_terminal.split)

lemma submit_owned_send_view:
  "native_view (fst (submit_owned_send buf nf w)) =
    (fst (nf (buffers buf) (w_next w) (w_native w)),
     (w_heap w)(w_next w := (if is_ok (snd (nf (buffers buf) (w_next w) (w_native w))) then Some buf else None)),
     Suc (w_next w),
     if is_ok (snd (nf (buffers buf) (w_next w) (w_native w))) then w_frees w else w_next w # w_frees w)"
  "snd (submit_owned_send buf nf w) = snd (nf (buffers buf) (w_next w) (w_native w))"
proof -
  let ?r = "snd (nf (buffers buf) (w_next w) (w_native w))"
  note defs = submit_owned_send_def native_view_def box_into_raw_def box_drop_def case_prod_beta Let_def
  show "native_view (fst (submit_owned_send buf nf w)) =
    (fst (nf (buffers buf) (w_next w) (w_native w)), (w_heap w)(w_next w := (if is_ok ?r then Some buf else None)),
     Suc (w_next w), if is_ok ?r then w_frees w else w_next w # w_frees w)"
    by (cases ?r) (simp_all add: defs)
  show "snd (submit_owned_send buf nf w) = ?r" by (cases ?r) (simp_all add: defs)
qed

text \<open>The rest of the loop after the native call: bookkeeping, a publish at most, no native call.\<close>

lemma send_data_tail:
  assumes "drive calm (send_data_iter E X ref_from Bu) n i (c, w) = Some ((c', w'), a)"
    and "(\<exists>r t. i = SendSubmitted r t) \<or> (\<exists>x k. i = TerminalPublished x k)"
  shows "native_view w' = native_view w"
proof -
  have "case (c', w') of (c', w') \<Rightarrow> native_view w' = native_view w"
  proof (rule drive_invariant [OF assms(1), where
        P = "\<lambda>i c v. native_view v = native_view w \<and> ((\<exists>r t. i = SendSubmitted r t) \<or> (\<exists>x k. i = TerminalPublished x k))"])
    show "native_view w = native_view w \<and> ((\<exists>r t. i = SendSubmitted r t) \<or> (\<exists>x k. i = TerminalPublished x k))"
      using assms(2) by simp
  next
    fix i c v c' v' i'
    assume *: "native_view v = native_view w \<and> ((\<exists>r t. i = SendSubmitted r t) \<or> (\<exists>x k. i = TerminalPublished x k))"
      "send_data_iter E X ref_from Bu i (c, v) = ((c', v'), Continue i')"
    obtain s wb where c: "c = (s, wb)" by fastforce
    obtain red cmd where t: "transition (se_status E) (ss_reducer s) i = (red, cmd)" by fastforce
    from * have "cmd \<noteq> SubmitSend"
      using t send_submitted_commands [of "se_status E" "ss_reducer s" _ _ red cmd]
        published_commands [of "se_status E" "ss_reducer s" _ _ red cmd] by blast
    then show "native_view v' = native_view w \<and> ((\<exists>r t. i' = SendSubmitted r t) \<or> (\<exists>x k. i' = TerminalPublished x k))"
      using * t by (cases cmd) (auto simp: c send_data_iter_def case_prod_beta world_simps)
  next
    fix i c v c' v' and a :: "(unit, stream_error_incoming) result"
    assume *: "native_view v = native_view w \<and> ((\<exists>r t. i = SendSubmitted r t) \<or> (\<exists>x k. i = TerminalPublished x k))"
      "send_data_iter E X ref_from Bu i (c, v) = ((c', v'), Return a)"
    obtain s wb where c: "c = (s, wb)" by fastforce
    obtain red cmd where t: "transition (se_status E) (ss_reducer s) i = (red, cmd)" by fastforce
    show "case (c', v') of (c', w') \<Rightarrow> native_view w' = native_view w"
      using * t by (cases cmd) (auto simp: c send_data_iter_def case_prod_beta world_simps)
  qed (simp add: calm_def)
  then show ?thesis by simp
qed

lemma requested_submits_iff:
  "snd (transition S st (SendRequested pl t)) = SubmitSend \<longleftrightarrow>
    definitive t = None \<and> \<not> send_inprogress st \<and> \<not> send_submitting st \<and> \<not> finish_submitting st \<and>
    \<not> finish_started st \<and> \<not> finish_complete st \<and> (\<exists>l. pl = SendPayload_NonEmpty l)"
  "snd (transition S st (SendRequested pl t)) = SubmitSend \<Longrightarrow>
    fst (transition S st (SendRequested pl t)) = st\<lparr>send_submitting := True\<rparr>"
  by (auto simp: reducer_defs split: reducer_splits)

lemma send_data_unfold:
  assumes "send_data E calm X ref_from Bu wb (s, w) = Some ((s', w'), a)"
  obtains (rejected) "\<not> send_accepts s w (remaining Bu wb)" "native_view w' = native_view w"
  | (submitted) wb' n i where "send_accepts s w (remaining Bu wb)" "\<exists>r t. i = SendSubmitted r t"
    "drive calm (send_data_iter E X ref_from Bu) n i
       ((s\<lparr>ss_reducer := (ss_reducer s)\<lparr>send_submitting := True\<rparr>\<rparr>, fst (copy_into_send_buffer ref_from Bu wb)),
        fst (submit_send X (snd (copy_into_send_buffer ref_from Bu wb)) w)) = Some (((s', wb'), w'), a)"
proof -
  define i where "i = SendRequested (classify_payload (remaining Bu wb) (ss_max_send_bytes s)) (resolve_terminal w)"
  obtain red cmd where t: "transition (se_status E) (ss_reducer s) i = (red, cmd)" by fastforce
  have acc: "cmd = SubmitSend \<longleftrightarrow> send_accepts s w (remaining Bu wb)"
    and red: "cmd = SubmitSend \<Longrightarrow> red = (ss_reducer s)\<lparr>send_submitting := True\<rparr>"
    using t requested_submits_iff [of "se_status E" "ss_reducer s" "classify_payload (remaining Bu wb) (ss_max_send_bytes s)"
        "resolve_terminal w"]
    by (simp_all add: i_def send_accepts_def classify_payload_NonEmpty_iff del: transition.simps)
  obtain m where m: "loop_fuel = Suc m" by (simp add: loop_fuel_def numeral_eq_Suc)
  obtain wb' where d: "drive calm (send_data_iter E X ref_from Bu) (Suc m) i ((s, wb), w) = Some (((s', wb'), w'), a)"
    using assms by (auto simp: send_data_def m i_def split: option.splits prod.splits)
  show thesis
  proof (cases "cmd = SubmitSend")
    case True
    show ?thesis
    proof (rule submitted)
      show "send_accepts s w (remaining Bu wb)" using True acc by simp
      show "drive calm (send_data_iter E X ref_from Bu) m
          (SendSubmitted (snd (submit_send X (snd (copy_into_send_buffer ref_from Bu wb)) w))
             (resolve_terminal (fst (submit_send X (snd (copy_into_send_buffer ref_from Bu wb)) w))))
          ((s\<lparr>ss_reducer := (ss_reducer s)\<lparr>send_submitting := True\<rparr>\<rparr>, fst (copy_into_send_buffer ref_from Bu wb)),
           fst (submit_send X (snd (copy_into_send_buffer ref_from Bu wb)) w)) = Some (((s', wb'), w'), a)"
        using d t True red by (simp add: send_data_iter_def calm_def case_prod_beta Let_def)
    qed blast
  next
    case False
    with requested_commands [OF t [unfolded i_def]]
    consider "cmd = ReturnSent" | e where "cmd = ReturnImmediateError e" | y where "cmd = ReturnError y" by blast
    then have "native_view w' = native_view w"
      using d t by cases (auto simp: send_data_iter_def calm_def case_prod_beta world_simps)
    with False acc show ?thesis by (intro rejected) simp_all
  qed
qed

section \<open>Effects of reset\<close>

lemma publish_winner_view:
  "\<not> send_is_provisional c \<Longrightarrow>
   \<exists>sl. fst (publish_winner c w) = w\<lparr>w_send_slot := sl\<rparr> \<and> definitive sl \<noteq> None"
  using publish_definitive [of c "w_send_slot w"] by (auto simp: publish_winner_def case_prod_beta)

lemma resolve_definitive:
  "definitive (w_send_slot w) \<noteq> None \<Longrightarrow> definitive (resolve_terminal w) \<noteq> None"
  by (auto simp: definitive_def resolve_terminal_def load_winner_def split: option.splits send_terminal.splits if_splits)

lemma reset_inv_step:
  assumes "reset_inv N code (s, w) i c v" and "reset_iter E (stream_executor N) i (c, v) = ((c', v'), Continue i')"
  shows "reset_inv N code (s, w) i' c' v'"
proof -
  obtain red cmd where t: "transition (se_status E) (ss_reducer c) i = (red, cmd)" by fastforce
  show ?thesis
  proof (cases i)
    case (ResetIn b x)
    have inv: "v = w" "b = code" using assms(1) ResetIn by simp_all
    from reset_commands [OF t [unfolded ResetIn]]
    consider "cmd = NoOp" | m where "cmd = PublishTerminal (ST_Internal m) K_Reset" | "cmd = SubmitReset code"
      using inv by blast
    then show ?thesis
    proof cases
      case 1
      with assms(2) t show ?thesis by (simp add: reset_iter_def)
    next
      case 2
      obtain sl where sl: "fst (publish_winner (ST_Internal m) w) = w\<lparr>w_send_slot := sl\<rparr>" "definitive sl \<noteq> None"
        using publish_winner_view [of "ST_Internal m" w] by auto
      from 2 assms(2) t inv have "i' = TerminalPublished (snd (publish_winner (ST_Internal m) w)) K_Reset"
        "v' = w\<lparr>w_send_slot := sl\<rparr>" using sl(1) by (auto simp: reset_iter_def case_prod_beta)
      then show ?thesis using sl(2) by (auto intro!: exI [of _ sl] exI [of _ "w_native w"])
    next
      case 3
      with assms(2) t inv show ?thesis by (auto simp: reset_iter_def shutdown_call_def case_prod_beta)
    qed
  next
    case (ResetSubmitted b r x)
    obtain d where d: "cmd = PublishTerminal d K_Reset" "\<not> send_is_provisional d"
      using reset_submitted_commands [OF t [unfolded ResetSubmitted]] by blast
    from publish_winner_view [OF d(2), of v] obtain sl where
      sl: "fst (publish_winner d v) = v\<lparr>w_send_slot := sl\<rparr>" "definitive sl \<noteq> None" by blast
    from assms d t sl ResetSubmitted show ?thesis
      by (auto simp: reset_iter_def case_prod_beta intro!: exI [of _ sl] exI [of _ "w_native v"])
  next
    case (TerminalPublished x k)
    with published_commands [OF t [unfolded TerminalPublished]] assms(2) t show ?thesis
      by (auto simp: reset_iter_def)
  qed (use assms(1) in simp_all)
qed

section \<open>Pending polls leave their waker\<close>

lemma poll_send_channel_parks:
  assumes "mpsc_channel (se_send E) sq stx srx spark" and "srx (w_send w)"
  shows "srx (w_send (fst (poll_send_channel E cx w)))"
    and "snd (poll_send_channel E cx w) = SP_Pending \<Longrightarrow>
      spark (w_send (fst (poll_send_channel E cx w))) = Some cx \<and> sq (w_send (fst (poll_send_channel E cx w))) = []"
proof -
  show "srx (w_send (fst (poll_send_channel E cx w)))"
    using mpsc_channel.poll_ends(2) [OF assms] by (simp add: poll_send_channel_def case_prod_beta)
  assume "snd (poll_send_channel E cx w) = SP_Pending"
  then have "snd (poll_next (se_send E) cx (w_send w)) = PollPending"
    by (auto simp: poll_send_channel_def case_prod_beta split: poll.splits option.splits)
  with mpsc_channel.poll_pending_iff [OF assms] have "sq (w_send w) = []" "stx (w_send w)" by auto
  with mpsc_channel.poll_parks [OF assms] mpsc_channel.poll_empty_queue [OF assms]
  show "spark (w_send (fst (poll_send_channel E cx w))) = Some cx \<and> sq (w_send (fst (poll_send_channel E cx w))) = []"
    by (simp add: poll_send_channel_def case_prod_beta)
qed

lemma w_send_frame [world_simps]:
  "w_send (fst (commit_send_winner t w)) = w_send w"
  "w_send (fst (publish_winner c w)) = w_send w"
  "w_send (fst (shutdown_call N fl code w)) = w_send w"
  by (simp_all add: commit_send_winner_def publish_winner_def shutdown_call_def case_prod_beta
      split: send_terminal.split)

lemma poll_ready_iter_parks:
  assumes M: "mpsc_channel (se_send E) sq stx srx spark"
    and inv: "park_inv sq srx spark cx ready_loop_input i w"
  shows "poll_ready_iter E cx i (s, w) = ((s', w'), Continue i') \<Longrightarrow> park_inv sq srx spark cx ready_loop_input i' w'"
    and "poll_ready_iter E cx i (s, w) = ((s', w'), Return PollPending) \<Longrightarrow>
      spark (w_send w') = Some cx \<and> sq (w_send w') = []"
proof -
  obtain red cmd where t: "transition (se_status E) (ss_reducer s) i = (red, cmd)" by fastforce
  have rx: "srx (w_send w)" and L: "ready_loop_input i" using inv by (simp_all add: park_inv_def)
  show "park_inv sq srx spark cx ready_loop_input i' w'"
    if "poll_ready_iter E cx i (s, w) = ((s', w'), Continue i')"
    using that t rx poll_send_channel_parks [OF M rx, of cx]
    by (cases cmd; cases "snd (poll_send_channel E cx w)")
      (auto simp: poll_ready_iter_def poll_ready_input_def case_prod_beta world_simps park_inv_def)
  assume "poll_ready_iter E cx i (s, w) = ((s', w'), Return PollPending)"
  then have "cmd = Cmd_Pending" "w' = w" using t by (cases cmd; auto simp: poll_ready_iter_def case_prod_beta)+
  have "pending_input i" using L
  proof (cases rule: ready_loop_input.elims(2))
    case (1 p x)
    with ready_commands [OF t [unfolded 1]] \<open>cmd = Cmd_Pending\<close> show ?thesis by simp
  next
    case (2 x k)
    with published_commands [OF t [unfolded 2]] \<open>cmd = Cmd_Pending\<close> show ?thesis by simp
  qed
  with inv \<open>w' = w\<close> show "spark (w_send w') = Some cx \<and> sq (w_send w') = []" by (simp add: park_inv_def)
qed

lemma poll_finish_iter_parks:
  assumes M: "mpsc_channel (se_send E) sq stx srx spark"
    and inv: "park_inv sq srx spark cx finish_loop_input i w"
  shows "poll_finish_iter E (stream_executor N) cx i (s, w) = ((s', w'), Continue i') \<Longrightarrow>
      park_inv sq srx spark cx finish_loop_input i' w'"
    and "poll_finish_iter E (stream_executor N) cx i (s, w) = ((s', w'), Return PollPending) \<Longrightarrow>
      spark (w_send w') = Some cx \<and> sq (w_send w') = []"
proof -
  obtain red cmd where t: "transition (se_status E) (ss_reducer s) i = (red, cmd)" by fastforce
  have rx: "srx (w_send w)" and L: "finish_loop_input i" using inv by (simp_all add: park_inv_def)
  show "park_inv sq srx spark cx finish_loop_input i' w'"
    if "poll_finish_iter E (stream_executor N) cx i (s, w) = ((s', w'), Continue i')"
    using that t rx poll_send_channel_parks [OF M rx, of cx]
    by (cases cmd; cases "snd (poll_send_channel E cx w)")
      (auto simp: poll_finish_iter_def poll_finish_input_def case_prod_beta world_simps park_inv_def)
  assume "poll_finish_iter E (stream_executor N) cx i (s, w) = ((s', w'), Return PollPending)"
  then have "cmd = Cmd_Pending" "w' = w" using t by (cases cmd; auto simp: poll_finish_iter_def case_prod_beta)+
  have "pending_input i" using L
  proof (cases rule: finish_loop_input.elims(2))
    case (1 p x)
    with finish_commands [OF t [unfolded 1]] \<open>cmd = Cmd_Pending\<close> show ?thesis by simp
  next
    case (2 r x)
    with graceful_submitted_commands [OF t [unfolded 2]] \<open>cmd = Cmd_Pending\<close> show ?thesis by simp
  next
    case (3 x k)
    with published_commands [OF t [unfolded 3]] \<open>cmd = Cmd_Pending\<close> show ?thesis by simp
  qed
  with inv \<open>w' = w\<close> show "spark (w_send w') = Some cx \<and> sq (w_send w') = []" by (simp add: park_inv_def)
qed

lemma drive_pending:
  assumes "drive calm f n i (c, w) = Some ((c', w'), a)" and "a = PollPending" and "P i w"
    and "\<And>i c w c' w' i'. P i w \<Longrightarrow> f i (c, w) = ((c', w'), Continue i') \<Longrightarrow> P i' w'"
    and "\<And>i c w c' w'. P i w \<Longrightarrow> f i (c, w) = ((c', w'), Return PollPending) \<Longrightarrow> Q w'"
  shows "Q w'"
proof -
  have "a = PollPending \<longrightarrow> Q (snd (c', w'))"
    by (rule drive_invariant [OF assms(1), where P = "\<lambda>i c w. P i w"]) (use assms(3-5) in \<open>auto simp: calm_def\<close>)
  with assms(2) show ?thesis by simp
qed

section \<open>Properties\<close>

text \<open>
  C35: the four executor loops always return. However other threads change the shared world
  between two iterations, \<open>poll_ready\<close>, \<open>send_data\<close>, \<open>poll_finish\<close> and \<open>reset\<close> reach a result
  within six iterations, whatever the bookkeeping, the channel and the native results.
\<close>

theorem send_loops_return:
  "(\<exists>r. poll_ready E rely cx st = Some r) \<and> (\<exists>r. send_data E rely X ref_from Bu wb st = Some r) \<and>
   (\<exists>r. poll_finish E rely X cx st = Some r) \<and> (\<exists>r. reset E rely X code st = Some r)"
  by (simp add: poll_ready_returns send_data_returns poll_finish_returns reset_returns del: split_paired_Ex)



text \<open>
  C11: \<open>send_data\<close> hands over one complete payload or nothing. It reaches the native library
  exactly when no definitive cause is known, nothing is in flight and the length is between 1 and
  the configured ceiling; then there is one native send, of one owned copy of exactly the source's
  bytes under a fresh non-null context, which stays boxed if the call is accepted and is reclaimed
  once if it is refused. On every other path no byte is copied, boxed or submitted.
\<close>

theorem send_data_exactly_once:
  assumes "buf_source Bu rest fits" and "fits wb"
    and "send_data E calm (stream_executor N) ref_from Bu wb (s, w) = Some ((s', w'), a)"
  shows "if send_accepts s w (remaining Bu wb) then
      (\<exists>b. content_of b = rest wb \<and>
        (let buf = send_buffer_new ref_from b; (n, r) = ns_send N (buffers buf) (w_next w) (w_native w)
         in native_view w' =
           (n, (w_heap w)(w_next w := (if is_ok r then Some buf else None)), Suc (w_next w),
            if is_ok r then w_frees w else w_next w # w_frees w)))
    else native_view w' = native_view w"
  using assms(3)
proof (cases rule: send_data_unfold)
  case (submitted wb' n i)
  let ?b = "snd (copy_to_bytes Bu (remaining Bu wb) wb)"
  have buf: "snd (copy_into_send_buffer ref_from Bu wb) = send_buffer_new ref_from ?b"
    by (simp add: copy_into_send_buffer_def case_prod_beta)
  have "content_of ?b = rest wb" by (rule buf_source.copy_all(1) [OF assms(1,2)])
  with send_data_tail [OF submitted(3)] submitted(1,2) show ?thesis
    by (auto simp: submit_owned_send_view buf case_prod_beta Let_def intro!: exI [of _ ?b])
qed simp

theorem send_data_exactly_once_witness:
  "\<exists>s' w' b. send_data ref_env calm (stream_executor log_native) native_buffer_ref slice_buf
        (50, [1, 2, 3]) (ref_sctx, ref_world conn_terminal_default) = Some ((s', w'), Ok ()) \<and>
     content_of b = [1, 2, 3] \<and> w_heap w' 1 = Some (send_buffer_new native_buffer_ref b) \<and> w_frees w' = []"
proof -
  let ?w = "ref_world conn_terminal_default"
  let ?call = "send_data ref_env calm (stream_executor log_native) native_buffer_ref slice_buf (50, [1, 2, 3]) (ref_sctx, ?w)"
  have ok: "map_option (\<lambda>((s, w), r). r) ?call = Some (Ok ())" by code_simp
  then obtain s' w' where r: "?call = Some ((s', w'), Ok ())" by (cases ?call) auto
  have acc: "send_accepts ref_sctx ?w (remaining slice_buf (50, [1, 2, 3]))" "w_next ?w = 1" "w_frees ?w = []"
    by code_simp+
  from send_data_exactly_once [OF slice.buf_source_axioms _ r] acc
  obtain b where b: "content_of b = [1, 2, 3]"
    "native_view w' = (w_native ?w @ [NC_Send (buffers (send_buffer_new native_buffer_ref b)) 1],
      (w_heap ?w)(1 \<mapsto> send_buffer_new native_buffer_ref b), 2, [])"
    by (auto simp: log_native_def Let_def)
  with r show ?thesis by (intro exI [of _ s'] exI [of _ w'] exI [of _ b]) (simp add: native_view_def)
qed

text \<open>
  Once a finish has started \<open>poll_ready\<close> consumes nothing. It answers with an error at
  once, leaves the send channel (where the completion of the finish will arrive), its bookkeeping
  and everything else as they are, and at most freezes the connection slot.
\<close>

theorem poll_ready_after_finish_consumes_nothing:
  assumes "finish_started (ss_reducer s)"
  shows "\<exists>w' e. poll_ready E rely cx (s, w) = Some ((s, w'), PollReady (Err e)) \<and>
    w' = w\<lparr>w_conn_slot := w_conn_slot w'\<rparr> \<and> ct_terminal (w_conn_slot w') = ct_terminal (w_conn_slot w)"
  using assms
  by (cases "resolve_terminal w")
    (auto simp: poll_ready_def commit_send_winner_def case_prod_beta slot_simps split: send_terminal.split)

theorem poll_ready_after_finish_consumes_nothing_witness:
  "\<exists>w' e. poll_ready ref_env calm 7
      (ref_sctx\<lparr>ss_reducer := send_state_new\<lparr>finish_started := True\<rparr>\<rparr>, ref_world conn_terminal_default) =
    Some ((ref_sctx\<lparr>ss_reducer := send_state_new\<lparr>finish_started := True\<rparr>\<rparr>, w'), PollReady (Err e)) \<and>
    w_send w' = w_send (ref_world conn_terminal_default)"
proof -
  let ?s = "ref_sctx\<lparr>ss_reducer := send_state_new\<lparr>finish_started := True\<rparr>\<rparr>"
  have "finish_started (ss_reducer ?s)" by simp
  from poll_ready_after_finish_consumes_nothing [OF this, of ref_env calm 7 "ref_world conn_terminal_default"]
  obtain w' e where "poll_ready ref_env calm 7 (?s, ref_world conn_terminal_default) = Some ((?s, w'), PollReady (Err e))"
    and w': "w' = (ref_world conn_terminal_default)\<lparr>w_conn_slot := w_conn_slot w'\<rparr>" by blast
  moreover have "w_send w' = w_send (ref_world conn_terminal_default)" by (subst w') simp
  ultimately show ?thesis by blast
qed

text \<open>
  \<open>reset\<close> submits at most one reset, with a clamped code, and never freezes the connection
  slot. Of the shared state it changes only the send slot and the native stream; afterwards a
  definitive send terminal is known unless the finish was already complete.
\<close>

theorem reset_effects:
  assumes "reset E calm (stream_executor N) code (s, w) = Some (s', w')"
  shows "(\<exists>sl n. w' = w\<lparr>w_native := n, w_send_slot := sl\<rparr> \<and>
      (n = w_native w \<or> n = fst (ns_shutdown N SHUTDOWN_ABORT_SEND (clamp_application_code code) (w_native w)))) \<and>
    (\<not> finish_complete (ss_reducer s) \<longrightarrow> definitive (resolve_terminal w') \<noteq> None)"
proof -
  let ?N = "fst (ns_shutdown N SHUTDOWN_ABORT_SEND (clamp_application_code code) (w_native w))"
  let ?Q = "\<lambda>(c' :: 'a send_stream_receive_ctx, v). (\<exists>sl n. v = w\<lparr>w_native := n, w_send_slot := sl\<rparr> \<and> (n = w_native w \<or> n = ?N)) \<and>
    (\<not> finish_complete (ss_reducer s) \<longrightarrow> definitive (resolve_terminal v) \<noteq> None)"
  obtain u where d: "drive calm (reset_iter E (stream_executor N)) loop_fuel
      (ResetIn (clamp_application_code code) (resolve_terminal w)) (s, w) = Some ((s', w'), u)"
    using assms by (auto simp: reset_def)
  have "?Q (s', w')"
  proof (rule drive_invariant [OF d, where P = "reset_inv N (clamp_application_code code) (s, w)"])
    fix i c v c' v' and u :: unit
    assume inv: "reset_inv N (clamp_application_code code) (s, w) i c v"
      and f: "reset_iter E (stream_executor N) i (c, v) = ((c', v'), Return u)"
    obtain red cmd where t: "transition (se_status E) (ss_reducer c) i = (red, cmd)" by fastforce
    show "?Q (c', v')"
    proof (cases i)
      case (ResetIn b x)
      then have "cmd = NoOp" using reset_commands [OF t [unfolded ResetIn]] f t
        by (auto simp: reset_iter_def case_prod_beta)
      with t have "finish_complete (ss_reducer c) \<or> definitive x \<noteq> None"
        by (auto simp: ResetIn reducer_defs split: if_splits)
      with inv f t \<open>cmd = NoOp\<close> ResetIn show ?thesis
        by (auto simp: reset_iter_def intro!: exI [of _ "w_send_slot w"] exI [of _ "w_native w"])
    next
      case (ResetSubmitted b r x)
      with reset_submitted_commands [OF t [unfolded ResetSubmitted]] f t show ?thesis
        by (auto simp: reset_iter_def case_prod_beta)
    next
      case (TerminalPublished x k)
      with published_commands [OF t [unfolded TerminalPublished]] f t have "v' = v"
        by (auto simp: reset_iter_def)
      moreover obtain sl n where v: "v = w\<lparr>w_native := n, w_send_slot := sl\<rparr>" "definitive sl \<noteq> None"
        "n = w_native w \<or> n = ?N" using inv TerminalPublished by auto
      moreover have "definitive (resolve_terminal v) \<noteq> None" using v by (intro resolve_definitive) simp
      ultimately show ?thesis by blast
    qed (use inv in simp_all)
  qed (auto simp: calm_def dest: reset_inv_step)
  then show ?thesis by simp
qed

theorem reset_effects_witness:
  "\<exists>s' w'. reset ref_env calm (stream_executor log_native) 5 (ref_sctx, ref_world conn_terminal_default) = Some (s', w') \<and>
    w_conn_slot w' = conn_terminal_default \<and> definitive (resolve_terminal w') \<noteq> None"
proof -
  let ?w = "ref_world conn_terminal_default"
  obtain s' w' where r: "reset ref_env calm (stream_executor log_native) 5 (ref_sctx, ?w) = Some (s', w')"
    using reset_returns [of ref_env calm "stream_executor log_native" 5 "(ref_sctx, ?w)"] by auto
  have "\<not> finish_complete (ss_reducer ref_sctx)" "w_conn_slot ?w = conn_terminal_default" by code_simp+
  with reset_effects [OF r] r show ?thesis by (intro exI [of _ s'] exI [of _ w']) auto
qed




end
