(* ===== verification/H3_Recv_Stream.thy ===== *)
theory H3_Recv_Stream
  imports H3_Send_Stream
begin

text \<open>
  The receive half of a stream and the stream as a whole (\<open>stream.rs\<close>): the receive seam,
  \<open>poll_event\<close>, \<open>poll_data\<close> and \<open>stop_sending\<close>, the construction of the two halves
  (\<open>finalize\<close>, \<open>attach\<close>, \<open>open_and_start\<close>) and the delegations of \<open>H3Stream\<close>.

  The receivers a half or an opening stream owns are the receiving ends of the channels of the
  stream's world, so an \<open>OpeningStream\<close> is the configured send ceiling beside that world.
\<close>

section \<open>The receive half\<close>

record 'i recv_stream_receive_ctx =
  rs_id :: 'i
  rs_terminal :: "receive_terminal option"
  rs_receive_closed :: bool

type_synonym ('i, 'o, 's, 'r, 'n) recv_st =
  "'i recv_stream_receive_ctx \<times> ('o, 's, 'r, 'n) stream_world"

record 'w recv_exec =
  submit_stop_sending :: "u64 \<Rightarrow> 'w \<Rightarrow> 'w \<times> (unit, status) result"
  submit_receive_complete :: "u64 \<Rightarrow> 'w \<Rightarrow> 'w"

definition recv_stream_executor :: "'n native_stream \<Rightarrow> ('o, 's, 'r, 'n) stream_world recv_exec" where
  "recv_stream_executor N =
     \<lparr>submit_stop_sending = shutdown_call N SHUTDOWN_ABORT_RECEIVE,
      submit_receive_complete = (\<lambda>len w. w\<lparr>w_native := ns_receive_complete N len (w_native w)\<rparr>)\<rparr>"

definition close_receive_locally :: "'i recv_stream_receive_ctx \<Rightarrow> 'i recv_stream_receive_ctx" where
  "close_receive_locally rs = rs\<lparr>rs_receive_closed := True\<rparr>"

definition store_and_convert ::
  "receive_terminal \<Rightarrow> ('i, 'o, 's, 'r, 'n) recv_st \<Rightarrow>
   ('i, 'o, 's, 'r, 'n) recv_st \<times> (bytes option, stream_error_incoming) result poll" where
  "store_and_convert terminal st =
     (let (rs, w) = st in ((rs\<lparr>rs_terminal := Some terminal\<rparr>, w), PollReady (convert_recv terminal)))"

definition poll_event ::
  "('o, 's, 'r) stream_env \<Rightarrow> waker \<Rightarrow> ('i, 'o, 's, 'r, 'n) recv_st \<Rightarrow>
   ('i, 'o, 's, 'r, 'n) recv_st \<times> (bytes option, stream_error_incoming) result poll" where
  "poll_event E cx st =
     (let (rs, w) = st in
      if rs_receive_closed rs then ((rs, w), PollReady (Ok None))
      else case rs_terminal rs of
        Some terminal \<Rightarrow> ((rs, w), PollReady (convert_recv terminal))
      | None \<Rightarrow>
          (let (ch, polled) = poll_next (se_recv E) cx (w_recv w); w = w\<lparr>w_recv := ch\<rparr> in
           case polled of
             PollPending \<Rightarrow> ((rs, w), PollPending)
           | PollReady (Some (RE_Data b)) \<Rightarrow> ((rs, w), PollReady (Ok (Some b)))
           | PollReady (Some RE_Fin) \<Rightarrow> store_and_convert RT_Fin (rs, w)
           | PollReady (Some (RE_Reset code)) \<Rightarrow> store_and_convert (RT_Reset code) (rs, w)
           | PollReady (Some (RE_Connection fallback)) \<Rightarrow>
               (let (slot, winner) = observe_conn_winner (w_conn_slot w)
                in store_and_convert (RT_Connection (unwrap_or winner fallback)) (rs, w\<lparr>w_conn_slot := slot\<rparr>))
           | PollReady (Some (RE_Internal msg)) \<Rightarrow> store_and_convert (RT_Internal msg) (rs, w)
           | PollReady None \<Rightarrow>
               store_and_convert (RT_Internal ''receive channel closed without a terminal reason'') (rs, w)))"

text \<open>The length handed to \<open>receive_complete\<close> after a poll result, if any.\<close>

definition drained_completion ::
  "(bytes option, stream_error_incoming) result poll \<Rightarrow> recv_budget \<Rightarrow> recv_budget \<times> u64 option" where
  "drained_completion polled bud =
     (case polled of
        PollReady (Ok (Some b)) \<Rightarrow> on_drained (of_nat (length b)) bud
      | _ \<Rightarrow> (bud, None))"

definition poll_data ::
  "('o, 's, 'r) stream_env \<Rightarrow> ('o, 's, 'r, 'n) stream_world recv_exec \<Rightarrow> waker \<Rightarrow> ('i, 'o, 's, 'r, 'n) recv_st \<Rightarrow>
   ('i, 'o, 's, 'r, 'n) recv_st \<times> (bytes option, stream_error_incoming) result poll" where
  "poll_data E X cx st =
     (let ((rs, w), polled) = poll_event E cx st;
          (bud, completion) = drained_completion polled (w_budget w);
          w = w\<lparr>w_budget := bud\<rparr>;
          w = (case completion of Some len \<Rightarrow> submit_receive_complete X len w | None \<Rightarrow> w)
      in ((rs, w), polled))"

definition stop_sending ::
  "('o, 's, 'r, 'n) stream_world recv_exec \<Rightarrow> u64 \<Rightarrow> ('i, 'o, 's, 'r, 'n) recv_st \<Rightarrow> ('i, 'o, 's, 'r, 'n) recv_st" where
  "stop_sending X error_code st =
     (let (rs, w) = st; (w, _) = submit_stop_sending X (clamp_application_code error_code) w
      in (close_receive_locally rs, w))"

definition recv_id :: "'i recv_stream_receive_ctx \<Rightarrow> 'i" where
  "recv_id rs = rs_id rs"

section \<open>The stream\<close>

record 'i h3_stream =
  h3_send :: "'i send_stream_receive_ctx"
  h3_recv :: "'i recv_stream_receive_ctx"

record opening_stream =
  os_max_send_bytes :: u64

text \<open>\<open>PreIdReceivers\<close> of \<open>stream_ctx_channel_pre_id\<close>, beside the world it creates.\<close>

definition pre_id_receivers :: "h3_config \<Rightarrow> opening_stream" where
  "pre_id_receivers config = \<lparr>os_max_send_bytes = max_send_bytes config\<rparr>"

definition finalize :: "opening_stream \<Rightarrow> 'i \<Rightarrow> 'i h3_stream" where
  "finalize os sid =
     \<lparr>h3_send = \<lparr>ss_id = sid, ss_max_send_bytes = os_max_send_bytes os, ss_reducer = send_state_new\<rparr>,
      h3_recv = \<lparr>rs_id = sid, rs_terminal = None, rs_receive_closed = False\<rparr>\<rparr>"

definition attach ::
  "('o, 's, 'r) stream_env \<Rightarrow> 'i \<Rightarrow> conn_terminal_state \<Rightarrow> h3_config \<Rightarrow> 'n \<Rightarrow>
   ('o, 's, 'r, 'n) stream_st \<times> 'i h3_stream" where
  "attach E sid conn_terminal config n =
     (stream_ctx_channel_pre_id E conn_terminal config n, finalize (pre_id_receivers config) sid)"

text \<open>The native calls that create and start a stream, and the close its drop runs.\<close>

datatype stream_open_flags = OPEN_NONE | OPEN_UNIDIRECTIONAL

record 'n native_open =
  no_open :: "stream_open_flags \<Rightarrow> 'n \<Rightarrow> 'n \<times> (unit, status) result"
  no_start :: "'n \<Rightarrow> 'n \<times> (unit, status) result"
  no_close :: "'n \<Rightarrow> 'n"

definition open_and_start ::
  "('o, 's, 'r) stream_env \<Rightarrow> 'n native_open \<Rightarrow> conn_terminal_state \<Rightarrow> h3_config \<Rightarrow> bool \<Rightarrow> 'n \<Rightarrow>
   'n \<times> (('o, 's, 'r, 'n) stream_st \<times> opening_stream, status) result" where
  "open_and_start E NO conn_terminal config uni n =
     (case no_open NO (if uni then OPEN_UNIDIRECTIONAL else OPEN_NONE) n of
        (n, Err status) \<Rightarrow> (n, Err status)
      | (n, Ok _) \<Rightarrow>
          (case no_start NO n of
             (n, Err status) \<Rightarrow> (no_close NO n, Err status)
           | (n, Ok _) \<Rightarrow>
               (n, Ok (stream_ctx_channel_pre_id E conn_terminal config n, pre_id_receivers config))))"

section \<open>Delegations\<close>

definition on_send :: "('i send_stream_receive_ctx \<times> 'w) \<times> 'a \<Rightarrow> 'i h3_stream \<Rightarrow> ('i h3_stream \<times> 'w) \<times> 'a" where
  "on_send r h = (let ((s, w), a) = r in ((h\<lparr>h3_send := s\<rparr>, w), a))"

definition bidi_poll_ready ::
  "('o, 's, 'r) stream_env \<Rightarrow> (nat \<Rightarrow> ('o, 's, 'r, 'n) stream_world \<Rightarrow> ('o, 's, 'r, 'n) stream_world) \<Rightarrow> waker \<Rightarrow>
   'i h3_stream \<times> ('o, 's, 'r, 'n) stream_world \<Rightarrow>
   (('i h3_stream \<times> ('o, 's, 'r, 'n) stream_world) \<times> (unit, stream_error_incoming) result poll) option" where
  "bidi_poll_ready E rely cx st =
     map_option (\<lambda>r. on_send r (fst st)) (poll_ready E rely cx (h3_send (fst st), snd st))"

definition bidi_send_data ::
  "('o, 's, 'r) stream_env \<Rightarrow> (nat \<Rightarrow> ('o, 's, 'r, 'n) stream_world \<Rightarrow> ('o, 's, 'r, 'n) stream_world) \<Rightarrow>
   ('o, 's, 'r, 'n) stream_world send_exec \<Rightarrow> (nat \<Rightarrow> usize \<Rightarrow> buffer_ref) \<Rightarrow> 'b buf_ops \<Rightarrow> 'b \<Rightarrow>
   'i h3_stream \<times> ('o, 's, 'r, 'n) stream_world \<Rightarrow>
   (('i h3_stream \<times> ('o, 's, 'r, 'n) stream_world) \<times> (unit, stream_error_incoming) result) option" where
  "bidi_send_data E rely X ref_from Bu wb st =
     map_option (\<lambda>r. on_send r (fst st)) (send_data E rely X ref_from Bu wb (h3_send (fst st), snd st))"

definition bidi_poll_finish ::
  "('o, 's, 'r) stream_env \<Rightarrow> (nat \<Rightarrow> ('o, 's, 'r, 'n) stream_world \<Rightarrow> ('o, 's, 'r, 'n) stream_world) \<Rightarrow>
   ('o, 's, 'r, 'n) stream_world send_exec \<Rightarrow> waker \<Rightarrow> 'i h3_stream \<times> ('o, 's, 'r, 'n) stream_world \<Rightarrow>
   (('i h3_stream \<times> ('o, 's, 'r, 'n) stream_world) \<times> (unit, stream_error_incoming) result poll) option" where
  "bidi_poll_finish E rely X cx st =
     map_option (\<lambda>r. on_send r (fst st)) (poll_finish E rely X cx (h3_send (fst st), snd st))"

definition bidi_reset ::
  "('o, 's, 'r) stream_env \<Rightarrow> (nat \<Rightarrow> ('o, 's, 'r, 'n) stream_world \<Rightarrow> ('o, 's, 'r, 'n) stream_world) \<Rightarrow>
   ('o, 's, 'r, 'n) stream_world send_exec \<Rightarrow> u64 \<Rightarrow> 'i h3_stream \<times> ('o, 's, 'r, 'n) stream_world \<Rightarrow>
   ('i h3_stream \<times> ('o, 's, 'r, 'n) stream_world) option" where
  "bidi_reset E rely X code st =
     map_option (\<lambda>(s, w). ((fst st)\<lparr>h3_send := s\<rparr>, w)) (reset E rely X code (h3_send (fst st), snd st))"

definition bidi_poll_data ::
  "('o, 's, 'r) stream_env \<Rightarrow> ('o, 's, 'r, 'n) stream_world recv_exec \<Rightarrow> waker \<Rightarrow>
   'i h3_stream \<times> ('o, 's, 'r, 'n) stream_world \<Rightarrow>
   ('i h3_stream \<times> ('o, 's, 'r, 'n) stream_world) \<times> (bytes option, stream_error_incoming) result poll" where
  "bidi_poll_data E X cx st =
     (let ((rs, w), polled) = poll_data E X cx (h3_recv (fst st), snd st)
      in (((fst st)\<lparr>h3_recv := rs\<rparr>, w), polled))"

definition bidi_stop_sending ::
  "('o, 's, 'r, 'n) stream_world recv_exec \<Rightarrow> u64 \<Rightarrow> 'i h3_stream \<times> ('o, 's, 'r, 'n) stream_world \<Rightarrow>
   'i h3_stream \<times> ('o, 's, 'r, 'n) stream_world" where
  "bidi_stop_sending X code st =
     (let (rs, w) = stop_sending X code (h3_recv (fst st), snd st) in ((fst st)\<lparr>h3_recv := rs\<rparr>, w))"

definition bidi_send_id :: "'i h3_stream \<Rightarrow> 'i" where
  "bidi_send_id h = send_id (h3_send h)"

definition bidi_recv_id :: "'i h3_stream \<Rightarrow> 'i" where
  "bidi_recv_id h = recv_id (h3_recv h)"

definition split_stream :: "'i h3_stream \<Rightarrow> 'i send_stream_receive_ctx \<times> 'i recv_stream_receive_ctx" where
  "split_stream h = (h3_send h, h3_recv h)"

section \<open>Specification vocabulary\<close>

text \<open>Polling a number of times in a row.\<close>

fun poll_many ::
  "('o, 's, 'r) stream_env \<Rightarrow> ('o, 's, 'r, 'n) stream_world recv_exec \<Rightarrow> waker \<Rightarrow> nat \<Rightarrow>
   ('i, 'o, 's, 'r, 'n) recv_st \<Rightarrow>
   ('i, 'o, 's, 'r, 'n) recv_st \<times> (bytes option, stream_error_incoming) result poll list" where
  "poll_many E X cx 0 st = (st, [])"
| "poll_many E X cx (Suc n) st =
     (let (st, p) = poll_data E X cx st; (st, ps) = poll_many E X cx n st in (st, p # ps))"

text \<open>The lengths of the queued data events.\<close>

fun data_lens :: "receive_event list \<Rightarrow> usize list" where
  "data_lens [] = []"
| "data_lens (RE_Data b # q) = of_nat (length b) # data_lens q"
| "data_lens (_ # q) = data_lens q"

fun is_receive :: "stream_event \<Rightarrow> bool" where
  "is_receive (SE_Receive _ _ _) = True"
| "is_receive _ = False"

text \<open>A connection marker in the receive queue is backed by the shared connection slot.\<close>

definition recv_backed :: "('r \<Rightarrow> receive_event list) \<Rightarrow> ('o, 's, 'r, 'n) stream_world \<Rightarrow> bool" where
  "recv_backed rq w \<longleftrightarrow>
     (\<forall>ev \<in> set (rq (w_recv w)). case ev of RE_Connection _ \<Rightarrow> ct_terminal (w_conn_slot w) \<noteq> None | _ \<Rightarrow> True)"

text \<open>The terminal a queued terminal event stands for when the connection slot holds \<open>c\<close>.\<close>

fun recv_terminal_of :: "connection_terminal option \<Rightarrow> receive_event \<Rightarrow> receive_terminal" where
  "recv_terminal_of c RE_Fin = RT_Fin"
| "recv_terminal_of c (RE_Reset code) = RT_Reset code"
| "recv_terminal_of c (RE_Connection fb) = RT_Connection (unwrap_or c fb)"
| "recv_terminal_of c (RE_Internal m) = RT_Internal m"
| "recv_terminal_of c (RE_Data b) = RT_Internal ''data is not a terminal''"

text \<open>
  The interleavings of one stream's callback with its receive half. \<open>g\<close> is the length of the
  indication the native library holds pended: the library indicates no further data until it is
  completed (its contract, the guard of \<open>rs_receive\<close>), a receive callback answered with an error
  pends, and the completion a poll submits ends the pend. Indications have at most \<open>n\<close> bytes.
\<close>

inductive recv_sys ::
  "('o, 's, 'r) stream_env \<Rightarrow> 'm native_stream \<Rightarrow> h3_config \<Rightarrow> nat \<Rightarrow>
   'i recv_stream_receive_ctx \<Rightarrow> ('o, 's, 'r, 'm) stream_st \<Rightarrow> u64 option \<Rightarrow> bool"
  for E N cfg n where
  rs_new: "stream_ctx_channel_pre_id E conn cfg m = st \<Longrightarrow>
    recv_sys E N cfg n (h3_recv (finalize (pre_id_receivers cfg) i)) st None"
| rs_receive: "recv_sys E N cfg n rs st None \<Longrightarrow> length (concat bufs) \<le> n \<Longrightarrow>
    cb_Receive E bufs fin st = (st', res) \<Longrightarrow>
    recv_sys E N cfg n rs st' (if is_ok res then None else Some (of_nat (length (concat bufs))))"
| rs_event: "recv_sys E N cfg n rs st g \<Longrightarrow> \<not> is_receive ev \<Longrightarrow>
    stream_callback E ev st = (st', res) \<Longrightarrow> recv_sys E N cfg n rs st' g"
| rs_poll: "recv_sys E N cfg n rs (c, w) g \<Longrightarrow>
    poll_data E (recv_stream_executor N) cx (rs, w) = ((rs', w'), polled) \<Longrightarrow>
    snd (drained_completion polled (w_budget w)) = completion \<Longrightarrow>
    recv_sys E N cfg n rs' (c, w') (if completion = None then g else None)"
| rs_stop: "recv_sys E N cfg n rs (c, w) g \<Longrightarrow>
    stop_sending (recv_stream_executor N) code (rs, w) = (rs', w') \<Longrightarrow> recv_sys E N cfg n rs' (c, w') g"

section \<open>Lemmas\<close>

lemma data_lens_append [simp]: "data_lens (p @ q) = data_lens p @ data_lens q"
  by (induction p rule: data_lens.induct) simp_all

lemma data_lens_skip: "\<forall>b. e \<noteq> RE_Data b \<Longrightarrow> data_lens (e # q) = data_lens q"
  by (cases e) simp_all

lemma data_lens_no_data: "\<forall>e \<in> set q. \<not> is_data e \<Longrightarrow> data_lens q = []"
  by (induction q rule: data_lens.induct) simp_all

lemma data_lens_map [simp]: "data_lens (map RE_Data ds) = map (\<lambda>b. of_nat (length b)) ds"
  by (induction ds) simp_all

lemma recv_out_no_data: "\<not> is_receive ev \<Longrightarrow> data_lens (recv_out S ev) = []"
  by (cases ev) (simp_all split: if_splits)

lemma recv_executor_simps [simp]:
  "submit_stop_sending (recv_stream_executor N) = shutdown_call N SHUTDOWN_ABORT_RECEIVE"
  "submit_receive_complete (recv_stream_executor N) len w = w\<lparr>w_native := ns_receive_complete N len (w_native w)\<rparr>"
  by (simp_all add: recv_stream_executor_def)

lemma store_and_convert_simps [simp]:
  "store_and_convert t (rs, w) = ((rs\<lparr>rs_terminal := Some t\<rparr>, w), PollReady (convert_recv t))"
  by (simp add: store_and_convert_def)

lemma convert_recv_not_data: "convert_recv t \<noteq> Ok (Some b)"
  by (cases t) simp_all

text \<open>A stored terminal or a local close is replayed without touching anything.\<close>

lemma poll_data_closed:
  "rs_receive_closed rs \<Longrightarrow> poll_data E X cx (rs, w) = ((rs, w), PollReady (Ok None))"
  by (simp add: poll_data_def poll_event_def drained_completion_def)

lemma poll_data_replay:
  assumes "\<not> rs_receive_closed rs" and "rs_terminal rs = Some t"
  shows "poll_data E X cx (rs, w) = ((rs, w), PollReady (convert_recv t))"
proof -
  have "drained_completion (PollReady (convert_recv t)) (w_budget w) = (w_budget w, None)"
    by (cases t) (simp_all add: drained_completion_def)
  with assms show ?thesis by (simp add: poll_data_def poll_event_def)
qed

lemma poll_many_replay:
  "\<not> rs_receive_closed rs \<Longrightarrow> rs_terminal rs = Some t \<Longrightarrow>
   poll_many E X cx k (rs, w) = ((rs, w), replicate k (PollReady (convert_recv t)))"
  by (induction k) (simp_all add: poll_data_replay)

lemma poll_many_closed:
  "rs_receive_closed rs \<Longrightarrow> poll_many E X cx k (rs, w) = ((rs, w), replicate k (PollReady (Ok None)))"
  by (induction k) (simp_all add: poll_data_closed)

lemma poll_many_add:
  "poll_many E X cx (a + b) st =
    (let (st, ps) = poll_many E X cx a st; (st, qs) = poll_many E X cx b st in (st, ps @ qs))"
  by (induction a arbitrary: st) (simp_all add: case_prod_beta Let_def)

text \<open>\<open>poll_data\<close> on an open receive half, one equation per result of the channel.\<close>

lemma poll_data_eqs:
  assumes "\<not> rs_receive_closed rs" and "rs_terminal rs = None" and "poll_next (se_recv E) cx (w_recv w) = (ch, p)"
  shows "p = PollReady (Some (RE_Data b)) \<Longrightarrow> poll_data E (recv_stream_executor N) cx (rs, w) =
      ((rs, w\<lparr>w_recv := ch, w_budget := fst (on_drained (of_nat (length b)) (w_budget w)),
          w_native := (case snd (on_drained (of_nat (length b)) (w_budget w)) of
            Some len \<Rightarrow> ns_receive_complete N len (w_native w) | None \<Rightarrow> w_native w)\<rparr>), PollReady (Ok (Some b)))"
    and "p = PollPending \<Longrightarrow> poll_data E X cx (rs, w) = ((rs, w\<lparr>w_recv := ch\<rparr>), PollPending)"
    and "p = PollReady (Some RE_Fin) \<Longrightarrow> poll_data E X cx (rs, w) =
      ((rs\<lparr>rs_terminal := Some RT_Fin\<rparr>, w\<lparr>w_recv := ch\<rparr>), PollReady (Ok None))"
    and "p = PollReady (Some (RE_Reset code)) \<Longrightarrow> poll_data E X cx (rs, w) =
      ((rs\<lparr>rs_terminal := Some (RT_Reset code)\<rparr>, w\<lparr>w_recv := ch\<rparr>), PollReady (convert_recv (RT_Reset code)))"
    and "p = PollReady (Some (RE_Internal msg)) \<Longrightarrow> poll_data E X cx (rs, w) =
      ((rs\<lparr>rs_terminal := Some (RT_Internal msg)\<rparr>, w\<lparr>w_recv := ch\<rparr>), PollReady (convert_recv (RT_Internal msg)))"
    and "p = PollReady None \<Longrightarrow> poll_data E X cx (rs, w) =
      ((rs\<lparr>rs_terminal := Some (RT_Internal ''receive channel closed without a terminal reason'')\<rparr>, w\<lparr>w_recv := ch\<rparr>),
       PollReady (convert_recv (RT_Internal ''receive channel closed without a terminal reason'')))"
    and "p = PollReady (Some (RE_Connection fb)) \<Longrightarrow> poll_data E X cx (rs, w) =
      ((rs\<lparr>rs_terminal := Some (RT_Connection (unwrap_or (ct_terminal (w_conn_slot w)) fb))\<rparr>,
        w\<lparr>w_recv := ch, w_conn_slot := (w_conn_slot w)\<lparr>ct_observed := True\<rparr>\<rparr>),
       PollReady (convert_recv (RT_Connection (unwrap_or (ct_terminal (w_conn_slot w)) fb))))"
  using assms
  by (auto simp: poll_data_def poll_event_def drained_completion_def case_prod_beta observe_conn_winner_def
      ct_observe_def split: option.split)

lemma poll_data_no_data:
  assumes "\<not> rs_receive_closed rs" and "rs_terminal rs = None" and "poll_next (se_recv E) cx (w_recv w) = (ch, p)"
    and "\<forall>b. p \<noteq> PollReady (Some (RE_Data b))" and "poll_data E X cx (rs, w) = ((rs', w'), r)"
  shows "(\<forall>b. r \<noteq> PollReady (Ok (Some b))) \<and> w' = w\<lparr>w_recv := ch, w_conn_slot := w_conn_slot w'\<rparr>"
proof (cases p)
  case PollPending
  with poll_data_eqs(2) [OF assms(1-3)] assms(5) show ?thesis by auto
next
  case (PollReady q)
  show ?thesis
  proof (cases q)
    case None
    with PollReady poll_data_eqs(6) [OF assms(1-3)] assms(5) show ?thesis by (auto simp: convert_recv_not_data)
  next
    case (Some ev)
    with PollReady poll_data_eqs(3-7) [OF assms(1-3)] assms(4,5) show ?thesis
      by (cases ev) (auto simp: convert_recv_not_data)
  qed
qed

text \<open>The three kinds of answer of a poll.\<close>

lemma poll_data_shape:
  assumes "poll_data E (recv_stream_executor N) cx (rs, w) = ((rs', w'), r)"
  shows "rs_receive_closed rs \<and> rs' = rs \<and> r = PollReady (Ok None) \<or>
    (\<exists>t. \<not> rs_receive_closed rs' \<and> rs_terminal rs' = Some t \<and> r = PollReady (convert_recv t) \<and>
       (rs_terminal rs = None \<or> rs_terminal rs = Some t)) \<or>
    rs' = rs \<and> rs_terminal rs = None \<and> (r = PollPending \<or> (\<exists>b. r = PollReady (Ok (Some b))))"
proof (cases "rs_receive_closed rs")
  case True
  with assms show ?thesis by (simp add: poll_data_closed)
next
  case op: False
  show ?thesis
  proof (cases "rs_terminal rs")
    case None
    obtain ch p where p: "poll_next (se_recv E) cx (w_recv w) = (ch, p)" by fastforce
    note eqs = poll_data_eqs [OF op None p]
    show ?thesis
    proof (cases p)
      case PollPending
      with assms None show ?thesis by (simp add: eqs)
    next
      case (PollReady q)
      show ?thesis
      proof (cases q)
        case None
        with PollReady assms op \<open>rs_terminal rs = None\<close> show ?thesis by (auto simp: eqs)
      next
        case (Some ev)
        with PollReady assms op \<open>rs_terminal rs = None\<close> show ?thesis by (cases ev) (auto simp: eqs)
      qed
    qed
  next
    case (Some t)
    with assms op show ?thesis by (simp add: poll_data_replay)
  qed
qed

context stream_channels
begin

text \<open>What a poll does to the queue, the budget and the flags the callback relies on.\<close>

lemma poll_data_step:
  assumes rx: "rrx (w_recv w)" and sync: "ctx_sync rtx stx alive (c, w)"
    and r: "poll_data E (recv_stream_executor N) cx (rs, w) = ((rs', w'), polled)"
  shows "rrx (w_recv w') \<and> ctx_sync rtx stx alive (c, w') \<and>
    w_budget w' = fst (drained_completion polled (w_budget w)) \<and>
    (case polled of PollReady (Ok (Some b)) \<Rightarrow> rq (w_recv w) = RE_Data b # rq (w_recv w')
     | _ \<Rightarrow> data_lens (rq (w_recv w')) = data_lens (rq (w_recv w)) \<and> set (rq (w_recv w')) \<subseteq> set (rq (w_recv w)))"
proof (cases "rs_receive_closed rs \<or> rs_terminal rs \<noteq> None")
  case True
  then have "w' = w \<and> (\<forall>b. polled \<noteq> PollReady (Ok (Some b)))"
    using r poll_data_closed [of rs E "recv_stream_executor N" cx w]
      poll_data_replay [of rs _ E "recv_stream_executor N" cx w] convert_recv_not_data by fastforce
  with rx sync show ?thesis by (auto simp: drained_completion_def split: poll.split result.split option.split)
next
  case False
  then have op: "\<not> rs_receive_closed rs" "rs_terminal rs = None" by auto
  obtain ch p where p: "poll_next (se_recv E) cx (w_recv w) = (ch, p)" by fastforce
  have ends: "rtx ch = rtx (w_recv w)" "rrx ch" using recv.poll_ends [OF rx, of cx] p by simp_all
  have items: "rq (w_recv w) = (case p of PollReady (Some e) \<Rightarrow> e # rq ch | _ \<Rightarrow> rq ch)"
    using recv.poll_preserves_items [OF rx, of cx] unfolding p fst_conv snd_conv .
  show ?thesis
  proof (cases "\<exists>b. p = PollReady (Some (RE_Data b))")
    case True
    then obtain b where b: "p = PollReady (Some (RE_Data b))" by blast
    obtain m where "w' = w\<lparr>w_recv := ch, w_budget := fst (on_drained (of_nat (length b)) (w_budget w)), w_native := m\<rparr>"
      and "polled = PollReady (Ok (Some b))" using poll_data_eqs(1) [OF op p b, of N] r by auto
    with items b ends sync show ?thesis by (auto simp: ctx_sync_def drained_completion_def)
  next
    case False
    from poll_data_no_data [OF op p _ r] False obtain slot where
      nd: "\<forall>b. polled \<noteq> PollReady (Ok (Some b))" and w': "w' = w\<lparr>w_recv := ch, w_conn_slot := slot\<rparr>"
      by blast
    have dc: "drained_completion polled bud = (bud, None)" for bud
      using nd by (auto simp: drained_completion_def split: poll.split result.split option.split)
    have "data_lens (rq ch) = data_lens (rq (w_recv w)) \<and> set (rq ch) \<subseteq> set (rq (w_recv w))"
      unfolding items using False by (auto simp: data_lens_skip split: poll.split option.split)
    then show ?thesis
      using sync ends nd dc
      by (auto simp: w' ctx_sync_def split: poll.split result.split option.split)
  qed
qed

text \<open>A receive callback against the abstract budget.\<close>

lemma cb_Receive_budget:
  assumes sync: "ctx_sync rtx stx alive (c, w)" and rx: "rrx (w_recv w)"
    and reach: "budget_reach B U n (w_budget w) (data_lens (rq (w_recv w))) None"
    and len: "length (concat bufs) \<le> n" "n < 2 ^ 64"
    and r: "cb_Receive E bufs fin (c, w) = ((c', w'), res)"
  shows "budget_reach B U n (w_budget w') (data_lens (rq (w_recv w')))
    (if is_ok res then None else Some (of_nat (length (concat bufs))))"
proof (cases "sx_receive c")
  case False
  have "w_budget w' = w_budget w" "is_ok res"
    using r False by (auto simp: cb_Receive_closed publish_recv_terminal_def take_receive_def Let_def split: if_splits)
  moreover have "rq (w_recv w') = rq (w_recv w)"
    using cb_Receive_step [OF sync rx r, of 0] False by simp
  ultimately show ?thesis using reach by simp
next
  case True
  with sync have op: "\<not> receive_terminal_sent c" "rtx (w_recv w)" by (auto simp: ctx_sync_def)
  let ?tot = "of_nat (length (concat bufs)) :: usize"
  obtain bud w1 a where ad: "admit ?tot (concat bufs \<noteq> []) (publish_data E True (concat bufs)) (w_budget w) w = (bud, w1, a)"
    by (metis prod_cases3)
  have pub: "snd (publish_data E True (concat bufs) w)" using publish_data_view(1) [OF op(2) rx] .
  note adp = admit_published [where publish = "publish_data E True (concat bufs)" and w = w, OF pub]
  have abs: "admit ?tot (concat bufs \<noteq> []) (\<lambda>_. ((), True)) (w_budget w) () = (bud, (), a)"
    using ad by (simp add: adp admit_published [where publish = "\<lambda>_. ((), True)" and w = "()"])
  have a: "a \<noteq> PublishFailed" using ad by (auto simp: adp split: if_splits)
  have budget: "w_budget w' = bud" and res: "is_ok res \<longleftrightarrow> a \<noteq> Pend"
    using r a ad
    by (auto simp: cb_Receive_open [OF op(1) True, folded length_concat_sum, OF ad] publish_recv_terminal_def
        take_receive_def Let_def split: if_splits)
  have q: "data_lens (rq (w_recv w')) = data_lens (rq (w_recv w)) @ (if concat bufs = [] then [] else [?tot])"
    using cb_Receive_step [OF sync rx r, of 0] True by auto
  have tot: "unat ?tot = length (concat bufs)" using len by (intro unat_of_nat_u64) simp
  show ?thesis
  proof (cases "concat bufs = []")
    case True
    have tot0: "?tot = 0" unfolding True by simp
    with True abs budget_reach.br_empty [OF reach, of bud "()" a] show ?thesis
      unfolding budget q res tot0 by (simp split: if_splits)
  next
    case False
    then have "0 < unat ?tot" unfolding tot by simp
    from budget_reach.br_data [OF reach this _ _, of bud "()" a] abs len False tot show ?thesis
      unfolding budget q res by (auto split: if_splits)
  qed
qed

lemma recv_sys_refines:
  assumes "recv_sys E N cfg n rs st g" and "n < 2 ^ 64"
  shows "ctx_sync rtx stx alive st \<and> rrx (w_recv (snd st)) \<and>
    budget_reach (max_recv_bytes cfg) (max_recv_units cfg) n (w_budget (snd st)) (data_lens (rq (w_recv (snd st)))) g"
  using assms(1)
proof (induction rule: recv_sys.induct)
  case (rs_new conn m st i)
  have "rrx (w_recv (snd st))" "rq (w_recv (snd st)) = []"
    "w_budget (snd st) = recv_budget_new (max_recv_bytes cfg) (max_recv_units cfg)"
    using rs_new by (auto simp: stream_ctx_channel_pre_id_def recv.new_view)
  with pre_id_sync [of conn cfg m] rs_new budget_reach.br_new show ?case by auto
next
  case (rs_receive rs st bufs fin st' res)
  obtain c w c' w' where st: "st = (c, w)" "st' = (c', w')" by fastforce
  with rs_receive cb_Receive_budget [of c w _ _ n bufs fin c' w' res] assms(2) cb_Receive_step [of c w bufs fin c' w' res 0]
  show ?case by auto
next
  case (rs_event rs st g ev st' res)
  obtain c w c' w' where st: "st = (c, w)" "st' = (c', w')" by fastforce
  have b: "w_budget w' = w_budget w"
    using rs_event(2,3) st
    by (cases ev) (auto simp: stream_defs split: if_splits)
  with rs_event st stream_callback_step [of c w ev c' w' res] recv_out_no_data [of ev "se_status E"]
  show ?case by (auto split: if_splits)
next
  case (rs_poll rs c w g cx rs' w' polled completion)
  then have s: "rrx (w_recv w)" "ctx_sync rtx stx alive (c, w)"
    "budget_reach (max_recv_bytes cfg) (max_recv_units cfg) n (w_budget w) (data_lens (rq (w_recv w))) g" by simp_all
  note step = poll_data_step [OF s(1,2) rs_poll(2)]
  show ?case
  proof (cases "\<exists>b. polled = PollReady (Ok (Some b))")
    case True
    then obtain b where b: "polled = PollReady (Ok (Some b))" by blast
    with step have q: "rq (w_recv w) = RE_Data b # rq (w_recv w')"
      and bud: "w_budget w' = fst (on_drained (of_nat (length b)) (w_budget w))"
      by (simp_all add: drained_completion_def)
    have "budget_reach (max_recv_bytes cfg) (max_recv_units cfg) n (w_budget w) (of_nat (length b) # data_lens (rq (w_recv w'))) g"
      using s(3) q by simp
    from budget_reach.br_drain [OF this surjective_pairing] step rs_poll(3) b bud show ?thesis
      by (simp add: drained_completion_def)
  next
    case False
    then have "drained_completion polled bud = (bud, None)" for bud
      by (auto simp: drained_completion_def split: poll.split result.split option.split)
    with step s rs_poll(3) False show ?thesis
      by (auto split: poll.splits result.splits option.splits)
  qed
next
  case (rs_stop rs c w g code rs' w')
  then show ?case by (auto simp: stop_sending_def shutdown_call_def ctx_sync_def case_prod_beta)
qed

text \<open>Polling a queue of data followed by at most one terminal, one poll per item.\<close>

lemma poll_many_data:
  assumes "\<not> rs_receive_closed rs" and "rs_terminal rs = None" and "rrx (w_recv w)"
    and "rq (w_recv w) = map RE_Data ds @ ts"
  shows "\<exists>w'. poll_many E (recv_stream_executor N) cx (length ds) (rs, w) =
      ((rs, w'), map (\<lambda>d. PollReady (Ok (Some d))) ds) \<and>
    rq (w_recv w') = ts \<and> rrx (w_recv w') \<and> rtx (w_recv w') = rtx (w_recv w) \<and> w_conn_slot w' = w_conn_slot w"
  using assms(3,4)
proof (induction ds arbitrary: w)
  case (Cons d ds)
  obtain ch where p: "poll_next (se_recv E) cx (w_recv w) = (ch, PollReady (Some (RE_Data d)))"
    using recv.poll_item [OF Cons.prems(1), of "RE_Data d" "map RE_Data ds @ ts" cx] Cons.prems(2)
    by (cases "poll_next (se_recv E) cx (w_recv w)") simp
  have ch: "rq ch = map RE_Data ds @ ts" "rrx ch" "rtx ch = rtx (w_recv w)"
    using recv.poll_item_queue [OF Cons.prems(1), of "RE_Data d" "map RE_Data ds @ ts" cx] Cons.prems
      recv.poll_ends [OF Cons.prems(1), of cx] p by simp_all
  obtain w1 where r: "poll_data E (recv_stream_executor N) cx (rs, w) = ((rs, w1), PollReady (Ok (Some d)))"
    and w1: "w_recv w1 = ch" "w_conn_slot w1 = w_conn_slot w"
    using poll_data_eqs(1) [OF assms(1,2) p refl, of N] by auto
  from Cons.IH [of w1] ch w1 r show ?case by (auto simp: case_prod_beta)
qed simp

lemma poll_data_terminal:
  assumes "\<not> rs_receive_closed rs" and "rs_terminal rs = None" and "rrx (w_recv w)"
    and "rq (w_recv w) = [t]" and "\<not> is_data t"
  shows "\<exists>w'. poll_data E X cx (rs, w) =
    ((rs\<lparr>rs_terminal := Some (recv_terminal_of (ct_terminal (w_conn_slot w)) t)\<rparr>, w'),
     PollReady (convert_recv (recv_terminal_of (ct_terminal (w_conn_slot w)) t)))"
proof -
  obtain ch where p: "poll_next (se_recv E) cx (w_recv w) = (ch, PollReady (Some t))"
    using recv.poll_item [OF assms(3), of t "[]" cx] assms(4)
    by (cases "poll_next (se_recv E) cx (w_recv w)") simp
  note eqs = poll_data_eqs [OF assms(1,2) p]
  show ?thesis using assms(5) by (cases t) (simp_all add: eqs)
qed

end

section \<open>Properties\<close>

text \<open>
  C17: receive memory of a running stream is bounded. In every interleaving of native events,
  polls and local stops that respects the native pend contract, the stream refines the abstract
  budget: the bytes queued for the application never exceed \<open>max_recv_bytes - 1\<close> plus one indication,
  the queued events never exceed \<open>max_recv_units\<close>, and whenever an indication is held pended some
  data is queued whose draining will complete it.
\<close>

theorem stream_memory_bounded:
  assumes "stream_channels E rq rtx rrx rpark sq stx srx spark content alive waiting"
    and "recv_sys E N cfg n rs st g"
    and "max_recv_bytes cfg \<noteq> 0" and "max_recv_units cfg \<noteq> 0" and "unat (max_recv_bytes cfg) + n < 2 ^ 64"
  shows "sum_list (map unat (data_lens (rq (w_recv (snd st))))) \<le> unat (max_recv_bytes cfg) - 1 + n \<and>
    length (data_lens (rq (w_recv (snd st)))) \<le> unat (max_recv_units cfg) \<and>
    (g \<noteq> None \<longrightarrow> data_lens (rq (w_recv (snd st))) \<noteq> [] \<and>
       snd (drain_all (data_lens (rq (w_recv (snd st)))) (w_budget (snd st))) = [the g])"
proof -
  let ?q = "data_lens (rq (w_recv (snd st)))" and ?b = "w_budget (snd st)"
  have reach: "budget_reach (max_recv_bytes cfg) (max_recv_units cfg) n ?b ?q g"
    using stream_channels.recv_sys_refines [OF assms(1,2)] assms(5) by simp
  have inv: "budget_inv n ?b ?q g" by (rule budget_reach_inv [OF reach assms(5,3,4)])
  have caps: "rb_max_bytes ?b = max_recv_bytes cfg" "rb_max_units ?b = max_recv_units cfg"
    using budget_reach_caps [OF reach] by simp_all
  have drain: "snd (drain_all ?q ?b) = (case g of None \<Rightarrow> [] | Some x \<Rightarrow> [x])"
    using drain_all_completes [OF inv] caps assms(3,4) by simp
  have bounds: "sum_list (map unat ?q) \<le> unat (peak (rb_state ?b))" "length ?q \<le> unat (peak_units (rb_state ?b))"
    "unat (peak (rb_state ?b)) \<le> unat (max_recv_bytes cfg) - 1 + n"
    "unat (peak_units (rb_state ?b)) \<le> unat (max_recv_units cfg)"
    using inv caps by (simp_all add: budget_inv_def word_le_nat_alt)
  have "?q \<noteq> [] \<and> snd (drain_all ?q ?b) = [the g]" if "g \<noteq> None"
    using drain that by (cases ?q) auto
  with bounds show ?thesis by linarith
qed

theorem stream_memory_bounded_witness:
  "sum_list (map unat (data_lens (fifo_items (w_recv (snd (fst (cb_Receive ref_env [[1, 2, 3]] False
      (stream_ctx_channel_pre_id ref_env conn_terminal_default h3_config_default ([] :: native_call list)))))))))
    \<le> unat (max_recv_bytes h3_config_default) - 1 + 1500"
proof -
  let ?st = "stream_ctx_channel_pre_id ref_env conn_terminal_default h3_config_default ([] :: native_call list)"
  obtain st' res where r: "cb_Receive ref_env [[1, 2, 3]] False ?st = (st', res)" by fastforce
  have "recv_sys ref_env log_native h3_config_default 1500 (h3_recv (finalize (pre_id_receivers h3_config_default) ()))
      ?st None" by (rule rs_new) simp
  from rs_receive [OF this _ r] have sys: "recv_sys ref_env log_native h3_config_default 1500
      (h3_recv (finalize (pre_id_receivers h3_config_default) ())) st'
      (if is_ok res then None else Some (of_nat (length (concat [[1, 2, 3 :: u8]]))))" by simp
  have caps: "max_recv_bytes h3_config_default \<noteq> 0" "max_recv_units h3_config_default \<noteq> 0"
    "unat (max_recv_bytes h3_config_default) + 1500 < 2 ^ 64"
    by (simp_all add: h3_config_default_def MAX_RECV_BUFFER_def DEFAULT_MAX_RECV_UNITS_def)
  from stream_memory_bounded [OF ref_stream.stream_channels_axioms sys caps] r show ?thesis by simp
qed



text \<open>
  The receive half ends cleanly only for a FIN or a local stop, and a terminal sticks. A
  poll answers \<open>Ok(None)\<close> only when the application stopped the stream itself or a FIN is the
  stored terminal; after a stop every poll answers \<open>Ok(None)\<close> and the stored terminal is left
  as it was; a stored terminal is repeated by every later poll and nothing else changes.
\<close>

theorem receive_terminal_sticky:
  assumes "poll_data E (recv_stream_executor N) cx (rs, w) = ((rs', w'), r)"
  shows "(r = PollReady (Ok None) \<longrightarrow> rs_receive_closed rs' \<or> rs_terminal rs' = Some RT_Fin) \<and>
    (\<forall>e. r = PollReady (Err e) \<longrightarrow> (\<exists>t. rs_terminal rs' = Some t \<and> convert_recv t = Err e \<and>
       poll_many E (recv_stream_executor N) cx k (rs', w') = ((rs', w'), replicate k r))) \<and>
    (rs_terminal rs \<noteq> None \<longrightarrow> rs_terminal rs' = rs_terminal rs) \<and>
    poll_many E (recv_stream_executor N) cx k (stop_sending (recv_stream_executor N) code (rs', w')) =
      (stop_sending (recv_stream_executor N) code (rs', w'), replicate k (PollReady (Ok None))) \<and>
    rs_terminal (fst (stop_sending (recv_stream_executor N) code (rs', w'))) = rs_terminal rs'"
proof -
  let ?X = "recv_stream_executor N"
  obtain v where stop: "stop_sending ?X code (rs', w') = (rs'\<lparr>rs_receive_closed := True\<rparr>, v)"
    by (simp add: stop_sending_def close_receive_locally_def case_prod_beta)
  have "poll_many E ?X cx k (rs'\<lparr>rs_receive_closed := True\<rparr>, v) =
      ((rs'\<lparr>rs_receive_closed := True\<rparr>, v), replicate k (PollReady (Ok None)))"
    by (rule poll_many_closed) simp
  then have stopped: "poll_many E ?X cx k (stop_sending ?X code (rs', w')) =
      (stop_sending ?X code (rs', w'), replicate k (PollReady (Ok None)))"
    "rs_terminal (fst (stop_sending ?X code (rs', w'))) = rs_terminal rs'" by (simp_all add: stop)
  consider (closed) "rs_receive_closed rs" "rs' = rs" "r = PollReady (Ok None)"
    | (terminal) t where "\<not> rs_receive_closed rs'" "rs_terminal rs' = Some t" "r = PollReady (convert_recv t)"
        "rs_terminal rs = None \<or> rs_terminal rs = Some t"
    | (running) "rs' = rs" "rs_terminal rs = None" "r = PollPending \<or> (\<exists>b. r = PollReady (Ok (Some b)))"
    using poll_data_shape [OF assms] by (elim disjE exE conjE) simp_all
  then show ?thesis
  proof cases
    case terminal
    have "convert_recv t = Ok None \<longrightarrow> t = RT_Fin" by (cases t) simp_all
    with terminal stopped poll_many_replay [OF terminal(1,2), of E ?X cx k w'] show ?thesis by auto
  qed (use stopped in auto)
qed

theorem receive_terminal_sticky_witness:
  "\<exists>rs' w'. poll_data ref_env (recv_stream_executor log_native) 7
      (h3_recv (finalize (pre_id_receivers h3_config_default) ()),
       (ref_world conn_terminal_default)\<lparr>w_recv := \<lparr>fifo_items = [RE_Reset 4], fifo_tx = False, fifo_rx = True, fifo_parked = None\<rparr>\<rparr>) =
      ((rs', w'), PollReady (Err (StreamTerminated 4))) \<and>
    poll_many ref_env (recv_stream_executor log_native) 7 2 (rs', w') =
      ((rs', w'), replicate 2 (PollReady (Err (StreamTerminated 4))))"
proof -
  let ?rs = "h3_recv (finalize (pre_id_receivers h3_config_default) ())"
  let ?w = "(ref_world conn_terminal_default)\<lparr>w_recv := \<lparr>fifo_items = [RE_Reset 4], fifo_tx = False, fifo_rx = True, fifo_parked = None\<rparr>\<rparr>"
  have "snd (poll_data ref_env (recv_stream_executor log_native) 7 (?rs, ?w)) = PollReady (Err (StreamTerminated 4))"
    by code_simp
  then obtain rs' w' where r: "poll_data ref_env (recv_stream_executor log_native) 7 (?rs, ?w) =
      ((rs', w'), PollReady (Err (StreamTerminated 4)))" by (metis prod.collapse)
  from receive_terminal_sticky [OF r, of 2] r show ?thesis by blast
qed

text \<open>
  A connection error on the receive half is the frozen winner. When connection markers are
  backed by the shared slot, a connection-caused receive terminal stores and reports exactly the
  slot's winner and freezes it; no poll freezes an empty slot, and a stream-local fault freezes
  nothing.
\<close>

theorem receive_connection_cause_frozen:
  assumes "mpsc_channel (se_recv E) rq rtx rrx rpark" and "rrx (w_recv w)" and "recv_backed rq w"
    and "\<not> rs_receive_closed rs" and "rs_terminal rs = None"
    and "poll_data E (recv_stream_executor N) cx (rs, w) = ((rs', w'), r)"
  shows "(\<forall>t. rs_terminal rs' = Some (RT_Connection t) \<longrightarrow> frozen_cause t w') \<and>
    (w_conn_slot w' \<noteq> w_conn_slot w \<longrightarrow> (\<exists>t. rs_terminal rs' = Some (RT_Connection t))) \<and>
    ct_terminal (w_conn_slot w') = ct_terminal (w_conn_slot w)"
proof -
  obtain ch p where p: "poll_next (se_recv E) cx (w_recv w) = (ch, p)" by fastforce
  have mem: "ev \<in> set (rq (w_recv w))" if "p = PollReady (Some ev)" for ev
    using mpsc_channel.poll_preserves_items [OF assms(1,2), of cx] that unfolding p fst_conv snd_conv by simp
  note eqs = poll_data_eqs [OF assms(4,5) p]
  show ?thesis
  proof (cases "\<exists>fb. p = PollReady (Some (RE_Connection fb))")
    case True
    then obtain fb where fb: "p = PollReady (Some (RE_Connection fb))" by blast
    from bspec [OF assms(3) [unfolded recv_backed_def] mem [OF fb]]
    obtain t where "ct_terminal (w_conn_slot w) = Some t" by auto
    with eqs(7) [OF fb] assms(6) show ?thesis by (auto simp: frozen_cause_def)
  next
    case False
    then have "w_conn_slot w' = w_conn_slot w \<and> (\<forall>t. rs_terminal rs' \<noteq> Some (RT_Connection t))"
    proof (cases p)
      case PollPending
      with assms(5,6) show ?thesis by (auto simp: eqs)
    next
      case (PollReady q)
      show ?thesis
      proof (cases q)
        case None
        with PollReady assms(6) show ?thesis by (auto simp: eqs)
      next
        case (Some ev)
        with PollReady assms(5,6) False show ?thesis by (cases ev) (auto simp: eqs)
      qed
    qed
    then show ?thesis by auto
  qed
qed

theorem receive_connection_cause_frozen_witness:
  "\<exists>rs' w' r. poll_data ref_env (recv_stream_executor log_native) 7
      (h3_recv (finalize (pre_id_receivers h3_config_default) ()),
       (ref_world \<lparr>ct_terminal = Some CT_Timeout, ct_observed = False\<rparr>)
         \<lparr>w_recv := \<lparr>fifo_items = [RE_Connection CT_LocalClose], fifo_tx = False, fifo_rx = True, fifo_parked = None\<rparr>\<rparr>) =
      ((rs', w'), r) \<and> rs_terminal rs' = Some (RT_Connection CT_Timeout) \<and> frozen_cause CT_Timeout w'"
proof -
  let ?rs = "h3_recv (finalize (pre_id_receivers h3_config_default) ())"
  let ?w = "(ref_world \<lparr>ct_terminal = Some CT_Timeout, ct_observed = False\<rparr>)
    \<lparr>w_recv := \<lparr>fifo_items = [RE_Connection CT_LocalClose], fifo_tx = False, fifo_rx = True, fifo_parked = None\<rparr>\<rparr>"
  obtain rs' w' r where r: "poll_data ref_env (recv_stream_executor log_native) 7 (?rs, ?w) = ((rs', w'), r)"
    by (metis prod.exhaust)
  have "rs_terminal (fst (fst (poll_data ref_env (recv_stream_executor log_native) 7 (?rs, ?w)))) =
      Some (RT_Connection CT_Timeout)" by code_simp
  then have t: "rs_terminal rs' = Some (RT_Connection CT_Timeout)" by (simp only: r fst_conv)
  have M: "mpsc_channel (se_recv ref_env) fifo_items fifo_tx fifo_rx fifo_parked"
    using fifo.mpsc_channel_axioms by simp
  have pre: "fifo_rx (w_recv ?w)" "recv_backed fifo_items ?w" "\<not> rs_receive_closed ?rs" "rs_terminal ?rs = None"
    by code_simp+
  from receive_connection_cause_frozen [OF M pre r] t r show ?thesis by blast
qed

end
