(* ===== verification/H3_Registration.thy ===== *)
theory H3_Registration
  imports H3_Prelude "HOL-Library.AList"
begin

text \<open>
  Rundown tracking (\<open>registration.rs\<close>): the shared counter and waiter map, the RAII guard, the
  \<open>WaitIdle\<close> future and the \<open>Registration\<close> wrapper. Each atomic access and each locked section is
  one definition; \<open>guard_drop\<close> and \<open>wait_idle_poll\<close> compose them in program order. The
  inductive relation \<open>rd_step\<close> interleaves those atomic sections of any number of guards and waiters,
  since the counter and the map are not protected together.
\<close>

section \<open>State\<close>

text \<open>\<open>Waiters\<close> (the \<open>HashMap\<close> as an association list) and \<open>RundownState\<close>.\<close>

record rundown_state =
  rd_active :: nat
  rd_next :: nat
  rd_map :: "(nat \<times> waker) list"

definition rundown_default :: rundown_state where
  "rundown_default = \<lparr>rd_active = 0, rd_next = 0, rd_map = []\<rparr>"

section \<open>Guards\<close>

definition guard_new :: "rundown_state \<Rightarrow> rundown_state" where
  "guard_new st = st\<lparr>rd_active := rd_active st + 1\<rparr>"

text \<open>\<open>fetch_sub\<close>: the new state and whether the old count was 1.\<close>

definition guard_dec :: "rundown_state \<Rightarrow> rundown_state \<times> bool" where
  "guard_dec st = (st\<lparr>rd_active := rd_active st - 1\<rparr>, rd_active st = 1)"

definition guard_drain :: "rundown_state \<Rightarrow> rundown_state \<times> waker list" where
  "guard_drain st = (st\<lparr>rd_map := []\<rparr>, map snd (rd_map st))"

definition guard_drop :: "rundown_state \<Rightarrow> rundown_state \<times> waker list" where
  "guard_drop st = (let (st, was_last) = guard_dec st in if was_last then guard_drain st else (st, []))"

section \<open>WaitIdle\<close>

definition wait_deregister :: "nat option \<Rightarrow> rundown_state \<Rightarrow> rundown_state \<times> nat option" where
  "wait_deregister key st =
     (case key of Some k \<Rightarrow> (st\<lparr>rd_map := AList.delete k (rd_map st)\<rparr>, None) | None \<Rightarrow> (st, None))"

definition wait_register :: "nat option \<Rightarrow> waker \<Rightarrow> rundown_state \<Rightarrow> rundown_state \<times> nat option" where
  "wait_register key cx st =
     (case key of
        Some k \<Rightarrow> (st\<lparr>rd_map := AList.update k cx (rd_map st)\<rparr>, Some k)
      | None \<Rightarrow>
          (let k = rd_next st
           in (st\<lparr>rd_next := k + 1, rd_map := AList.update k cx (rd_map st)\<rparr>, Some k)))"

definition wait_idle_poll :: "nat option \<Rightarrow> waker \<Rightarrow> rundown_state \<Rightarrow> (rundown_state \<times> nat option) \<times> unit poll" where
  "wait_idle_poll key cx st =
     (if rd_active st = 0 then (wait_deregister key st, PollReady ())
      else let (st, key) = wait_register key cx st in
        if rd_active st = 0 then (wait_deregister key st, PollReady ())
        else ((st, key), PollPending))"

definition wait_idle_drop :: "nat option \<Rightarrow> rundown_state \<Rightarrow> rundown_state" where
  "wait_idle_drop key st = fst (wait_deregister key st)"

section \<open>Registration\<close>

text \<open>
  The native registration is an argument: its constructor, its shutdown and the opening of a
  configuration act on a native state.
\<close>

record ('n, 'c, 's) native_registration =
  nr_new :: "'c \<Rightarrow> 'n \<Rightarrow> 'n \<times> (unit, status) result"
  nr_shutdown :: "'n \<Rightarrow> 'n"
  nr_open_configuration :: "bytes list \<Rightarrow> 's option \<Rightarrow> 'n \<Rightarrow> 'n \<times> (unit, status) result"

definition registration_new ::
  "('n, 'c, 's) native_registration \<Rightarrow> 'c \<Rightarrow> 'n \<Rightarrow> 'n \<times> (rundown_state, status) result" where
  "registration_new NR config n =
     (case nr_new NR config n of
        (n, Err status) \<Rightarrow> (n, Err status)
      | (n, Ok _) \<Rightarrow> (n, Ok rundown_default))"

definition registration_shutdown :: "('n, 'c, 's) native_registration \<Rightarrow> 'n \<Rightarrow> 'n" where
  "registration_shutdown NR n = nr_shutdown NR n"

definition open_configuration ::
  "('n, 'c, 's) native_registration \<Rightarrow> bytes list \<Rightarrow> 's option \<Rightarrow> 'n \<Rightarrow> 'n \<times> (unit, status) result" where
  "open_configuration NR alpn settings n = nr_open_configuration NR alpn settings n"

definition wait_idle :: "nat option" where
  "wait_idle = None"

section \<open>Interleavings\<close>

text \<open>
  A waiter is one \<open>WaitIdle\<close> with the task that polls it: between polls, past the first load,
  past the registration. Its waker wakes the task: \<open>wt_notified\<close> says it was called since the poll
  began, \<open>wt_parked\<close> that the last poll returned \<open>Pending\<close>.
\<close>

datatype wait_pc = WP_Idle | WP_Missed | WP_Registered

record waiter =
  wt_pc :: wait_pc
  wt_key :: "nat option"
  wt_notified :: bool
  wt_parked :: bool

record rd_sys =
  sys_rd :: rundown_state
  sys_live :: nat
  sys_draining :: nat
  sys_wait :: "nat \<Rightarrow> waiter option"

definition rd_init :: rd_sys where
  "rd_init = \<lparr>sys_rd = rundown_default, sys_live = 0, sys_draining = 0, sys_wait = (\<lambda>_. None)\<rparr>"

definition notify :: "waker list \<Rightarrow> (nat \<Rightarrow> waiter option) \<Rightarrow> nat \<Rightarrow> waiter option" where
  "notify ws W i = map_option (\<lambda>x. if i \<in> set ws then x\<lparr>wt_notified := True\<rparr> else x) (W i)"

inductive rd_step :: "rd_sys \<Rightarrow> rd_sys \<Rightarrow> bool" where
  st_new: "rd_step s (s\<lparr>sys_rd := guard_new (sys_rd s), sys_live := Suc (sys_live s)\<rparr>)"
| st_dec: "0 < sys_live s \<Longrightarrow> guard_dec (sys_rd s) = (rd, was_last) \<Longrightarrow>
    rd_step s (s\<lparr>sys_rd := rd, sys_live := sys_live s - 1,
      sys_draining := (if was_last then Suc (sys_draining s) else sys_draining s)\<rparr>)"
| st_drain: "0 < sys_draining s \<Longrightarrow> guard_drain (sys_rd s) = (rd, ws) \<Longrightarrow>
    rd_step s (s\<lparr>sys_rd := rd, sys_draining := sys_draining s - 1, sys_wait := notify ws (sys_wait s)\<rparr>)"
| st_create: "sys_wait s i = None \<Longrightarrow>
    rd_step s (s\<lparr>sys_wait := (sys_wait s)(i \<mapsto>
      \<lparr>wt_pc = WP_Idle, wt_key = wait_idle, wt_notified = False, wt_parked = False\<rparr>)\<rparr>)"
| st_load_ready: "sys_wait s i = Some x \<Longrightarrow> wt_pc x = WP_Idle \<Longrightarrow> rd_active (sys_rd s) = 0 \<Longrightarrow>
    wait_deregister (wt_key x) (sys_rd s) = (rd, key) \<Longrightarrow>
    rd_step s (s\<lparr>sys_rd := rd, sys_wait := (sys_wait s)(i \<mapsto> x\<lparr>wt_key := key, wt_notified := False, wt_parked := False\<rparr>)\<rparr>)"
| st_load_miss: "sys_wait s i = Some x \<Longrightarrow> wt_pc x = WP_Idle \<Longrightarrow> rd_active (sys_rd s) \<noteq> 0 \<Longrightarrow>
    rd_step s (s\<lparr>sys_wait := (sys_wait s)(i \<mapsto> x\<lparr>wt_pc := WP_Missed, wt_notified := False, wt_parked := False\<rparr>)\<rparr>)"
| st_register: "sys_wait s i = Some x \<Longrightarrow> wt_pc x = WP_Missed \<Longrightarrow>
    wait_register (wt_key x) i (sys_rd s) = (rd, key) \<Longrightarrow>
    rd_step s (s\<lparr>sys_rd := rd, sys_wait := (sys_wait s)(i \<mapsto> x\<lparr>wt_pc := WP_Registered, wt_key := key\<rparr>)\<rparr>)"
| st_recheck_ready: "sys_wait s i = Some x \<Longrightarrow> wt_pc x = WP_Registered \<Longrightarrow> rd_active (sys_rd s) = 0 \<Longrightarrow>
    wait_deregister (wt_key x) (sys_rd s) = (rd, key) \<Longrightarrow>
    rd_step s (s\<lparr>sys_rd := rd, sys_wait := (sys_wait s)(i \<mapsto> x\<lparr>wt_pc := WP_Idle, wt_key := key\<rparr>)\<rparr>)"
| st_recheck_pending: "sys_wait s i = Some x \<Longrightarrow> wt_pc x = WP_Registered \<Longrightarrow> rd_active (sys_rd s) \<noteq> 0 \<Longrightarrow>
    rd_step s (s\<lparr>sys_wait := (sys_wait s)(i \<mapsto> x\<lparr>wt_pc := WP_Idle, wt_parked := True\<rparr>)\<rparr>)"
| st_drop: "sys_wait s i = Some x \<Longrightarrow> wt_pc x = WP_Idle \<Longrightarrow>
    rd_step s (s\<lparr>sys_rd := wait_idle_drop (wt_key x) (sys_rd s), sys_wait := (sys_wait s)(i := None)\<rparr>)"

inductive rd_reach :: "rd_sys \<Rightarrow> bool" where
  rd_reach_init: "rd_reach rd_init"
| rd_reach_step: "rd_reach s \<Longrightarrow> rd_step s s' \<Longrightarrow> rd_reach s'"

inductive_cases rd_stepE: "rd_step s s'"

text \<open>
  The invariant: the counter counts the live guards; keys are allocated below \<open>next\<close> and belong to
  one waiter; a registered or parked waiter that was not notified has its waker in the map; and a
  parked waiter that was not notified at count zero has a drain coming.
\<close>

definition key_inv :: "rd_sys \<Rightarrow> bool" where
  "key_inv s \<longleftrightarrow>
     (\<forall>i x k. sys_wait s i = Some x \<longrightarrow> wt_key x = Some k \<longrightarrow> k < rd_next (sys_rd s)) \<and>
     (\<forall>i j x y k. sys_wait s i = Some x \<longrightarrow> sys_wait s j = Some y \<longrightarrow>
        wt_key x = Some k \<longrightarrow> wt_key y = Some k \<longrightarrow> i = j)"

definition armed :: "rd_sys \<Rightarrow> nat \<Rightarrow> waiter \<Rightarrow> bool" where
  "armed s i x \<longleftrightarrow> (\<exists>k. wt_key x = Some k \<and> map_of (rd_map (sys_rd s)) k = Some i)"

definition wake_inv :: "rd_sys \<Rightarrow> bool" where
  "wake_inv s \<longleftrightarrow>
     (\<forall>i x. sys_wait s i = Some x \<longrightarrow> \<not> wt_notified x \<longrightarrow>
        ((wt_pc x = WP_Registered \<or> wt_parked x) \<longrightarrow> armed s i x) \<and>
        (wt_parked x \<longrightarrow> rd_active (sys_rd s) = 0 \<longrightarrow> 0 < sys_draining s)) \<and>
     (\<forall>i x. sys_wait s i = Some x \<longrightarrow> wt_parked x \<longrightarrow> wt_pc x = WP_Idle)"

definition rd_inv :: "rd_sys \<Rightarrow> bool" where
  "rd_inv s \<longleftrightarrow> rd_active (sys_rd s) = sys_live s \<and> key_inv s \<and> wake_inv s"

section \<open>Lemmas\<close>

lemma rd_inv_init: "rd_inv rd_init"
  by (simp add: rd_inv_def rd_init_def rundown_default_def key_inv_def wake_inv_def)

lemma map_of_in_values: "map_of m k = Some v \<Longrightarrow> v \<in> set (map snd m)"
  by (force dest: map_of_SomeD)

lemma notify_Some:
  "notify ws W i = Some x \<Longrightarrow> \<exists>y. W i = Some y \<and> wt_pc x = wt_pc y \<and> wt_key x = wt_key y \<and>
     wt_parked x = wt_parked y \<and> wt_notified x = (wt_notified y \<or> i \<in> set ws)"
  by (auto simp: notify_def)

lemma guard_drop_active: "rd_active (fst (guard_drop rd)) = rd_active rd - 1"
  by (simp add: guard_drop_def guard_dec_def guard_drain_def)

lemma wait_deregister_view:
  assumes "wait_deregister key st = (st', key')"
  shows "key' = None" and "rd_active st' = rd_active st" and "rd_next st' = rd_next st"
    and "map_of (rd_map st') = (case key of Some k \<Rightarrow> (map_of (rd_map st))(k := None) | None \<Rightarrow> map_of (rd_map st))"
  using assms by (auto simp: wait_deregister_def delete_conv' split: option.splits)

lemma wait_register_view:
  assumes "wait_register key cx st = (st', key')"
  shows "\<exists>k. key' = Some k \<and> rd_active st' = rd_active st \<and> map_of (rd_map st') = (map_of (rd_map st))(k \<mapsto> cx) \<and>
    (case key of Some j \<Rightarrow> k = j \<and> rd_next st' = rd_next st | None \<Rightarrow> k = rd_next st \<and> rd_next st' = Suc k)"
  using assms by (auto simp: wait_register_def update_conv' Let_def split: option.splits)

text \<open>Deregistering one waiter leaves the wakers of the others in place.\<close>

lemma armed_after_deregister:
  assumes "key_inv s" and "sys_wait s i = Some x" and "wait_deregister (wt_key x) (sys_rd s) = (rd, key)"
    and "sys_wait s j = Some y" and "j \<noteq> i" and "armed s j y"
  shows "\<exists>k. wt_key y = Some k \<and> map_of (rd_map rd) k = Some j"
proof -
  from assms(6) obtain k where k: "wt_key y = Some k" "map_of (rd_map (sys_rd s)) k = Some j"
    by (auto simp: armed_def)
  from assms(1,2,4,5) k(1) have "wt_key x \<noteq> Some k" unfolding key_inv_def by blast
  with wait_deregister_view(4) [OF assms(3)] k show ?thesis by (auto split: option.splits)
qed

lemma armed_after_register:
  assumes "key_inv s" and "sys_wait s i = Some x" and "wait_register (wt_key x) i (sys_rd s) = (rd, key)"
    and "sys_wait s j = Some y" and "j \<noteq> i" and "armed s j y"
  shows "\<exists>k. wt_key y = Some k \<and> map_of (rd_map rd) k = Some j"
proof -
  from assms(6) obtain k where k: "wt_key y = Some k" "map_of (rd_map (sys_rd s)) k = Some j"
    by (auto simp: armed_def)
  from assms(1,4) k(1) have "k < rd_next (sys_rd s)" unfolding key_inv_def by blast
  moreover from assms(1,2,4,5) k(1) have "wt_key x \<noteq> Some k" unfolding key_inv_def by blast
  ultimately have "key \<noteq> Some k" using wait_register_view [OF assms(3)] by (auto split: option.splits)
  with wait_register_view [OF assms(3)] k show ?thesis by (auto split: if_splits)
qed

text \<open>A step that rewrites one waiter: what is left to show of it and of the others.\<close>

lemma key_inv_upd:
  assumes "key_inv s" and "sys_wait s i = Some x \<or> key = None" and "rd_next (sys_rd s) \<le> rd_next rd"
    and "key = None \<or> key = wt_key x \<or> key = Some (rd_next (sys_rd s)) \<and> rd_next rd = Suc (rd_next (sys_rd s))"
    and "wt_key x' = key"
  shows "key_inv (s\<lparr>sys_rd := rd, sys_wait := (sys_wait s)(i \<mapsto> x')\<rparr>)"
proof -
  note old = assms(1) [unfolded key_inv_def]
  have bound: "k < rd_next (sys_rd s)" if "sys_wait s j = Some y" "wt_key y = Some k" for j y k
    using old that by blast
  have below: "k < rd_next rd" if "wt_key x' = Some k" for k
    using that assms bound [of i x k] by auto
  have fresh: "j = i" if "sys_wait s j = Some y" "wt_key y = Some k" "wt_key x' = Some k" for j y k
  proof -
    from that(3) assms(4,5) consider "wt_key x = Some k" "sys_wait s i = Some x" | "k = rd_next (sys_rd s)"
      using assms(2) by auto
    then show ?thesis
    proof cases
      case 1
      then show ?thesis using old that by blast
    next
      case 2
      then show ?thesis using bound [OF that(1,2)] by simp
    qed
  qed
  show ?thesis
    unfolding key_inv_def
  proof (intro conjI allI impI)
    fix j y k
    assume "sys_wait (s\<lparr>sys_rd := rd, sys_wait := (sys_wait s)(i \<mapsto> x')\<rparr>) j = Some y" "wt_key y = Some k"
    then show "k < rd_next (sys_rd (s\<lparr>sys_rd := rd, sys_wait := (sys_wait s)(i \<mapsto> x')\<rparr>))"
      using below bound [of j y k] assms(3) by (auto split: if_splits)
  next
    fix j l y z k
    assume "sys_wait (s\<lparr>sys_rd := rd, sys_wait := (sys_wait s)(i \<mapsto> x')\<rparr>) j = Some y"
      "sys_wait (s\<lparr>sys_rd := rd, sys_wait := (sys_wait s)(i \<mapsto> x')\<rparr>) l = Some z" "wt_key y = Some k" "wt_key z = Some k"
    then show "j = l" using fresh old by (auto split: if_splits)
  qed
qed

lemma key_inv_mono:
  assumes "key_inv s" and "rd_next (sys_rd s') = rd_next (sys_rd s)"
    and "\<And>i x. sys_wait s' i = Some x \<Longrightarrow> \<exists>y. sys_wait s i = Some y \<and> wt_key x = wt_key y"
  shows "key_inv s'"
  unfolding key_inv_def
proof (intro conjI allI impI)
  show "k < rd_next (sys_rd s')" if "sys_wait s' i = Some x" "wt_key x = Some k" for i x k
    using assms(3) [OF that(1)] that(2) assms(1,2) unfolding key_inv_def by metis
  show "i = j" if "sys_wait s' i = Some x" "sys_wait s' j = Some y" "wt_key x = Some k" "wt_key y = Some k" for i j x y k
    using assms(3) [OF that(1)] assms(3) [OF that(2)] that(3,4) assms(1) unfolding key_inv_def by metis
qed

lemma wake_inv_upd:
  assumes "wake_inv s" and "rd_active rd = rd_active (sys_rd s)"
    and "\<And>j y. j \<noteq> i \<Longrightarrow> sys_wait s j = Some y \<Longrightarrow> armed s j y \<Longrightarrow>
      armed (s\<lparr>sys_rd := rd, sys_wait := (sys_wait s)(i \<mapsto> x')\<rparr>) j y"
    and "\<not> wt_notified x' \<Longrightarrow> wt_pc x' = WP_Registered \<or> wt_parked x' \<Longrightarrow>
      armed (s\<lparr>sys_rd := rd, sys_wait := (sys_wait s)(i \<mapsto> x')\<rparr>) i x'"
    and "wt_parked x' \<Longrightarrow> wt_pc x' = WP_Idle \<and> rd_active rd \<noteq> 0"
  shows "wake_inv (s\<lparr>sys_rd := rd, sys_wait := (sys_wait s)(i \<mapsto> x')\<rparr>)"
  using assms unfolding wake_inv_def by (auto split: if_splits)

lemma armed_upd:
  "armed (s\<lparr>sys_rd := rd, sys_wait := W\<rparr>) j y \<longleftrightarrow> (\<exists>k. wt_key y = Some k \<and> map_of (rd_map rd) k = Some j)"
  by (simp add: armed_def)

lemma armed_cong: "sys_rd s' = sys_rd s \<Longrightarrow> armed s' j y = armed s j y"
  by (simp add: armed_def)

lemma rd_step_inv:
  assumes "rd_step s s'" and "rd_inv s"
  shows "rd_inv s'"
  using assms
proof (induction rule: rd_step.induct)
  case (st_new s)
  then show ?case
    by (auto simp: rd_inv_def key_inv_def wake_inv_def armed_def guard_new_def)
next
  case (st_dec s rd was_last)
  then show ?case
    by (auto simp: rd_inv_def key_inv_def wake_inv_def armed_def guard_dec_def)
next
  case (st_drain s rd ws)
  have "wake_inv (s\<lparr>sys_rd := rd, sys_draining := sys_draining s - 1, sys_wait := notify ws (sys_wait s)\<rparr>)"
  proof -
    have "i \<in> set ws" if "sys_wait s i = Some y" "armed s i y" for i y
      using that st_drain map_of_in_values by (fastforce simp: armed_def guard_drain_def)
    with st_drain(3) show ?thesis
      by (auto simp: rd_inv_def wake_inv_def dest!: notify_Some)
  qed
  moreover have "key_inv (s\<lparr>sys_rd := rd, sys_draining := sys_draining s - 1, sys_wait := notify ws (sys_wait s)\<rparr>)"
    by (rule key_inv_mono [of s]) (use st_drain in \<open>auto simp: rd_inv_def guard_drain_def dest: notify_Some\<close>)
  ultimately show ?case using st_drain by (auto simp: rd_inv_def guard_drain_def)
next
  case (st_create s i)
  let ?x = "\<lparr>wt_pc = WP_Idle, wt_key = wait_idle, wt_notified = False, wt_parked = False\<rparr>"
  have e: "s\<lparr>sys_wait := (sys_wait s)(i \<mapsto> ?x)\<rparr> = s\<lparr>sys_rd := sys_rd s, sys_wait := (sys_wait s)(i \<mapsto> ?x)\<rparr>" by simp
  have "key_inv (s\<lparr>sys_rd := sys_rd s, sys_wait := (sys_wait s)(i \<mapsto> ?x)\<rparr>)"
    using st_create by (intro key_inv_upd [where key = None]) (simp_all add: rd_inv_def wait_idle_def)
  moreover have "wake_inv (s\<lparr>sys_rd := sys_rd s, sys_wait := (sys_wait s)(i \<mapsto> ?x)\<rparr>)"
    using st_create by (intro wake_inv_upd) (simp_all add: rd_inv_def armed_def)
  ultimately show ?case using st_create unfolding e by (simp add: rd_inv_def)
next
  case (st_load_ready s i x rd key)
  let ?x = "x\<lparr>wt_key := key, wt_notified := False, wt_parked := False\<rparr>"
  note v = wait_deregister_view [OF st_load_ready(4)]
  have K: "key_inv s" using st_load_ready by (simp add: rd_inv_def)
  have "key_inv (s\<lparr>sys_rd := rd, sys_wait := (sys_wait s)(i \<mapsto> ?x)\<rparr>)"
    using K v by (intro key_inv_upd [where key = None]) simp_all
  moreover have "wake_inv (s\<lparr>sys_rd := rd, sys_wait := (sys_wait s)(i \<mapsto> ?x)\<rparr>)"
    using st_load_ready v armed_after_deregister [OF K st_load_ready(1,4)]
    by (intro wake_inv_upd) (simp_all add: rd_inv_def armed_upd)
  ultimately show ?case using st_load_ready v by (simp add: rd_inv_def)
next
  case (st_load_miss s i x)
  let ?x = "x\<lparr>wt_pc := WP_Missed, wt_notified := False, wt_parked := False\<rparr>"
  have e: "s\<lparr>sys_wait := (sys_wait s)(i \<mapsto> ?x)\<rparr> = s\<lparr>sys_rd := sys_rd s, sys_wait := (sys_wait s)(i \<mapsto> ?x)\<rparr>" by simp
  have "key_inv (s\<lparr>sys_rd := sys_rd s, sys_wait := (sys_wait s)(i \<mapsto> ?x)\<rparr>)"
    using st_load_miss by (intro key_inv_upd [where key = "wt_key x" and x = x]) (simp_all add: rd_inv_def)
  moreover have "wake_inv (s\<lparr>sys_rd := sys_rd s, sys_wait := (sys_wait s)(i \<mapsto> ?x)\<rparr>)"
    using st_load_miss by (intro wake_inv_upd) (simp_all add: rd_inv_def armed_def)
  ultimately show ?case using st_load_miss unfolding e by (simp add: rd_inv_def)
next
  case (st_register s i x rd key)
  let ?x = "x\<lparr>wt_pc := WP_Registered, wt_key := key\<rparr>"
  note v = wait_register_view [OF st_register(3)]
  have K: "key_inv s" using st_register by (simp add: rd_inv_def)
  have np: "\<not> wt_parked x" using st_register by (auto simp: rd_inv_def wake_inv_def)
  have "key_inv (s\<lparr>sys_rd := rd, sys_wait := (sys_wait s)(i \<mapsto> ?x)\<rparr>)"
    using K v st_register(1) by (intro key_inv_upd [where key = key and x = x]) (auto split: option.splits)
  moreover have "wake_inv (s\<lparr>sys_rd := rd, sys_wait := (sys_wait s)(i \<mapsto> ?x)\<rparr>)"
    using st_register v np armed_after_register [OF K st_register(1,3)]
    by (intro wake_inv_upd) (auto simp: rd_inv_def armed_upd)
  ultimately show ?case using st_register v by (auto simp: rd_inv_def)
next
  case (st_recheck_ready s i x rd key)
  let ?x = "x\<lparr>wt_pc := WP_Idle, wt_key := key\<rparr>"
  note v = wait_deregister_view [OF st_recheck_ready(4)]
  have K: "key_inv s" using st_recheck_ready by (simp add: rd_inv_def)
  have np: "\<not> wt_parked x" using st_recheck_ready by (auto simp: rd_inv_def wake_inv_def)
  have "key_inv (s\<lparr>sys_rd := rd, sys_wait := (sys_wait s)(i \<mapsto> ?x)\<rparr>)"
    using K v by (intro key_inv_upd [where key = None]) simp_all
  moreover have "wake_inv (s\<lparr>sys_rd := rd, sys_wait := (sys_wait s)(i \<mapsto> ?x)\<rparr>)"
    using st_recheck_ready v np armed_after_deregister [OF K st_recheck_ready(1,4)]
    by (intro wake_inv_upd) (simp_all add: rd_inv_def armed_upd)
  ultimately show ?case using st_recheck_ready v by (simp add: rd_inv_def)
next
  case (st_recheck_pending s i x)
  let ?x = "x\<lparr>wt_pc := WP_Idle, wt_parked := True\<rparr>"
  have e: "s\<lparr>sys_wait := (sys_wait s)(i \<mapsto> ?x)\<rparr> = s\<lparr>sys_rd := sys_rd s, sys_wait := (sys_wait s)(i \<mapsto> ?x)\<rparr>" by simp
  have "key_inv (s\<lparr>sys_rd := sys_rd s, sys_wait := (sys_wait s)(i \<mapsto> ?x)\<rparr>)"
    using st_recheck_pending by (intro key_inv_upd [where key = "wt_key x" and x = x]) (simp_all add: rd_inv_def)
  moreover have "armed s i x" if "\<not> wt_notified x"
    using st_recheck_pending that by (auto simp: rd_inv_def wake_inv_def)
  then have "wake_inv (s\<lparr>sys_rd := sys_rd s, sys_wait := (sys_wait s)(i \<mapsto> ?x)\<rparr>)"
    using st_recheck_pending by (intro wake_inv_upd) (simp_all add: rd_inv_def armed_def)
  ultimately show ?case using st_recheck_pending unfolding e by (simp add: rd_inv_def)
next
  case (st_drop s i x)
  obtain rd key where d: "wait_deregister (wt_key x) (sys_rd s) = (rd, key)" by fastforce
  note v = wait_deregister_view [OF d]
  have K: "key_inv s" using st_drop by (simp add: rd_inv_def)
  have "armed (s\<lparr>sys_rd := rd, sys_wait := (sys_wait s)(i := None)\<rparr>) j y"
    if "sys_wait s j = Some y" "j \<noteq> i" "armed s j y" for j y
    using armed_after_deregister [OF K st_drop(1) d that] by (simp add: armed_upd)
  then have "wake_inv (s\<lparr>sys_rd := rd, sys_wait := (sys_wait s)(i := None)\<rparr>)"
    using st_drop v(2) unfolding rd_inv_def wake_inv_def by (auto split: if_splits)
  moreover have "key_inv (s\<lparr>sys_rd := rd, sys_wait := (sys_wait s)(i := None)\<rparr>)"
    using K v(3) unfolding key_inv_def by (auto split: if_splits)
  ultimately show ?case using st_drop v d by (simp add: rd_inv_def wait_idle_drop_def)
qed

lemma rd_reach_inv: "rd_reach s \<Longrightarrow> rd_inv s"
  by (induction rule: rd_reach.induct) (auto intro: rd_inv_init rd_step_inv)

section \<open>Properties\<close>

text \<open>
  C18: \<open>wait_idle\<close> never loses its wakeup. In every interleaving of guard creations, drops, drains
  and polls, once the count is zero and every drop that saw the last count has drained, no waiter
  is left parked without having been woken: each either was never pending or will be polled again.
  The count is always exactly the number of live guards, so zero means that no tracked handle is left.
\<close>

theorem wait_idle_no_lost_wakeup:
  assumes "rd_reach s" and "rd_active (sys_rd s) = 0" and "sys_draining s = 0" and "sys_wait s i = Some x"
    and "wt_parked x"
  shows "wt_notified x \<and> sys_live s = 0"
  using rd_reach_inv [OF assms(1)] assms(2-5) by (auto simp: rd_inv_def wake_inv_def)

theorem wait_idle_no_lost_wakeup_witness:
  "\<exists>s x. rd_reach s \<and> rd_active (sys_rd s) = 0 \<and> sys_wait s 5 = Some x \<and> wt_parked x \<and> wt_notified x"
proof -
  define s1 where "s1 = rd_init\<lparr>sys_rd := guard_new (sys_rd rd_init), sys_live := Suc (sys_live rd_init)\<rparr>"
  define s2 where "s2 = s1\<lparr>sys_wait := (sys_wait s1)(5 \<mapsto> \<lparr>wt_pc = WP_Idle, wt_key = wait_idle, wt_notified = False, wt_parked = False\<rparr>)\<rparr>"
  define x2 where "x2 = the (sys_wait s2 5)"
  define s3 where "s3 = s2\<lparr>sys_wait := (sys_wait s2)(5 \<mapsto> x2\<lparr>wt_pc := WP_Missed, wt_notified := False, wt_parked := False\<rparr>)\<rparr>"
  define x3 where "x3 = the (sys_wait s3 5)"
  define s4 where "s4 = s3\<lparr>sys_rd := fst (wait_register (wt_key x3) 5 (sys_rd s3)),
    sys_wait := (sys_wait s3)(5 \<mapsto> x3\<lparr>wt_pc := WP_Registered, wt_key := snd (wait_register (wt_key x3) 5 (sys_rd s3))\<rparr>)\<rparr>"
  define x4 where "x4 = the (sys_wait s4 5)"
  define s5 where "s5 = s4\<lparr>sys_wait := (sys_wait s4)(5 \<mapsto> x4\<lparr>wt_pc := WP_Idle, wt_parked := True\<rparr>)\<rparr>"
  define s6 where "s6 = s5\<lparr>sys_rd := fst (guard_dec (sys_rd s5)), sys_live := sys_live s5 - 1,
    sys_draining := (if snd (guard_dec (sys_rd s5)) then Suc (sys_draining s5) else sys_draining s5)\<rparr>"
  define s7 where "s7 = s6\<lparr>sys_rd := fst (guard_drain (sys_rd s6)), sys_draining := sys_draining s6 - 1,
    sys_wait := notify (snd (guard_drain (sys_rd s6))) (sys_wait s6)\<rparr>"
  note defs = s1_def s2_def x2_def s3_def x3_def s4_def x4_def s5_def s6_def s7_def rd_init_def rundown_default_def
    guard_new_def guard_dec_def guard_drain_def wait_register_def wait_idle_def
  have "rd_step rd_init s1" unfolding s1_def by (rule st_new)
  moreover have "rd_step s1 s2" unfolding s2_def by (rule st_create) (simp add: defs)
  moreover have "rd_step s2 s3" unfolding s3_def by (rule st_load_miss) (simp_all add: defs)
  moreover have "rd_step s3 s4" unfolding s4_def by (rule st_register) (simp_all add: defs)
  moreover have "rd_step s4 s5" unfolding s5_def by (rule st_recheck_pending) (simp_all add: defs)
  moreover have "rd_step s5 s6" unfolding s6_def by (rule st_dec) (simp_all add: defs)
  moreover have "rd_step s6 s7" unfolding s7_def by (rule st_drain) (simp_all add: defs)
  ultimately have r: "rd_reach s7" by (meson rd_reach.intros)
  obtain x where x: "sys_wait s7 5 = Some x" "wt_parked x" by (simp add: defs notify_def)
  have "rd_active (sys_rd s7) = 0" "sys_draining s7 = 0" by (simp_all add: defs)
  with wait_idle_no_lost_wakeup [OF r this x] r x show ?thesis by blast
qed

text \<open>
  An uninterrupted poll and drop behave as documented. A poll is ready exactly when no guard
  is live, and then leaves no waker behind; otherwise it leaves its own waker in the map. Dropping
  a guard releases one unit and hands out every registered waker exactly when it was the last one;
  dropping the future removes its waker.
\<close>

theorem rundown_operations_exact:
  "(snd (wait_idle_poll key cx st) = PollReady () \<longleftrightarrow> rd_active st = 0) \<and>
   rd_active (fst (fst (wait_idle_poll key cx st))) = rd_active st \<and>
   (case snd (fst (wait_idle_poll key cx st)) of
      None \<Rightarrow> rd_active st = 0
    | Some k \<Rightarrow> rd_active st \<noteq> 0 \<and> map_of (rd_map (fst (fst (wait_idle_poll key cx st)))) k = Some cx) \<and>
   guard_drop st = (if rd_active st = 1 then (st\<lparr>rd_active := 0, rd_map := []\<rparr>, map snd (rd_map st))
     else (st\<lparr>rd_active := rd_active st - 1\<rparr>, [])) \<and>
   guard_drop (guard_new (rundown_default\<lparr>rd_map := m\<rparr>)) = (rundown_default, map snd m) \<and>
   map_of (rd_map (wait_idle_drop (Some k) st)) k = None"
proof -
  have "snd (fst (wait_idle_poll key cx st)) = None \<longleftrightarrow> rd_active st = 0"
    by (auto simp: wait_idle_poll_def wait_register_def wait_deregister_def Let_def split: option.split)
  moreover have "rd_active st \<noteq> 0 \<Longrightarrow> wait_idle_poll key cx st = (wait_register key cx st, PollPending)"
    by (simp add: wait_idle_poll_def wait_register_def Let_def split: option.split)
  ultimately show ?thesis
    using wait_register_view [of key cx st "fst (wait_register key cx st)" "snd (wait_register key cx st)"]
    by (cases "rd_active st = 0")
      (auto simp: wait_idle_poll_def wait_deregister_def guard_drop_def guard_dec_def guard_drain_def guard_new_def
        rundown_default_def wait_idle_drop_def delete_conv' split: option.split)
qed

end
