(* ===== verification/H3_Connection.thy ===== *)
theory H3_Connection
  imports H3_Recv_Stream H3_Registration
begin

text \<open>
  The connection (\<open>connection.rs\<close>): the callback-owned context and the frontend's, the validation
  of a peer stream's identity before ownership is taken, \<open>connection_callback\<close>, its poison
  disposition and panic recovery, \<open>connect\<close> and \<open>attach\<close>, and the accept frontends.

  As for a stream, the state behind the channels and the shared slot is one record
  \<open>conn_world\<close>. It also records the handles of peer streams the adapter closed itself, by dropping
  an owned stream: the native library closes the stream of a \<open>PeerStreamStarted\<close> event exactly when
  the callback answers with an error.
\<close>

section \<open>State\<close>

record ('o, 'h, 'q, 'x) conn_env =
  ce_status :: status_ops
  ce_connected :: "('o, (unit, status) result) oneshot"
  ce_shutdown :: "('h, unit) oneshot"
  ce_accept :: "('q, 'x option) mpsc"

record ('o, 'h, 'q, 'n) conn_world =
  cw_connected :: 'o
  cw_shutdown :: 'h
  cw_bidi :: 'q
  cw_uni :: 'q
  cw_terminal :: conn_terminal_state
  cw_closed :: "nat list"
  cw_native :: 'n

record conn_ctx_sender =
  cx_connected :: bool
  cx_shutdown :: bool
  cx_bidi :: bool
  cx_uni :: bool
  cx_config :: h3_config
  cx_poisoned :: bool

record conn_ctx_receiver =
  cr_connected :: bool
  cr_shutdown :: bool

type_synonym ('o, 'h, 'q, 'n) conn_st = "conn_ctx_sender \<times> ('o, 'h, 'q, 'n) conn_world"

text \<open>A delivered peer stream: its native handle, the callback side and the two halves.\<close>

type_synonym ('i, 'so, 'ss, 'sr, 'm) peer_stream =
  "nat \<times> ('so, 'ss, 'sr, 'm) stream_st \<times> 'i h3_stream"

text \<open>
  The native connection events with the fields the crate reads; \<open>CE_PeerStreamStarted\<close> carries the
  handle, the result of \<open>get_stream_id\<close> on the borrowed stream and the unidirectional flag.
\<close>

datatype conn_event =
    CE_Connected
  | CE_ShutdownInitiatedByPeer u64
  | CE_ShutdownInitiatedByTransport status u64
  | CE_PeerStreamStarted nat "(u64, status) result" bool
  | CE_ShutdownComplete
  | CE_Other

definition conn_ctx_channel ::
  "('o, 'h, 'q, 'x) conn_env \<Rightarrow> h3_config \<Rightarrow> 'n \<Rightarrow> ('o, 'h, 'q, 'n) conn_st \<times> conn_ctx_receiver" where
  "conn_ctx_channel E config n =
     ((\<lparr>cx_connected = True, cx_shutdown = True, cx_bidi = True, cx_uni = True, cx_config = config,
        cx_poisoned = False\<rparr>,
       \<lparr>cw_connected = oneshot_new (ce_connected E), cw_shutdown = oneshot_new (ce_shutdown E),
        cw_bidi = mpsc_new (ce_accept E), cw_uni = mpsc_new (ce_accept E),
        cw_terminal = conn_terminal_default, cw_closed = [], cw_native = n\<rparr>),
      \<lparr>cr_connected = True, cr_shutdown = True\<rparr>)"

section \<open>The handle\<close>

text \<open>
  \<open>ConnHandle\<close>: the native connection with its slot, its configuration and its rundown guard.
  Dropping the last reference closes the native connection first and then drops the guard.
\<close>

record conn_handle =
  ch_config :: h3_config

definition conn_handle_new :: "h3_config \<Rightarrow> conn_handle" where
  "conn_handle_new config = \<lparr>ch_config = config\<rparr>"

definition conn_handle_drop ::
  "('n \<Rightarrow> 'n) \<Rightarrow> 'n \<times> rundown_state \<Rightarrow> ('n \<times> rundown_state) \<times> waker list" where
  "conn_handle_drop close st = (let (n, rd) = st; (rd, ws) = guard_drop rd in ((close n, rd), ws))"

section \<open>Helpers of the callback\<close>

definition resolve_connected ::
  "('o, 'h, 'q, 'x) conn_env \<Rightarrow> (unit, status) result \<Rightarrow> ('o, 'h, 'q, 'n) conn_st \<Rightarrow> ('o, 'h, 'q, 'n) conn_st" where
  "resolve_connected E res st =
     (let (c, w) = st in
      if cx_connected c
      then (c\<lparr>cx_connected := False\<rparr>, w\<lparr>cw_connected := oneshot_send (ce_connected E) res (cw_connected w)\<rparr>)
      else (c, w))"

definition resolve_shutdown ::
  "('o, 'h, 'q, 'x) conn_env \<Rightarrow> ('o, 'h, 'q, 'n) conn_st \<Rightarrow> ('o, 'h, 'q, 'n) conn_st" where
  "resolve_shutdown E st =
     (let (c, w) = st in
      if cx_shutdown c
      then (c\<lparr>cx_shutdown := False\<rparr>, w\<lparr>cw_shutdown := oneshot_send (ce_shutdown E) () (cw_shutdown w)\<rparr>)
      else (c, w))"

definition conn_record :: "connection_terminal \<Rightarrow> ('o, 'h, 'q, 'n) conn_st \<Rightarrow> ('o, 'h, 'q, 'n) conn_st" where
  "conn_record t st = (let (c, w) = st in (c, w\<lparr>cw_terminal := record_conn_terminal t (cw_terminal w)\<rparr>))"

definition wake_acceptors ::
  "('o, 'h, 'q, 'x) conn_env \<Rightarrow> ('o, 'h, 'q, 'n) conn_st \<Rightarrow> ('o, 'h, 'q, 'n) conn_st" where
  "wake_acceptors E st =
     (let (c, w) = st;
          (c, w) = (if cx_uni c then (c\<lparr>cx_uni := False\<rparr>, w\<lparr>cw_uni := mpsc_drop_tx (ce_accept E) (cw_uni w)\<rparr>) else (c, w))
      in if cx_bidi c then (c\<lparr>cx_bidi := False\<rparr>, w\<lparr>cw_bidi := mpsc_drop_tx (ce_accept E) (cw_bidi w)\<rparr>) else (c, w))"

text \<open>
  \<open>validate_stream_id\<close> is \<open>StreamId::try_from\<close> of the h3 package, an argument: it yields an identity
  or rejects the raw value.
\<close>

definition validate_stream_id :: "(u64 \<Rightarrow> 'i option) \<Rightarrow> u64 \<Rightarrow> 'i option" where
  "validate_stream_id try_from raw = try_from raw"

definition accept_stream_id ::
  "('o, 'h, 'q, 'x) conn_env \<Rightarrow> (u64 \<Rightarrow> 'i option) \<Rightarrow> (u64, status) result \<Rightarrow> ('o, 'h, 'q, 'n) conn_st \<Rightarrow>
   ('o, 'h, 'q, 'n) conn_st \<times> ('i, status) result" where
  "accept_stream_id E try_from query st =
     (case query of
        Err status \<Rightarrow>
          (wake_acceptors E (conn_record (CT_Internal ''accepted stream ID query failed'') st), Err status)
      | Ok raw \<Rightarrow>
          (case validate_stream_id try_from raw of
             Some sid \<Rightarrow> (st, Ok sid)
           | None \<Rightarrow>
               (wake_acceptors E (conn_record (CT_Internal ''accepted stream ID is invalid'') st),
                Err (status_new (ce_status E) QUIC_STATUS_INTERNAL_ERROR))))"

section \<open>The callback\<close>

text \<open>
  \<open>PeerStreamStarted\<close>. The last component of the state is the ownership token of this
  invocation. A stream that is attached but not delivered is dropped, which closes it.
\<close>

definition cb_PeerStreamStarted ::
  "('o, 'h, 'q, ('i, 'so, 'ss, 'sr, 'm) peer_stream) conn_env \<Rightarrow> ('so, 'ss, 'sr) stream_env \<Rightarrow> (u64 \<Rightarrow> 'i option) \<Rightarrow> 'm \<Rightarrow>
   nat \<Rightarrow> (u64, status) result \<Rightarrow> bool \<Rightarrow> ('o, 'h, 'q, 'n) conn_st \<times> bool \<Rightarrow>
   (('o, 'h, 'q, 'n) conn_st \<times> bool) \<times> (unit, status) result" where
  "cb_PeerStreamStarted E SE try_from m stream query uni ost =
     (case accept_stream_id E try_from query (fst ost) of
        (st, Err status) \<Rightarrow> ((st, snd ost), Err status)
      | ((c, w), Ok sid) \<Rightarrow>
          (let h3 = (stream, attach SE sid (cw_terminal w) (cx_config c) m);
               target = (if uni then cx_uni c else cx_bidi c)
           in if target then
                (let (ch, sent) = unbounded_send (ce_accept E) (Some h3) (if uni then cw_uni w else cw_bidi w);
                     w = (if uni then w\<lparr>cw_uni := ch\<rparr> else w\<lparr>cw_bidi := ch\<rparr>)
                 in (((c, if sent then w else w\<lparr>cw_closed := stream # cw_closed w\<rparr>), True), Ok ()))
              else (((c, w\<lparr>cw_closed := stream # cw_closed w\<rparr>), True), Ok ())))"

definition cb_conn_ShutdownComplete ::
  "('o, 'h, 'q, 'x) conn_env \<Rightarrow> ('o, 'h, 'q, 'n) conn_st \<Rightarrow> ('o, 'h, 'q, 'n) conn_st" where
  "cb_conn_ShutdownComplete E st =
     (let st = conn_record CT_LocalClose st;
          st = resolve_connected E (Err (status_new (ce_status E) QUIC_STATUS_ABORTED)) st
      in resolve_shutdown E (wake_acceptors E st))"

fun connection_callback ::
  "('o, 'h, 'q, ('i, 'so, 'ss, 'sr, 'm) peer_stream) conn_env \<Rightarrow> ('so, 'ss, 'sr) stream_env \<Rightarrow> (u64 \<Rightarrow> 'i option) \<Rightarrow> 'm \<Rightarrow>
   conn_event \<Rightarrow> ('o, 'h, 'q, 'n) conn_st \<times> bool \<Rightarrow>
   (('o, 'h, 'q, 'n) conn_st \<times> bool) \<times> (unit, status) result" where
  "connection_callback E SE try_from m CE_Connected (st, own) = ((resolve_connected E (Ok ()) st, own), Ok ())"
| "connection_callback E SE try_from m (CE_ShutdownInitiatedByPeer code) (st, own) =
     ((resolve_connected E (Err (status_new (ce_status E) QUIC_STATUS_ABORTED))
         (conn_record (CT_PeerApplication code) st), own), Ok ())"
| "connection_callback E SE try_from m (CE_ShutdownInitiatedByTransport status code) (st, own) =
     ((resolve_connected E (Err status) (conn_record (classify_transport (ce_status E) status code) st), own), Ok ())"
| "connection_callback E SE try_from m (CE_PeerStreamStarted stream query uni) ost =
     cb_PeerStreamStarted E SE try_from m stream query uni ost"
| "connection_callback E SE try_from m CE_ShutdownComplete (st, own) = ((cb_conn_ShutdownComplete E st, own), Ok ())"
| "connection_callback E SE try_from m CE_Other (st, own) = ((st, own), Ok ())"

section \<open>Poison, recovery and the registered handler\<close>

fun conn_poison_disp :: "status_ops \<Rightarrow> conn_event \<Rightarrow> (unit, status) result" where
  "conn_poison_disp S CE_ShutdownComplete = Ok ()"
| "conn_poison_disp S _ = Err (internal_error_status S)"

definition connection_recover ::
  "('o, 'h, 'q, 'x) conn_env \<Rightarrow> (force_shutdown \<Rightarrow> u64 \<Rightarrow> 'n \<Rightarrow> 'n) \<Rightarrow>
   ('o, 'h, 'q, 'n) conn_st \<times> bool \<Rightarrow> (('o, 'h, 'q, 'n) conn_st \<times> bool) \<times> (unit, status) result" where
  "connection_recover E seam ost =
     (let ((c, w), own) = ost;
          st = (c, w\<lparr>cw_native := seam (FS_Connection CONNECTION_SHUTDOWN_NONE) H3_INTERNAL_ERROR (cw_native w)\<rparr>);
          st = conn_record (CT_Internal ''connection callback panicked'') st;
          st = resolve_connected E (Err (internal_error_status (ce_status E))) st;
          st = wake_acceptors E st;
          (c, w) = resolve_shutdown E st
      in (((c\<lparr>cx_poisoned := True\<rparr>, w), own), if own then Ok () else Err (internal_error_status (ce_status E))))"

text \<open>
  \<open>pan ev st\<close> is the state, with the ownership token, a panicking body had reached when it unwound.
\<close>

definition connection_body ::
  "('o, 'h, 'q, ('i, 'so, 'ss, 'sr, 'm) peer_stream) conn_env \<Rightarrow> ('so, 'ss, 'sr) stream_env \<Rightarrow> (u64 \<Rightarrow> 'i option) \<Rightarrow> 'm \<Rightarrow>
   (conn_event \<Rightarrow> ('o, 'h, 'q, 'n) conn_st \<times> bool \<Rightarrow> (('o, 'h, 'q, 'n) conn_st \<times> bool) option) \<Rightarrow>
   conn_event \<Rightarrow> ('o, 'h, 'q, 'n) conn_st \<times> bool \<Rightarrow>
   (('o, 'h, 'q, 'n) conn_st \<times> bool) \<times> (unit, status) result outcome" where
  "connection_body E SE try_from m pan ev ost =
     (case pan ev ost of
        Some ost' \<Rightarrow> (ost', Panicked)
      | None \<Rightarrow> (let (ost', r) = connection_callback E SE try_from m ev ost in (ost', Returned r)))"

text \<open>The closure \<open>connect\<close> and \<open>attach\<close> register: a fresh ownership token per invocation.\<close>

definition connection_handler ::
  "('o, 'h, 'q, ('i, 'so, 'ss, 'sr, 'm) peer_stream) conn_env \<Rightarrow> ('so, 'ss, 'sr) stream_env \<Rightarrow> (u64 \<Rightarrow> 'i option) \<Rightarrow> 'm \<Rightarrow>
   (force_shutdown \<Rightarrow> u64 \<Rightarrow> 'n \<Rightarrow> 'n) \<Rightarrow>
   (conn_event \<Rightarrow> ('o, 'h, 'q, 'n) conn_st \<times> bool \<Rightarrow> (('o, 'h, 'q, 'n) conn_st \<times> bool) option) \<Rightarrow>
   conn_event \<Rightarrow> ('o, 'h, 'q, 'n) conn_st \<Rightarrow> ('o, 'h, 'q, 'n) conn_st \<times> (unit, status) result" where
  "connection_handler E SE try_from m seam pan ev st =
     (let ((st', _), r) =
        guard_callback (\<lambda>ost. cx_poisoned (fst (fst ost))) (conn_poison_disp (ce_status E) ev)
          (connection_body E SE try_from m pan ev) (connection_recover E seam) (st, False)
      in (st', r))"

section \<open>Connecting and attaching\<close>

record 'n native_conn =
  nc_open :: "'n \<Rightarrow> 'n \<times> (unit, status) result"
  nc_start :: "'n \<Rightarrow> 'n \<times> (unit, status) result"
  nc_close :: "'n \<Rightarrow> 'n"
  nc_shutdown :: "connection_shutdown_flags \<Rightarrow> u64 \<Rightarrow> 'n \<Rightarrow> 'n"

text \<open>
  The part of \<open>connect_with_config\<close> that runs before the future is polled: the reservation.
\<close>

definition connect_reserve :: "rundown_state \<Rightarrow> rundown_state" where
  "connect_reserve rd = guard_new rd"

text \<open>
  Its body up to the first await. A failed open drops the guard; a failed start drops the handle,
  which closes the connection and then drops the guard.
\<close>

definition connect_start ::
  "('o, 'h, 'q, 'x) conn_env \<Rightarrow> 'n native_conn \<Rightarrow> h3_config \<Rightarrow> 'n \<times> rundown_state \<Rightarrow>
   (('n \<times> rundown_state) \<times> waker list) \<times>
   ((('o, 'h, 'q, 'n) conn_st \<times> conn_ctx_receiver) \<times> conn_handle, status) result" where
  "connect_start E NC h3config nr =
     (let (n, rd) = nr in
      case nc_open NC n of
        (n, Err status) \<Rightarrow> (let (rd, ws) = guard_drop rd in (((n, rd), ws), Err status))
      | (n, Ok _) \<Rightarrow>
          (case nc_start NC n of
             (n, Err status) \<Rightarrow> (conn_handle_drop (nc_close NC) (n, rd), Err status)
           | (n, Ok _) \<Rightarrow> (((n, rd), []), Ok (conn_ctx_channel E h3config n, conn_handle_new h3config))))"

text \<open>The await on the connect one-shot; a cancelled one is reported as aborted.\<close>

definition connect_await ::
  "('o, 'h, 'q, 'x) conn_env \<Rightarrow> waker \<Rightarrow> conn_ctx_receiver \<times> ('o, 'h, 'q, 'n) conn_world \<Rightarrow>
   (conn_ctx_receiver \<times> ('o, 'h, 'q, 'n) conn_world) \<times> (unit, status) result poll" where
  "connect_await E cx rw =
     (let (crx, w) = rw in
      if \<not> cr_connected crx then ((crx, w), PollReady (Err (status_new (ce_status E) QUIC_STATUS_ABORTED)))
      else (let (ch, p) = oneshot_poll (ce_connected E) cx (cw_connected w); w = w\<lparr>cw_connected := ch\<rparr> in
        case p of
          PollPending \<Rightarrow> ((crx, w), PollPending)
        | PollReady None \<Rightarrow>
            ((crx\<lparr>cr_connected := False\<rparr>, w), PollReady (Err (status_new (ce_status E) QUIC_STATUS_ABORTED)))
        | PollReady (Some r) \<Rightarrow> ((crx\<lparr>cr_connected := False\<rparr>, w), PollReady r)))"

definition connection_attach ::
  "('o, 'h, 'q, 'x) conn_env \<Rightarrow> h3_config \<Rightarrow> 'n \<Rightarrow>
   (('o, 'h, 'q, 'n) conn_st \<times> conn_ctx_receiver) \<times> conn_handle" where
  "connection_attach E h3config n = (conn_ctx_channel E h3config n, conn_handle_new h3config)"

datatype shutdown_waiter = Waiter_live | Waiter_spent

definition get_shutdown_waiter :: "conn_ctx_receiver \<Rightarrow> conn_ctx_receiver \<times> shutdown_waiter" where
  "get_shutdown_waiter crx =
     (if cr_shutdown crx then (crx\<lparr>cr_shutdown := False\<rparr>, Waiter_live) else (crx, Waiter_spent))"

definition shutdown_wait ::
  "('o, 'h, 'q, 'x) conn_env \<Rightarrow> shutdown_waiter \<Rightarrow> waker \<Rightarrow> ('o, 'h, 'q, 'n) conn_world \<Rightarrow>
   ('o, 'h, 'q, 'n) conn_world \<times> unit poll" where
  "shutdown_wait E waiter cx w =
     (case waiter of
        Waiter_live \<Rightarrow>
          (let (ch, p) = oneshot_poll (ce_shutdown E) cx (cw_shutdown w)
           in (w\<lparr>cw_shutdown := ch\<rparr>, poll_map (\<lambda>_. ()) p))
      | Waiter_spent \<Rightarrow>
          (w, poll_map (\<lambda>_. ()) (snd (oneshot_poll (ce_shutdown E) cx
                (oneshot_drop_tx (ce_shutdown E) (oneshot_new (ce_shutdown E)))))))"

section \<open>Accepting\<close>

definition fail_fast_terminal :: "conn_terminal_state \<Rightarrow> conn_terminal_state \<times> connection_error_incoming option" where
  "fail_fast_terminal slot =
     (if has_internal slot then (let (slot, t) = ct_observe slot in (slot, map_option convert_conn t))
      else (slot, None))"

definition observe_terminal :: "conn_terminal_state \<Rightarrow> conn_terminal_state \<times> connection_error_incoming" where
  "observe_terminal slot =
     (case commit_conn slot of
        (slot, Some t) \<Rightarrow> (slot, convert_conn t)
      | (slot, None) \<Rightarrow> (slot, InternalError ''connection closed without a terminal reason''))"

text \<open>The body shared by the two accept polls, over the channel they read.\<close>

definition poll_accept_from ::
  "('o, 'h, 'q, 'x) conn_env \<Rightarrow> waker \<Rightarrow> conn_terminal_state \<Rightarrow> 'q \<Rightarrow>
   (conn_terminal_state \<times> 'q) \<times> ('x, connection_error_incoming) result poll" where
  "poll_accept_from E cx slot ch =
     (case fail_fast_terminal slot of
        (slot, Some err) \<Rightarrow> ((slot, ch), PollReady (Err err))
      | (slot, None) \<Rightarrow>
          (case poll_next (ce_accept E) cx ch of
             (ch, PollPending) \<Rightarrow> ((slot, ch), PollPending)
           | (ch, PollReady (Some (Some s))) \<Rightarrow> ((slot, ch), PollReady (Ok s))
           | (ch, _) \<Rightarrow> (let (slot, err) = observe_terminal slot in ((slot, ch), PollReady (Err err)))))"

text \<open>Dropping the send half of a stream drops the receiving end of its event channel.\<close>

definition drop_send_half :: "('so, 'ss, 'sr) stream_env \<Rightarrow> ('so, 'ss, 'sr, 'm) stream_st \<Rightarrow> ('so, 'ss, 'sr, 'm) stream_st" where
  "drop_send_half SE st = (let (c, w) = st in (c, w\<lparr>w_send := mpsc_drop_rx (se_send SE) (w_send w)\<rparr>))"

definition poll_accept_recv ::
  "('o, 'h, 'q, ('i, 'so, 'ss, 'sr, 'm) peer_stream) conn_env \<Rightarrow> ('so, 'ss, 'sr) stream_env \<Rightarrow> waker \<Rightarrow> ('o, 'h, 'q, 'n) conn_world \<Rightarrow>
   ('o, 'h, 'q, 'n) conn_world \<times>
   (('so, 'ss, 'sr, 'm) stream_st \<times> 'i recv_stream_receive_ctx, connection_error_incoming) result poll" where
  "poll_accept_recv E SE cx w =
     (let ((slot, ch), r) = poll_accept_from E cx (cw_terminal w) (cw_uni w)
      in (w\<lparr>cw_terminal := slot, cw_uni := ch\<rparr>,
          poll_map (result_map (\<lambda>(_, st, h3). (drop_send_half SE st, h3_recv h3))) r))"

definition poll_accept_bidi ::
  "('o, 'h, 'q, ('i, 'so, 'ss, 'sr, 'm) peer_stream) conn_env \<Rightarrow> waker \<Rightarrow> ('o, 'h, 'q, 'n) conn_world \<Rightarrow>
   ('o, 'h, 'q, 'n) conn_world \<times>
   (('so, 'ss, 'sr, 'm) stream_st \<times> 'i h3_stream, connection_error_incoming) result poll" where
  "poll_accept_bidi E cx w =
     (let ((slot, ch), r) = poll_accept_from E cx (cw_terminal w) (cw_bidi w)
      in (w\<lparr>cw_terminal := slot, cw_bidi := ch\<rparr>, poll_map (result_map (\<lambda>(_, st, h3). (st, h3))) r))"

section \<open>Specification vocabulary\<close>

text \<open>The flags of the context agree with the channels it sends into.\<close>

definition conn_sync ::
  "('q \<Rightarrow> bool) \<Rightarrow> ('o \<Rightarrow> bool) \<Rightarrow> ('h \<Rightarrow> bool) \<Rightarrow> ('o, 'h, 'q, 'n) conn_st \<Rightarrow> bool" where
  "conn_sync tx calive halive st \<longleftrightarrow>
     cx_uni (fst st) = tx (cw_uni (snd st)) \<and> cx_bidi (fst st) = tx (cw_bidi (snd st)) \<and>
     cx_connected (fst st) = calive (cw_connected (snd st)) \<and> cx_shutdown (fst st) = halive (cw_shutdown (snd st))"

text \<open>The four senders of the context are gone.\<close>

definition all_released ::
  "('q \<Rightarrow> bool) \<Rightarrow> ('o \<Rightarrow> bool) \<Rightarrow> ('h \<Rightarrow> bool) \<Rightarrow> ('o, 'h, 'q, 'n) conn_world \<Rightarrow> bool" where
  "all_released tx calive halive w \<longleftrightarrow>
     \<not> tx (cw_uni w) \<and> \<not> tx (cw_bidi w) \<and> \<not> calive (cw_connected w) \<and> \<not> halive (cw_shutdown w)"

text \<open>How often the handle of a peer stream was taken care of by the adapter: closed or queued.\<close>

definition carries :: "nat \<Rightarrow> (nat \<times> 'y) option \<Rightarrow> bool" where
  "carries h item = (case item of Some (h', _) \<Rightarrow> h' = h | None \<Rightarrow> False)"

definition handled ::
  "('q \<Rightarrow> (nat \<times> 'y) option list) \<Rightarrow> nat \<Rightarrow> ('o, 'h, 'q, 'n) conn_world \<Rightarrow> nat" where
  "handled q h w = length (filter (carries h) (q (cw_bidi w))) + length (filter (carries h) (q (cw_uni w))) +
     length (filter (\<lambda>h'. h' = h) (cw_closed w))"

text \<open>What resolves a pending connect, and the outcome a list of events gives it.\<close>

fun connect_outcome :: "status_ops \<Rightarrow> conn_event \<Rightarrow> (unit, status) result option" where
  "connect_outcome S CE_Connected = Some (Ok ())"
| "connect_outcome S (CE_ShutdownInitiatedByPeer _) = Some (Err (status_new S QUIC_STATUS_ABORTED))"
| "connect_outcome S (CE_ShutdownInitiatedByTransport status _) = Some (Err status)"
| "connect_outcome S CE_ShutdownComplete = Some (Err (status_new S QUIC_STATUS_ABORTED))"
| "connect_outcome S _ = None"

fun connect_spec :: "status_ops \<Rightarrow> conn_event list \<Rightarrow> (unit, status) result option" where
  "connect_spec S [] = None"
| "connect_spec S (ev # evs) = (case connect_outcome S ev of Some r \<Rightarrow> Some r | None \<Rightarrow> connect_spec S evs)"

text \<open>The cause an event records.\<close>

fun recorded_cause :: "status_ops \<Rightarrow> (u64 \<Rightarrow> 'i option) \<Rightarrow> conn_event \<Rightarrow> connection_terminal list" where
  "recorded_cause S try_from (CE_ShutdownInitiatedByPeer code) = [CT_PeerApplication code]"
| "recorded_cause S try_from (CE_ShutdownInitiatedByTransport status code) = [classify_transport S status code]"
| "recorded_cause S try_from (CE_PeerStreamStarted h (Err status) uni) = [CT_Internal ''accepted stream ID query failed'']"
| "recorded_cause S try_from (CE_PeerStreamStarted h (Ok raw) uni) =
     (if try_from raw = None then [CT_Internal ''accepted stream ID is invalid''] else [])"
| "recorded_cause S try_from CE_ShutdownComplete = [CT_LocalClose]"
| "recorded_cause S try_from _ = []"

text \<open>A run of connection events, none of them panicking.\<close>

fun conn_run ::
  "('o, 'h, 'q, ('i, 'so, 'ss, 'sr, 'm) peer_stream) conn_env \<Rightarrow> ('so, 'ss, 'sr) stream_env \<Rightarrow> (u64 \<Rightarrow> 'i option) \<Rightarrow> 'm \<Rightarrow>
   conn_event list \<Rightarrow> ('o, 'h, 'q, 'n) conn_st \<Rightarrow> ('o, 'h, 'q, 'n) conn_st" where
  "conn_run E SE try_from m [] st = st"
| "conn_run E SE try_from m (ev # evs) st =
     conn_run E SE try_from m evs (fst (fst (connection_callback E SE try_from m ev (st, False))))"

text \<open>A reference environment for concrete evaluations.\<close>

type_synonym ref_peer_stream = "(nat, (u64, status) result cell, send_event fifo, receive_event fifo, unit) peer_stream"

definition ref_conn_env ::
  "((unit, status) result cell, unit cell, ref_peer_stream option fifo, ref_peer_stream) conn_env" where
  "ref_conn_env = \<lparr>ce_status = ref_status, ce_connected = cell_oneshot, ce_shutdown = cell_oneshot,
     ce_accept = fifo_mpsc\<rparr>"

definition ref_stream_id :: "u64 \<Rightarrow> nat option" where
  "ref_stream_id raw = (if unat raw < 2 ^ 62 then Some (unat raw) else None)"

declare resolve_connected_def [conn_defs] resolve_shutdown_def [conn_defs] conn_record_def [conn_defs]
  wake_acceptors_def [conn_defs] accept_stream_id_def [conn_defs] validate_stream_id_def [conn_defs]
  cb_PeerStreamStarted_def [conn_defs] cb_conn_ShutdownComplete_def [conn_defs] Let_def [conn_defs]

text \<open>Polling an accept frontend a number of times in a row.\<close>

fun accept_many ::
  "('o, 'h, 'q, 'x) conn_env \<Rightarrow> waker \<Rightarrow> nat \<Rightarrow> conn_terminal_state \<Rightarrow> 'q \<Rightarrow>
   ('x, connection_error_incoming) result poll list" where
  "accept_many E cx 0 slot ch = []"
| "accept_many E cx (Suc n) slot ch =
     (let ((slot, ch), p) = poll_accept_from E cx slot ch in p # accept_many E cx n slot ch)"

section \<open>Lemmas\<close>

lemma ref_conn_env_simps [simp]:
  "ce_status ref_conn_env = ref_status" "ce_connected ref_conn_env = cell_oneshot"
  "ce_shutdown ref_conn_env = cell_oneshot" "ce_accept ref_conn_env = fifo_mpsc"
  by (simp_all add: ref_conn_env_def)

text \<open>What each helper of the callback leaves alone.\<close>

lemma conn_helper_poison [world_simps]:
  "cx_poisoned (fst (resolve_connected E r st)) = cx_poisoned (fst st)"
  "cx_poisoned (fst (resolve_shutdown E st)) = cx_poisoned (fst st)"
  "cx_poisoned (fst (conn_record t st)) = cx_poisoned (fst st)"
  "cx_poisoned (fst (wake_acceptors E st)) = cx_poisoned (fst st)"
  by (cases st; simp add: conn_defs)+

lemma conn_helper_terminal [world_simps]:
  "cw_terminal (snd (resolve_connected E r st)) = cw_terminal (snd st)"
  "cw_terminal (snd (resolve_shutdown E st)) = cw_terminal (snd st)"
  "cw_terminal (snd (conn_record t st)) = record_conn_terminal t (cw_terminal (snd st))"
  "cw_terminal (snd (wake_acceptors E st)) = cw_terminal (snd st)"
  by (cases st; simp add: conn_defs)+

lemma conn_helper_connected [world_simps]:
  "cw_connected (snd (resolve_shutdown E st)) = cw_connected (snd st)"
  "cw_connected (snd (conn_record t st)) = cw_connected (snd st)"
  "cw_connected (snd (wake_acceptors E st)) = cw_connected (snd st)"
  "cx_connected (fst (resolve_shutdown E st)) = cx_connected (fst st)"
  "cx_connected (fst (conn_record t st)) = cx_connected (fst st)"
  "cx_connected (fst (wake_acceptors E st)) = cx_connected (fst st)"
  by (cases st; simp add: conn_defs)+

lemma resolve_connected_view [world_simps]:
  "cx_connected (fst (resolve_connected E r st)) \<longleftrightarrow> False"
  "cw_connected (snd (resolve_connected E r st)) =
     (if cx_connected (fst st) then oneshot_send (ce_connected E) r (cw_connected (snd st)) else cw_connected (snd st))"
  by (cases st; simp add: conn_defs)+

lemma resolve_shutdown_flag: "cx_shutdown (fst (resolve_shutdown E st)) \<longleftrightarrow> False"
  by (cases st) (simp add: conn_defs)

lemma conn_helper_native [world_simps]:
  "cw_native (snd (resolve_connected E r st)) = cw_native (snd st)"
  "cw_native (snd (resolve_shutdown E st)) = cw_native (snd st)"
  "cw_native (snd (conn_record t st)) = cw_native (snd st)"
  "cw_native (snd (wake_acceptors E st)) = cw_native (snd st)"
  by (cases st; simp add: conn_defs)+

lemma conn_helper_closed [world_simps]:
  "cw_closed (snd (resolve_connected E r st)) = cw_closed (snd st)"
  "cw_closed (snd (resolve_shutdown E st)) = cw_closed (snd st)"
  "cw_closed (snd (conn_record t st)) = cw_closed (snd st)"
  "cw_closed (snd (wake_acceptors E st)) = cw_closed (snd st)"
  by (cases st; simp add: conn_defs)+

lemma conn_helper_queues [world_simps]:
  "cw_uni (snd (resolve_connected E r st)) = cw_uni (snd st)"
  "cw_uni (snd (resolve_shutdown E st)) = cw_uni (snd st)"
  "cw_uni (snd (conn_record t st)) = cw_uni (snd st)"
  "cw_bidi (snd (resolve_connected E r st)) = cw_bidi (snd st)"
  "cw_bidi (snd (resolve_shutdown E st)) = cw_bidi (snd st)"
  "cw_bidi (snd (conn_record t st)) = cw_bidi (snd st)"
  by (cases st; simp add: conn_defs)+

text \<open>The identity check: an error has recorded an internal cause and woken both acceptors.\<close>

lemma accept_stream_id_cases:
  "(\<exists>raw sid. query = Ok raw \<and> try_from raw = Some sid \<and> accept_stream_id E try_from query st = (st, Ok sid)) \<or>
   (\<exists>status msg. accept_stream_id E try_from query st =
        (wake_acceptors E (conn_record (CT_Internal msg) st), Err status) \<and>
      recorded_cause S try_from (CE_PeerStreamStarted h query uni) = [CT_Internal msg])"
proof (cases query)
  case (Ok raw)
  then show ?thesis by (cases "try_from raw") (auto simp: accept_stream_id_def validate_stream_id_def)
qed (auto simp: accept_stream_id_def)

text \<open>The slot, the connect one-shot and the poison flag after one event.\<close>

lemma cb_PeerStreamStarted_frame:
  assumes "cb_PeerStreamStarted E SE try_from m h query uni (st, own) = ((st', own'), r)"
  shows "cw_terminal (snd st') =
      fold record_conn_terminal (recorded_cause S try_from (CE_PeerStreamStarted h query uni)) (cw_terminal (snd st))"
    and "cw_connected (snd st') = cw_connected (snd st)" and "cx_connected (fst st') = cx_connected (fst st)"
    and "cx_poisoned (fst st') = cx_poisoned (fst st)"
proof -
  obtain c w where st: "st = (c, w)" by fastforce
  have "cw_terminal (snd st') =
      fold record_conn_terminal (recorded_cause S try_from (CE_PeerStreamStarted h query uni)) (cw_terminal (snd st)) \<and>
    cw_connected (snd st') = cw_connected (snd st) \<and> cx_connected (fst st') = cx_connected (fst st) \<and>
    cx_poisoned (fst st') = cx_poisoned (fst st)"
    using assms accept_stream_id_cases [of query try_from E st S h uni]
  proof (elim disjE exE conjE)
    fix raw sid assume "query = Ok raw" "try_from raw = Some sid" "accept_stream_id E try_from query st = (st, Ok sid)"
    then show ?thesis using assms
      by (auto simp: cb_PeerStreamStarted_def st Let_def split: if_splits prod.splits)
  next
    fix status msg
    assume "accept_stream_id E try_from query st = (wake_acceptors E (conn_record (CT_Internal msg) st), Err status)"
      "recorded_cause S try_from (CE_PeerStreamStarted h query uni) = [CT_Internal msg]"
    then show ?thesis using assms by (auto simp: cb_PeerStreamStarted_def world_simps simp del: recorded_cause.simps)
  qed
  then show "cw_terminal (snd st') =
      fold record_conn_terminal (recorded_cause S try_from (CE_PeerStreamStarted h query uni)) (cw_terminal (snd st))"
    and "cw_connected (snd st') = cw_connected (snd st)" and "cx_connected (fst st') = cx_connected (fst st)"
    and "cx_poisoned (fst st') = cx_poisoned (fst st)"
    by blast+
qed

lemma connection_callback_terminal:
  assumes "connection_callback E SE try_from m ev (st, own) = ((st', own'), r)"
  shows "cw_terminal (snd st') =
    fold record_conn_terminal (recorded_cause (ce_status E) try_from ev) (cw_terminal (snd st))"
proof (cases ev)
  case (CE_PeerStreamStarted h query uni)
  with assms cb_PeerStreamStarted_frame(1) [of E SE try_from m h query uni st own st' own' r "ce_status E"]
  show ?thesis by simp
qed (use assms in \<open>auto simp: cb_conn_ShutdownComplete_def Let_def world_simps\<close>)

lemma connection_callback_poison:
  assumes "connection_callback E SE try_from m ev (st, own) = ((st', own'), r)"
  shows "cx_poisoned (fst st') = cx_poisoned (fst st)"
proof (cases ev)
  case (CE_PeerStreamStarted h query uni)
  with assms cb_PeerStreamStarted_frame(4) [of E SE try_from m h query uni st own st' own' r]
  show ?thesis by simp
qed (use assms in \<open>auto simp: cb_conn_ShutdownComplete_def Let_def world_simps\<close>)

lemma connection_callback_connected:
  assumes "connection_callback E SE try_from m ev (st, own) = ((st', own'), r)"
  shows "cx_connected (fst st') = (cx_connected (fst st) \<and> connect_outcome (ce_status E) ev = None) \<and>
    cw_connected (snd st') =
      (case connect_outcome (ce_status E) ev of
         Some res \<Rightarrow> if cx_connected (fst st) then oneshot_send (ce_connected E) res (cw_connected (snd st))
           else cw_connected (snd st)
       | None \<Rightarrow> cw_connected (snd st))"
proof (cases ev)
  case (CE_PeerStreamStarted h query uni)
  with assms cb_PeerStreamStarted_frame(2,3) [of E SE try_from m h query uni st own st' own' r]
  show ?thesis by simp
qed (use assms in \<open>auto simp: cb_conn_ShutdownComplete_def Let_def world_simps\<close>)

lemma conn_run_terminal:
  "cw_terminal (snd (conn_run E SE try_from m evs st)) =
    fold record_conn_terminal (concat (map (recorded_cause (ce_status E) try_from) evs)) (cw_terminal (snd st))"
proof (induction evs arbitrary: st)
  case (Cons ev evs)
  obtain st' own' r where "connection_callback E SE try_from m ev (st, False) = ((st', own'), r)" by (metis prod.exhaust)
  with connection_callback_terminal [OF this] Cons show ?case by simp
qed simp

lemma fold_record_winner:
  assumes "\<not> ct_observed slot"
  shows "fold record_conn_terminal cs slot = slot\<lparr>ct_terminal := fold conn_put cs (ct_terminal slot)\<rparr>"
  using assms by (induction cs arbitrary: slot) (simp_all add: record_conn_terminal_unobserved)

interpretation connection_cb: guarded_class "\<lambda>ost. cx_poisoned (fst (fst ost))" "conn_poison_disp (ce_status E)"
    "connection_body E SE try_from m pan" "\<lambda>_. connection_recover E seam"
  for E :: "('o, 'h, 'q, ('i, 'so, 'ss, 'sr, 'm) peer_stream) conn_env" and SE :: "('so, 'ss, 'sr) stream_env"
    and try_from :: "u64 \<Rightarrow> 'i option" and m :: 'm and seam :: "force_shutdown \<Rightarrow> u64 \<Rightarrow> 'n \<Rightarrow> 'n"
    and pan :: "conn_event \<Rightarrow> ('o, 'h, 'q, 'n) conn_st \<times> bool \<Rightarrow> (('o, 'h, 'q, 'n) conn_st \<times> bool) option"
proof unfold_locales
  show "cx_poisoned (fst (fst (fst (connection_recover E seam c))))" for c :: "('o, 'h, 'q, 'n) conn_st \<times> bool"
    by (simp add: connection_recover_def Let_def split: prod.split)
  show "cx_poisoned (fst (fst c')) = cx_poisoned (fst (fst c))"
    if "connection_body E SE try_from m pan e c = (c', Returned r)" for e c c' r
    using that
    by (cases c; cases "fst c")
      (auto simp: connection_body_def split: option.splits prod.splits dest!: connection_callback_poison)
qed

section \<open>The connection over its channels\<close>

locale conn_channels =
  acc: mpsc_channel "ce_accept E" q tx rx park +
  con: oneshot_channel "ce_connected E" ccontent calive cwait +
  sh: oneshot_channel "ce_shutdown E" hcontent halive hwait
  for E :: "('o, 'h, 'q, ('i, 'so, 'ss, 'sr, 'm) peer_stream) conn_env"
    and q :: "'q \<Rightarrow> ('i, 'so, 'ss, 'sr, 'm) peer_stream option list" and tx rx :: "'q \<Rightarrow> bool" and park :: "'q \<Rightarrow> waker option"
    and ccontent :: "'o \<Rightarrow> (unit, status) result option" and calive :: "'o \<Rightarrow> bool" and cwait :: "'o \<Rightarrow> waker option"
    and hcontent :: "'h \<Rightarrow> unit option" and halive :: "'h \<Rightarrow> bool" and hwait :: "'h \<Rightarrow> waker option"
begin

lemma channel_sync: "conn_sync tx calive halive (fst (conn_ctx_channel E cfg n))"
  by (simp add: conn_ctx_channel_def conn_sync_def acc.new_view con.one_new sh.one_new)

lemma helper_sync:
  assumes "conn_sync tx calive halive st"
  shows "conn_sync tx calive halive (resolve_connected E r st)"
    and "conn_sync tx calive halive (resolve_shutdown E st)"
    and "conn_sync tx calive halive (conn_record t st)"
    and "conn_sync tx calive halive (wake_acceptors E st)"
  using assms
  by (cases st; auto simp: conn_defs conn_sync_def con.one_send sh.one_send acc.drop_tx_view)+

lemma wake_view:
  assumes "conn_sync tx calive halive st"
  shows "\<not> tx (cw_uni (snd (wake_acceptors E st)))" and "\<not> tx (cw_bidi (snd (wake_acceptors E st)))"
  using assms by (cases st; auto simp: conn_defs conn_sync_def acc.drop_tx_view)+

lemma wake_rx:
  "rx (cw_uni (snd (wake_acceptors E st))) = rx (cw_uni (snd st))"
  "rx (cw_bidi (snd (wake_acceptors E st))) = rx (cw_bidi (snd st))"
  by (cases st; simp add: conn_defs acc.drop_tx_view)+

lemma helper_handled:
  "handled q h (snd (resolve_connected E r st)) = handled q h (snd st)"
  "handled q h (snd (resolve_shutdown E st)) = handled q h (snd st)"
  "handled q h (snd (conn_record t st)) = handled q h (snd st)"
  "handled q h (snd (wake_acceptors E st)) = handled q h (snd st)"
  by (cases st; simp add: conn_defs handled_def acc.drop_tx_view)+

text \<open>
  One peer stream, on every branch of the event: an accepted one is queued or closed once, one whose
  identity is refused is left to the native library, and the ownership token says which.
\<close>

lemma deliver_step:
  assumes "conn_sync tx calive halive (c, w)" and "fst x = h"
    and "target = (if uni then cx_uni c else cx_bidi c)"
    and "unbounded_send (ce_accept E) (Some x) (if uni then cw_uni w else cw_bidi w) = (ch, sent)"
    and "w1 = (if uni then w\<lparr>cw_uni := ch\<rparr> else w\<lparr>cw_bidi := ch\<rparr>)"
    and "w' = (if target then if sent then w1 else w1\<lparr>cw_closed := h # cw_closed w1\<rparr>
               else w\<lparr>cw_closed := h # cw_closed w\<rparr>)"
  shows "conn_sync tx calive halive (c, w') \<and> handled q h w' = Suc (handled q h w)"
proof -
  let ?ch = "if uni then cw_uni w else cw_bidi w"
  have tx: "tx ?ch = target" using assms(1,3) by (simp add: conn_sync_def)
  have x: "carries h (Some x)" using assms(2) by (cases x) (simp add: carries_def)
  have sent: "target \<Longrightarrow> sent = rx ?ch \<and> tx ch \<and> q ch = q ?ch @ (if rx ?ch then [Some x] else [])"
    using acc.send_ok [of ?ch "Some x"] acc.send_tx [of ?ch "Some x"] acc.send_queue [of ?ch "Some x"]
      acc.send_lost [of ?ch "Some x"] assms(4) tx by auto
  show ?thesis
    using assms(1) sent x unfolding assms(5,6)
    by (cases target; cases uni; cases "rx ?ch") (auto simp: conn_sync_def handled_def assms(3))
qed

lemma peer_stream_step:
  assumes sync: "conn_sync tx calive halive st"
    and r: "cb_PeerStreamStarted E SE try_from m h query uni (st, False) = ((st', own'), r)"
  shows "conn_sync tx calive halive st' \<and> own' = is_ok r \<and>
    handled q h (snd st') = handled q h (snd st) + (if own' then 1 else 0)"
  using accept_stream_id_cases [of query try_from E st "ce_status E" h uni]
proof (elim disjE exE conjE)
  fix raw sid assume acc: "accept_stream_id E try_from query st = (st, Ok sid)"
  obtain c w where st: "st = (c, w)" by fastforce
  let ?x = "(h, attach SE sid (cw_terminal w) (cx_config c) m)"
  obtain ch sent where send: "unbounded_send (ce_accept E) (Some ?x) (if uni then cw_uni w else cw_bidi w) = (ch, sent)"
    by fastforce
  from deliver_step [OF sync [unfolded st] _ refl send refl refl, of h] r acc send show ?thesis
    by (cases "if uni then cx_uni c else cx_bidi c") (auto simp: cb_PeerStreamStarted_def st Let_def split: if_splits)
next
  fix status msg
  assume "accept_stream_id E try_from query st = (wake_acceptors E (conn_record (CT_Internal msg) st), Err status)"
  with r sync show ?thesis
    by (auto simp: cb_PeerStreamStarted_def helper_handled intro!: helper_sync)
qed

lemma connection_callback_sync:
  assumes "conn_sync tx calive halive st"
    and "connection_callback E SE try_from m ev (st, False) = ((st', own'), r)"
  shows "conn_sync tx calive halive st'"
proof (cases ev)
  case (CE_PeerStreamStarted h query uni)
  with assms peer_stream_step [OF assms(1), of SE try_from m h query uni st' own' r] show ?thesis by simp
qed (use assms in \<open>auto simp: cb_conn_ShutdownComplete_def Let_def intro!: helper_sync\<close>)

lemma shutdown_complete_releases:
  assumes "conn_sync tx calive halive st"
  shows "all_released tx calive halive (snd (cb_conn_ShutdownComplete E st))"
  using assms
  by (cases st)
    (auto simp: all_released_def conn_defs conn_sync_def acc.drop_tx_view con.one_send sh.one_send)

lemma connection_recover_view:
  assumes "conn_sync tx calive halive (c, w)"
    and "connection_recover E seam ((c, w), own) = (((c', w'), own'), r)"
  shows "all_released tx calive halive w' \<and> own' = own \<and> r = (if own then Ok () else Err (internal_error_status (ce_status E))) \<and>
    handled q h w' = handled q h w \<and>
    cw_terminal w' = record_conn_terminal (CT_Internal ''connection callback panicked'') (cw_terminal w) \<and>
    cw_native w' = seam (FS_Connection CONNECTION_SHUTDOWN_NONE) H3_INTERNAL_ERROR (cw_native w) \<and>
    (cx_connected c \<longrightarrow> ccontent (cw_connected w') = Some (Err (internal_error_status (ce_status E)))) \<and>
    (rx (cw_uni w') = rx (cw_uni w) \<and> rx (cw_bidi w') = rx (cw_bidi w))"
proof -
  let ?n = "(c, w\<lparr>cw_native := seam (FS_Connection CONNECTION_SHUTDOWN_NONE) H3_INTERNAL_ERROR (cw_native w)\<rparr>)"
  let ?r = "resolve_connected E (Err (internal_error_status (ce_status E)))
    (conn_record (CT_Internal ''connection callback panicked'') ?n)"
  let ?s = "resolve_shutdown E (wake_acceptors E ?r)"
  have st': "w' = snd ?s" "own' = own" "r = (if own then Ok () else Err (internal_error_status (ce_status E)))"
    using assms(2) by (auto simp: connection_recover_def Let_def split: prod.splits)
  have sync: "conn_sync tx calive halive ?n" using assms(1) by (simp add: conn_sync_def)
  note syncs = helper_sync(1) [OF helper_sync(3) [OF sync]]
  have "conn_sync tx calive halive ?s" by (intro helper_sync sync)
  then have released: "all_released tx calive halive (snd ?s)"
    using wake_view [OF syncs]
    by (simp add: all_released_def conn_sync_def world_simps resolve_shutdown_flag)
  have "cx_connected c = calive (cw_connected w)" using assms(1) by (simp add: conn_sync_def)
  then show ?thesis
    using released by (auto simp: st' world_simps helper_handled wake_rx con.one_send) (simp_all add: handled_def)
qed

lemma released_not_pending:
  assumes "all_released tx calive halive w"
  shows "rx (cw_uni w) \<Longrightarrow> snd (poll_accept_recv E SE cx w) \<noteq> PollPending"
    and "rx (cw_bidi w) \<Longrightarrow> snd (poll_accept_bidi E cx w) \<noteq> PollPending"
    and "snd (shutdown_wait E waiter cx w) \<noteq> PollPending"
    and "snd (connect_await E cx (crx, w)) \<noteq> PollPending"
proof -
  have acc: "snd (poll_accept_from E cx slot ch) \<noteq> PollPending" if "rx ch" "\<not> tx ch" for slot ch
    using acc.poll_pending_iff [OF that(1), of cx] that(2)
    by (cases "fail_fast_terminal slot"; cases "poll_next (ce_accept E) cx ch")
      (auto simp: poll_accept_from_def Let_def split: option.splits poll.splits prod.splits)
  show "rx (cw_uni w) \<Longrightarrow> snd (poll_accept_recv E SE cx w) \<noteq> PollPending"
    "rx (cw_bidi w) \<Longrightarrow> snd (poll_accept_bidi E cx w) \<noteq> PollPending"
    using acc assms by (auto simp: all_released_def poll_accept_recv_def poll_accept_bidi_def split: prod.split)
      (metis snd_conv)+
  show "snd (shutdown_wait E waiter cx w) \<noteq> PollPending"
    using sh.resolved_not_pending [of "cw_shutdown w" cx] assms
      sh.resolved_not_pending [OF sh.one_drop(2), of cx "oneshot_new (ce_shutdown E)"]
    by (auto simp: all_released_def shutdown_wait_def split: shutdown_waiter.splits prod.splits)
  show "snd (connect_await E cx (crx, w)) \<noteq> PollPending"
    using con.resolved_not_pending [of "cw_connected w" cx] assms
    by (auto simp: all_released_def connect_await_def Let_def split: prod.splits poll.splits option.splits)
qed

text \<open>One accept poll, on every branch.\<close>

lemma poll_accept_internal:
  assumes "ct_terminal slot = Some t" and "has_internal slot"
  shows "poll_accept_from E cx slot ch = ((fst (ct_observe slot), ch), PollReady (Err (convert_conn t)))"
  using assms by (simp add: poll_accept_from_def fail_fast_terminal_def ct_observe_def)

lemma poll_accept_queued:
  assumes "\<not> has_internal slot" and "rx ch" and "q ch = Some x # xs"
  shows "\<exists>ch'. poll_accept_from E cx slot ch = ((slot, ch'), PollReady (Ok x)) \<and> q ch' = xs \<and> rx ch' \<and> tx ch' = tx ch"
  using assms acc.poll_item [OF assms(2,3), of cx] acc.poll_item_queue [OF assms(2,3), of cx]
    acc.poll_ends [OF assms(2), of cx]
  by (cases "poll_next (ce_accept E) cx ch") (auto simp: poll_accept_from_def fail_fast_terminal_def)

lemma poll_accept_drained:
  assumes "\<not> has_internal slot" and "rx ch" and "q ch = []" and "\<not> tx ch"
  shows "\<exists>ch'. poll_accept_from E cx slot ch =
      ((fst (observe_terminal slot), ch'), PollReady (Err (snd (observe_terminal slot)))) \<and>
    q ch' = [] \<and> rx ch' \<and> \<not> tx ch'"
  using assms acc.poll_closed [OF assms(2,3,4), of cx] acc.poll_empty_queue [OF assms(2,3), of cx]
    acc.poll_ends [OF assms(2), of cx]
  by (cases "poll_next (ce_accept E) cx ch"; cases "observe_terminal slot")
    (auto simp: poll_accept_from_def fail_fast_terminal_def Let_def)

lemma poll_accept_waits:
  assumes "\<not> has_internal slot" and "rx ch" and "q ch = []" and "tx ch"
  shows "\<exists>ch'. poll_accept_from E cx slot ch = ((slot, ch'), PollPending) \<and> park ch' = Some cx"
  using assms acc.poll_pending [OF assms(2,3,4), of cx] acc.poll_parks [OF assms(2,3,4), of cx]
  by (cases "poll_next (ce_accept E) cx ch") (auto simp: poll_accept_from_def fail_fast_terminal_def)

lemma accept_many_internal:
  assumes "ct_terminal slot = Some t" and "has_internal slot"
  shows "accept_many E cx n slot ch = replicate n (PollReady (Err (convert_conn t)))"
  using assms
proof (induction n arbitrary: slot)
  case (Suc n)
  from Suc.IH [of "fst (ct_observe slot)"] Suc.prems poll_accept_internal [OF Suc.prems, of cx ch] show ?case
    by (simp add: ct_observe_def has_internal_def)
qed simp

lemma accept_many_drained:
  assumes "ct_terminal slot = Some t" and "\<not> has_internal slot" and "rx ch" and "q ch = []" and "\<not> tx ch"
  shows "accept_many E cx n slot ch = replicate n (PollReady (Err (convert_conn t)))"
  using assms
proof (induction n arbitrary: slot ch)
  case (Suc n)
  obtain ch' where ch': "poll_accept_from E cx slot ch =
      ((fst (observe_terminal slot), ch'), PollReady (Err (snd (observe_terminal slot))))"
    "q ch' = []" "rx ch'" "\<not> tx ch'" using poll_accept_drained [OF Suc.prems(2-5), of cx] by blast
  have obs: "observe_terminal slot = (slot\<lparr>ct_observed := True\<rparr>, convert_conn t)"
    using Suc.prems(1) by (simp add: observe_terminal_def commit_conn_def terminal_is_some_def ct_observe_def)
  from Suc.IH [of "slot\<lparr>ct_observed := True\<rparr>" ch'] Suc.prems(1,2) ch' obs show ?case
    by (simp add: has_internal_def)
qed simp

lemma accept_many_order:
  assumes "ct_terminal slot = Some t" and "\<not> has_internal slot" and "rx ch" and "q ch = map Some xs" and "\<not> tx ch"
  shows "accept_many E cx n slot ch =
    map (\<lambda>x. PollReady (Ok x)) (take n xs) @ replicate (n - length xs) (PollReady (Err (convert_conn t)))"
  using assms
proof (induction xs arbitrary: n ch)
  case Nil
  then show ?case using accept_many_drained by simp
next
  case (Cons x xs)
  obtain ch' where ch': "poll_accept_from E cx slot ch = ((slot, ch'), PollReady (Ok x))"
    "q ch' = map Some xs" "rx ch'" "\<not> tx ch'"
    using poll_accept_queued [OF Cons.prems(2,3), of x "map Some xs" cx] Cons.prems(4,5) by auto
  with Cons.IH [OF Cons.prems(1,2) ch'(3,2,4)] show ?case by (cases n) simp_all
qed

text \<open>The connect one-shot holds the first outcome of the run.\<close>

lemma conn_run_connected:
  assumes "conn_sync tx calive halive st"
  shows "conn_sync tx calive halive (conn_run E SE try_from m evs st) \<and>
    ccontent (cw_connected (snd (conn_run E SE try_from m evs st))) =
      (if cx_connected (fst st) then
         (case connect_spec (ce_status E) evs of Some r \<Rightarrow> Some r | None \<Rightarrow> ccontent (cw_connected (snd st)))
       else ccontent (cw_connected (snd st))) \<and>
    cx_connected (fst (conn_run E SE try_from m evs st)) =
      (cx_connected (fst st) \<and> connect_spec (ce_status E) evs = None)"
  using assms
proof (induction evs arbitrary: st)
  case (Cons ev evs)
  obtain st' own' r where cb: "connection_callback E SE try_from m ev (st, False) = ((st', own'), r)"
    by (metis prod.exhaust)
  have sync: "conn_sync tx calive halive st'" by (rule connection_callback_sync [OF Cons.prems cb])
  have "cx_connected (fst st) = calive (cw_connected (snd st))" using Cons.prems by (simp add: conn_sync_def)
  with connection_callback_connected [OF cb] Cons.IH [OF sync] show ?case
    by (cases "connect_outcome (ce_status E) ev"; cases "connect_spec (ce_status E) evs") (auto simp: cb con.one_send)
qed simp

end

interpretation ref_conn: conn_channels ref_conn_env fifo_items fifo_tx fifo_rx fifo_parked
    cell_value cell_tx cell_waiting cell_value cell_tx cell_waiting
  unfolding conn_channels_def ref_conn_env_simps
  by (simp add: fifo.mpsc_channel_axioms cell.oneshot_channel_axioms)

text \<open>The handler on an unpoisoned context: the body's effect, or the recovery of what it had reached.\<close>

lemma connection_handler_cases:
  assumes "\<not> cx_poisoned (fst st)"
  shows "connection_handler E SE try_from m seam pan ev st =
    (case pan ev (st, False) of
       None \<Rightarrow> (let ((st', _), r) = connection_callback E SE try_from m ev (st, False) in (st', r))
     | Some ost \<Rightarrow> (let ((st', _), r) = connection_recover E seam ost in (st', r)))"
  using assms
  by (simp add: connection_handler_def guard_callback_def connection_body_def Let_def split: option.split prod.split)

lemma connection_handler_poisoned:
  "cx_poisoned (fst st) \<Longrightarrow>
    connection_handler E SE try_from m seam pan ev st = (st, conn_poison_disp (ce_status E) ev)"
  by (simp add: connection_handler_def guard_callback_def)

section \<open>Properties\<close>

text \<open>
  C12: every peer stream is disposed of exactly once. Whatever becomes of a \<open>PeerStreamStarted\<close>
  event (delivered, refused, undeliverable, poisoned context, panic before or after the ownership
  transfer), the stream is either queued to an acceptor or closed by the adapter, once, with an \<open>Ok\<close>
  answer, or it is neither and the error answer makes the native library close it. The hypothesis on
  \<open>pan\<close> is what unwinding does: a stream owned at the panic is closed by its drop.
\<close>

theorem peer_stream_disposed_once:
  assumes "conn_channels E q tx rx park ccontent calive cwait hcontent halive hwait"
    and "conn_sync tx calive halive st"
    and "\<And>st' own. pan (CE_PeerStreamStarted h query uni) (st, False) = Some (st', own) \<Longrightarrow>
      conn_sync tx calive halive st' \<and> handled q h (snd st') = handled q h (snd st) + (if own then 1 else 0)"
    and "connection_handler E SE try_from m seam pan (CE_PeerStreamStarted h query uni) st = (st', r)"
  shows "handled q h (snd st') + (if is_ok r then 0 else 1) = handled q h (snd st) + 1"
proof (cases "cx_poisoned (fst st)")
  case True
  with assms(4) show ?thesis by (simp add: connection_handler_poisoned) (metis is_ok.simps(2))
next
  case False
  show ?thesis
  proof (cases "pan (CE_PeerStreamStarted h query uni) (st, False)")
    case None
    with False assms(4) conn_channels.peer_stream_step [OF assms(1,2), of SE try_from m h query uni] show ?thesis
      by (auto simp: connection_handler_cases Let_def split: prod.splits)
  next
    case (Some ost)
    obtain c1 w1 own where ost: "ost = ((c1, w1), own)" by (metis prod.exhaust)
    obtain c2 w2 own2 r2 where rec: "connection_recover E seam ((c1, w1), own) = (((c2, w2), own2), r2)"
      by (metis prod.exhaust)
    from assms(3) [OF Some [unfolded ost]] conn_channels.connection_recover_view [OF assms(1) _ rec, of h]
      assms(4) False Some ost rec show ?thesis
      by (auto simp: connection_handler_cases)
  qed
qed

theorem peer_stream_disposed_once_witness:
  "handled fifo_items 8 (snd (fst (connection_handler ref_conn_env ref_env ref_stream_id () no_shutdown (\<lambda>_ _. None)
      (CE_PeerStreamStarted 8 (Ok 4) False) (fst (conn_ctx_channel ref_conn_env h3_config_default ()))))) +
    (if is_ok (snd (connection_handler ref_conn_env ref_env ref_stream_id () no_shutdown (\<lambda>_ _. None)
      (CE_PeerStreamStarted 8 (Ok 4) False) (fst (conn_ctx_channel ref_conn_env h3_config_default ())))) then 0 else 1) = 1"
  using peer_stream_disposed_once [OF ref_conn.conn_channels_axioms ref_conn.channel_sync _ prod.collapse [symmetric],
      of "\<lambda>_ _. None" 8 "Ok 4" False h3_config_default "()" ref_env ref_stream_id "()" no_shutdown]
  by (simp add: handled_def conn_ctx_channel_def chan_defs)

text \<open>
  C34: a connect is resolved exactly once, by the first outcome. After any run of connection events
  on a fresh context, awaiting the connect yields the first of: success at \<open>Connected\<close>, aborted at a
  peer shutdown or \<open>ShutdownComplete\<close>, the transport's status at a transport shutdown; and it stays
  pending exactly while none of these has happened.
\<close>

theorem connect_resolves_first_outcome:
  assumes "conn_channels E q tx rx park ccontent calive cwait hcontent halive hwait"
    and "conn_ctx_channel E cfg n = (st, crx)"
  shows "snd (connect_await E cx (crx, snd (conn_run E SE try_from m evs st))) =
    (case connect_spec (ce_status E) evs of None \<Rightarrow> PollPending | Some r \<Rightarrow> PollReady r)"
proof -
  let ?st' = "conn_run E SE try_from m evs st"
  note con = conn_channels.axioms(2) [OF assms(1)]
  have st: "conn_sync tx calive halive st" "cx_connected (fst st)" "ccontent (cw_connected (snd st)) = None" "cr_connected crx"
    using conn_channels.channel_sync [OF assms(1), of cfg n] oneshot_channel.one_new [OF con] assms(2)
    by (auto simp: conn_ctx_channel_def)
  from conn_channels.conn_run_connected [OF assms(1) st(1), of SE try_from m evs] st
  have run: "ccontent (cw_connected (snd ?st')) = connect_spec (ce_status E) evs"
    "calive (cw_connected (snd ?st')) = (connect_spec (ce_status E) evs = None)"
    by (auto simp: conn_sync_def split: option.split)
  show ?thesis
    using run st(4) oneshot_channel.one_poll_value [OF con, of "cw_connected (snd ?st')" _ cx]
      oneshot_channel.one_poll_pending [OF con, of "cw_connected (snd ?st')" cx]
    by (cases "oneshot_poll (ce_connected E) cx (cw_connected (snd ?st'))")
      (auto simp: connect_await_def Let_def split: option.splits poll.splits)
qed

theorem connect_resolves_first_outcome_witness:
  "snd (connect_await ref_conn_env 3 (snd (conn_ctx_channel ref_conn_env h3_config_default ()),
     snd (conn_run ref_conn_env ref_env ref_stream_id () [CE_Other, CE_ShutdownInitiatedByPeer 7, CE_Connected]
       (fst (conn_ctx_channel ref_conn_env h3_config_default ()))))) = PollReady (Err (Status 125))"
  using connect_resolves_first_outcome [where cfg = h3_config_default and n = "()" and cx = 3 and SE = ref_env and
      try_from = ref_stream_id and m = "()" and evs = "[CE_Other, CE_ShutdownInitiatedByPeer 7, CE_Connected]",
      OF ref_conn.conn_channels_axioms prod.collapse [symmetric]]
  by (simp add: status_simps)

text \<open>
  The cause the connection slot ends up with is decided by the order of events alone. For every
  run on a fresh context it is the first authoritative cause the events stand for, or the first one
  when all are provisional.
\<close>

theorem connection_cause_first_writer:
  "peek_conn_terminal (cw_terminal (snd (conn_run E SE try_from m evs (fst (conn_ctx_channel E cfg n))))) =
    slot_winner conn_is_provisional (concat (map (recorded_cause (ce_status E) try_from) evs))"
proof -
  have "cw_terminal (snd (conn_run E SE try_from m evs (fst (conn_ctx_channel E cfg n)))) =
    fold record_conn_terminal (concat (map (recorded_cause (ce_status E) try_from) evs)) conn_terminal_default"
    by (simp add: conn_run_terminal conn_ctx_channel_def)
  then show ?thesis
    by (simp add: fold_record_winner conn_terminal_default_def peek_conn_terminal_def conn_slot.fold_put)
qed

text \<open>
  C27: the end of a connection releases everybody. When \<open>ShutdownComplete\<close> is handled, and when a
  panic of the callback is recovered (with the context in step with its channels), no accept poll, no
  connect and no shutdown waiter can stay pending any more.
\<close>

theorem connection_end_releases_waiters:
  assumes "conn_channels E q tx rx park ccontent calive cwait hcontent halive hwait"
    and "\<not> cx_poisoned (fst st)" and "conn_sync tx calive halive st"
    and "case pan ev (st, False) of None \<Rightarrow> ev = CE_ShutdownComplete | Some ost \<Rightarrow> conn_sync tx calive halive (fst ost)"
    and "connection_handler E SE try_from m seam pan ev st = ((c', w'), r)"
  shows "all_released tx calive halive w' \<and>
    (rx (cw_uni w') \<longrightarrow> snd (poll_accept_recv E SE cx w') \<noteq> PollPending) \<and>
    (rx (cw_bidi w') \<longrightarrow> snd (poll_accept_bidi E cx w') \<noteq> PollPending) \<and>
    snd (shutdown_wait E waiter cx w') \<noteq> PollPending \<and> snd (connect_await E cx (crx, w')) \<noteq> PollPending"
proof -
  have "all_released tx calive halive w'"
  proof (cases "pan ev (st, False)")
    case None
    with assms(2,4,5) conn_channels.shutdown_complete_releases [OF assms(1,3)] show ?thesis
      by (auto simp: connection_handler_cases)
  next
    case (Some ost)
    obtain c1 w1 own where ost: "ost = ((c1, w1), own)" by (metis prod.exhaust)
    obtain c2 w2 own2 r2 where rec: "connection_recover E seam ((c1, w1), own) = (((c2, w2), own2), r2)"
      by (metis prod.exhaust)
    with conn_channels.connection_recover_view [OF assms(1) _ rec] assms(2,4,5) Some ost show ?thesis
      by (auto simp: connection_handler_cases)
  qed
  with conn_channels.released_not_pending [OF assms(1) this] show ?thesis by blast
qed

theorem connection_end_releases_waiters_witness:
  "snd (shutdown_wait ref_conn_env Waiter_live 4 (snd (fst (connection_handler ref_conn_env ref_env ref_stream_id ()
      no_shutdown (\<lambda>_ ost. Some ost) CE_Connected (fst (conn_ctx_channel ref_conn_env h3_config_default ())))))) \<noteq> PollPending"
proof -
  let ?st = "fst (conn_ctx_channel ref_conn_env h3_config_default ())"
  obtain c' w' r where h: "connection_handler ref_conn_env ref_env ref_stream_id () no_shutdown (\<lambda>_ ost. Some ost) CE_Connected ?st =
    ((c', w'), r)" by (metis prod.exhaust)
  have "\<not> cx_poisoned (fst ?st)" by (simp add: conn_ctx_channel_def)
  from connection_end_releases_waiters [OF ref_conn.conn_channels_axioms this ref_conn.channel_sync _ h,
      of 4 Waiter_live "snd (conn_ctx_channel ref_conn_env h3_config_default ())"]
  show ?thesis by (simp add: h ref_conn.channel_sync)
qed

text \<open>
  Accepting drains the queue and then reports one cause. When the senders are gone and the
  recorded cause is not internal, any number of polls yields the queued streams in arrival order and
  then the converted cause for ever; an internal cause is reported by every poll, ahead of the
  queued streams.
\<close>

theorem accept_drains_then_reports:
  assumes "conn_channels E q tx rx park ccontent calive cwait hcontent halive hwait"
    and "rx ch" and "\<not> tx ch" and "q ch = map Some xs" and "ct_terminal slot = Some t"
  shows "accept_many E cx n slot ch =
    (if has_internal slot then replicate n (PollReady (Err (convert_conn t)))
     else map (\<lambda>x. PollReady (Ok x)) (take n xs) @ replicate (n - length xs) (PollReady (Err (convert_conn t))))"
  using conn_channels.accept_many_internal [OF assms(1,5)] conn_channels.accept_many_order [OF assms(1,5) _ assms(2,4,3)]
  by simp

theorem accept_drains_then_reports_witness:
  "accept_many ref_conn_env 1 2
      \<lparr>ct_terminal = Some CT_LocalClose, ct_observed = False\<rparr>
      \<lparr>fifo_items = [], fifo_tx = False, fifo_rx = True, fifo_parked = None\<rparr> =
    [PollReady (Err (convert_conn CT_LocalClose)), PollReady (Err (convert_conn CT_LocalClose))]"
  using accept_drains_then_reports [OF ref_conn.conn_channels_axioms,
      of "\<lparr>fifo_items = [], fifo_tx = False, fifo_rx = True, fifo_parked = None\<rparr>" "[]"
        "\<lparr>ct_terminal = Some CT_LocalClose, ct_observed = False\<rparr>" CT_LocalClose 1 2]
  by (simp add: has_internal_def numeral_2_eq_2)

text \<open>
  C30: a panic in the connection callback is contained. The handler forces the connection closed with
  \<open>H3_INTERNAL_ERROR\<close>, records an internal cause, fails a pending connect, answers \<open>Ok\<close> exactly when
  the stream of this event was already owned (so it is not closed twice), and every later event is
  inert and gets its poison disposition.
\<close>

theorem connection_panic_contained:
  assumes "conn_channels E q tx rx park ccontent calive cwait hcontent halive hwait"
    and "\<not> cx_poisoned (fst st)" and "pan ev (st, False) = Some ((c, w), own)" and "conn_sync tx calive halive (c, w)"
  shows "\<exists>c' w'. guarded_run (\<lambda>ost. cx_poisoned (fst (fst ost))) (conn_poison_disp (ce_status E))
        (connection_body E SE try_from m pan) (\<lambda>_. connection_recover E seam) (ev # evs) (st, False) =
      (((c', w'), own), (if own then Ok () else Err (internal_error_status (ce_status E))) #
         map (conn_poison_disp (ce_status E)) evs) \<and>
    cw_terminal w' = record_conn_terminal (CT_Internal ''connection callback panicked'') (cw_terminal w) \<and>
    cw_native w' = seam (FS_Connection CONNECTION_SHUTDOWN_NONE) H3_INTERNAL_ERROR (cw_native w) \<and>
    all_released tx calive halive w' \<and>
    (cx_connected c \<longrightarrow> ccontent (cw_connected w') = Some (Err (internal_error_status (ce_status E))))"
proof -
  obtain c' w' own' res where r: "connection_recover E seam ((c, w), own) = (((c', w'), own'), res)"
    by (metis prod.exhaust)
  have "connection_body E SE try_from m pan ev (st, False) = (((c, w), own), Panicked)"
    using assms(3) by (simp add: connection_body_def)
  from connection_cb.panic_recovers_once [OF _ this, of seam evs] assms(2)
    conn_channels.connection_recover_view [OF assms(1,4) r] show ?thesis
    by (simp add: r)
qed

theorem connection_panic_contained_witness:
  "\<exists>c' w'. guarded_run (\<lambda>ost. cx_poisoned (fst (fst ost))) (conn_poison_disp ref_status)
      (connection_body ref_conn_env ref_env ref_stream_id () (\<lambda>_ ost. Some (fst ost, True)))
      (\<lambda>_. connection_recover ref_conn_env no_shutdown) [CE_PeerStreamStarted 2 (Ok 0) True, CE_Other]
      (fst (conn_ctx_channel ref_conn_env h3_config_default ()), False) =
    (((c', w'), True), [Ok (), Err (Status 5)]) \<and> has_internal (cw_terminal w')"
proof -
  obtain c w where st: "fst (conn_ctx_channel ref_conn_env h3_config_default ()) = (c, w)" by fastforce
  then have p: "\<not> cx_poisoned (fst (c, w))" "cw_terminal w = conn_terminal_default"
    by (auto simp: conn_ctx_channel_def)
  have sync: "conn_sync fifo_tx cell_tx cell_tx (c, w)" using ref_conn.channel_sync st by metis
  show ?thesis
    using connection_panic_contained [OF ref_conn.conn_channels_axioms p(1) _ sync,
        of "\<lambda>_ ost. Some (fst ost, True)" "CE_PeerStreamStarted 2 (Ok 0) True" True ref_env ref_stream_id "()"
          no_shutdown "[CE_Other]"] p(2) st
    by (auto simp: internal_error_status_def status_simps record_conn_terminal_def ct_record_def
        conn_terminal_default_def has_internal_def)
qed

end
