(* ===== verification/H3_Config_Tests.thy ===== *)
theory H3_Config_Tests
  imports H3_Scenario H3_Connection
begin

text \<open>
  The tests of \<open>config.rs\<close>, of \<open>buffer.rs\<close> (the allocator measurement apart) and of module \<open>config_carrier\<close> of
  \<open>connection.rs\<close>, replayed on the configuration, the send buffer and the context of a connection.
\<close>

section \<open>Configuration\<close>

definition test_defaults_equal_the_historical_constants :: bool where
  "test_defaults_equal_the_historical_constants = passes (do {
     let c = h3_config_default;
     check (max_send_bytes c = MAX_ADAPTER_SEND);
     check (max_recv_bytes c = MAX_RECV_BUFFER);
     check (max_recv_units c = DEFAULT_MAX_RECV_UNITS);
     check (max_recv_units c = 16384)})"

definition test_builder_defaults_match_default :: bool where
  "test_builder_defaults_match_default = passes (do {
     built \<leftarrow> unwrap (build builder);
     let d = h3_config_default;
     check (max_send_bytes built = max_send_bytes d);
     check (max_recv_bytes built = max_recv_bytes d);
     check (max_recv_units built = max_recv_units d)})"

definition test_valid_builder_round_trips_accessors :: bool where
  "test_valid_builder_round_trips_accessors = passes (do {
     c \<leftarrow> unwrap (build (with_max_recv_units 7 (with_max_recv_bytes 8192 (with_max_send_bytes 4096 builder))));
     check (max_send_bytes c = 4096);
     check (max_recv_bytes c = 8192);
     check (max_recv_units c = 7)})"

definition test_try_new_round_trips :: bool where
  "test_try_new_round_trips = passes (do {
     c \<leftarrow> unwrap (try_new 4096 8192 7);
     check (max_send_bytes c = 4096);
     check (max_recv_bytes c = 8192);
     check (max_recv_units c = 7)})"

definition test_zero_send_size_is_rejected :: bool where
  "test_zero_send_size_is_rejected = passes (check (build (with_max_send_bytes 0 builder) = Err SendSize))"

definition test_send_size_at_or_above_u32_max_is_rejected :: bool where
  "test_send_size_at_or_above_u32_max_is_rejected = passes (do {
     check (build (with_max_send_bytes (ucast u32_MAX) builder) = Err SendSize);
     check (build (with_max_send_bytes (ucast u32_MAX + 1) builder) = Err SendSize);
     check (is_ok (build (with_max_send_bytes (ucast u32_MAX - 1) builder)))})"

definition test_zero_recv_bytes_is_rejected :: bool where
  "test_zero_recv_bytes_is_rejected = passes (check (build (with_max_recv_bytes 0 builder) = Err RecvBytes))"

definition test_zero_recv_units_is_rejected :: bool where
  "test_zero_recv_units_is_rejected = passes (check (build (with_max_recv_units 0 builder) = Err RecvUnits))"

definition test_config_error_displays_a_message_per_variant :: bool where
  "test_config_error_displays_a_message_per_variant = passes (do {
     check (display_config_error SendSize \<noteq> '''');
     check (display_config_error RecvBytes \<noteq> '''');
     check (display_config_error RecvUnits \<noteq> '''')})"

section \<open>Carriers\<close>

definition carrier_custom :: "h3_config option" where
  "carrier_custom =
     unwrap (build (with_max_recv_units 7 (with_max_recv_bytes 8192 (with_max_send_bytes 4096 builder))))"

definition carrier_config :: "h3_config \<Rightarrow> h3_config" where
  "carrier_config cfg = cx_config (fst (fst (conn_ctx_channel ref_conn_env cfg ())))"

definition test_conn_ctx_channel_stores_config_on_the_sender_carrier :: bool where
  "test_conn_ctx_channel_stores_config_on_the_sender_carrier = passes (do {
     cfg \<leftarrow> carrier_custom;
     let sender = carrier_config cfg;
     check (sender = cfg);
     check (max_send_bytes sender = 4096);
     check (max_recv_bytes sender = 8192);
     check (max_recv_units sender = 7)})"

definition test_two_connections_keep_independent_configs :: bool where
  "test_two_connections_keep_independent_configs = passes (do {
     a \<leftarrow> unwrap (build (with_max_recv_units 3 builder));
     b \<leftarrow> unwrap (build (with_max_recv_units 99 builder));
     check (max_recv_units (carrier_config a) = 3);
     check (max_recv_units (carrier_config b) = 99)})"

definition test_default_config_carrier_matches_defaults :: bool where
  "test_default_config_carrier_matches_defaults = passes (
     check (carrier_config h3_config_default = h3_config_default))"

section \<open>Send buffers\<close>

definition test_classify_send_len_boundaries :: bool where
  "test_classify_send_len_boundaries = passes (do {
     check (classify_send_len 0 MAX_ADAPTER_SEND = SendLen_Empty);
     check (classify_send_len 1 MAX_ADAPTER_SEND = SendLen_NonEmpty);
     check (classify_send_len MAX_ADAPTER_SEND MAX_ADAPTER_SEND = SendLen_NonEmpty);
     check (classify_send_len (MAX_ADAPTER_SEND + 1) MAX_ADAPTER_SEND = SendLen_Oversized)})"

definition test_classify_send_len_honors_a_custom_ceiling :: bool where
  "test_classify_send_len_honors_a_custom_ceiling = passes (do {
     let ceiling = 4096;
     check (classify_send_len 0 ceiling = SendLen_Empty);
     check (classify_send_len ceiling ceiling = SendLen_NonEmpty);
     check (classify_send_len (ceiling + 1) ceiling = SendLen_Oversized);
     check (classify_send_len MAX_ADAPTER_SEND ceiling = SendLen_Oversized)})"

text \<open>
  The bytes a descriptor denotes while the buffer that owns the storage is alive; the literals of the tests
  as their ASCII codes.
\<close>

definition ref_bytes :: "send_buffer \<Rightarrow> buffer_ref \<Rightarrow> bytes option" where
  "ref_bytes sb r =
     (if ref_Buffer r = storage (sb_bytes sb) then Some (take (unat (ref_Length r)) (content_of (sb_bytes sb))) else None)"

definition ascii :: "string \<Rightarrow> bytes" where
  "ascii s = map (\<lambda>c. of_nat (of_char c)) s"

definition one_ref :: "send_buffer \<Rightarrow> buffer_ref option" where
  "one_ref sb = (case buffers sb of [r] \<Rightarrow> Some r | _ \<Rightarrow> None)"

definition test_send_buffer_pointer_stable_after_boxing :: bool where
  "test_send_buffer_pointer_stable_after_boxing = passes (do {
     let bytes = \<lparr>storage = 40, content_of = ascii ''helloworld''\<rparr>;
     let sb = send_buffer_new native_buffer_ref bytes;
     r \<leftarrow> one_ref sb;
     check (ref_bytes sb r = Some (ascii ''helloworld''));
     check (ref_Buffer r = 40 \<and> ref_Length r = 10);
     let (c, w) = stream_ctx_channel_pre_id ref_env conn_terminal_default h3_config_default ();
     let (w, raw) = box_into_raw sb w;
     boxed \<leftarrow> w_heap w raw;
     r \<leftarrow> one_ref boxed;
     check (ref_bytes boxed r = Some (ascii ''helloworld''));
     check (ref_Buffer r = 40 \<and> ref_Length r = 10);
     let w = box_drop raw w;
     check (w_heap w raw = None)})"

definition test_copy_into_send_buffer_copies_full_payload :: bool where
  "test_copy_into_send_buffer_copies_full_payload = passes (do {
     let src = ascii ''the one production copy path'';
     let (_, sb) = copy_into_send_buffer native_buffer_ref slice_buf (1, src);
     r \<leftarrow> one_ref sb;
     check (ref_bytes sb r = Some src)})"

section \<open>The tests pass\<close>

lemma defaults_equal_the_historical_constants_passes: "test_defaults_equal_the_historical_constants"
  by code_simp

lemma builder_defaults_match_default_passes: "test_builder_defaults_match_default"
  by code_simp

lemma valid_builder_round_trips_accessors_passes: "test_valid_builder_round_trips_accessors"
  by code_simp

lemma try_new_round_trips_passes: "test_try_new_round_trips"
  by code_simp

lemma zero_send_size_is_rejected_passes: "test_zero_send_size_is_rejected"
  by code_simp

lemma send_size_at_or_above_u32_max_is_rejected_passes: "test_send_size_at_or_above_u32_max_is_rejected"
  by code_simp

lemma zero_recv_bytes_is_rejected_passes: "test_zero_recv_bytes_is_rejected"
  by code_simp

lemma zero_recv_units_is_rejected_passes: "test_zero_recv_units_is_rejected"
  by code_simp

lemma config_error_displays_a_message_per_variant_passes: "test_config_error_displays_a_message_per_variant"
  by (simp add: test_config_error_displays_a_message_per_variant_def passes_def)

lemma conn_ctx_channel_stores_config_on_the_sender_carrier_passes: "test_conn_ctx_channel_stores_config_on_the_sender_carrier"
  by code_simp

lemma two_connections_keep_independent_configs_passes: "test_two_connections_keep_independent_configs"
  by code_simp

lemma default_config_carrier_matches_defaults_passes: "test_default_config_carrier_matches_defaults"
  by code_simp

lemma classify_send_len_boundaries_passes: "test_classify_send_len_boundaries"
  by code_simp

lemma classify_send_len_honors_a_custom_ceiling_passes: "test_classify_send_len_honors_a_custom_ceiling"
  by code_simp

lemma send_buffer_pointer_stable_after_boxing_passes: "test_send_buffer_pointer_stable_after_boxing"
  by code_simp

lemma copy_into_send_buffer_copies_full_payload_passes: "test_copy_into_send_buffer_copies_full_payload"
  by code_simp

end
