(* ===== verification/H3_Error_Tests.thy ===== *)
theory H3_Error_Tests
  imports H3_Scenario H3_Reducer
begin

text \<open>
  The tests of \<open>error.rs\<close>: the conversion tables of module \<open>tests\<close> and the table-driven reducer tests of module
  \<open>reducer_tests\<close>, replayed on \<open>H3_Error\<close> and \<open>H3_Reducer\<close>. A reducer test threads one \<open>SendState\<close> through
  \<open>transition\<close>.
\<close>

section \<open>Conversions\<close>

definition test_clamp_application_code_table :: bool where
  "test_clamp_application_code_table = passes (each
     (\<lambda>(input, expected). check (clamp_application_code input = expected))
     [(42, 42), (0, 0), (push_bit 62 1 - 1, push_bit 62 1 - 1), (push_bit 62 1, push_bit 62 1 - 1),
      (- 1, push_bit 62 1 - 1)])"

definition test_max_quic_varint_value :: bool where
  "test_max_quic_varint_value = passes (check (MAX_QUIC_VARINT = push_bit 62 1 - 1))"

definition test_convert_conn_matrix :: bool where
  "test_convert_conn_matrix = passes (do {
     check (convert_conn (CT_PeerApplication 0x42) = ApplicationClose 0x42);
     check (convert_conn CT_Timeout = CE_Timeout);
     check (case convert_conn (CT_Transport (status_new ref_status QUIC_STATUS_TLS_ERROR) 7) of
         Undefined (MsQuicTransportError status error_code) \<Rightarrow>
           error_code = 7 \<and> status = status_new ref_status QUIC_STATUS_TLS_ERROR
       | _ \<Rightarrow> False);
     check (convert_conn CT_LocalClose = Undefined LocalConnectionClose);
     check (convert_conn (CT_Internal ''boom'') = InternalError ''boom'')})"

definition test_convert_recv_matrix :: bool where
  "test_convert_recv_matrix = passes (do {
     check (convert_recv RT_Fin = Ok None);
     check (convert_recv (RT_Reset 0x55) = Err (StreamTerminated 0x55));
     check (convert_recv (RT_Connection CT_Timeout) = Err (ConnectionErrorIncoming CE_Timeout));
     check (convert_recv (RT_Internal ''recv-boom'') = Err (ConnectionErrorIncoming (InternalError ''recv-boom'')))})"

definition test_convert_send_matrix :: bool where
  "test_convert_send_matrix = passes (do {
     let aborted = (\<lambda>e. case e of
         Unknown (StatusError s) \<Rightarrow> try_as_status_code ref_status s = Some QUIC_STATUS_ABORTED | _ \<Rightarrow> False);
     check (convert_send ref_status (ST_Stopped 0x66) = StreamTerminated 0x66);
     check (convert_send ref_status (ST_Connection (CT_PeerApplication 9)) =
       ConnectionErrorIncoming (ApplicationClose 9));
     check (convert_send ref_status (ST_LocalReset 0x77) = Unknown (LocalStreamReset 0x77));
     check (aborted (convert_send ref_status (ST_Failed (status_new ref_status QUIC_STATUS_ABORTED))));
     check (aborted (convert_send ref_status ST_ProvisionalAbort));
     check (convert_send ref_status (ST_Internal ''send-boom'') =
       ConnectionErrorIncoming (InternalError ''send-boom''))})"

section \<open>The reducer\<close>

definition conn_terminal :: send_terminal where
  "conn_terminal = ST_Connection CT_LocalClose"

definition step :: "send_state \<Rightarrow> send_input \<Rightarrow> send_state \<times> send_command" where
  "step st input = transition ref_status st input"

definition test_mf1_finish_first_completes_cleanly_then_absorbs_terminal :: bool where
  "test_mf1_finish_first_completes_cleanly_then_absorbs_terminal = passes (do {
     let (st, cmd) = step (send_state_new\<lparr>finish_started := True\<rparr>) (PollFinishIn (SP_Event (FinishComplete True)) None);
     check (cmd = ReturnFinished);
     check (finish_complete st);
     let (st, cmd) = step st (PollFinishIn (SP_Event TerminalWake) (Some conn_terminal));
     check (cmd = ReturnFinished)})"

definition test_mf1_terminal_first_wins_over_later_finish :: bool where
  "test_mf1_terminal_first_wins_over_later_finish = passes (do {
     let (st, cmd) = step (send_state_new\<lparr>finish_started := True\<rparr>) (PollFinishIn (SP_Event TerminalWake) (Some (ST_Stopped 7)));
     check (cmd = ReturnError (ST_Stopped 7));
     check (\<not> finish_complete st)})"

definition test_finish_event_not_overwritten_by_later_terminal :: bool where
  "test_finish_event_not_overwritten_by_later_terminal = passes (do {
     let (st, cmd) = step (send_state_new\<lparr>finish_complete := True\<rparr>) (PollFinishIn SP_Pending (Some conn_terminal));
     check (cmd = ReturnFinished)})"

definition test_poll_ready_after_finish_is_nonsticky_internal :: bool where
  "test_poll_ready_after_finish_is_nonsticky_internal = passes (do {
     let (st, cmd) = step (send_state_new\<lparr>finish_started := True\<rparr>) (PollReadyIn SP_Pending None);
     check (cmd = ReturnError (ST_Internal ''poll_ready after finish''));
     check (st = send_state_new\<lparr>finish_started := True\<rparr>)})"

definition test_reset_emits_single_submit_reset_then_publishes_local_reset :: bool where
  "test_reset_emits_single_submit_reset_then_publishes_local_reset = passes (do {
     let code = push_bit 62 1 - 1;
     let (st, cmd) = step send_state_new (ResetIn code None);
     check (cmd = SubmitReset code);
     check (reset_submitting st);
     let (st, cmd) = step st (ResetSubmitted code (Ok ()) None);
     check (cmd = PublishTerminal (ST_LocalReset code) K_Reset);
     check (\<not> reset_submitting st);
     let (st, cmd) = step st (TerminalPublished (ST_LocalReset code) K_Reset);
     check (cmd = NoOp)})"

definition test_reset_after_terminal_is_noop :: bool where
  "test_reset_after_terminal_is_noop = passes (do {
     let (st, cmd) = step send_state_new (ResetIn 5 (Some (ST_Stopped 9)));
     check (cmd = NoOp);
     check (\<not> reset_submitting st)})"

definition test_reset_after_finish_complete_is_noop :: bool where
  "test_reset_after_finish_complete_is_noop = passes (do {
     let (st, cmd) = step (send_state_new\<lparr>finish_complete := True\<rparr>) (ResetIn 5 None);
     check (cmd = NoOp)})"

definition test_local_reset_loses_to_published_peer_terminal :: bool where
  "test_local_reset_loses_to_published_peer_terminal = passes (do {
     let (st, cmd) = step send_state_new (ResetIn 3 None);
     let (st, cmd) = step st (ResetSubmitted 3 (Ok ()) (Some (ST_Stopped 9)));
     check (cmd = PublishTerminal (ST_Stopped 9) K_Reset);
     check (\<not> reset_submitting st)})"

definition test_local_reset_loses_to_published_connection_terminal :: bool where
  "test_local_reset_loses_to_published_connection_terminal = passes (do {
     let (st, cmd) = step send_state_new (ResetIn 3 None);
     let (st, cmd) = step st (ResetSubmitted 3 (Ok ()) (Some conn_terminal));
     check (case cmd of PublishTerminal (ST_Connection _) K_Reset \<Rightarrow> True | _ \<Rightarrow> False)})"

definition test_idempotent_finish_submits_graceful_once :: bool where
  "test_idempotent_finish_submits_graceful_once = passes (do {
     let (st, cmd) = step send_state_new (PollFinishIn SP_Pending None);
     check (cmd = SubmitGraceful);
     check (finish_submitting st);
     let (st, cmd) = step st (GracefulSubmitted (Ok ()) None);
     check (cmd = RepollFinish);
     check (finish_started st \<and> \<not> finish_submitting st);
     let (st, cmd) = step st (PollFinishIn SP_Pending None);
     check (cmd = Cmd_Pending)})"

definition test_submitted_without_reservation_is_internal :: bool where
  "test_submitted_without_reservation_is_internal = passes (do {
     each (\<lambda>input. let (st, cmd) = step send_state_new input in
       check (case cmd of PublishTerminal (ST_Internal _) _ \<Rightarrow> True | _ \<Rightarrow> False))
       [SendSubmitted (Ok ()) None, GracefulSubmitted (Ok ()) None, ResetSubmitted 1 (Ok ()) None]})"

definition test_send_requested_terminal_wins :: bool where
  "test_send_requested_terminal_wins = passes (do {
     let (st, cmd) = step send_state_new (SendRequested (SendPayload_NonEmpty 4) (Some (ST_Stopped 1)));
     check (cmd = ReturnError (ST_Stopped 1));
     check (\<not> send_submitting st)})"

definition test_send_requested_while_busy_is_misuse :: bool where
  "test_send_requested_while_busy_is_misuse = passes (do {
     let (st, cmd) = step (send_state_new\<lparr>send_inprogress := True\<rparr>) (SendRequested (SendPayload_NonEmpty 4) None);
     check (case cmd of ReturnImmediateError (SOE_Misuse _) \<Rightarrow> True | _ \<Rightarrow> False)})"

definition test_send_empty_is_noop_and_oversized_is_immediate_error :: bool where
  "test_send_empty_is_noop_and_oversized_is_immediate_error = passes (do {
     let (st, cmd) = step send_state_new (SendRequested SendPayload_Empty None);
     check (cmd = ReturnSent);
     check (\<not> send_submitting st);
     let (st, cmd) = step send_state_new (SendRequested (SendPayload_Oversized 999 4096) None);
     check (cmd = ReturnImmediateError (SOE_OversizedSend 999 4096));
     check (st = send_state_new)})"

definition test_send_requested_nonempty_reserves_and_submits :: bool where
  "test_send_requested_nonempty_reserves_and_submits = passes (do {
     let (st, cmd) = step send_state_new (SendRequested (SendPayload_NonEmpty 8) None);
     check (cmd = SubmitSend);
     check (send_submitting st);
     let (st, cmd) = step st (SendSubmitted (Ok ()) None);
     check (cmd = ReturnSent);
     check (send_inprogress st \<and> \<not> send_submitting st)})"

definition test_sc011_cancelled_complete_no_cause_retains_unobserved_provisional :: bool where
  "test_sc011_cancelled_complete_no_cause_retains_unobserved_provisional = passes (do {
     let (st, cmd) = step (send_state_new\<lparr>send_inprogress := True\<rparr>) (PollReadyIn (SP_Event (Complete True)) None);
     check (case cmd of PublishTerminal candidate K_PollReady \<Rightarrow> send_is_provisional candidate \<and> candidate = ST_ProvisionalAbort
       | _ \<Rightarrow> False);
     check (\<not> send_inprogress st);
     let (st, cmd) = step st (TerminalPublished ST_ProvisionalAbort K_PollReady);
     check (cmd = RepollReady)})"

definition test_mf2_provisional_refines_to_specific_before_observation :: bool where
  "test_mf2_provisional_refines_to_specific_before_observation = passes (do {
     let (st, cmd) = step (send_state_new\<lparr>send_inprogress := False\<rparr>) (PollReadyIn SP_Pending (Some (ST_Stopped 9)));
     check (cmd = ReturnError (ST_Stopped 9))})"

definition test_mf2_provisional_channel_close_is_closure_point_to_authoritative_abort :: bool where
  "test_mf2_provisional_channel_close_is_closure_point_to_authoritative_abort = passes (do {
     let (st, cmd) = step send_state_new (PollReadyIn SP_Closed (Some ST_ProvisionalAbort));
     check (case cmd of PublishTerminal candidate K_PollReady \<Rightarrow>
         \<not> send_is_provisional candidate \<and> (case candidate of ST_Failed _ \<Rightarrow> True | _ \<Rightarrow> False)
       | _ \<Rightarrow> False)})"

definition test_mf2_provisional_pending_channel_pending_waits_not_ready :: bool where
  "test_mf2_provisional_pending_channel_pending_waits_not_ready = passes (do {
     let (st, cmd) = step send_state_new (PollReadyIn SP_Pending (Some ST_ProvisionalAbort));
     check (cmd = Cmd_Pending)})"

definition test_mf2_provisional_finish_abort_is_closure_point :: bool where
  "test_mf2_provisional_finish_abort_is_closure_point = passes (do {
     let (st, cmd) = step (send_state_new\<lparr>finish_started := True\<rparr>) (PollFinishIn (SP_Event (FinishComplete False)) (Some ST_ProvisionalAbort));
     check (case cmd of PublishTerminal candidate _ \<Rightarrow>
         \<not> send_is_provisional candidate \<and> (case candidate of ST_Failed _ \<Rightarrow> True | _ \<Rightarrow> False)
       | _ \<Rightarrow> False)})"

definition test_sc011_cancelled_complete_with_peer_stop_surfaces_peer_cause :: bool where
  "test_sc011_cancelled_complete_with_peer_stop_surfaces_peer_cause = passes (do {
     let (st, cmd) = step (send_state_new\<lparr>send_inprogress := True\<rparr>) (PollReadyIn (SP_Event (Complete True)) (Some (ST_Stopped 5)));
     check (cmd = ReturnError (ST_Stopped 5))})"

definition test_sc011_cancelled_complete_with_connection_surfaces_connection_cause :: bool where
  "test_sc011_cancelled_complete_with_connection_surfaces_connection_cause = passes (do {
     let (st, cmd) = step (send_state_new\<lparr>send_inprogress := True\<rparr>) (PollFinishIn (SP_Event (Complete True)) (Some conn_terminal));
     check (case cmd of ReturnError (ST_Connection _) \<Rightarrow> True | _ \<Rightarrow> False)})"

definition test_stop_sending_without_send_observable_at_poll_ready_and_finish :: bool where
  "test_stop_sending_without_send_observable_at_poll_ready_and_finish = passes (do {
     let (st, cmd) = step send_state_new (PollReadyIn SP_Pending (Some (ST_Stopped 3)));
     check (cmd = ReturnError (ST_Stopped 3));
     let (st, cmd) = step send_state_new (PollFinishIn SP_Pending (Some (ST_Stopped 3)));
     check (cmd = ReturnError (ST_Stopped 3))})"

definition test_terminal_wake_without_terminal_is_internal :: bool where
  "test_terminal_wake_without_terminal_is_internal = passes (do {
     let (st, cmd) = step send_state_new (PollReadyIn (SP_Event TerminalWake) None);
     check (case cmd of PublishTerminal (ST_Internal _) _ \<Rightarrow> True | _ \<Rightarrow> False)})"

definition test_provisional_abort_is_refinable_but_specific_is_not :: bool where
  "test_provisional_abort_is_refinable_but_specific_is_not = passes (do {
     check (send_is_provisional ST_ProvisionalAbort);
     check (\<not> send_is_provisional (ST_Failed (aborted_status ref_status)));
     check (\<not> send_is_provisional (ST_Stopped 1));
     check (\<not> send_is_provisional conn_terminal);
     check (\<not> send_is_provisional (ST_LocalReset 1));
     check (\<not> send_is_provisional (ST_Internal ''x''))})"

section \<open>The tests pass\<close>

lemma clamp_application_code_table_passes: "test_clamp_application_code_table"
  by code_simp

lemma max_quic_varint_value_passes: "test_max_quic_varint_value"
  by code_simp

lemma convert_conn_matrix_passes: "test_convert_conn_matrix"
  by code_simp

lemma convert_recv_matrix_passes: "test_convert_recv_matrix"
  by code_simp

lemma convert_send_matrix_passes: "test_convert_send_matrix"
  by code_simp

lemma mf1_finish_first_completes_cleanly_then_absorbs_terminal_passes: "test_mf1_finish_first_completes_cleanly_then_absorbs_terminal"
  by code_simp

lemma mf1_terminal_first_wins_over_later_finish_passes: "test_mf1_terminal_first_wins_over_later_finish"
  by code_simp

lemma finish_event_not_overwritten_by_later_terminal_passes: "test_finish_event_not_overwritten_by_later_terminal"
  by code_simp

lemma poll_ready_after_finish_is_nonsticky_internal_passes: "test_poll_ready_after_finish_is_nonsticky_internal"
  by code_simp

lemma reset_emits_single_submit_reset_then_publishes_local_reset_passes: "test_reset_emits_single_submit_reset_then_publishes_local_reset"
  by code_simp

lemma reset_after_terminal_is_noop_passes: "test_reset_after_terminal_is_noop"
  by code_simp

lemma reset_after_finish_complete_is_noop_passes: "test_reset_after_finish_complete_is_noop"
  by code_simp

lemma local_reset_loses_to_published_peer_terminal_passes: "test_local_reset_loses_to_published_peer_terminal"
  by code_simp

lemma local_reset_loses_to_published_connection_terminal_passes: "test_local_reset_loses_to_published_connection_terminal"
  by code_simp

lemma idempotent_finish_submits_graceful_once_passes: "test_idempotent_finish_submits_graceful_once"
  by code_simp

lemma submitted_without_reservation_is_internal_passes: "test_submitted_without_reservation_is_internal"
  by code_simp

lemma send_requested_terminal_wins_passes: "test_send_requested_terminal_wins"
  by code_simp

lemma send_requested_while_busy_is_misuse_passes: "test_send_requested_while_busy_is_misuse"
  by code_simp

lemma send_empty_is_noop_and_oversized_is_immediate_error_passes: "test_send_empty_is_noop_and_oversized_is_immediate_error"
  by code_simp

lemma send_requested_nonempty_reserves_and_submits_passes: "test_send_requested_nonempty_reserves_and_submits"
  by code_simp

lemma sc011_cancelled_complete_no_cause_retains_unobserved_provisional_passes: "test_sc011_cancelled_complete_no_cause_retains_unobserved_provisional"
  by code_simp

lemma mf2_provisional_refines_to_specific_before_observation_passes: "test_mf2_provisional_refines_to_specific_before_observation"
  by code_simp

lemma mf2_provisional_channel_close_is_closure_point_to_authoritative_abort_passes: "test_mf2_provisional_channel_close_is_closure_point_to_authoritative_abort"
  by code_simp

lemma mf2_provisional_pending_channel_pending_waits_not_ready_passes: "test_mf2_provisional_pending_channel_pending_waits_not_ready"
  by code_simp

lemma mf2_provisional_finish_abort_is_closure_point_passes: "test_mf2_provisional_finish_abort_is_closure_point"
  by code_simp

lemma sc011_cancelled_complete_with_peer_stop_surfaces_peer_cause_passes: "test_sc011_cancelled_complete_with_peer_stop_surfaces_peer_cause"
  by code_simp

lemma sc011_cancelled_complete_with_connection_surfaces_connection_cause_passes: "test_sc011_cancelled_complete_with_connection_surfaces_connection_cause"
  by code_simp

lemma stop_sending_without_send_observable_at_poll_ready_and_finish_passes: "test_stop_sending_without_send_observable_at_poll_ready_and_finish"
  by code_simp

lemma terminal_wake_without_terminal_is_internal_passes: "test_terminal_wake_without_terminal_is_internal"
  by code_simp

lemma provisional_abort_is_refinable_but_specific_is_not_passes: "test_provisional_abort_is_refinable_but_specific_is_not"
  by code_simp

end
