(* ===== verification/H3_Stream_Tests.thy ===== *)
theory H3_Stream_Tests
  imports H3_Scenario H3_Recv_Stream
begin

text \<open>
  The test builders of \<open>stream.rs\<close> and its tests of modules \<open>receive_events\<close> and \<open>config_threading\<close>, replayed on
  the models of the stream callback, the receive half and the receive budget. The flood tests are in
  \<open>H3_Flood_Tests\<close>.
\<close>

section \<open>Builders\<close>

definition stream_ctx_channel_with_config ::
  "('o, 's, 'r) stream_env \<Rightarrow> 'i \<Rightarrow> conn_terminal_state \<Rightarrow> h3_config \<Rightarrow> 'n \<Rightarrow>
   ('o, 's, 'r, 'n) stream_st \<times> 'i send_stream_receive_ctx \<times> 'i recv_stream_receive_ctx" where
  "stream_ctx_channel_with_config E sid conn_terminal config n =
     (let ctx = stream_ctx_channel_pre_id E conn_terminal config n; recv = pre_id_receivers config
      in (ctx, \<lparr>ss_id = sid, ss_max_send_bytes = os_max_send_bytes recv, ss_reducer = send_state_new\<rparr>,
          \<lparr>rs_id = sid, rs_terminal = None, rs_receive_closed = False\<rparr>))"

definition stream_ctx_channel_with_conn ::
  "('o, 's, 'r) stream_env \<Rightarrow> 'i \<Rightarrow> conn_terminal_state \<Rightarrow> 'n \<Rightarrow>
   ('o, 's, 'r, 'n) stream_st \<times> 'i send_stream_receive_ctx \<times> 'i recv_stream_receive_ctx" where
  "stream_ctx_channel_with_conn E sid conn_terminal n =
     stream_ctx_channel_with_config E sid conn_terminal h3_config_default n"

definition stream_ctx_channel ::
  "('o, 's, 'r) stream_env \<Rightarrow> 'i \<Rightarrow> 'n \<Rightarrow>
   ('o, 's, 'r, 'n) stream_st \<times> 'i send_stream_receive_ctx \<times> 'i recv_stream_receive_ctx" where
  "stream_ctx_channel E sid n = stream_ctx_channel_with_conn E sid conn_terminal_default n"

section \<open>The fixture\<close>

text \<open>\<open>RecordingRecvExec\<close>: the calls on the receive seam, in order.\<close>

record recording =
  rec_completes :: "u64 list"
  rec_stops :: "u64 list"

definition recording_default :: recording where
  "recording_default = \<lparr>rec_completes = [], rec_stops = []\<rparr>"

definition recording_recv_exec :: "('o, 's, 'r, recording) stream_world recv_exec" where
  "recording_recv_exec =
     \<lparr>submit_stop_sending = (\<lambda>code w.
        (w\<lparr>w_native := (w_native w)\<lparr>rec_stops := rec_stops (w_native w) @ [code]\<rparr>\<rparr>, Ok ())),
      submit_receive_complete = (\<lambda>len w.
        w\<lparr>w_native := (w_native w)\<lparr>rec_completes := rec_completes (w_native w) @ [len]\<rparr>\<rparr>)\<rparr>"

text \<open>A stream's callback context and receive half on one world.\<close>

record rx =
  rx_c :: stream_send_ctx
  rx_r :: "nat recv_stream_receive_ctx"
  rx_w :: "((u64, status) result cell, send_event fifo, receive_event fifo, recording) stream_world"

definition rx_with :: "nat \<Rightarrow> conn_terminal_state \<Rightarrow> h3_config \<Rightarrow> rx" where
  "rx_with sid conn config =
     (let ((c, w), _, r) = stream_ctx_channel_with_config ref_env sid conn config recording_default
      in \<lparr>rx_c = c, rx_r = r, rx_w = w\<rparr>)"

definition rx_new :: "nat \<Rightarrow> rx" where
  "rx_new sid = rx_with sid conn_terminal_default h3_config_default"

definition rx_event :: "stream_event \<Rightarrow> rx \<Rightarrow> rx \<times> (unit, status) result" where
  "rx_event ev st =
     (let ((c, w), r) = stream_callback ref_env ev (rx_c st, rx_w st) in (st\<lparr>rx_c := c, rx_w := w\<rparr>, r))"

text \<open>\<open>assert!(stream_callback(..).is_ok())\<close>.\<close>

definition rx_callback :: "stream_event \<Rightarrow> rx \<Rightarrow> rx option" where
  "rx_callback ev st = (let (st, r) = rx_event ev st in do {check (is_ok r); Some st})"

definition feed_receive_result :: "bytes \<Rightarrow> bool \<Rightarrow> rx \<Rightarrow> rx \<times> (unit, status) result" where
  "feed_receive_result data fin st = rx_event (SE_Receive (of_nat (length data)) [data] fin) st"

definition feed_receive :: "bytes \<Rightarrow> bool \<Rightarrow> rx \<Rightarrow> rx option" where
  "feed_receive data fin st = (let (st, r) = feed_receive_result data fin st in do {check (is_ok r); Some st})"

definition is_pending :: "(unit, status) result \<Rightarrow> bool" where
  "is_pending res = (case res of Err s \<Rightarrow> try_as_status_code ref_status s = Some QUIC_STATUS_PENDING | Ok _ \<Rightarrow> False)"

text \<open>\<open>poll_event\<close> of the context, and \<open>poll_data\<close> of the half over the recording executor.\<close>

definition rx_poll :: "rx \<Rightarrow> rx \<times> (bytes option, stream_error_incoming) result poll" where
  "rx_poll st = (let ((r, w), p) = poll_event ref_env 0 (rx_r st, rx_w st) in (st\<lparr>rx_r := r, rx_w := w\<rparr>, p))"

definition rx_poll_data :: "rx \<Rightarrow> rx \<times> (bytes option, stream_error_incoming) result poll" where
  "rx_poll_data st =
     (let ((r, w), p) = poll_data ref_env recording_recv_exec 0 (rx_r st, rx_w st) in (st\<lparr>rx_r := r, rx_w := w\<rparr>, p))"

definition rx_record :: "connection_terminal \<Rightarrow> rx \<Rightarrow> rx" where
  "rx_record t st = st\<lparr>rx_w := (rx_w st)\<lparr>w_conn_slot := record_conn_terminal t (w_conn_slot (rx_w st))\<rparr>\<rparr>"

text \<open>\<open>drop(rctx)\<close>: the receiver of the event channel goes.\<close>

definition rx_drop :: "rx \<Rightarrow> rx" where
  "rx_drop st = st\<lparr>rx_w := (rx_w st)\<lparr>w_recv := mpsc_drop_rx (se_recv ref_env) (w_recv (rx_w st))\<rparr>\<rparr>"

abbreviation budget_of :: "rx \<Rightarrow> recv_state" where
  "budget_of st \<equiv> rb_state (w_budget (rx_w st))"

definition rx_provisional_local_close :: "rx \<Rightarrow> rx option" where
  "rx_provisional_local_close st =
     rx_callback (SE_ShutdownComplete True True False 0 (status_new ref_status QUIC_STATUS_ABORTED)) st"

section \<open>Receive events\<close>

definition test_graceful_fin_yields_data_then_clean_eof :: bool where
  "test_graceful_fin_yields_data_then_clean_eof = passes (do {
     st \<leftarrow> feed_receive [1, 2, 3] True (rx_new 4);
     let (st, p) = rx_poll st;
     check (p = PollReady (Ok (Some [1, 2, 3])));
     let (st, p) = rx_poll st;
     check (p = PollReady (Ok None));
     let (st, p) = rx_poll st;
     check (p = PollReady (Ok None))})"

definition test_peer_reset_yields_stream_terminated_with_code :: bool where
  "test_peer_reset_yields_stream_terminated_with_code = passes (do {
     st \<leftarrow> rx_callback (SE_PeerSendAborted 42) (rx_new 4);
     check (snd (rx_poll st) = PollReady (Err (StreamTerminated 42)))})"

definition test_graceful_fin_and_peer_reset_are_observably_different :: bool where
  "test_graceful_fin_and_peer_reset_are_observably_different = passes (do {
     st \<leftarrow> feed_receive [] True (rx_new 4);
     let fin = snd (rx_poll st);
     st \<leftarrow> rx_callback (SE_PeerSendAborted 7) (rx_new 4);
     let rst = snd (rx_poll st);
     check (fin = PollReady (Ok None));
     check (rst = PollReady (Err (StreamTerminated 7)))})"

definition test_empty_non_fin_receive_produces_no_event :: bool where
  "test_empty_non_fin_receive_produces_no_event = passes (do {
     st \<leftarrow> feed_receive [] False (rx_new 4);
     let (st, p) = rx_poll st;
     check (p = PollPending);
     check (rs_terminal (rx_r st) = None)})"

definition test_peer_send_shutdown_yields_clean_eof :: bool where
  "test_peer_send_shutdown_yields_clean_eof = passes (do {
     st \<leftarrow> rx_callback SE_PeerSendShutdown (rx_new 4);
     check (snd (rx_poll st) = PollReady (Ok None))})"

definition test_first_receive_terminal_wins :: bool where
  "test_first_receive_terminal_wins = passes (do {
     st \<leftarrow> rx_callback (SE_PeerSendAborted 9) (rx_new 4);
     st \<leftarrow> rx_callback SE_PeerSendShutdown st;
     let (st, p) = rx_poll st;
     check (p = PollReady (Err (StreamTerminated 9)));
     let (st, p) = rx_poll st;
     check (p = PollReady (Err (StreamTerminated 9)))})"

definition test_connection_shutdown_surfaces_connection_error :: bool where
  "test_connection_shutdown_surfaces_connection_error = passes (do {
     st \<leftarrow> rx_callback (SE_ShutdownComplete True True True 13 (status_new ref_status QUIC_STATUS_ABORTED)) (rx_new 4);
     check (snd (rx_poll st) = PollReady (Err (ConnectionErrorIncoming (ApplicationClose 13))))})"

definition test_stream_local_shutdown_publishes_no_connection_terminal :: bool where
  "test_stream_local_shutdown_publishes_no_connection_terminal = passes (do {
     st \<leftarrow> rx_callback (SE_ShutdownComplete False False False 0 (status_new ref_status QUIC_STATUS_SUCCESS)) (rx_new 4);
     check (case snd (rx_poll st) of
         PollReady (Err (ConnectionErrorIncoming (InternalError _))) \<Rightarrow> True | _ \<Rightarrow> False)})"

definition test_poll_data_after_local_stop_sending_is_ok_none :: bool where
  "test_poll_data_after_local_stop_sending_is_ok_none = passes (do {
     let st = rx_new 4;
     check (\<not> rs_receive_closed (rx_r st));
     let st = st\<lparr>rx_r := close_receive_locally (rx_r st)\<rparr>;
     let (st, p) = rx_poll st;
     check (p = PollReady (Ok None));
     check (rs_terminal (rx_r st) = None);
     check (rs_receive_closed (rx_r st))})"

definition test_f1_recv_refinement_before_observation_surfaces_refined_cause :: bool where
  "test_f1_recv_refinement_before_observation_surfaces_refined_cause = passes (do {
     st \<leftarrow> rx_provisional_local_close (rx_new 4);
     let st = rx_record (CT_PeerApplication 9) st;
     let (st, p) = rx_poll st;
     check (p = PollReady (Err (ConnectionErrorIncoming (ApplicationClose 9))));
     let st = rx_record (CT_PeerApplication 11) st;
     let (st, p) = rx_poll st;
     check (p = PollReady (Err (ConnectionErrorIncoming (ApplicationClose 9))))})"

definition test_f1_recv_refinement_after_observation_is_rejected :: bool where
  "test_f1_recv_refinement_after_observation_is_rejected = passes (do {
     st \<leftarrow> rx_provisional_local_close (rx_new 4);
     let (st, p) = rx_poll st;
     check (p = PollReady (Err (ConnectionErrorIncoming (Undefined LocalConnectionClose))));
     let st = rx_record (CT_PeerApplication 9) st;
     let (st, p) = rx_poll st;
     check (p = PollReady (Err (ConnectionErrorIncoming (Undefined LocalConnectionClose))))})"

text \<open>The second stream of the test shares the connection slot the first one left.\<close>

definition test_f_a_stream_local_panic_does_not_freeze_empty_connection_slot :: bool where
  "test_f_a_stream_local_panic_does_not_freeze_empty_connection_slot = passes (do {
     let st = rx_new 4;
     let ((c, w), r) = stream_recover ref_env no_shutdown (rx_c st, rx_w st);
     check (\<not> is_ok r);
     let (st, p) = rx_poll (st\<lparr>rx_c := c, rx_w := w\<rparr>);
     check (case p of PollReady (Err (ConnectionErrorIncoming (InternalError _))) \<Rightarrow> True | _ \<Rightarrow> False);
     let st = rx_record (CT_PeerApplication 9) st;
     st2 \<leftarrow> rx_provisional_local_close (rx_with 8 (w_conn_slot (rx_w st)) h3_config_default);
     check (snd (rx_poll st2) = PollReady (Err (ConnectionErrorIncoming (ApplicationClose 9))))})"

section \<open>Backpressure\<close>

definition prompt_round :: "u8 \<Rightarrow> rx \<Rightarrow> rx option" where
  "prompt_round i st = do {
     st \<leftarrow> feed_receive [i, i, i] False st;
     let (st, p) = rx_poll_data st;
     check (p = PollReady (Ok (Some [i, i, i])));
     Some st}"

definition test_prompt_drain_no_regression :: bool where
  "test_prompt_drain_no_regression = passes (do {
     let st = rx_new 0;
     st \<leftarrow> prompt_round 0 st;
     st \<leftarrow> prompt_round 1 st;
     st \<leftarrow> prompt_round 2 st;
     st \<leftarrow> prompt_round 3 st;
     st \<leftarrow> prompt_round 4 st;
     st \<leftarrow> prompt_round 5 st;
     st \<leftarrow> prompt_round 6 st;
     st \<leftarrow> prompt_round 7 st;
     st \<leftarrow> feed_receive [9, 9] True st;
     let (st, p) = rx_poll_data st;
     check (p = PollReady (Ok (Some [9, 9])));
     let (st, p) = rx_poll_data st;
     check (p = PollReady (Ok None));
     let (st, p) = rx_poll_data st;
     check (p = PollReady (Ok None));
     check (rec_completes (w_native (rx_w st)) = []);
     check (buffered (budget_of st) = 0);
     check (\<not> pend_outstanding (budget_of st))})"

definition test_multi_buffer_indication_is_presized_and_concatenated :: bool where
  "test_multi_buffer_indication_is_presized_and_concatenated = passes (do {
     st \<leftarrow> rx_callback (SE_Receive 9 [[1, 2, 3], [4, 5], [6, 7, 8, 9]] False) (rx_new 0);
     let (st, p) = rx_poll st;
     check (p = PollReady (Ok (Some [1, 2, 3, 4, 5, 6, 7, 8, 9])));
     check (buffered (budget_of st) = 9)})"

text \<open>A number of offers of the same bytes, each accepted.\<close>

fun offer_ok :: "nat \<Rightarrow> bytes \<Rightarrow> rx \<Rightarrow> rx option" where
  "offer_ok 0 data st = Some st"
| "offer_ok (Suc n) data st = do {st \<leftarrow> feed_receive data False st; offer_ok n data st}"

definition test_custom_recv_unit_cap_engages_backpressure_at_configured_value :: bool where
  "test_custom_recv_unit_cap_engages_backpressure_at_configured_value = passes (do {
     cfg \<leftarrow> unwrap (build (with_max_recv_units 8 builder));
     st \<leftarrow> offer_ok 7 [0x11] (rx_with 0 conn_terminal_default cfg);
     let (st, res) = feed_receive_result [0x11] False st;
     check (is_pending res);
     check (units (budget_of st) = 8);
     check (pend_outstanding (budget_of st))})"

definition test_custom_recv_byte_cap_engages_backpressure_at_configured_value :: bool where
  "test_custom_recv_byte_cap_engages_backpressure_at_configured_value = passes (do {
     cfg \<leftarrow> unwrap (build (with_max_recv_bytes 512 builder));
     let frame = replicate 128 0x22;
     st \<leftarrow> offer_ok 3 frame (rx_with 0 conn_terminal_default cfg);
     let (st, res) = feed_receive_result frame False st;
     check (is_pending res);
     check (buffered (budget_of st) = 512);
     check (units (budget_of st) < DEFAULT_MAX_RECV_UNITS)})"

definition test_failed_publish_rolls_back_the_unit_charge :: bool where
  "test_failed_publish_rolls_back_the_unit_charge = passes (do {
     st \<leftarrow> feed_receive [1] False (rx_new 0);
     let units_before = units (budget_of st);
     let buffered_before = buffered (budget_of st);
     check (units_before = 1);
     let st = rx_drop st;
     let (st, res) = feed_receive_result [2] False st;
     check (is_ok res);
     check (units (budget_of st) = units_before);
     check (buffered (budget_of st) = buffered_before);
     check (\<not> sx_receive (rx_c st))})"

definition test_empty_indication_consumes_no_unit :: bool where
  "test_empty_indication_consumes_no_unit = passes (do {
     st \<leftarrow> feed_receive [] False (rx_new 0);
     check (units (budget_of st) = 0);
     check (buffered (budget_of st) = 0)})"

text \<open>Offers whatever the answer, and the drain up to the terminal (with its code and the units drained).\<close>

fun offer :: "nat \<Rightarrow> bytes \<Rightarrow> rx \<times> (unit, status) result \<Rightarrow> rx \<times> (unit, status) result" where
  "offer 0 data sr = sr"
| "offer (Suc n) data sr = offer n data (feed_receive_result data False (fst sr))"

fun drain_to_terminal :: "nat \<Rightarrow> nat \<Rightarrow> rx \<Rightarrow> (rx \<times> nat \<times> u64) option" where
  "drain_to_terminal 0 drained st = None"
| "drain_to_terminal (Suc n) drained st =
     (case rx_poll_data st of
        (st, PollReady (Ok (Some _))) \<Rightarrow> drain_to_terminal n (Suc drained) st
      | (st, PollReady (Err (StreamTerminated code))) \<Rightarrow> Some (st, drained, code)
      | _ \<Rightarrow> None)"

definition test_teardown_while_at_unit_cap_releases_cleanly :: bool where
  "test_teardown_while_at_unit_cap_releases_cleanly = passes (do {
     cfg \<leftarrow> unwrap (build (with_max_recv_units 16 builder));
     let (st, res) = offer 16 [7] (rx_with 0 conn_terminal_default cfg, Ok ());
     check (is_pending res);
     check (units (budget_of st) = 16);
     st \<leftarrow> rx_callback (SE_PeerSendAborted 5) st;
     (st, drained, code) \<leftarrow> drain_to_terminal 18 0 st;
     check (code = 5);
     check (drained = 16);
     check (units (budget_of st) = 0)})"

section \<open>Threading of the configuration\<close>

definition custom_config :: "h3_config option" where
  "custom_config =
     unwrap (build (with_max_recv_units 7 (with_max_recv_bytes 8192 (with_max_send_bytes 4096 builder))))"

text \<open>The three caps a stream built from a configuration has.\<close>

definition threaded_caps :: "nat \<Rightarrow> h3_config \<Rightarrow> usize \<times> usize \<times> u64" where
  "threaded_caps sid cfg =
     (let ((c, w), s, r) = stream_ctx_channel_with_config ref_env sid conn_terminal_default cfg ()
      in (rb_max_bytes (w_budget w), rb_max_units (w_budget w), ss_max_send_bytes s))"

definition test_custom_config_threads_recv_and_send_caps :: bool where
  "test_custom_config_threads_recv_and_send_caps = passes (do {
     cfg \<leftarrow> custom_config;
     check (threaded_caps 4 cfg = (8192, 7, 4096))})"

definition test_custom_config_threads_to_accepted_shaped_stream :: bool where
  "test_custom_config_threads_to_accepted_shaped_stream = passes (do {
     cfg \<leftarrow> custom_config;
     check (threaded_caps 6 cfg = (8192, 7, 4096))})"

definition test_default_config_threads_the_historical_constants :: bool where
  "test_default_config_threads_the_historical_constants = passes (
     check (threaded_caps 4 h3_config_default = (MAX_RECV_BUFFER, 16384, MAX_ADAPTER_SEND)))"

definition test_two_configs_are_isolated :: bool where
  "test_two_configs_are_isolated = passes (do {
     a \<leftarrow> unwrap (build (with_max_recv_units 3 (with_max_recv_bytes 2048 (with_max_send_bytes 1024 builder))));
     b \<leftarrow> unwrap (build (with_max_recv_units 99 (with_max_recv_bytes 55555 (with_max_send_bytes 9999 builder))));
     check (threaded_caps 4 a = (2048, 3, 1024));
     check (threaded_caps 8 b = (55555, 99, 9999))})"

section \<open>The tests pass\<close>

lemma graceful_fin_yields_data_then_clean_eof_passes: "test_graceful_fin_yields_data_then_clean_eof"
  by code_simp

lemma peer_reset_yields_stream_terminated_with_code_passes: "test_peer_reset_yields_stream_terminated_with_code"
  by code_simp

lemma graceful_fin_and_peer_reset_are_observably_different_passes: "test_graceful_fin_and_peer_reset_are_observably_different"
  by code_simp

lemma empty_non_fin_receive_produces_no_event_passes: "test_empty_non_fin_receive_produces_no_event"
  by code_simp

lemma peer_send_shutdown_yields_clean_eof_passes: "test_peer_send_shutdown_yields_clean_eof"
  by code_simp

lemma first_receive_terminal_wins_passes: "test_first_receive_terminal_wins"
  by code_simp

lemma connection_shutdown_surfaces_connection_error_passes: "test_connection_shutdown_surfaces_connection_error"
  by code_simp

lemma stream_local_shutdown_publishes_no_connection_terminal_passes: "test_stream_local_shutdown_publishes_no_connection_terminal"
  by code_simp

lemma poll_data_after_local_stop_sending_is_ok_none_passes: "test_poll_data_after_local_stop_sending_is_ok_none"
  by code_simp

lemma f1_recv_refinement_before_observation_surfaces_refined_cause_passes: "test_f1_recv_refinement_before_observation_surfaces_refined_cause"
  by code_simp

lemma f1_recv_refinement_after_observation_is_rejected_passes: "test_f1_recv_refinement_after_observation_is_rejected"
  by code_simp

lemma f_a_stream_local_panic_does_not_freeze_empty_connection_slot_passes: "test_f_a_stream_local_panic_does_not_freeze_empty_connection_slot"
  by code_simp

lemma prompt_drain_no_regression_passes: "test_prompt_drain_no_regression"
  by code_simp

lemma multi_buffer_indication_is_presized_and_concatenated_passes: "test_multi_buffer_indication_is_presized_and_concatenated"
  by code_simp

lemma custom_recv_unit_cap_engages_backpressure_at_configured_value_passes: "test_custom_recv_unit_cap_engages_backpressure_at_configured_value"
  by code_simp

lemma custom_recv_byte_cap_engages_backpressure_at_configured_value_passes: "test_custom_recv_byte_cap_engages_backpressure_at_configured_value"
  by code_simp

lemma failed_publish_rolls_back_the_unit_charge_passes: "test_failed_publish_rolls_back_the_unit_charge"
  by code_simp

lemma empty_indication_consumes_no_unit_passes: "test_empty_indication_consumes_no_unit"
  by code_simp

lemma teardown_while_at_unit_cap_releases_cleanly_passes: "test_teardown_while_at_unit_cap_releases_cleanly"
  by code_simp

lemma custom_config_threads_recv_and_send_caps_passes: "test_custom_config_threads_recv_and_send_caps"
  by code_simp

lemma custom_config_threads_to_accepted_shaped_stream_passes: "test_custom_config_threads_to_accepted_shaped_stream"
  by code_simp

lemma default_config_threads_the_historical_constants_passes: "test_default_config_threads_the_historical_constants"
  by code_simp

lemma two_configs_are_isolated_passes: "test_two_configs_are_isolated"
  by code_simp

end
