(* ===== verification/H3_Flood_Tests.thy ===== *)
theory H3_Flood_Tests
  imports H3_Stream_Tests
begin

text \<open>
  The flood tests of module \<open>receive_events\<close> of \<open>stream.rs\<close>: indications of hundreds of kilobytes, and loops of up to
  a hundred thousand offers. They are the same programs over the model as in \<open>H3_Stream_Tests\<close>; they are not evaluated
  but proved, over the shape the state keeps: so many chunks queued, such counters. The fuel of a loop is what
  its driver needs and a loop out of fuel fails its test. The test that races two threads passes under every
  schedule of their locked steps.
\<close>

section \<open>Fixture\<close>

text \<open>\<open>vec![x; n]\<close>.\<close>

definition vec_of :: "u8 \<Rightarrow> nat \<Rightarrow> bytes" where
  "vec_of x n = replicate n x"

text \<open>One drain that must yield data.\<close>

definition drain_one :: "rx \<Rightarrow> (rx \<times> bytes) option" where
  "drain_one st = (case rx_poll_data st of (st, PollReady (Ok (Some b))) \<Rightarrow> Some (st, b) | _ \<Rightarrow> None)"

abbreviation completes_of :: "rx \<Rightarrow> u64 list" where
  "completes_of st \<equiv> rec_completes (w_native (rx_w st))"

section \<open>A stalled receiver\<close>

definition STALL_CHUNK :: nat where
  "STALL_CHUNK = 300 * 1024"

text \<open>The flood loop over the offered bytes, the peak and the number of pends.\<close>

fun stall_loop :: "nat \<Rightarrow> rx \<times> nat \<times> usize \<times> nat \<Rightarrow> (rx \<times> nat \<times> usize \<times> nat) option" where
  "stall_loop 0 s = None"
| "stall_loop (Suc fuel) (st, offered, pk, pends) =
     (if offered < 8 * unat MAX_RECV_BUFFER then
        if pend_outstanding (budget_of st) then do {
          (st, _) \<leftarrow> drain_one st;
          stall_loop fuel (st, offered, pk, pends)}
        else do {
          let (st, res) = feed_receive_result (vec_of 0xC3 STALL_CHUNK) False st;
          let offered = offered + STALL_CHUNK;
          let pk = max pk (buffered (budget_of st));
          if is_pending res then do {
            check (pend_outstanding (budget_of st));
            check (unat (pending_indication_len (budget_of st)) = STALL_CHUNK);
            stall_loop fuel (st, offered, pk, pends + 1)}
          else do {
            check (is_ok res);
            stall_loop fuel (st, offered, pk, pends)}}
      else Some (st, offered, pk, pends))"

fun drain_pend :: "nat \<Rightarrow> rx \<Rightarrow> rx option" where
  "drain_pend 0 st = None"
| "drain_pend (Suc fuel) st =
     (if pend_outstanding (budget_of st) then do {(st, _) \<leftarrow> drain_one st; drain_pend fuel st} else Some st)"

definition test_stalled_receive_is_bounded :: bool where
  "test_stalled_receive_is_bounded = passes (do {
     (st, offered, pk, pends) \<leftarrow> stall_loop 60 (rx_new 0, 0, 0, 0);
     check (8 * unat MAX_RECV_BUFFER \<le> offered);
     check (0 < pends);
     st \<leftarrow> drain_pend 10 st;
     check (MAX_RECV_BUFFER \<le> pk);
     check (unat pk \<le> unat MAX_RECV_BUFFER + STALL_CHUNK);
     let c = completes_of st;
     check (length c = pends);
     check (list_all (\<lambda>l. unat l = STALL_CHUNK) c)})"

section \<open>A drain between the admission and the answer\<close>

definition RACE_PRE :: nat where
  "RACE_PRE = 340 * 1024"

definition RACE_LEN :: nat where
  "RACE_LEN = 200 * 1024"

definition pre_fill :: "rx \<Rightarrow> rx option" where
  "pre_fill st =
     (let (st, res) = feed_receive_result (vec_of 0 RACE_PRE) False st in do {check (is_ok res); Some st})"

fun drain_all :: "nat \<Rightarrow> nat \<Rightarrow> rx \<Rightarrow> (rx \<times> nat) option" where
  "drain_all 0 drained st = None"
| "drain_all (Suc fuel) drained st =
     (case rx_poll_data st of
        (st, PollReady (Ok (Some b))) \<Rightarrow> drain_all fuel (drained + length b) st
      | (st, _) \<Rightarrow> Some (st, drained))"

text \<open>The admission runs on its own, as in the \<open>Receive\<close> arm, and its outcome is held while the drain runs.\<close>

definition race_admit :: "rx \<Rightarrow> rx \<times> admit_decision" where
  "race_admit st =
     (let (bud, w, a) = admit (of_nat RACE_LEN) True (publish_data ref_env (sx_receive (rx_c st)) (vec_of 0xEE RACE_LEN))
            (w_budget (rx_w st)) (rx_w st)
      in (st\<lparr>rx_w := w\<lparr>w_budget := bud\<rparr>\<rparr>, a))"

definition test_recv_state_transition_no_underflow_no_lost_pend :: bool where
  "test_recv_state_transition_no_underflow_no_lost_pend = passes (do {
     st \<leftarrow> pre_fill (rx_new 0);
     st \<leftarrow> pre_fill st;
     st \<leftarrow> pre_fill st;
     check (unat (buffered (budget_of st)) = 3 * RACE_PRE);
     check (\<not> pend_outstanding (budget_of st));
     let (st, outcome) = race_admit st;
     check (outcome = Pend);
     check (pend_outstanding (budget_of st));
     check (unat (pending_indication_len (budget_of st)) = RACE_LEN);
     check (unat (buffered (budget_of st)) = 3 * RACE_PRE + RACE_LEN);
     (st, b) \<leftarrow> drain_one st;
     check (length b = RACE_PRE);
     check (completes_of st = [of_nat RACE_LEN]);
     check (unat (buffered (budget_of st)) = 3 * RACE_PRE + RACE_LEN - RACE_PRE);
     check (\<not> pend_outstanding (budget_of st));
     (st, drained) \<leftarrow> drain_all 5 RACE_PRE st;
     check (drained = 3 * RACE_PRE + RACE_LEN);
     check (buffered (budget_of st) = 0);
     check (length (completes_of st) = 1)})"

section \<open>A dropped frontend, independent streams\<close>

definition test_dropped_frontend_rolls_back_recv_state :: bool where
  "test_dropped_frontend_rolls_back_recv_state = passes (do {
     let (st, res) = feed_receive_result (vec_of 0 4096) False (rx_new 0);
     check (is_ok res);
     let buffered_before = buffered (budget_of st);
     let peak_before = peak (budget_of st);
     check (buffered_before = 4096);
     check (\<not> pend_outstanding (budget_of st));
     let st = rx_drop st;
     let (st, res) = feed_receive_result (vec_of 0xAB (unat MAX_RECV_BUFFER)) False st;
     check (is_ok res);
     check (buffered (budget_of st) = buffered_before);
     check (peak (budget_of st) = peak_before);
     check (\<not> pend_outstanding (budget_of st));
     check (pending_indication_len (budget_of st) = 0);
     check (\<not> sx_receive (rx_c st))})"

definition peer_round :: "u8 \<Rightarrow> rx \<Rightarrow> rx option" where
  "peer_round i st = do {
     let (st, res) = feed_receive_result [i, i] False st;
     check (is_ok res);
     (st, b) \<leftarrow> drain_one st;
     check (b = [i, i]);
     Some st}"

definition test_stalled_stream_does_not_affect_peer_stream :: bool where
  "test_stalled_stream_does_not_affect_peer_stream = passes (do {
     let (stalled, res) = feed_receive_result (vec_of 0 (unat MAX_RECV_BUFFER)) False (rx_new 0);
     check (is_pending res);
     check (pend_outstanding (budget_of stalled));
     let other = rx_new 4;
     other \<leftarrow> peer_round 0 other;
     other \<leftarrow> peer_round 1 other;
     other \<leftarrow> peer_round 2 other;
     other \<leftarrow> peer_round 3 other;
     check (\<not> pend_outstanding (budget_of other));
     check (peak (budget_of other) < MAX_RECV_BUFFER);
     check (pend_outstanding (budget_of stalled))})"

section \<open>Units\<close>

definition OFFER_TARGET :: nat where
  "OFFER_TARGET = 100000"

text \<open>\<open>drain_one_and_require_rearm\<close>.\<close>

definition drain_one_and_require_rearm :: "rx \<Rightarrow> rx option" where
  "drain_one_and_require_rearm st = do {
     let before = length (completes_of st);
     (st, _) \<leftarrow> drain_one st;
     check (length (completes_of st) = before + 1);
     check (\<not> pend_outstanding (budget_of st));
     Some st}"

record paced =
  pc_st :: rx
  pc_offered :: nat
  pc_peak_units :: usize
  pc_peak_bytes :: usize
  pc_pends :: nat
  pc_completions :: nat

fun paced_loop :: "nat \<Rightarrow> paced \<Rightarrow> paced option" where
  "paced_loop 0 p = None"
| "paced_loop (Suc fuel) p =
     (if pc_offered p < OFFER_TARGET then
        if pend_outstanding (budget_of (pc_st p)) then do {
          st \<leftarrow> drain_one_and_require_rearm (pc_st p);
          paced_loop fuel (p\<lparr>pc_st := st, pc_completions := pc_completions p + 1\<rparr>)}
        else do {
          let (st, res) = feed_receive_result [0xAB] False (pc_st p);
          let p = p\<lparr>pc_st := st, pc_offered := pc_offered p + 1,
                    pc_peak_units := max (pc_peak_units p) (units (budget_of st)),
                    pc_peak_bytes := max (pc_peak_bytes p) (buffered (budget_of st))\<rparr>;
          if is_pending res then do {
            check (pend_outstanding (budget_of st));
            paced_loop fuel (p\<lparr>pc_pends := pc_pends p + 1\<rparr>)}
          else do {
            check (is_ok res);
            paced_loop fuel p}}
      else Some p)"

definition test_paced_tiny_frames_are_bounded_by_the_unit_cap :: bool where
  "test_paced_tiny_frames_are_bounded_by_the_unit_cap = passes (do {
     p \<leftarrow> paced_loop (2 * OFFER_TARGET)
       \<lparr>pc_st = rx_new 0, pc_offered = 0, pc_peak_units = 0, pc_peak_bytes = 0, pc_pends = 0, pc_completions = 0\<rparr>;
     p \<leftarrow> (if pend_outstanding (budget_of (pc_st p)) then do {
             st \<leftarrow> drain_one_and_require_rearm (pc_st p);
             Some (p\<lparr>pc_st := st, pc_completions := pc_completions p + 1\<rparr>)}
           else Some p);
     check (OFFER_TARGET \<le> pc_offered p);
     check (0 < pc_pends p);
     check (pc_completions p = pc_pends p);
     check (length (completes_of (pc_st p)) = pc_pends p);
     check (pc_peak_units p = DEFAULT_MAX_RECV_UNITS);
     check (peak_units (budget_of (pc_st p)) = DEFAULT_MAX_RECV_UNITS);
     check (pc_peak_bytes p \<le> MAX_RECV_BUFFER + 1);
     check (pc_peak_units p < 1048576)})"

fun feed_until_pending :: "nat \<Rightarrow> bytes \<Rightarrow> rx \<times> (unit, status) result \<Rightarrow> rx option" where
  "feed_until_pending 0 frame sr = None"
| "feed_until_pending (Suc fuel) frame (st, res) =
     (if is_pending res then Some st else feed_until_pending fuel frame (feed_receive_result frame False st))"

definition test_frames_at_or_above_128_bytes_bind_on_bytes_first :: bool where
  "test_frames_at_or_above_128_bytes_bind_on_bytes_first = passes (do {
     let frame = vec_of 0x5A 128;
     st \<leftarrow> feed_until_pending 8192 frame (feed_receive_result frame False (rx_new 0));
     let b = buffered (budget_of st);
     let u = units (budget_of st);
     check (MAX_RECV_BUFFER \<le> b \<and> b \<le> MAX_RECV_BUFFER + 128);
     check (u < DEFAULT_MAX_RECV_UNITS);
     check (u = MAX_RECV_BUFFER div 128)})"

fun consume_cycles :: "nat \<Rightarrow> rx \<Rightarrow> rx option" where
  "consume_cycles 0 st = Some st"
| "consume_cycles (Suc n) st = do {
     let (st, res) = feed_receive_result [0x42] False st;
     check (is_ok res);
     (st, b) \<leftarrow> drain_one st;
     check (b = [0x42]);
     consume_cycles n st}"

definition test_admit_consume_cycles_are_leak_free :: bool where
  "test_admit_consume_cycles_are_leak_free = passes (do {
     st \<leftarrow> consume_cycles 1000 (rx_new 0);
     check (units (budget_of st) = 0);
     check (buffered (budget_of st) = 0);
     check (peak_units (budget_of st) = 1);
     check (\<not> pend_outstanding (budget_of st))})"

section \<open>Two threads on one budget\<close>

text \<open>
  The writer admits and publishes under the lock, the reader takes what was published, if anything, and drains it;
  taking it commutes with the writer's step, so it is one step with the drain. A schedule says who runs next; the threads are joined when everything was written and read.
\<close>

definition RACE_ITERS :: nat where
  "RACE_ITERS = 20000"

definition RACE_CHUNK :: nat where
  "RACE_CHUNK = 4096"

record race =
  rc_budget :: recv_budget
  rc_channel :: "nat list"
  rc_written :: nat
  rc_drained :: nat
  rc_completes :: nat

definition race_writer :: "race \<Rightarrow> race" where
  "race_writer r =
     (let (b, ch, _) = admit (of_nat RACE_CHUNK) True (\<lambda>ch. (ch @ [RACE_CHUNK], True)) (rc_budget r) (rc_channel r)
      in r\<lparr>rc_budget := b, rc_channel := ch, rc_written := rc_written r + 1\<rparr>)"

definition race_reader :: "race \<Rightarrow> race" where
  "race_reader r =
     (case rc_channel r of
        [] \<Rightarrow> r
      | len # ch \<Rightarrow>
          (let (b, c) = on_drained (of_nat len) (rc_budget r)
           in r\<lparr>rc_budget := b, rc_channel := ch, rc_drained := rc_drained r + len,
                rc_completes := rc_completes r + (if c = None then 0 else 1)\<rparr>))"

definition race_step :: "bool \<Rightarrow> race \<Rightarrow> race" where
  "race_step writer r = (if writer then (if rc_written r < RACE_ITERS then race_writer r else r) else race_reader r)"

definition race_run :: "bool list \<Rightarrow> race" where
  "race_run sched = fold race_step sched
     \<lparr>rc_budget = recv_budget_default, rc_channel = [], rc_written = 0, rc_drained = 0, rc_completes = 0\<rparr>"

definition test_drain_before_pend_return_is_absorbed :: "bool list \<Rightarrow> bool" where
  "test_drain_before_pend_return_is_absorbed sched =
     (let r = race_run sched; st = rb_state (rc_budget r)
      in rc_written r = RACE_ITERS \<and> rc_channel r = [] \<longrightarrow>
         passes (do {
           check (rc_drained r = RACE_ITERS * RACE_CHUNK);
           check (buffered st = 0);
           check (\<not> pend_outstanding st)}))"

text \<open>The budget counts what is in the channel, and a pend is outstanding only at the byte cap, 256 chunks.\<close>

definition race_ok :: "race \<Rightarrow> bool" where
  "race_ok r \<longleftrightarrow>
     (let b = rc_budget r; st = rb_state b; m = length (rc_channel r)
      in (\<forall>c \<in> set (rc_channel r). c = RACE_CHUNK) \<and> rc_drained r + m * RACE_CHUNK = rc_written r * RACE_CHUNK \<and>
         rc_written r \<le> RACE_ITERS \<and> buffered st = of_nat (m * RACE_CHUNK) \<and> units st = of_nat m \<and>
         (pend_outstanding st \<longrightarrow> 256 \<le> m) \<and> rb_max_bytes b = MAX_RECV_BUFFER \<and> rb_max_units b = DEFAULT_MAX_RECV_UNITS)"

section \<open>The shape of the state\<close>

text \<open>The fresh stream with the chunks \<open>q\<close> queued, the counters \<open>b\<close> and the completions \<open>cs\<close> so far.\<close>

definition rx_at :: "nat \<Rightarrow> bytes list \<Rightarrow> recv_state \<Rightarrow> u64 list \<Rightarrow> rx" where
  "rx_at sid q b cs =
     (let st = rx_new sid; w = rx_w st
      in st\<lparr>rx_w := w\<lparr>w_recv := \<lparr>fifo_items = map RE_Data q, fifo_tx = True, fifo_rx = True, fifo_parked = None\<rparr>,
                     w_budget := (w_budget w)\<lparr>rb_state := b\<rparr>, w_native := \<lparr>rec_completes = cs, rec_stops = []\<rparr>\<rparr>\<rparr>)"

definition default_budget :: "recv_state \<Rightarrow> recv_budget" where
  "default_budget b = recv_budget_default\<lparr>rb_state := b\<rparr>"

text \<open>The stalled receiver at its bound; the paced driver below the unit cap and at it.\<close>

definition stall_full :: "u64 list \<Rightarrow> rx" where
  "stall_full cs = (let v = vec_of 0xC3 STALL_CHUNK in rx_at 0 [v, v, v, v]
     \<lparr>buffered = 1228800, units = 4, pend_outstanding = True, pending_indication_len = 307200, peak = 1228800, peak_units = 4\<rparr> cs)"

definition paced_full :: "nat \<Rightarrow> paced" where
  "paced_full k =
     \<lparr>pc_st = rx_at 0 ([0xAB] # replicate 16383 [0xAB])
        \<lparr>buffered = 16384, units = 16384, pend_outstanding = True, pending_indication_len = 1, peak = 16384,
         peak_units = 16384\<rparr> (replicate k 1),
      pc_offered = 16384 + k, pc_peak_units = 16384, pc_peak_bytes = 16384, pc_pends = Suc k, pc_completions = k\<rparr>"

text \<open>The counters of a drained stream.\<close>

definition idle_state :: "usize \<Rightarrow> usize \<Rightarrow> recv_state" where
  "idle_state pk u = \<lparr>buffered = 0, units = 0, pend_outstanding = False, pending_indication_len = 0, peak = pk, peak_units = u\<rparr>"

text \<open>The counters after \<open>k\<close> frames of \<open>n\<close> bytes that did not pend.\<close>

definition frames_state :: "nat \<Rightarrow> nat \<Rightarrow> recv_state" where
  "frames_state n k = \<lparr>buffered = of_nat (n * k), units = of_nat k, pend_outstanding = False, pending_indication_len = 0,
     peak = of_nat (n * k), peak_units = of_nat k\<rparr>"

definition paced_fill :: "nat \<Rightarrow> paced" where
  "paced_fill k =
     \<lparr>pc_st = rx_at 0 (replicate k [0xAB]) (frames_state 1 k) [], pc_offered = k, pc_peak_units = of_nat k,
      pc_peak_bytes = of_nat k, pc_pends = 0, pc_completions = 0\<rparr>"

section \<open>Steps on that shape\<close>

lemma rx_new_at: "rx_new sid = rx_at sid [] recv_state_default []"
  by (simp add: rx_at_def rx_new_def rx_with_def stream_ctx_channel_with_config_def stream_ctx_channel_pre_id_def
      recording_default_def chan_defs recv_budget_new_def Let_def)

lemma rx_new_idle: "rx_new sid = rx_at sid [] (idle_state 0 0) []"
  by (simp add: rx_new_at idle_state_def recv_state_default_def)

lemma rx_at_view [simp]:
  "budget_of (rx_at sid q b cs) = b" "completes_of (rx_at sid q b cs) = cs" "sx_receive (rx_c (rx_at sid q b cs))"
  by (simp_all add: rx_at_def Let_def rx_new_def rx_with_def stream_ctx_channel_with_config_def
      stream_ctx_channel_pre_id_def stream_ctx_new_def)

lemma vec_of_simps [simp]: "length (vec_of x n) = n" "vec_of x n = [] \<longleftrightarrow> n = 0"
  by (simp_all add: vec_of_def)

lemma is_pending_simps [simp]:
  "is_pending (Err (status_new ref_status QUIC_STATUS_PENDING))" "\<not> is_pending (Ok ())"
  by (simp_all add: is_pending_def ref_codec.decode_new named_codes_def)

lemma feed_at:
  assumes "data \<noteq> []"
  shows "feed_receive_result data False (rx_at sid q b cs) =
    (rx_at sid (q @ [data]) (fst (admit_charge (of_nat (length data)) True (default_budget b))) cs,
     if snd (admit_charge (of_nat (length data)) True (default_budget b))
     then Err (status_new ref_status QUIC_STATUS_PENDING) else Ok ())"
  using assms
  by (simp add: feed_receive_result_def rx_event_def cb_Receive_def rx_at_def rx_new_def rx_with_def
      stream_ctx_channel_with_config_def stream_ctx_channel_pre_id_def stream_ctx_new_def admit_def publish_data_def
      chan_defs default_budget_def recv_budget_default_def recv_budget_new_def h3_config_default_def Let_def
      split: prod.splits)

lemma drain_at:
  "drain_one (rx_at sid (d # q) b cs) =
     (let (bud, c) = on_drained (of_nat (length d)) (default_budget b)
      in Some (rx_at sid q (rb_state bud) (cs @ (case c of Some l \<Rightarrow> [l] | None \<Rightarrow> [])), d))"
  by (simp add: drain_one_def rx_poll_data_def poll_data_def poll_event_def drained_completion_def rx_at_def rx_new_def
      rx_with_def stream_ctx_channel_with_config_def stream_ctx_channel_pre_id_def stream_ctx_new_def
      recording_recv_exec_def chan_defs default_budget_def recv_budget_default_def recv_budget_new_def
      h3_config_default_def on_drained_def Let_def split: prod.splits option.splits)

lemma small_units: "\<not> (16384 :: usize) \<le> 1" "\<not> (1048576 :: usize) \<le> 1"
  by (simp_all add: word_le_nat_alt)

lemmas flood_simps = small_units feed_at drain_at default_budget_def recv_budget_default_def recv_budget_new_def admit_charge_def
  on_drained_def saturating_sub_def MAX_RECV_BUFFER_def DEFAULT_MAX_RECV_UNITS_def recv_state_default_def Let_def

section \<open>The tests pass\<close>

lemma stall_round:
  "offered < 8388608 \<Longrightarrow>
   stall_loop (Suc (Suc fuel)) (stall_full cs, offered, 1228800, pends) =
     stall_loop fuel (stall_full (cs @ [307200]), offered + 307200, 1228800, pends + 1)"
  by (simp add: stall_full_def flood_simps STALL_CHUNK_def)

lemma stall_rounds:
  "offered + k * 307200 < 8388608 + 307200 \<Longrightarrow>
   stall_loop (2 * k + fuel) (stall_full cs, offered, 1228800, pends) =
     stall_loop fuel (stall_full (cs @ replicate k 307200), offered + k * 307200, 1228800, pends + k)"
proof (induction k arbitrary: cs offered pends)
  case (Suc k)
  then have "stall_loop (2 * Suc k + fuel) (stall_full cs, offered, 1228800, pends) =
      stall_loop (2 * k + fuel) (stall_full (cs @ [307200]), offered + 307200, 1228800, pends + 1)"
    by (simp add: stall_round del: stall_loop.simps)
  also have "\<dots> = stall_loop fuel (stall_full ((cs @ [307200]) @ replicate k 307200),
      (offered + 307200) + k * 307200, 1228800, pends + 1 + k)"
    by (rule Suc.IH) (use Suc.prems in simp)
  finally show ?case by (simp add: add.assoc add.commute [of 307200] del: stall_loop.simps)
qed simp

lemma stall_fill:
  "stall_loop (Suc (Suc (Suc (Suc fuel)))) (rx_new 0, 0, 0, 0) = stall_loop fuel (stall_full [], 1228800, 1228800, 1)"
  by (simp add: rx_new_at stall_full_def flood_simps STALL_CHUNK_def)

lemma stalled_receive_is_bounded_passes: "test_stalled_receive_is_bounded"
proof -
  have "stall_loop 60 (rx_new 0, 0, 0, 0) = stall_loop (2 * 24 + 8) (stall_full [], 1228800, 1228800, 1)"
    using stall_fill [of 56] by simp
  also have "\<dots> = stall_loop 8 (stall_full (replicate 24 307200), 8601600, 1228800, 25)"
    using stall_rounds [of 1228800 24 8 "[]" 1] by simp
  also have "\<dots> = Some (stall_full (replicate 24 307200), 8601600, 1228800, 25)"
    using stall_loop.simps(2) [of 7] by (simp add: MAX_RECV_BUFFER_def)
  finally have loop: "stall_loop 60 (rx_new 0, 0, 0, 0) = Some (stall_full (replicate 24 307200), 8601600, 1228800, 25)" .
  have drain: "\<exists>st. drain_pend 10 (stall_full (replicate 24 307200)) = Some st \<and>
      completes_of st = replicate 24 307200 @ [307200]"
    using drain_pend.simps(2) [of 9] drain_pend.simps(2) [of 8]
    by (simp add: stall_full_def flood_simps STALL_CHUNK_def)
  then show ?thesis
    by (auto simp: test_stalled_receive_is_bounded_def loop STALL_CHUNK_def MAX_RECV_BUFFER_def passes_def list_all_iff Let_def)
qed

lemma race_at:
  "race_admit (rx_at sid q b cs) =
    (rx_at sid (q @ [vec_of 0xEE RACE_LEN]) (fst (admit_charge (of_nat RACE_LEN) True (default_budget b))) cs,
     if snd (admit_charge (of_nat RACE_LEN) True (default_budget b)) then Pend else Accepted)"
  by (simp add: race_admit_def rx_at_def rx_new_def rx_with_def RACE_LEN_def
      stream_ctx_channel_with_config_def stream_ctx_channel_pre_id_def stream_ctx_new_def admit_def publish_data_def
      chan_defs default_budget_def recv_budget_default_def recv_budget_new_def h3_config_default_def Let_def
      split: prod.splits)

lemma drain_all_data:
  "drain_one st = Some (st', d) \<Longrightarrow> drain_all (Suc fuel) n st = drain_all fuel (n + length d) st'"
  by (auto simp: drain_one_def split: prod.splits poll.splits result.splits option.splits)

lemma drain_all_empty:
  "\<exists>st. drain_all (Suc fuel) n (rx_at sid [] b cs) = Some (st, n) \<and> budget_of st = b \<and> completes_of st = cs"
  by (simp add: rx_poll_data_def poll_data_def poll_event_def drained_completion_def rx_at_def rx_new_def
      rx_with_def stream_ctx_channel_with_config_def stream_ctx_channel_pre_id_def stream_ctx_new_def chan_defs Let_def)

lemma recv_state_transition_no_underflow_no_lost_pend_passes: "test_recv_state_transition_no_underflow_no_lost_pend"
proof -
  let ?p = "vec_of 0 348160" and ?r = "vec_of 0xEE 204800"
  let ?b = "\<lambda>n u pk. \<lparr>buffered = n, units = u, pend_outstanding = False, pending_indication_len = 0, peak = pk, peak_units = 4\<rparr>"
  have d: "drain_one (rx_at 0 [?p, ?p, ?r] (?b 901120 3 pk) cs) = Some (rx_at 0 [?p, ?r] (?b 552960 2 pk) cs, ?p)"
    "drain_one (rx_at 0 [?p, ?r] (?b 552960 2 pk) cs) = Some (rx_at 0 [?r] (?b 204800 1 pk) cs, ?p)"
    "drain_one (rx_at 0 [?r] (?b 204800 1 pk) cs) = Some (rx_at 0 [] (?b 0 0 pk) cs, ?r)" for pk cs
    by (simp_all add: flood_simps)
  obtain st where st: "drain_all 2 1249280 (rx_at 0 [] (?b 0 0 1249280) [204800]) = Some (st, 1249280)"
    and v: "budget_of st = ?b 0 0 1249280" "completes_of st = [204800]"
    using drain_all_empty [of 1 1249280 0 "?b 0 0 1249280" "[204800]"] by (auto simp: numeral_2_eq_2)
  have "drain_all 5 348160 (rx_at 0 [?p, ?p, ?r] (?b 901120 3 1249280) [204800]) = Some (st, 1249280)"
    using drain_all_data [OF d(1), of 4 348160 1249280 "[204800]"] drain_all_data [OF d(2), of 3 696320 1249280 "[204800]"]
      drain_all_data [OF d(3), of 2 1044480 1249280 "[204800]"] st by simp
  then show ?thesis
    by (simp add: test_recv_state_transition_no_underflow_no_lost_pend_def passes_def pre_fill_def race_at rx_new_at flood_simps
        RACE_PRE_def RACE_LEN_def v)
qed

lemma feed_dropped:
  assumes "data \<noteq> []"
  shows "\<exists>st. feed_receive_result data False (rx_drop (rx_at sid q b cs)) = (st, Ok ()) \<and> budget_of st = b \<and>
    \<not> sx_receive (rx_c st)"
  using assms
  by (simp add: feed_receive_result_def rx_event_def cb_Receive_def rx_drop_def rx_at_def rx_new_def rx_with_def
      stream_ctx_channel_with_config_def stream_ctx_channel_pre_id_def stream_ctx_new_def admit_def publish_data_def
      take_receive_def chan_defs admit_charge_def Let_def split: prod.splits)

lemma dropped_frontend_rolls_back_recv_state_passes: "test_dropped_frontend_rolls_back_recv_state"
proof -
  let ?b = "\<lparr>buffered = 4096, units = 1, pend_outstanding = False, pending_indication_len = 0, peak = 4096, peak_units = 1\<rparr>"
  obtain st where "feed_receive_result (vec_of 0xAB 1048576) False (rx_drop (rx_at 0 [vec_of 0 4096] ?b [])) = (st, Ok ())"
    "budget_of st = ?b" "\<not> sx_receive (rx_c st)"
    using feed_dropped [of "vec_of 0xAB 1048576"] by fastforce
  then show ?thesis
    by (simp add: test_dropped_frontend_rolls_back_recv_state_def passes_def rx_new_at flood_simps)
qed

lemma peer_round_at:
  "(pk, u) \<in> {(0, 0), (2, 1)} \<Longrightarrow> peer_round i (rx_at sid [] (idle_state pk u) []) = Some (rx_at sid [] (idle_state 2 1) [])"
  by (auto simp: peer_round_def flood_simps idle_state_def)

lemma stalled_stream_does_not_affect_peer_stream_passes: "test_stalled_stream_does_not_affect_peer_stream"
  by (simp add: test_stalled_stream_does_not_affect_peer_stream_def passes_def rx_new_idle feed_at peer_round_at)
    (simp add: flood_simps idle_state_def)

lemma consume_cycle_at:
  "(pk, u) \<in> {(0, 0), (1, 1)} \<Longrightarrow>
   consume_cycles (Suc n) (rx_at sid [] (idle_state pk u) []) = consume_cycles n (rx_at sid [] (idle_state 1 1) [])"
  by (auto simp: flood_simps idle_state_def)

lemma consume_cycles_at: "consume_cycles n (rx_at sid [] (idle_state 1 1) []) = Some (rx_at sid [] (idle_state 1 1) [])"
  by (induction n) (simp_all add: consume_cycle_at del: consume_cycles.simps(2))

lemma admit_consume_cycles_are_leak_free_passes: "test_admit_consume_cycles_are_leak_free"
proof -
  have "consume_cycles 1000 (rx_new 0) = Some (rx_at 0 [] (idle_state 1 1) [])"
    using consume_cycle_at [of 0 0 999 0] by (simp add: rx_new_idle consume_cycles_at del: consume_cycles.simps)
  then show ?thesis by (simp add: test_admit_consume_cycles_are_leak_free_def passes_def idle_state_def)
qed

lemma of_nat_u64_less: "a < 2 ^ 64 \<Longrightarrow> b < 2 ^ 64 \<Longrightarrow> (of_nat a :: u64) < of_nat b \<longleftrightarrow> a < b"
  by (simp add: word_less_nat_alt unat_of_nat_u64)

lemma of_nat_u64_le: "a < 2 ^ 64 \<Longrightarrow> b < 2 ^ 64 \<Longrightarrow> (of_nat a :: u64) \<le> of_nat b \<longleftrightarrow> a \<le> b"
  by (simp add: word_le_nat_alt unat_of_nat_u64)

lemma frame_charge:
  assumes "0 < n" and "n * Suc k < 2 ^ 32" and "k < 2 ^ 32"
  shows "admit_charge (of_nat n) True (default_budget (frames_state n k)) =
    (if 1048576 \<le> n * Suc k \<or> 16384 \<le> Suc k
     then ((frames_state n (Suc k))\<lparr>pend_outstanding := True, pending_indication_len := of_nat n\<rparr>, True)
     else (frames_state n (Suc k), False))"
proof -
  have b: "of_nat (n * k) + of_nat n = (of_nat (n * Suc k) :: u64)" by (simp add: algebra_simps)
  have u: "of_nat k + 1 = (of_nat (Suc k) :: u64)" by simp
  have nk: "n * k < n * Suc k" using assms(1) by simp
  have big: "n * Suc k < 2 ^ 64" using assms(2) by (rule less_trans) simp
  from nk of_nat_u64_less [OF less_trans [OF nk big] big] have lt: "(of_nat (n * k) :: u64) < of_nat (n * Suc k)" by blast
  have lt': "(of_nat k :: u64) < of_nat (Suc k)"
    by (rule of_nat_u64_less [THEN iffD2]) (use assms(3) in simp_all)
  have cap: "(1048576 :: u64) \<le> of_nat (n * Suc k) \<longleftrightarrow> 1048576 \<le> n * Suc k"
    "(16384 :: u64) \<le> of_nat (Suc k) \<longleftrightarrow> 16384 \<le> Suc k"
    using of_nat_u64_le [of 1048576 "n * Suc k"] of_nat_u64_le [of 16384 "Suc k"] assms
    by (simp_all del: of_nat_Suc of_nat_mult mult_Suc_right)
  show ?thesis
    unfolding admit_charge_def frames_state_def default_budget_def recv_budget_default_def recv_budget_new_def
      MAX_RECV_BUFFER_def DEFAULT_MAX_RECV_UNITS_def Let_def
    by (simp add: b u lt lt' cap del: of_nat_Suc of_nat_mult mult_Suc_right)
qed

lemma frames_run:
  assumes "k \<le> 8191" and d: "d = vec_of 0x5A 128"
  shows "feed_until_pending (Suc (8191 - k)) d (feed_receive_result d False (rx_at 0 (replicate k d) (frames_state 128 k) [])) =
    Some (rx_at 0 (replicate 8192 d) ((frames_state 128 8192)\<lparr>pend_outstanding := True, pending_indication_len := 128\<rparr>) [])"
  using assms(1)
proof (induction rule: inc_induct)
  case base
  have "replicate 8191 d @ [d] = replicate 8192 d" using replicate_append_same [of 8191 d] replicate_Suc [of 8191 d] by simp
  with frame_charge [of 128 8191] show ?case by (simp add: feed_at d)
next
  case (step k)
  have e: "8191 - k = Suc (8191 - Suc k)" using step(2) by simp
  have "feed_receive_result d False (rx_at 0 (replicate k d) (frames_state 128 k) []) =
      (rx_at 0 (replicate (Suc k) d) (frames_state 128 (Suc k)) [], Ok ())"
    using frame_charge [of 128 k] step(2) by (simp add: feed_at d replicate_append_same)
  then show ?case using step(3) unfolding e by (simp del: replicate_Suc)
qed

lemma frames_at_or_above_128_bytes_bind_on_bytes_first_passes: "test_frames_at_or_above_128_bytes_bind_on_bytes_first"
proof -
  have "rx_new 0 = rx_at 0 (replicate 0 (vec_of 0x5A 128)) (frames_state 128 0) []"
    by (simp add: rx_new_idle idle_state_def frames_state_def)
  with frames_run [OF _ refl, of 0] show ?thesis
    by (simp add: test_frames_at_or_above_128_bytes_bind_on_bytes_first_def passes_def frames_state_def Let_def
        MAX_RECV_BUFFER_def DEFAULT_MAX_RECV_UNITS_def del: feed_until_pending.simps)
qed

lemma paced_fill_step:
  assumes "Suc k < 16384"
  shows "paced_loop (Suc fuel) (paced_fill k) = paced_loop fuel (paced_fill (Suc k))"
proof -
  have m: "max (of_nat k :: u64) (of_nat (Suc k)) = of_nat (Suc k)"
    by (rule max_absorb2) (use assms in \<open>simp add: of_nat_u64_le del: of_nat_Suc\<close>)
  have "feed_receive_result [0xAB] False (rx_at 0 (replicate k [0xAB]) (frames_state 1 k) []) =
      (rx_at 0 (replicate (Suc k) [0xAB]) (frames_state 1 (Suc k)) [], Ok ())"
    using frame_charge [of 1 k] assms by (simp add: feed_at replicate_append_same)
  then show ?thesis using assms
    by (simp add: paced_fill_def OFFER_TARGET_def frames_state_def m del: of_nat_Suc replicate_Suc)
qed

lemma paced_fill_steps: "k < 16384 \<Longrightarrow> paced_loop (k + fuel) (paced_fill 0) = paced_loop fuel (paced_fill k)"
proof (induction k arbitrary: fuel)
  case (Suc k)
  from Suc.IH [of "Suc fuel"] Suc.prems have "paced_loop (Suc k + fuel) (paced_fill 0) = paced_loop (Suc fuel) (paced_fill k)"
    by simp
  with paced_fill_step [OF Suc.prems] show ?case by simp
qed simp

lemma paced_cap: "paced_loop (Suc fuel) (paced_fill 16383) = paced_loop fuel (paced_full 0)"
proof -
  have "feed_receive_result [0xAB] False (rx_at 0 (replicate 16383 [0xAB]) (frames_state 1 16383) []) =
      (rx_at 0 ([0xAB] # replicate 16383 [0xAB]) ((frames_state 1 16384)\<lparr>pend_outstanding := True, pending_indication_len := 1\<rparr>) [],
       Err (status_new ref_status QUIC_STATUS_PENDING))"
    using frame_charge [of 1 16383] by (simp add: feed_at replicate_append_same)
  then show ?thesis by (simp add: paced_fill_def paced_full_def OFFER_TARGET_def frames_state_def)
qed

lemma paced_round:
  assumes "k < 83616"
  shows "paced_loop (Suc (Suc fuel)) (paced_full k) = paced_loop fuel (paced_full (Suc k))"
  using assms
  by (simp add: paced_full_def OFFER_TARGET_def drain_one_and_require_rearm_def flood_simps replicate_append_same)

lemma paced_rounds: "k \<le> 83616 \<Longrightarrow> paced_loop (2 * k + fuel) (paced_full 0) = paced_loop fuel (paced_full k)"
proof (induction k arbitrary: fuel)
  case (Suc k)
  from Suc.IH [of "Suc (Suc fuel)"] Suc.prems
  have "paced_loop (2 * Suc k + fuel) (paced_full 0) = paced_loop (Suc (Suc fuel)) (paced_full k)" by simp
  with paced_round [of k fuel] Suc.prems show ?case by (simp only: Suc_le_eq)
qed simp

lemma paced_tiny_frames_are_bounded_by_the_unit_cap_passes: "test_paced_tiny_frames_are_bounded_by_the_unit_cap"
proof -
  let ?start = "\<lparr>pc_st = rx_new 0, pc_offered = 0, pc_peak_units = 0, pc_peak_bytes = 0, pc_pends = 0, pc_completions = 0\<rparr>"
  have start: "?start = paced_fill 0" by (simp add: paced_fill_def rx_new_idle idle_state_def frames_state_def)
  have "paced_loop (2 * OFFER_TARGET) ?start = paced_loop (Suc 183616) (paced_fill 16383)"
    unfolding start using paced_fill_steps [of 16383 "Suc 183616"] by (simp add: OFFER_TARGET_def del: paced_loop.simps)
  also have "\<dots> = paced_loop (2 * 83616 + 16384) (paced_full 0)"
    unfolding paced_cap by simp
  also have "\<dots> = paced_loop (Suc 16383) (paced_full 83616)"
    using paced_rounds [of 83616 16384] by (simp del: paced_loop.simps)
  also have "\<dots> = Some (paced_full 83616)"
    unfolding paced_loop.simps(2) by (simp add: paced_full_def OFFER_TARGET_def)
  finally have loop: "paced_loop (2 * OFFER_TARGET) ?start = Some (paced_full 83616)" .
  have last: "drain_one_and_require_rearm (pc_st (paced_full 83616)) =
      Some (rx_at 0 (replicate 16383 [0xAB]) \<lparr>buffered = 16383, units = 16383, pend_outstanding = False,
        pending_indication_len = 0, peak = 16384, peak_units = 16384\<rparr> (replicate 83616 1 @ [1]))"
    by (simp add: drain_one_and_require_rearm_def paced_full_def flood_simps)
  show ?thesis
    unfolding test_paced_tiny_frames_are_bounded_by_the_unit_cap_def loop
    by (simp add: last passes_def)
      (simp add: paced_full_def OFFER_TARGET_def DEFAULT_MAX_RECV_UNITS_def MAX_RECV_BUFFER_def)
qed

lemma race_caps:
  assumes "m \<le> RACE_ITERS"
  shows "MAX_RECV_BUFFER \<le> of_nat (m * RACE_CHUNK) \<longleftrightarrow> 256 \<le> m" "DEFAULT_MAX_RECV_UNITS \<le> of_nat m \<longleftrightarrow> 16384 \<le> m"
  using of_nat_u64_le [of 1048576 "m * RACE_CHUNK"] of_nat_u64_le [of 16384 m] assms
  by (simp_all add: RACE_CHUNK_def RACE_ITERS_def MAX_RECV_BUFFER_def DEFAULT_MAX_RECV_UNITS_def del: of_nat_mult)

lemma race_ok_bound: "race_ok r \<Longrightarrow> length (rc_channel r) \<le> rc_written r"
  by (auto simp: race_ok_def RACE_CHUNK_def Let_def)

lemma race_writer_ok:
  assumes "race_ok r" and "rc_written r < RACE_ITERS"
  shows "race_ok (race_writer r)"
proof -
  let ?m = "length (rc_channel r)"
  have m: "Suc ?m \<le> RACE_ITERS" using race_ok_bound [OF assms(1)] assms(2) by simp
  have b: "of_nat (?m * RACE_CHUNK) + of_nat RACE_CHUNK = (of_nat (Suc ?m * RACE_CHUNK) :: u64)"
    "of_nat ?m + 1 = (of_nat (Suc ?m) :: u64)" by simp_all
  from assms show ?thesis
    by (simp add: race_ok_def race_writer_def admit_def admit_charge_def Let_def b race_caps [OF m] del: of_nat_Suc of_nat_mult mult_Suc)
      auto
qed

lemma race_reader_ok:
  assumes "race_ok r"
  shows "race_ok (race_reader r)"
proof (cases "rc_channel r")
  case Nil
  with assms show ?thesis by (simp add: race_reader_def)
next
  case (Cons len ch)
  let ?m = "length ch"
  from assms Cons have len: "len = RACE_CHUNK" by (simp add: race_ok_def Let_def)
  have m: "Suc ?m \<le> RACE_ITERS" using race_ok_bound [OF assms] assms Cons by (simp add: race_ok_def Let_def)
  then have m': "?m \<le> RACE_ITERS" by simp
  have b: "saturating_sub (of_nat (Suc ?m * RACE_CHUNK)) (of_nat RACE_CHUNK) = of_nat (?m * RACE_CHUNK)"
    using m of_nat_u64_le [of RACE_CHUNK "Suc ?m * RACE_CHUNK"] by (simp add: saturating_sub_def RACE_CHUNK_def RACE_ITERS_def)
  have u: "saturating_sub (of_nat (Suc ?m)) 1 = of_nat ?m"
    using m of_nat_u64_le [of 1 "Suc ?m"] by (simp add: saturating_sub_def RACE_ITERS_def)
  have caps: "of_nat (?m * RACE_CHUNK) < MAX_RECV_BUFFER \<longleftrightarrow> ?m < 256" "of_nat ?m < DEFAULT_MAX_RECV_UNITS \<longleftrightarrow> ?m < 16384"
    using race_caps [OF m'] by (simp_all only: not_le [symmetric])
  from assms show ?thesis
    by (simp add: race_ok_def race_reader_def on_drained_def Let_def Cons len b u caps del: of_nat_Suc of_nat_mult mult_Suc)
      auto
qed

lemma race_run_ok: "race_ok (race_run sched)"
proof -
  have run: "race_ok (fold race_step sched r)" if "race_ok r" for r
    using that by (induction sched arbitrary: r) (simp_all add: race_step_def race_writer_ok race_reader_ok)
  show ?thesis unfolding race_run_def
    by (rule run) (simp add: race_ok_def recv_budget_default_def recv_budget_new_def recv_state_default_def Let_def)
qed

lemma drain_before_pend_return_is_absorbed_passes: "test_drain_before_pend_return_is_absorbed sched"
  using race_run_ok [of sched]
  by (auto simp: test_drain_before_pend_return_is_absorbed_def race_ok_def passes_def Let_def)

end
