(* ===== verification/H3_Terminal_Tests.thy ===== *)
theory H3_Terminal_Tests
  imports H3_Scenario H3_Connection
begin

text \<open>
  The tests of \<open>terminal.rs\<close> (module \<open>connection_terminal\<close>), replayed on \<open>H3_Terminal\<close> and \<open>H3_Connection\<close>: the
  mapping of the connection events to h3 errors, the connect one-shot, the refinement and freeze rule of
  the connection slot and the drain and fail-fast policy of the accept frontends.
\<close>

section \<open>The fixture\<close>

type_synonym ref_conn_st =
  "((unit, status) result cell, unit cell, ref_peer_stream option fifo, unit) conn_st"

definition t_conn_ctx :: ref_conn_st where
  "t_conn_ctx = fst (conn_ctx_channel ref_conn_env h3_config_default ())"

text \<open>\<open>assert!(connection_callback(..).is_ok())\<close> with a fresh ownership token.\<close>

definition t_conn_callback :: "conn_event \<Rightarrow> ref_conn_st \<Rightarrow> ref_conn_st option" where
  "t_conn_callback ev st =
     (let ((st, own), r) = connection_callback ref_conn_env ref_env ref_stream_id () ev (st, False)
      in if is_ok r then Some st else None)"

definition map_event :: "conn_event \<Rightarrow> connection_error_incoming option" where
  "map_event ev = do {st \<leftarrow> t_conn_callback ev t_conn_ctx; Some (snd (observe_terminal (cw_terminal (snd st))))}"

definition connect_result :: "ref_conn_st \<Rightarrow> (unit, status) result option" where
  "connect_result st =
     (case oneshot_poll (ce_connected ref_conn_env) 0 (cw_connected (snd st)) of
        (_, PollReady (Some r)) \<Rightarrow> Some r | _ \<Rightarrow> None)"

text \<open>What the waiter of a failed connect reads.\<close>

definition connect_error :: "ref_conn_st \<Rightarrow> status option" where
  "connect_error st = do {r \<leftarrow> connect_result st; case r of Err status \<Rightarrow> Some status | Ok _ \<Rightarrow> None}"

text \<open>\<open>Display\<close> of a status is the package's; the tests look at the text around it.\<close>

definition t_display :: "dyn_error \<Rightarrow> string" where
  "t_display e = display_error (\<lambda>_. ''status'') e"

section \<open>Mapping of the events\<close>

definition test_peer_application_close_maps_to_application_close_with_code :: bool where
  "test_peer_application_close_maps_to_application_close_with_code = passes (do {
     err \<leftarrow> map_event (CE_ShutdownInitiatedByPeer 42);
     check (err = ApplicationClose 42)})"

definition test_idle_timeout_maps_to_timeout :: bool where
  "test_idle_timeout_maps_to_timeout = passes (do {
     err \<leftarrow> map_event (CE_ShutdownInitiatedByTransport (status_new ref_status QUIC_STATUS_CONNECTION_IDLE) 0);
     check (err = CE_Timeout)})"

definition test_connection_timeout_maps_to_timeout :: bool where
  "test_connection_timeout_maps_to_timeout = passes (do {
     err \<leftarrow> map_event (CE_ShutdownInitiatedByTransport (status_new ref_status QUIC_STATUS_CONNECTION_TIMEOUT) 0);
     check (err = CE_Timeout)})"

definition test_other_transport_failure_maps_to_undefined_transport_error :: bool where
  "test_other_transport_failure_maps_to_undefined_transport_error = passes (do {
     err \<leftarrow> map_event (CE_ShutdownInitiatedByTransport (status_new ref_status QUIC_STATUS_INTERNAL_ERROR) 7);
     check (case err of Undefined e \<Rightarrow> contains ''transport error_code 7'' (t_display e) | _ \<Rightarrow> False)})"

definition test_local_close_maps_to_undefined_local_close :: bool where
  "test_local_close_maps_to_undefined_local_close = passes (do {
     err \<leftarrow> map_event CE_ShutdownComplete;
     check (case err of Undefined e \<Rightarrow> contains ''locally'' (t_display e) | _ \<Rightarrow> False)})"

definition test_channel_closed_without_reason_maps_to_internal_error :: bool where
  "test_channel_closed_without_reason_maps_to_internal_error = passes (
     check (case snd (observe_terminal conn_terminal_default) of
       InternalError msg \<Rightarrow> contains ''without a terminal reason'' msg | _ \<Rightarrow> False))"

section \<open>The connect one-shot\<close>

definition test_connected_resolves_ok :: bool where
  "test_connected_resolves_ok = passes (do {
     st \<leftarrow> t_conn_callback CE_Connected t_conn_ctx;
     r \<leftarrow> connect_result st;
     check (is_ok r)})"

definition test_connected_waiter_resolves_with_transport_status_on_early_shutdown :: bool where
  "test_connected_waiter_resolves_with_transport_status_on_early_shutdown = passes (do {
     let failure = status_new ref_status QUIC_STATUS_HANDSHAKE_FAILURE;
     st \<leftarrow> t_conn_callback (CE_ShutdownInitiatedByTransport failure 0) t_conn_ctx;
     err \<leftarrow> connect_error st;
     check (err = failure)})"

definition test_connected_waiter_resolves_on_peer_shutdown_before_connected :: bool where
  "test_connected_waiter_resolves_on_peer_shutdown_before_connected = passes (do {
     st \<leftarrow> t_conn_callback (CE_ShutdownInitiatedByPeer 9) t_conn_ctx;
     err \<leftarrow> connect_error st;
     check (try_as_status_code ref_status err = Some QUIC_STATUS_ABORTED);
     check (snd (observe_terminal (cw_terminal (snd st))) = ApplicationClose 9)})"

definition test_connected_waiter_resolves_on_bare_shutdown_complete :: bool where
  "test_connected_waiter_resolves_on_bare_shutdown_complete = passes (do {
     st \<leftarrow> t_conn_callback CE_ShutdownComplete t_conn_ctx;
     err \<leftarrow> connect_error st;
     check (try_as_status_code ref_status err = Some QUIC_STATUS_ABORTED)})"

section \<open>The slot\<close>

definition test_classify_transport_table :: bool where
  "test_classify_transport_table = passes (do {
     check (classify_transport ref_status (status_new ref_status QUIC_STATUS_CONNECTION_IDLE) 0 = CT_Timeout);
     check (classify_transport ref_status (status_new ref_status QUIC_STATUS_CONNECTION_TIMEOUT) 0 = CT_Timeout);
     check (case classify_transport ref_status (status_new ref_status QUIC_STATUS_TLS_ERROR) 3 of
         CT_Transport _ error_code \<Rightarrow> error_code = 3 | _ \<Rightarrow> False)})"

definition test_provisional_local_close_refines_to_specific_before_observation :: bool where
  "test_provisional_local_close_refines_to_specific_before_observation = passes (do {
     let st = ct_record CT_LocalClose conn_terminal_default;
     let st = ct_record (CT_PeerApplication 7) st;
     let (st, t) = ct_observe st;
     check (t = Some (CT_PeerApplication 7));
     let st = ct_record CT_Timeout st;
     check (snd (ct_observe st) = Some (CT_PeerApplication 7))})"

definition test_specific_cause_does_not_regress_to_provisional :: bool where
  "test_specific_cause_does_not_regress_to_provisional = passes (do {
     let st = ct_record CT_Timeout conn_terminal_default;
     let st = ct_record CT_LocalClose st;
     check (snd (ct_observe st) = Some CT_Timeout)})"

definition test_first_specific_cause_wins_over_later_specific :: bool where
  "test_first_specific_cause_wins_over_later_specific = passes (do {
     let st = ct_record (CT_PeerApplication 1) conn_terminal_default;
     let st = ct_record CT_Timeout st;
     check (snd (ct_observe st) = Some (CT_PeerApplication 1))})"

definition test_refinement_frozen_by_observation_even_for_provisional :: bool where
  "test_refinement_frozen_by_observation_even_for_provisional = passes (do {
     let st = ct_record CT_LocalClose conn_terminal_default;
     let (st, t) = ct_observe st;
     check (t = Some CT_LocalClose);
     let st = ct_record (CT_PeerApplication 3) st;
     check (snd (ct_observe st) = Some CT_LocalClose)})"

definition test_normal_shutdown_drains_before_reporting_terminal :: bool where
  "test_normal_shutdown_drains_before_reporting_terminal = passes (do {
     let slot = record_conn_terminal (CT_PeerApplication 5) conn_terminal_default;
     let (slot, e) = fail_fast_terminal slot;
     check (e = None);
     check (snd (observe_terminal slot) = ApplicationClose 5)})"

definition test_internal_terminal_fails_fast_ahead_of_queued_streams :: bool where
  "test_internal_terminal_fails_fast_ahead_of_queued_streams = passes (do {
     let slot = record_conn_terminal (CT_Internal ''boom'') conn_terminal_default;
     check (snd (fail_fast_terminal slot) = Some (InternalError ''boom''))})"

definition test_callback_records_local_close_provisionally_then_refines :: bool where
  "test_callback_records_local_close_provisionally_then_refines = passes (do {
     let st = conn_record CT_LocalClose t_conn_ctx;
     st \<leftarrow> t_conn_callback (CE_ShutdownInitiatedByPeer 11) st;
     check (snd (observe_terminal (cw_terminal (snd st))) = ApplicationClose 11)})"

definition test_accept_delivering_a_cause_commits_and_locks_identity :: bool where
  "test_accept_delivering_a_cause_commits_and_locks_identity = passes (do {
     let slot = record_conn_terminal (CT_PeerApplication 9) conn_terminal_default;
     let (slot, e) = observe_terminal slot;
     check (e = ApplicationClose 9);
     let slot = record_conn_terminal (CT_PeerApplication 7) slot;
     check (snd (observe_terminal slot) = ApplicationClose 9)})"

definition test_accept_empty_slot_non_delivery_does_not_commit :: bool where
  "test_accept_empty_slot_non_delivery_does_not_commit = passes (do {
     let (slot, e) = observe_terminal conn_terminal_default;
     check (case e of InternalError msg \<Rightarrow> contains ''without a terminal reason'' msg | _ \<Rightarrow> False);
     let slot = record_conn_terminal (CT_PeerApplication 9) slot;
     check (snd (observe_terminal slot) = ApplicationClose 9)})"

section \<open>The tests pass\<close>

lemma peer_application_close_maps_to_application_close_with_code_passes: "test_peer_application_close_maps_to_application_close_with_code"
  by code_simp

lemma idle_timeout_maps_to_timeout_passes: "test_idle_timeout_maps_to_timeout"
  by code_simp

lemma connection_timeout_maps_to_timeout_passes: "test_connection_timeout_maps_to_timeout"
  by code_simp

lemma other_transport_failure_maps_to_undefined_transport_error_passes: "test_other_transport_failure_maps_to_undefined_transport_error"
  by code_simp

lemma local_close_maps_to_undefined_local_close_passes: "test_local_close_maps_to_undefined_local_close"
  by code_simp

lemma channel_closed_without_reason_maps_to_internal_error_passes: "test_channel_closed_without_reason_maps_to_internal_error"
  by code_simp

lemma connected_resolves_ok_passes: "test_connected_resolves_ok"
  by code_simp

lemma connected_waiter_resolves_with_transport_status_on_early_shutdown_passes: "test_connected_waiter_resolves_with_transport_status_on_early_shutdown"
  by code_simp

lemma connected_waiter_resolves_on_peer_shutdown_before_connected_passes: "test_connected_waiter_resolves_on_peer_shutdown_before_connected"
  by code_simp

lemma connected_waiter_resolves_on_bare_shutdown_complete_passes: "test_connected_waiter_resolves_on_bare_shutdown_complete"
  by code_simp

lemma classify_transport_table_passes: "test_classify_transport_table"
  by code_simp

lemma provisional_local_close_refines_to_specific_before_observation_passes: "test_provisional_local_close_refines_to_specific_before_observation"
  by code_simp

lemma specific_cause_does_not_regress_to_provisional_passes: "test_specific_cause_does_not_regress_to_provisional"
  by code_simp

lemma first_specific_cause_wins_over_later_specific_passes: "test_first_specific_cause_wins_over_later_specific"
  by code_simp

lemma refinement_frozen_by_observation_even_for_provisional_passes: "test_refinement_frozen_by_observation_even_for_provisional"
  by code_simp

lemma normal_shutdown_drains_before_reporting_terminal_passes: "test_normal_shutdown_drains_before_reporting_terminal"
  by code_simp

lemma internal_terminal_fails_fast_ahead_of_queued_streams_passes: "test_internal_terminal_fails_fast_ahead_of_queued_streams"
  by code_simp

lemma callback_records_local_close_provisionally_then_refines_passes: "test_callback_records_local_close_provisionally_then_refines"
  by code_simp

lemma accept_delivering_a_cause_commits_and_locks_identity_passes: "test_accept_delivering_a_cause_commits_and_locks_identity"
  by code_simp

lemma accept_empty_slot_non_delivery_does_not_commit_passes: "test_accept_empty_slot_non_delivery_does_not_commit"
  by code_simp

end
