(* ===== verification/H3_Opener.thy ===== *)
theory H3_Opener
  imports H3_Connection
begin

text \<open>
  The stream opener (\<open>opener.rs\<close>) with its open seam (\<open>OpenExec\<close> of \<open>stream.rs\<close>) and the
  delegations of \<open>Connection\<close> to it.

  An opening stream is the pair of the callback side of the new stream and what the opener holds of
  it. The opener's own view of the connection is the record \<open>open_world\<close>: the shared terminal slot and
  the native library. The open seam acts on that whole record, so a shutdown that races the open is a
  seam that changes the slot.
\<close>

section \<open>State\<close>

type_synonym ('o, 's, 'r, 'm) in_flight = "('o, 's, 'r, 'm) stream_st \<times> opening_stream"

record 'n open_world =
  ow_slot :: conn_terminal_state
  ow_native :: 'n

record 'p stream_opener =
  so_conn :: conn_handle
  so_bidi :: "'p option"
  so_uni :: "'p option"

record ('p, 'w) open_exec =
  submit_open_start :: "conn_handle \<Rightarrow> bool \<Rightarrow> 'w \<Rightarrow> 'w \<times> ('p, status) result"
  submit_conn_shutdown :: "conn_handle \<Rightarrow> u64 \<Rightarrow> 'w \<Rightarrow> 'w"
  drop_opening :: "'p \<Rightarrow> 'w \<Rightarrow> 'w"

text \<open>
  The production seam. Dropping an opening stream drops the last reference to its native stream,
  which closes it.
\<close>

definition stream_open_executor ::
  "('o, 's, 'r) stream_env \<Rightarrow> 'n native_open \<Rightarrow> 'n native_conn \<Rightarrow> (('o, 's, 'r, 'n) in_flight, 'n open_world) open_exec" where
  "stream_open_executor E NO NC =
     \<lparr>submit_open_start = (\<lambda>conn uni w.
        let (n, r) = open_and_start E NO (ow_slot w) (ch_config conn) uni (ow_native w)
        in (w\<lparr>ow_native := n\<rparr>, r)),
      submit_conn_shutdown = (\<lambda>conn code w.
        w\<lparr>ow_native := nc_shutdown NC CONNECTION_SHUTDOWN_NONE code (ow_native w)\<rparr>),
      drop_opening = (\<lambda>p w. w\<lparr>ow_native := no_close NO (ow_native w)\<rparr>)\<rparr>"

definition stream_opener_new :: "conn_handle \<Rightarrow> 'p stream_opener" where
  "stream_opener_new conn = \<lparr>so_conn = conn, so_bidi = None, so_uni = None\<rparr>"

text \<open>An opening stream in flight is not shared with a clone.\<close>

definition stream_opener_clone :: "'p stream_opener \<Rightarrow> 'p stream_opener" where
  "stream_opener_clone self = \<lparr>so_conn = so_conn self, so_bidi = None, so_uni = None\<rparr>"

section \<open>Classification of a start outcome\<close>

definition stream_open_conn_error :: "conn_terminal_state \<Rightarrow> conn_terminal_state \<times> connection_error_incoming" where
  "stream_open_conn_error slot =
     (case commit_conn slot of
        (slot, Some reason) \<Rightarrow> (slot, convert_conn reason)
      | (slot, None) \<Rightarrow> (slot, InternalError ''stream start cancelled without a terminal reason''))"

text \<open>A failed open or start: a published connection cause is preferred to the raw status.\<close>

definition prefer_terminal :: "status \<Rightarrow> conn_terminal_state \<Rightarrow> conn_terminal_state \<times> stream_error_incoming" where
  "prefer_terminal status slot =
     (case commit_conn slot of
        (slot, Some reason) \<Rightarrow> (slot, ConnectionErrorIncoming (convert_conn reason))
      | (slot, None) \<Rightarrow> (slot, Unknown (StatusError status)))"

definition classify_start_outcome ::
  "(u64 \<Rightarrow> 'i option) \<Rightarrow> (u64, status) result \<Rightarrow> conn_terminal_state \<Rightarrow>
   conn_terminal_state \<times> ('i, stream_error_incoming) result" where
  "classify_start_outcome try_from raw slot =
     (case raw of
        Err status \<Rightarrow> (let (slot, e) = prefer_terminal status slot in (slot, Err e))
      | Ok raw_id \<Rightarrow>
          (slot, case validate_stream_id try_from raw_id of
             Some sid \<Rightarrow> Ok sid
           | None \<Rightarrow> Err (ConnectionErrorIncoming (InternalError ''local stream ID is invalid''))))"

section \<open>Opening\<close>

text \<open>Steps 3 and 4 of \<open>poll_open_inner\<close>: await the start of the stream in flight and classify it.\<close>

definition poll_start ::
  "('o, 's, 'r) stream_env \<Rightarrow> (u64 \<Rightarrow> 'i option) \<Rightarrow> (('o, 's, 'r, 'm) in_flight, 'n open_world) open_exec \<Rightarrow> waker \<Rightarrow>
   ('o, 's, 'r, 'm) in_flight \<Rightarrow> 'n open_world \<Rightarrow>
   (('o, 's, 'r, 'm) in_flight option \<times> 'n open_world) \<times>
   (('o, 's, 'r, 'm) stream_st \<times> 'i h3_stream, stream_error_incoming) result poll" where
  "poll_start E try_from X cx p w =
     (let ((c, sw), os) = p;
          (ch, polled) = oneshot_poll (se_start E) cx (w_start sw);
          sw = sw\<lparr>w_start := ch\<rparr>;
          p = ((c, sw), os)
      in case polled of
           PollPending \<Rightarrow> ((Some p, w), PollPending)
         | PollReady None \<Rightarrow>
             (let w = drop_opening X p w;
                  (slot, e) = stream_open_conn_error (ow_slot w)
              in ((None, w\<lparr>ow_slot := slot\<rparr>), PollReady (Err (ConnectionErrorIncoming e))))
         | PollReady (Some raw) \<Rightarrow>
             (let (slot, r) = classify_start_outcome try_from raw (ow_slot w); w = w\<lparr>ow_slot := slot\<rparr> in
              case r of
                Ok sid \<Rightarrow> ((None, w), PollReady (Ok ((c, sw), finalize os sid)))
              | Err e \<Rightarrow> ((None, drop_opening X p w), PollReady (Err e))))"

definition drop_holder :: "('p, 'w) open_exec \<Rightarrow> 'p option \<Rightarrow> 'w \<Rightarrow> 'w" where
  "drop_holder X holder w = (case holder of Some p \<Rightarrow> drop_opening X p w | None \<Rightarrow> w)"

definition poll_open_inner ::
  "('o, 's, 'r) stream_env \<Rightarrow> (u64 \<Rightarrow> 'i option) \<Rightarrow> (('o, 's, 'r, 'm) in_flight, 'n open_world) open_exec \<Rightarrow>
   conn_handle \<Rightarrow> bool \<Rightarrow> waker \<Rightarrow> ('o, 's, 'r, 'm) in_flight option \<times> 'n open_world \<Rightarrow>
   (('o, 's, 'r, 'm) in_flight option \<times> 'n open_world) \<times>
   (('o, 's, 'r, 'm) stream_st \<times> 'i h3_stream, stream_error_incoming) result poll" where
  "poll_open_inner E try_from X conn uni cx hw =
     (let (holder, w) = hw; (slot, reason) = commit_conn (ow_slot w); w = w\<lparr>ow_slot := slot\<rparr> in
      case reason of
        Some t \<Rightarrow> ((None, drop_holder X holder w), PollReady (Err (ConnectionErrorIncoming (convert_conn t))))
      | None \<Rightarrow>
          (case holder of
             Some p \<Rightarrow> poll_start E try_from X cx p w
           | None \<Rightarrow>
               (case submit_open_start X conn uni w of
                  (w, Ok p) \<Rightarrow> poll_start E try_from X cx p w
                | (w, Err status) \<Rightarrow>
                    (let (slot, e) = prefer_terminal status (ow_slot w)
                     in ((None, w\<lparr>ow_slot := slot\<rparr>), PollReady (Err e))))))"

definition poll_open_bidi ::
  "('o, 's, 'r) stream_env \<Rightarrow> (u64 \<Rightarrow> 'i option) \<Rightarrow> (('o, 's, 'r, 'm) in_flight, 'n open_world) open_exec \<Rightarrow> waker \<Rightarrow>
   ('o, 's, 'r, 'm) in_flight stream_opener \<times> 'n open_world \<Rightarrow>
   (('o, 's, 'r, 'm) in_flight stream_opener \<times> 'n open_world) \<times>
   (('o, 's, 'r, 'm) stream_st \<times> 'i h3_stream, stream_error_incoming) result poll" where
  "poll_open_bidi E try_from X cx sw =
     (let (self, w) = sw;
          ((holder, w), r) = poll_open_inner E try_from X (so_conn self) False cx (so_bidi self, w)
      in ((self\<lparr>so_bidi := holder\<rparr>, w), r))"

text \<open>Dropping the receive half of a stream drops the receiving end of its event channel.\<close>

definition drop_recv_half :: "('o, 's, 'r) stream_env \<Rightarrow> ('o, 's, 'r, 'm) stream_st \<Rightarrow> ('o, 's, 'r, 'm) stream_st" where
  "drop_recv_half E st = (let (c, w) = st in (c, w\<lparr>w_recv := mpsc_drop_rx (se_recv E) (w_recv w)\<rparr>))"

definition poll_open_send ::
  "('o, 's, 'r) stream_env \<Rightarrow> (u64 \<Rightarrow> 'i option) \<Rightarrow> (('o, 's, 'r, 'm) in_flight, 'n open_world) open_exec \<Rightarrow> waker \<Rightarrow>
   ('o, 's, 'r, 'm) in_flight stream_opener \<times> 'n open_world \<Rightarrow>
   (('o, 's, 'r, 'm) in_flight stream_opener \<times> 'n open_world) \<times>
   (('o, 's, 'r, 'm) stream_st \<times> 'i send_stream_receive_ctx, stream_error_incoming) result poll" where
  "poll_open_send E try_from X cx sw =
     (let (self, w) = sw;
          ((holder, w), r) = poll_open_inner E try_from X (so_conn self) True cx (so_uni self, w)
      in ((self\<lparr>so_uni := holder\<rparr>, w), poll_map (result_map (\<lambda>(st, h3). (drop_recv_half E st, h3_send h3))) r))"

definition close ::
  "('p, 'n open_world) open_exec \<Rightarrow> u64 \<Rightarrow> 'p stream_opener \<times> 'n open_world \<Rightarrow> 'p stream_opener \<times> 'n open_world" where
  "close X code sw =
     (let (self, w) = sw; w = w\<lparr>ow_slot := record_conn_terminal CT_LocalClose (ow_slot w)\<rparr>
      in (self, submit_conn_shutdown X (so_conn self) (clamp_application_code code) w))"

section \<open>The connection's delegations\<close>

text \<open>A connection owns one opener and hands out further ones over the same handle.\<close>

record 'p connection =
  cn_conn :: conn_handle
  cn_ctx :: conn_ctx_receiver
  cn_opener :: "'p stream_opener"

definition connection_new :: "conn_handle \<Rightarrow> conn_ctx_receiver \<Rightarrow> 'p connection" where
  "connection_new conn crx = \<lparr>cn_conn = conn, cn_ctx = crx, cn_opener = stream_opener_new conn\<rparr>"

definition opener :: "'p connection \<Rightarrow> 'p stream_opener" where
  "opener self = stream_opener_new (cn_conn self)"

definition conn_poll_open_bidi ::
  "('o, 's, 'r) stream_env \<Rightarrow> (u64 \<Rightarrow> 'i option) \<Rightarrow> (('o, 's, 'r, 'm) in_flight, 'n open_world) open_exec \<Rightarrow> waker \<Rightarrow>
   ('o, 's, 'r, 'm) in_flight connection \<times> 'n open_world \<Rightarrow>
   (('o, 's, 'r, 'm) in_flight connection \<times> 'n open_world) \<times>
   (('o, 's, 'r, 'm) stream_st \<times> 'i h3_stream, stream_error_incoming) result poll" where
  "conn_poll_open_bidi E try_from X cx cw =
     (let (self, w) = cw; ((so, w), r) = poll_open_bidi E try_from X cx (cn_opener self, w)
      in ((self\<lparr>cn_opener := so\<rparr>, w), r))"

definition conn_poll_open_send ::
  "('o, 's, 'r) stream_env \<Rightarrow> (u64 \<Rightarrow> 'i option) \<Rightarrow> (('o, 's, 'r, 'm) in_flight, 'n open_world) open_exec \<Rightarrow> waker \<Rightarrow>
   ('o, 's, 'r, 'm) in_flight connection \<times> 'n open_world \<Rightarrow>
   (('o, 's, 'r, 'm) in_flight connection \<times> 'n open_world) \<times>
   (('o, 's, 'r, 'm) stream_st \<times> 'i send_stream_receive_ctx, stream_error_incoming) result poll" where
  "conn_poll_open_send E try_from X cx cw =
     (let (self, w) = cw; ((so, w), r) = poll_open_send E try_from X cx (cn_opener self, w)
      in ((self\<lparr>cn_opener := so\<rparr>, w), r))"

definition conn_close ::
  "('p, 'n open_world) open_exec \<Rightarrow> u64 \<Rightarrow> 'p connection \<times> 'n open_world \<Rightarrow> 'p connection \<times> 'n open_world" where
  "conn_close X code cw =
     (let (self, w) = cw; (so, w) = close X code (cn_opener self, w) in (self\<lparr>cn_opener := so\<rparr>, w))"

section \<open>Specification vocabulary\<close>

definition held :: "'p option \<Rightarrow> int" where
  "held holder = (if holder = None then 0 else 1)"

fun delivered :: "('a, 'e) result poll \<Rightarrow> int" where
  "delivered (PollReady (Ok _)) = 1"
| "delivered _ = 0"

text \<open>
  The interleavings of an opener with the callbacks of the streams it holds and with the causes
  recorded on the connection; \<open>k\<close> counts the streams handed to the caller.
\<close>

inductive opener_sys ::
  "('o, 's, 'r) stream_env \<Rightarrow> (u64 \<Rightarrow> 'i option) \<Rightarrow> 'n native_open \<Rightarrow> 'n native_conn \<Rightarrow> 'n \<Rightarrow>
   ('o, 's, 'r, 'n) in_flight stream_opener \<Rightarrow> 'n open_world \<Rightarrow> int \<Rightarrow> bool"
  for E try_from NO NC n0 where
  os_new: "opener_sys E try_from NO NC n0 (stream_opener_new conn) \<lparr>ow_slot = conn_terminal_default, ow_native = n0\<rparr> 0"
| os_bidi: "opener_sys E try_from NO NC n0 so w k \<Longrightarrow>
    poll_open_bidi E try_from (stream_open_executor E NO NC) cx (so, w) = ((so', w'), r) \<Longrightarrow>
    opener_sys E try_from NO NC n0 so' w' (k + delivered r)"
| os_send: "opener_sys E try_from NO NC n0 so w k \<Longrightarrow>
    poll_open_send E try_from (stream_open_executor E NO NC) cx (so, w) = ((so', w'), r) \<Longrightarrow>
    opener_sys E try_from NO NC n0 so' w' (k + delivered r)"
| os_close: "opener_sys E try_from NO NC n0 so w k \<Longrightarrow>
    close (stream_open_executor E NO NC) code (so, w) = (so', w') \<Longrightarrow> opener_sys E try_from NO NC n0 so' w' k"
| os_cb_bidi: "opener_sys E try_from NO NC n0 so w k \<Longrightarrow> so_bidi so = Some (st, os) \<Longrightarrow>
    stream_callback E ev st = (st', res) \<Longrightarrow> opener_sys E try_from NO NC n0 (so\<lparr>so_bidi := Some (st', os)\<rparr>) w k"
| os_cb_uni: "opener_sys E try_from NO NC n0 so w k \<Longrightarrow> so_uni so = Some (st, os) \<Longrightarrow>
    stream_callback E ev st = (st', res) \<Longrightarrow> opener_sys E try_from NO NC n0 (so\<lparr>so_uni := Some (st', os)\<rparr>) w k"
| os_record: "opener_sys E try_from NO NC n0 so w k \<Longrightarrow>
    opener_sys E try_from NO NC n0 so (w\<lparr>ow_slot := record_conn_terminal t (ow_slot w)\<rparr>) k"

text \<open>A native library that counts its live streams and opens every stream asked for.\<close>

definition count_open :: "int native_open" where
  "count_open = \<lparr>no_open = (\<lambda>_ n. (n + 1, Ok ())), no_start = (\<lambda>n. (n, Ok ())), no_close = (\<lambda>n. n - 1)\<rparr>"

definition count_conn :: "int native_conn" where
  "count_conn = \<lparr>nc_open = (\<lambda>n. (n, Ok ())), nc_start = (\<lambda>n. (n, Ok ())), nc_close = (\<lambda>n. n),
     nc_shutdown = (\<lambda>_ _ n. n)\<rparr>"

section \<open>Accounting of native streams\<close>

lemma delivered_map [simp]: "delivered (poll_map (result_map f) r) = delivered r"
  by (cases r rule: delivered.cases) simp_all

text \<open>
  What the adapter relies on: a successful open creates one native stream, a failed one none, a close
  ends one, and starting a stream or shutting the connection down neither creates nor ends any.
\<close>

locale native_streams =
  fixes NO :: "'n native_open" and NC :: "'n native_conn" and live :: "'n \<Rightarrow> int"
  assumes open_ok: "no_open NO f n = (n', Ok u) \<Longrightarrow> live n' = live n + 1"
    and open_err: "no_open NO f n = (n', Err e) \<Longrightarrow> live n' = live n"
    and start_live: "no_start NO n = (n', r) \<Longrightarrow> live n' = live n"
    and close_live: "live (no_close NO n) = live n - 1"
    and shutdown_live: "live (nc_shutdown NC flags code n) = live n"
begin

lemma open_and_start_live:
  assumes "open_and_start E NO slot cfg uni n = (n', r)"
  shows "live n' = live n + (if is_ok r then 1 else 0)"
  using assms
  by (auto simp: open_and_start_def close_live split: prod.splits result.splits dest!: open_ok open_err start_live)

lemma submit_open_start_live:
  assumes "submit_open_start (stream_open_executor E NO NC) conn uni w = (w', r)"
  shows "live (ow_native w') = live (ow_native w) + (if is_ok r then 1 else 0)"
  using assms
  by (auto simp: stream_open_executor_def split: prod.splits dest!: open_and_start_live)

lemma drop_opening_live:
  "live (ow_native (drop_opening (stream_open_executor E NO NC) p w)) = live (ow_native w) - 1"
  by (simp add: stream_open_executor_def close_live)

lemma poll_start_live:
  assumes "poll_start E try_from (stream_open_executor E NO NC) cx p w = ((holder', w'), r)"
  shows "live (ow_native w') + 1 = live (ow_native w) + held holder' + delivered r"
  using assms
  by (auto simp: poll_start_def Let_def held_def drop_opening_live split: prod.splits poll.splits option.splits result.splits)

lemma poll_open_live:
  assumes "poll_open_inner E try_from (stream_open_executor E NO NC) conn uni cx (holder, w) = ((holder', w'), r)"
  shows "live (ow_native w') + held holder = live (ow_native w) + held holder' + delivered r"
proof (cases "ct_terminal (ow_slot w)")
  case (Some t)
  with assms show ?thesis
    by (cases holder) (auto simp: poll_open_inner_def Let_def slot_simps drop_holder_def held_def drop_opening_live)
next
  case None
  show ?thesis
  proof (cases holder)
    case (Some p)
    with assms None poll_start_live [of E try_from cx p w holder' w' r] show ?thesis
      by (simp add: poll_open_inner_def slot_simps held_def)
  next
    case Nil: None
    obtain w1 res where sub: "submit_open_start (stream_open_executor E NO NC) conn uni w = (w1, res)" by fastforce
    note live = submit_open_start_live [OF sub]
    show ?thesis
    proof (cases res)
      case (Ok p)
      with assms None Nil sub live poll_start_live [of E try_from cx p w1 holder' w' r] show ?thesis
        by (simp add: poll_open_inner_def slot_simps held_def)
    next
      case (Err e)
      with assms None Nil sub live show ?thesis
        by (auto simp: poll_open_inner_def slot_simps held_def split: prod.splits)
    qed
  qed
qed

lemma opener_sys_live:
  assumes "opener_sys E try_from NO NC n0 so w k"
  shows "live (ow_native w) = live n0 + k + held (so_bidi so) + held (so_uni so)"
  using assms
proof (induction rule: opener_sys.induct)
  case (os_bidi so w k cx so' w' r)
  then show ?case
    by (auto simp: poll_open_bidi_def split: prod.splits dest!: poll_open_live)
next
  case (os_send so w k cx so' w' r)
  obtain h w1 r1 where p: "poll_open_inner E try_from (stream_open_executor E NO NC) (so_conn so) True cx (so_uni so, w) =
    ((h, w1), r1)" by (metis prod.exhaust)
  with os_send p poll_open_live [OF p] show ?case by (auto simp: poll_open_send_def)
next
  case (os_close so w k code so' w')
  then show ?case by (auto simp: close_def Let_def stream_open_executor_def shutdown_live)
qed (auto simp: stream_opener_new_def held_def)

end

interpretation counted: native_streams count_open count_conn "\<lambda>n. n"
  by unfold_locales (auto simp: count_open_def count_conn_def)

section \<open>The errors of an open\<close>

lemma prefer_terminal_cases:
  "prefer_terminal status slot =
    (case ct_terminal slot of
       Some t \<Rightarrow> (slot\<lparr>ct_observed := True\<rparr>, ConnectionErrorIncoming (convert_conn t))
     | None \<Rightarrow> (slot, Unknown (StatusError status)))"
  by (simp add: prefer_terminal_def slot_simps split: option.split)

lemma stream_open_conn_error_cases:
  "stream_open_conn_error slot =
    (case ct_terminal slot of
       Some t \<Rightarrow> (slot\<lparr>ct_observed := True\<rparr>, convert_conn t)
     | None \<Rightarrow> (slot, InternalError ''stream start cancelled without a terminal reason''))"
  by (simp add: stream_open_conn_error_def slot_simps split: option.split)

text \<open>What an error of an open stands for, given the slot it leaves.\<close>

lemma poll_start_error:
  assumes "\<And>p w. ow_slot (drop_opening X p w) = ow_slot w"
    and "poll_start E try_from X cx p w = ((holder', w'), PollReady (Err e))"
  shows "holder' = None \<and>
    ((\<exists>t. ct_terminal (ow_slot w') = Some t \<and> ct_observed (ow_slot w') \<and> e = ConnectionErrorIncoming (convert_conn t)) \<or>
     ow_slot w' = ow_slot w \<and>
       (e = ConnectionErrorIncoming (InternalError ''local stream ID is invalid'') \<or>
        ct_terminal (ow_slot w) = None \<and>
          (e = ConnectionErrorIncoming (InternalError ''stream start cancelled without a terminal reason'') \<or>
           (\<exists>status. e = Unknown (StatusError status)))))"
  using assms(2)
  by (cases "ct_terminal (ow_slot w)")
    (auto simp: poll_start_def Let_def assms(1) classify_start_outcome_def prefer_terminal_cases
      stream_open_conn_error_cases split: prod.splits poll.splits option.splits result.splits)

lemma poll_start_pending:
  assumes "poll_start E try_from X cx p w = ((holder', w'), PollPending)"
  shows "w' = w \<and> (\<exists>p'. holder' = Some p')"
  using assms
  by (auto simp: poll_start_def Let_def split: prod.splits poll.splits option.splits result.splits)

text \<open>The await phase while the start is outstanding, and when it carried a valid identity.\<close>

lemma poll_start_waits:
  assumes "oneshot_channel (se_start E) content alive waiting"
    and "content (w_start sw) = None" and "alive (w_start sw)"
  shows "\<exists>ch. poll_start E try_from X cx ((c, sw), os) w = ((Some ((c, sw\<lparr>w_start := ch\<rparr>), os), w), PollPending) \<and>
    waiting ch = Some cx \<and> alive ch \<and> content ch = None"
proof -
  obtain ch polled where p: "oneshot_poll (se_start E) cx (w_start sw) = (ch, polled)" by fastforce
  from oneshot_channel.one_poll_pending [OF assms, of cx] oneshot_channel.one_poll_parks [OF assms, of cx]
    oneshot_channel.one_poll_tx [OF assms(1), where w = cx and c = "w_start sw"] assms(2,3) p
  show ?thesis by (intro exI [of _ ch]) (simp add: poll_start_def)
qed

lemma poll_start_identified:
  assumes "oneshot_channel (se_start E) content alive waiting"
    and "content (w_start sw) = Some (Ok raw)" and "try_from raw = Some sid"
  shows "\<exists>ch. poll_start E try_from X cx ((c, sw), os) w =
    ((None, w), PollReady (Ok ((c, sw\<lparr>w_start := ch\<rparr>), finalize os sid)))"
proof -
  obtain ch polled where p: "oneshot_poll (se_start E) cx (w_start sw) = (ch, polled)" by fastforce
  from oneshot_channel.one_poll_value [OF assms(1,2), of cx] assms(3) p
  show ?thesis
    by (intro exI [of _ ch]) (simp add: poll_start_def classify_start_outcome_def validate_stream_id_def)
qed

lemma poll_open_first:
  assumes one: "oneshot_channel (se_start E) content alive waiting"
    and "ct_terminal (ow_slot w) = None" and "so_bidi so = None"
    and "no_open NO OPEN_NONE (ow_native w) = (n1, Ok ())" and "no_start NO n1 = (n2, Ok ())"
  shows "\<exists>c sw. poll_open_bidi E try_from (stream_open_executor E NO NC) cx (so, w) =
      ((so\<lparr>so_bidi := Some ((c, sw), pre_id_receivers (ch_config (so_conn so)))\<rparr>, w\<lparr>ow_native := n2\<rparr>), PollPending) \<and>
    waiting (w_start sw) = Some cx \<and> alive (w_start sw) \<and> sx_start c"
proof -
  let ?X = "stream_open_executor E NO NC"
  let ?os = "pre_id_receivers (ch_config (so_conn so))"
  obtain c sw where st: "stream_ctx_channel_pre_id E (ow_slot w) (ch_config (so_conn so)) n2 = (c, sw)" by fastforce
  then have fresh: "content (w_start sw) = None" "alive (w_start sw)" "sx_start c"
    using oneshot_channel.one_new [OF one] by (auto simp: stream_ctx_channel_pre_id_def stream_ctx_new_def)
  have sub: "submit_open_start ?X (so_conn so) False w = (w\<lparr>ow_native := n2\<rparr>, Ok ((c, sw), ?os))"
    using assms(4,5) st by (simp add: stream_open_executor_def open_and_start_def)
  obtain ch where "poll_start E try_from ?X cx ((c, sw), ?os) (w\<lparr>ow_native := n2\<rparr>) =
      ((Some ((c, sw\<lparr>w_start := ch\<rparr>), ?os), w\<lparr>ow_native := n2\<rparr>), PollPending)" "waiting ch = Some cx" "alive ch"
    using poll_start_waits [OF one fresh(1,2), of try_from ?X cx c ?os "w\<lparr>ow_native := n2\<rparr>"] by blast
  with sub fresh(3) assms(2,3) show ?thesis
    by (intro exI [of _ c] exI [of _ "sw\<lparr>w_start := ch\<rparr>"]) (simp add: poll_open_bidi_def poll_open_inner_def slot_simps)
qed

lemma poll_open_identified:
  assumes one: "oneshot_channel (se_start E) content alive waiting"
    and "ct_terminal (ow_slot w) = None" and "so_bidi so = Some ((c, sw), os)"
    and "content (w_start sw) = Some (Ok raw)" and "try_from raw = Some sid"
  shows "\<exists>st2. poll_open_bidi E try_from X cx (so, w) =
    ((so\<lparr>so_bidi := None\<rparr>, w), PollReady (Ok (st2, finalize os sid)))"
  using poll_start_identified [OF one assms(4), of try_from sid X cx c os w] assms(2,3,5)
  by (auto simp: poll_open_bidi_def poll_open_inner_def slot_simps)

section \<open>Properties\<close>

text \<open>
  C15: no native stream is leaked or closed twice by the opener. In every interleaving of open polls
  (both directions), closes, stream callbacks and recorded connection causes, the native streams that
  are live are exactly those handed to the caller and the at most one per direction still in flight,
  on top of those that were live before.
\<close>

theorem opened_streams_accounted:
  assumes "native_streams NO NC live" and "opener_sys E try_from NO NC n0 so w k"
  shows "live (ow_native w) = live n0 + k + held (so_bidi so) + held (so_uni so)"
  by (rule native_streams.opener_sys_live [OF assms])

theorem opened_streams_accounted_witness:
  "\<exists>so w r. poll_open_bidi ref_env ref_stream_id (stream_open_executor ref_env count_open count_conn) 1
      (stream_opener_new (conn_handle_new h3_config_default), \<lparr>ow_slot = conn_terminal_default, ow_native = 5\<rparr>) =
      ((so, w), r) \<and> ow_native w = 5 + delivered r + held (so_bidi so) + held (so_uni so)"
proof -
  obtain so w r where r: "poll_open_bidi ref_env ref_stream_id (stream_open_executor ref_env count_open count_conn) 1
      (stream_opener_new (conn_handle_new h3_config_default), \<lparr>ow_slot = conn_terminal_default, ow_native = 5\<rparr>) =
      ((so, w), r)" by (metis prod.exhaust)
  have "opener_sys ref_env ref_stream_id count_open count_conn 5 so w (0 + delivered r)"
    by (rule os_bidi [OF os_new r])
  from opened_streams_accounted [OF counted.native_streams_axioms this] show ?thesis
    using r by auto
qed



text \<open>
  C33: opening a stream. On a connection with no recorded cause whose native open and start succeed,
  the first poll creates the stream and parks the caller; once the stream's callback has handled a
  successful \<open>StartComplete\<close> with a valid identity, the next poll makes no native call and yields a
  stream whose two halves carry that identity and the connection's send ceiling, and the opener is
  free again.
\<close>

theorem open_delivers_started_stream:
  assumes "stream_channels E rq rtx rrx rpark sq stx srx spark content alive waiting"
    and "ct_terminal (ow_slot w) = None" and "so_bidi so = None"
    and "no_open NO OPEN_NONE (ow_native w) = (n1, Ok ())" and "no_start NO n1 = (n2, Ok ())"
    and "status_is_ok (se_status E) s" and "try_from raw = Some sid"
  shows "\<exists>so1 w1 st os so2 st2 h.
    poll_open_bidi E try_from (stream_open_executor E NO NC) cx (so, w) = ((so1, w1), PollPending) \<and>
    ow_native w1 = n2 \<and> ow_slot w1 = ow_slot w \<and> so_bidi so1 = Some (st, os) \<and> waiting (w_start (snd st)) = Some cx \<and>
    poll_open_bidi E try_from (stream_open_executor E NO NC) cx'
        (so1\<lparr>so_bidi := Some (fst (stream_callback E (SE_StartComplete s raw) st), os)\<rparr>, w1) =
      ((so2, w1), PollReady (Ok (st2, h))) \<and>
    so_bidi so2 = None \<and> bidi_send_id h = sid \<and> bidi_recv_id h = sid \<and>
    ss_max_send_bytes (h3_send h) = max_send_bytes (ch_config (so_conn so))"
proof -
  note one = stream_channels.axioms(3) [OF assms(1)]
  let ?os = "pre_id_receivers (ch_config (so_conn so))"
  obtain c sw where first: "poll_open_bidi E try_from (stream_open_executor E NO NC) cx (so, w) =
      ((so\<lparr>so_bidi := Some ((c, sw), ?os)\<rparr>, w\<lparr>ow_native := n2\<rparr>), PollPending)"
    "waiting (w_start sw) = Some cx" "alive (w_start sw)" "sx_start c"
    using poll_open_first [OF one assms(2-5)] by blast
  let ?sw2 = "sw\<lparr>w_start := oneshot_send (se_start E) (Ok raw) (w_start sw)\<rparr>"
  let ?so1 = "so\<lparr>so_bidi := Some ((c\<lparr>sx_start := False\<rparr>, ?sw2), ?os)\<rparr>"
  have cb: "fst (stream_callback E (SE_StartComplete s raw) (c, sw)) = (c\<lparr>sx_start := False\<rparr>, ?sw2)"
    using assms(6) first(4) by (simp add: cb_StartComplete_def resolve_start_def)
  have sent: "content (w_start ?sw2) = Some (Ok raw)" using oneshot_channel.one_send(1) [OF one first(3)] by simp
  obtain st2 where second: "poll_open_bidi E try_from (stream_open_executor E NO NC) cx' (?so1, w\<lparr>ow_native := n2\<rparr>) =
      ((?so1\<lparr>so_bidi := None\<rparr>, w\<lparr>ow_native := n2\<rparr>), PollReady (Ok (st2, finalize ?os sid)))"
    using poll_open_identified [where so = ?so1 and w = "w\<lparr>ow_native := n2\<rparr>" and content = content and sw = ?sw2 and try_from = try_from and raw = raw and sid = sid
        and X = "stream_open_executor E NO NC" and cx = cx' and c = "c\<lparr>sx_start := False\<rparr>" and os = ?os, OF one _ _ sent assms(7)]
      assms(2) by auto
  show ?thesis
    using first(1,2) second cb
    by (intro exI [of _ "so\<lparr>so_bidi := Some ((c, sw), ?os)\<rparr>"] exI [of _ "w\<lparr>ow_native := n2\<rparr>"] exI [of _ "(c, sw)"]
        exI [of _ ?os] exI [of _ "?so1\<lparr>so_bidi := None\<rparr>"] exI [of _ st2] exI [of _ "finalize ?os sid"])
      (simp add: finalize_def bidi_send_id_def bidi_recv_id_def send_id_def recv_id_def pre_id_receivers_def)
qed

theorem open_delivers_started_stream_witness:
  "\<exists>so1 st os so2 st2 h.
    poll_open_bidi ref_env ref_stream_id (stream_open_executor ref_env count_open count_conn) 1
      (stream_opener_new (conn_handle_new h3_config_default), \<lparr>ow_slot = conn_terminal_default, ow_native = 0\<rparr>) =
      ((so1, \<lparr>ow_slot = conn_terminal_default, ow_native = 1\<rparr>), PollPending) \<and>
    so_bidi so1 = Some (st, os) \<and>
    poll_open_bidi ref_env ref_stream_id (stream_open_executor ref_env count_open count_conn) 2
        (so1\<lparr>so_bidi := Some (fst (stream_callback ref_env (SE_StartComplete (Status 0) 4) st), os)\<rparr>,
         \<lparr>ow_slot = conn_terminal_default, ow_native = 1\<rparr>) =
      ((so2, \<lparr>ow_slot = conn_terminal_default, ow_native = 1\<rparr>), PollReady (Ok (st2, h))) \<and> bidi_send_id h = 4"
proof -
  let ?so = "stream_opener_new (conn_handle_new h3_config_default)"
  let ?w = "\<lparr>ow_slot = conn_terminal_default, ow_native = 0\<rparr> :: int open_world"
  have pre: "ct_terminal (ow_slot ?w) = None" "so_bidi ?so = None"
    "no_open count_open OPEN_NONE (ow_native ?w) = (1, Ok ())" "no_start count_open 1 = (1, Ok ())"
    "status_is_ok (se_status ref_env) (Status 0)" "ref_stream_id 4 = Some 4"
    by (simp_all add: conn_terminal_default_def stream_opener_new_def count_open_def status_simps ref_env_def ref_stream_id_def)
  from open_delivers_started_stream [where E = ref_env and w = ?w and so = ?so and NO = count_open and NC = count_conn and
      ?n1.0 = 1 and ?n2.0 = 1 and try_from = ref_stream_id and raw = 4 and sid = 4 and s = "Status 0" and cx = 1 and cx' = 2,
      OF ref_stream.stream_channels_axioms pre] obtain so1 w1 st os so2 st2 h where
    r: "poll_open_bidi ref_env ref_stream_id (stream_open_executor ref_env count_open count_conn) 1 (?so, ?w) =
      ((so1, w1), PollPending)" "ow_native w1 = 1" "ow_slot w1 = ow_slot ?w" "so_bidi so1 = Some (st, os)"
    "poll_open_bidi ref_env ref_stream_id (stream_open_executor ref_env count_open count_conn) 2
        (so1\<lparr>so_bidi := Some (fst (stream_callback ref_env (SE_StartComplete (Status 0) 4) st), os)\<rparr>, w1) =
      ((so2, w1), PollReady (Ok (st2, h)))" "bidi_send_id h = 4" by blast
  moreover have "w1 = \<lparr>ow_slot = conn_terminal_default, ow_native = 1\<rparr>" using r(2,3) by simp
  ultimately show ?thesis by (intro exI [of _ so1] exI [of _ st] exI [of _ os] exI [of _ so2] exI [of _ st2] exI [of _ h]) simp
qed

text \<open>
  Closing a connection. The close records a local close before the downcall, which a specific
  cause may still refine, and submits exactly one native shutdown with a code that fits a QUIC
  variable-length integer.
\<close>

theorem close_records_and_clamps:
  assumes "close (stream_open_executor E NO NC) code (so, w) = (so', w')"
  shows "so' = so \<and> ow_slot w' = record_conn_terminal CT_LocalClose (ow_slot w) \<and>
    (\<exists>c \<le> MAX_QUIC_VARINT. ow_native w' = nc_shutdown NC CONNECTION_SHUTDOWN_NONE c (ow_native w) \<and>
       (code \<le> MAX_QUIC_VARINT \<longrightarrow> c = code)) \<and>
    (ct_terminal (ow_slot w) = None \<longrightarrow> \<not> ct_observed (ow_slot w) \<longrightarrow>
       (\<forall>t. \<not> conn_is_provisional t \<longrightarrow> ct_terminal (record_conn_terminal t (ow_slot w')) = Some t))"
proof -
  have "clamp_application_code code \<le> MAX_QUIC_VARINT \<and>
      (code \<le> MAX_QUIC_VARINT \<longrightarrow> clamp_application_code code = code)"
    by (simp add: clamp_application_code_def min_def)
  moreover have "so' = so \<and> ow_slot w' = record_conn_terminal CT_LocalClose (ow_slot w) \<and>
      ow_native w' = nc_shutdown NC CONNECTION_SHUTDOWN_NONE (clamp_application_code code) (ow_native w)"
    using assms by (auto simp: close_def stream_open_executor_def Let_def)
  ultimately show ?thesis
    by (auto simp: record_conn_terminal_def ct_record_def)
qed

theorem close_records_and_clamps_witness:
  "\<exists>c \<le> MAX_QUIC_VARINT. ow_native (snd (close (stream_open_executor ref_env
      \<lparr>no_open = \<lambda>_ n. (n, Ok ()), no_start = \<lambda>n. (n, Ok ()), no_close = \<lambda>n. n\<rparr>
      \<lparr>nc_open = \<lambda>n. (n, Ok ()), nc_start = \<lambda>n. (n, Ok ()), nc_close = \<lambda>n. n, nc_shutdown = \<lambda>_ c n. c # n\<rparr>)
      0x100 (stream_opener_new (conn_handle_new h3_config_default), \<lparr>ow_slot = conn_terminal_default, ow_native = []\<rparr>))) = [c]"
  using close_records_and_clamps [OF prod.collapse [symmetric],
      of ref_env "\<lparr>no_open = \<lambda>_ n. (n, Ok ()), no_start = \<lambda>n. (n, Ok ()), no_close = \<lambda>n. n\<rparr>"
        "\<lparr>nc_open = \<lambda>n. (n, Ok ()), nc_start = \<lambda>n. (n, Ok ()), nc_close = \<lambda>n. n, nc_shutdown = \<lambda>_ c n. c # n\<rparr>"
        "0x100" "stream_opener_new (conn_handle_new h3_config_default)" "\<lparr>ow_slot = conn_terminal_default, ow_native = []\<rparr>"]
  by auto

end
