(* ===== verification/H3_Failpoint.thy ===== *)
theory H3_Failpoint
  imports H3_Connection
begin

text \<open>
  The accepted-ID failpoint of \<open>connection.rs\<close>, which tests arm to make the identity query of the next accepted stream
  fail or answer with an invalid identity, and the identities the h3 package accepts.
\<close>

section \<open>The accepted-ID failpoint\<close>

definition FP_OFF :: u8 where
  "FP_OFF = 0"

definition FP_QUERY_FAIL :: u8 where
  "FP_QUERY_FAIL = 1"

definition FP_INVALID_ID :: u8 where
  "FP_INVALID_ID = 2"

definition arm_query_fail :: "u8 \<Rightarrow> u8" where
  "arm_query_fail mode = FP_QUERY_FAIL"

definition arm_invalid_id :: "u8 \<Rightarrow> u8" where
  "arm_invalid_id mode = FP_INVALID_ID"

definition maybe_override :: "status_ops \<Rightarrow> u64 \<Rightarrow> u8 \<Rightarrow> u8 \<times> (u64, status) result" where
  "maybe_override S raw mode =
     (FP_OFF,
      if mode = FP_QUERY_FAIL then Err (status_new S QUIC_STATUS_INTERNAL_ERROR)
      else if mode = FP_INVALID_ID then Ok (- 1)
      else Ok raw)"

text \<open>\<open>StreamId::try_from\<close>: the identities are the 62-bit values.\<close>

definition t_stream_id :: "u64 \<Rightarrow> u64 option" where
  "t_stream_id raw = (if raw \<le> push_bit 62 1 - 1 then Some raw else None)"

end
