(* ===== verification/H3_Opener_Tests.thy ===== *)
theory H3_Opener_Tests
  imports H3_Stream_Tests H3_Terminal_Tests H3_Opener H3_Failpoint
begin

text \<open>
  The tests of \<open>opener.rs\<close> (modules \<open>stream_open_identity\<close> and \<open>downcall_clamp\<close>), replayed on
  \<open>H3_Connection\<close> and \<open>H3_Opener\<close>. Where a test opens a native connection or stream, it does so only to own a handle: the handle is created and no native call is observed.
\<close>

section \<open>The open-side doubles\<close>

definition recording_open_exec :: "('p, u64 list open_world) open_exec" where
  "recording_open_exec =
     \<lparr>submit_open_start = (\<lambda>_ _ w. (w, Err (status_new ref_status QUIC_STATUS_INTERNAL_ERROR))),
      submit_conn_shutdown = (\<lambda>_ code w. w\<lparr>ow_native := ow_native w @ [code]\<rparr>),
      drop_opening = (\<lambda>_ w. w)\<rparr>"

text \<open>Dropping a stream's callback context drops its three senders.\<close>

definition drop_stream_ctx ::
  "('o, 's, 'r) stream_env \<Rightarrow> ('o, 's, 'r, 'n) stream_st \<Rightarrow> ('o, 's, 'r, 'n) stream_st" where
  "drop_stream_ctx E st = take_start E (take_send E (take_receive E st))"

type_synonym ref_in_flight = "((u64, status) result cell, send_event fifo, receive_event fifo, unit) in_flight"

definition cancelling_open_exec :: "connection_terminal option \<Rightarrow> (ref_in_flight, unit open_world) open_exec" where
  "cancelling_open_exec rcd =
     \<lparr>submit_open_start = (\<lambda>conn uni w.
        let w = (case rcd of Some reason \<Rightarrow> w\<lparr>ow_slot := record_conn_terminal reason (ow_slot w)\<rparr> | None \<Rightarrow> w);
            ctx = stream_ctx_channel_pre_id ref_env (ow_slot w) (ch_config conn) ()
        in (w, Ok (drop_stream_ctx ref_env ctx, pre_id_receivers (ch_config conn)))),
      submit_conn_shutdown = (\<lambda>_ _ w. w),
      drop_opening = (\<lambda>_ w. w)\<rparr>"

definition t_opener :: "'p stream_opener" where
  "t_opener = stream_opener_new (conn_handle_new h3_config_default)"

section \<open>Identities\<close>

definition MAX_VALID_ID :: u64 where
  "MAX_VALID_ID = push_bit 62 1 - 1"

definition test_validate_stream_id_boundaries :: bool where
  "test_validate_stream_id_boundaries = passes (do {
     check (validate_stream_id t_stream_id 0 = Some 0);
     check (validate_stream_id t_stream_id MAX_VALID_ID = Some MAX_VALID_ID);
     check (validate_stream_id t_stream_id (MAX_VALID_ID + 1) = None);
     check (validate_stream_id t_stream_id (- 1) = None)})"

definition is_internal_error :: "connection_error_incoming \<Rightarrow> bool" where
  "is_internal_error e = (case e of InternalError _ \<Rightarrow> True | _ \<Rightarrow> False)"

definition fails_fast :: "ref_conn_st \<Rightarrow> bool" where
  "fails_fast st = (case snd (fail_fast_terminal (cw_terminal (snd st))) of Some e \<Rightarrow> is_internal_error e | None \<Rightarrow> False)"

definition test_accept_stream_id_success_takes_no_terminal :: bool where
  "test_accept_stream_id_success_takes_no_terminal = passes (do {
     let (st, r) = accept_stream_id ref_conn_env t_stream_id (Ok 8) t_conn_ctx;
     sid \<leftarrow> unwrap r;
     check (sid = 8);
     check (snd (fail_fast_terminal (cw_terminal (snd st))) = None);
     check (cx_uni (fst st) \<and> cx_bidi (fst st))})"

definition test_accept_stream_id_query_failure_publishes_internal_and_wakes_acceptors :: bool where
  "test_accept_stream_id_query_failure_publishes_internal_and_wakes_acceptors = passes (do {
     let status = status_new ref_status QUIC_STATUS_INTERNAL_ERROR;
     let (st, r) = accept_stream_id ref_conn_env t_stream_id (Err status) t_conn_ctx;
     check (case r of Err err \<Rightarrow> try_as_status_code ref_status err = try_as_status_code ref_status status | Ok _ \<Rightarrow> False);
     check (fails_fast st);
     check (\<not> cx_uni (fst st) \<and> \<not> cx_bidi (fst st))})"

definition internal_status :: "('a, status) result \<Rightarrow> bool" where
  "internal_status r =
     (case r of Err err \<Rightarrow> try_as_status_code ref_status err = Some QUIC_STATUS_INTERNAL_ERROR | Ok _ \<Rightarrow> False)"

definition test_accept_stream_id_invalid_id_publishes_internal_and_returns_internal_status :: bool where
  "test_accept_stream_id_invalid_id_publishes_internal_and_returns_internal_status = passes (do {
     let (st, r) = accept_stream_id ref_conn_env t_stream_id (Ok (- 1)) t_conn_ctx;
     check (internal_status r);
     check (fails_fast st);
     check (\<not> cx_uni (fst st) \<and> \<not> cx_bidi (fst st))})"

definition test_already_published_peer_terminal_wins_over_internal :: bool where
  "test_already_published_peer_terminal_wins_over_internal = passes (do {
     let st = conn_record (CT_PeerApplication 7) t_conn_ctx;
     let (st, r) = accept_stream_id ref_conn_env t_stream_id (Ok (- 1)) st;
     check (\<not> is_ok r);
     check (snd (observe_terminal (cw_terminal (snd st))) = ApplicationClose 7)})"

definition test_accepted_id_failpoint_query_fail_seam_rejects_then_consumes :: bool where
  "test_accepted_id_failpoint_query_fail_seam_rejects_then_consumes = passes (do {
     let fp = arm_query_fail FP_OFF;
     let (fp, q) = maybe_override ref_status 4 fp;
     let (st, r) = accept_stream_id ref_conn_env t_stream_id q t_conn_ctx;
     check (internal_status r);
     check (fails_fast st);
     check (snd (maybe_override ref_status 4 fp) = Ok 4)})"

definition test_accepted_id_failpoint_invalid_seam_rejects :: bool where
  "test_accepted_id_failpoint_invalid_seam_rejects = passes (do {
     let fp = arm_invalid_id FP_OFF;
     let (fp, q) = maybe_override ref_status 4 fp;
     let (st, r) = accept_stream_id ref_conn_env t_stream_id q t_conn_ctx;
     check (internal_status r);
     check (fails_fast st)})"

definition test_live_connection_arms_accepted_id_failpoint :: bool where
  "test_live_connection_arms_accepted_id_failpoint = passes (do {
     let fp = arm_query_fail FP_OFF;
     let (fp, r) = maybe_override ref_status 4 fp;
     check (\<not> is_ok r);
     let (fp, r) = maybe_override ref_status 4 fp;
     check (r = Ok 4);
     let fp = arm_invalid_id fp;
     let (fp, r) = maybe_override ref_status 4 fp;
     check (r = Ok (- 1))})"

section \<open>Start outcomes\<close>

abbreviation start_outcome ::
  "(u64, status) result \<Rightarrow> conn_terminal_state \<Rightarrow> conn_terminal_state \<times> (u64, stream_error_incoming) result" where
  "start_outcome \<equiv> classify_start_outcome t_stream_id"

definition failed_start :: "(u64, status) result" where
  "failed_start = Err (status_new ref_status QUIC_STATUS_ABORTED)"

definition test_classify_start_outcome_valid_id :: bool where
  "test_classify_start_outcome_valid_id = passes (do {
     sid \<leftarrow> unwrap (snd (start_outcome (Ok 12) conn_terminal_default));
     check (sid = 12)})"

definition test_classify_start_outcome_invalid_local_id_is_internal :: bool where
  "test_classify_start_outcome_invalid_local_id_is_internal = passes (
     check (case snd (start_outcome (Ok (- 1)) conn_terminal_default) of
         Err (ConnectionErrorIncoming (InternalError msg)) \<Rightarrow> contains ''local stream ID is invalid'' msg
       | _ \<Rightarrow> False))"

definition test_classify_start_outcome_failed_start_without_terminal_is_unknown :: bool where
  "test_classify_start_outcome_failed_start_without_terminal_is_unknown = passes (
     check (case snd (start_outcome failed_start conn_terminal_default) of Err (Unknown _) \<Rightarrow> True | _ \<Rightarrow> False))"

definition test_classify_start_outcome_failed_start_with_terminal_is_connection_error :: bool where
  "test_classify_start_outcome_failed_start_with_terminal_is_connection_error = passes (do {
     let slot = record_conn_terminal (CT_PeerApplication 5) conn_terminal_default;
     check (snd (start_outcome failed_start slot) = Err (ConnectionErrorIncoming (ApplicationClose 5)))})"

definition test_stream_open_conn_error_without_reason_is_internal :: bool where
  "test_stream_open_conn_error_without_reason_is_internal = passes (
     check (case snd (stream_open_conn_error conn_terminal_default) of
         InternalError msg \<Rightarrow> contains ''cancelled without a terminal reason'' msg | _ \<Rightarrow> False))"

definition test_stream_open_conn_error_with_reason_converts_terminal :: bool where
  "test_stream_open_conn_error_with_reason_converts_terminal = passes (do {
     let slot = record_conn_terminal CT_Timeout conn_terminal_default;
     check (snd (stream_open_conn_error slot) = CE_Timeout)})"

definition test_classify_start_outcome_failed_start_commits_connection_cause :: bool where
  "test_classify_start_outcome_failed_start_commits_connection_cause = passes (do {
     let slot = record_conn_terminal (CT_PeerApplication 9) conn_terminal_default;
     let (slot, r) = start_outcome failed_start slot;
     check (r = Err (ConnectionErrorIncoming (ApplicationClose 9)));
     let slot = record_conn_terminal (CT_PeerApplication 7) slot;
     check (snd (observe_terminal slot) = ApplicationClose 9)})"

definition test_classify_start_outcome_failed_start_empty_slot_does_not_commit :: bool where
  "test_classify_start_outcome_failed_start_empty_slot_does_not_commit = passes (do {
     let (slot, r) = start_outcome failed_start conn_terminal_default;
     check (case r of Err (Unknown _) \<Rightarrow> True | _ \<Rightarrow> False);
     let slot = record_conn_terminal (CT_PeerApplication 9) slot;
     check (snd (observe_terminal slot) = ApplicationClose 9)})"

definition test_stream_open_conn_error_commits_connection_cause :: bool where
  "test_stream_open_conn_error_commits_connection_cause = passes (do {
     let slot = record_conn_terminal (CT_PeerApplication 9) conn_terminal_default;
     let (slot, e) = stream_open_conn_error slot;
     check (e = ApplicationClose 9);
     let slot = record_conn_terminal (CT_PeerApplication 7) slot;
     check (snd (observe_terminal slot) = ApplicationClose 9)})"

definition test_stream_open_conn_error_empty_slot_does_not_commit :: bool where
  "test_stream_open_conn_error_empty_slot_does_not_commit = passes (do {
     let (slot, e) = stream_open_conn_error conn_terminal_default;
     check (is_internal_error e);
     let slot = record_conn_terminal (CT_PeerApplication 9) slot;
     check (snd (observe_terminal slot) = ApplicationClose 9)})"

section \<open>Clamped downcalls\<close>

definition BOUNDARY :: "(u64 \<times> u64) list" where
  "BOUNDARY = [(push_bit 62 1 - 1, push_bit 62 1 - 1), (push_bit 62 1, push_bit 62 1 - 1), (- 1, push_bit 62 1 - 1)]"

definition test_stop_sending_submits_clamped_code_via_seam :: bool where
  "test_stop_sending_submits_clamped_code_via_seam = passes (each (\<lambda>(input, expected). do {
     let ((c, w), _, r) = stream_ctx_channel ref_env (0 :: nat) recording_default;
     let (r, w) = stop_sending recording_recv_exec input (r, w);
     check (rec_stops (w_native w) = [expected]);
     check (clamp_application_code input = expected)}) BOUNDARY)"

definition test_open_streams_close_submits_clamped_code_via_seam :: bool where
  "test_open_streams_close_submits_clamped_code_via_seam = passes (each (\<lambda>(input, expected). do {
     let (so, w) = close recording_open_exec input
       (t_opener :: unit stream_opener, \<lparr>ow_slot = conn_terminal_default, ow_native = []\<rparr>);
     check (ow_native w = [expected]);
     check (clamp_application_code input = expected)}) BOUNDARY)"

section \<open>Opening\<close>

definition open_w :: "conn_terminal_state \<Rightarrow> unit open_world" where
  "open_w slot = \<lparr>ow_slot = slot, ow_native = ()\<rparr>"

definition test_poll_open_inner_start_cancellation_maps_through_real_function :: bool where
  "test_poll_open_inner_start_cancellation_maps_through_real_function = passes (do {
     let (_, r) = poll_open_bidi ref_env t_stream_id (cancelling_open_exec None) 0 (t_opener, open_w conn_terminal_default);
     check (case r of
         PollReady (Err (ConnectionErrorIncoming (InternalError msg))) \<Rightarrow> contains ''cancelled without a terminal reason'' msg
       | _ \<Rightarrow> False);
     let (_, r) = poll_open_send ref_env t_stream_id (cancelling_open_exec (Some (CT_PeerApplication 3))) 0
       (t_opener, open_w conn_terminal_default);
     check (case r of
         PollReady (Err (ConnectionErrorIncoming (ApplicationClose error_code))) \<Rightarrow> error_code = 3 | _ \<Rightarrow> False)})"

definition test_poll_open_inner_fail_fast_commits_connection_cause_both_orderings :: bool where
  "test_poll_open_inner_fail_fast_commits_connection_cause_both_orderings = passes (do {
     let slot = record_conn_terminal (CT_PeerApplication 9) conn_terminal_default;
     let ((_, w), r) = poll_open_bidi ref_env t_stream_id (cancelling_open_exec None) 0 (t_opener, open_w slot);
     check (case r of
         PollReady (Err (ConnectionErrorIncoming (ApplicationClose error_code))) \<Rightarrow> error_code = 9 | _ \<Rightarrow> False);
     let slot = record_conn_terminal (CT_PeerApplication 7) (ow_slot w);
     check (snd (observe_terminal slot) = ApplicationClose 9);
     let slot = record_conn_terminal (CT_PeerApplication 5) conn_terminal_default;
     let ((_, w), r) = poll_open_send ref_env t_stream_id (cancelling_open_exec None) 0 (t_opener, open_w slot);
     check (case r of
         PollReady (Err (ConnectionErrorIncoming (ApplicationClose error_code))) \<Rightarrow> error_code = 5 | _ \<Rightarrow> False);
     let slot = record_conn_terminal (CT_PeerApplication 6) (ow_slot w);
     check (snd (observe_terminal slot) = ApplicationClose 5)})"

section \<open>Accepting\<close>

text \<open>\<open>drop(ctx)\<close>: the callback context of the connection goes with its four senders.\<close>

definition drop_conn_ctx :: "ref_conn_st \<Rightarrow> ref_conn_st" where
  "drop_conn_ctx st =
     (let (c, w) = wake_acceptors ref_conn_env st
      in (c, w\<lparr>cw_connected := oneshot_drop_tx (ce_connected ref_conn_env) (cw_connected w),
               cw_shutdown := oneshot_drop_tx (ce_shutdown ref_conn_env) (cw_shutdown w)\<rparr>))"

definition accept_frontend_connection :: ref_conn_st where
  "accept_frontend_connection = t_conn_ctx"

definition recv_closed_with :: "connection_error_incoming \<Rightarrow> ('a, connection_error_incoming) result poll \<Rightarrow> bool" where
  "recv_closed_with e r = (case r of PollReady (Err e') \<Rightarrow> e' = e | _ \<Rightarrow> False)"

definition no_reason :: "('a, connection_error_incoming) result poll \<Rightarrow> bool" where
  "no_reason r =
     (case r of PollReady (Err (InternalError msg)) \<Rightarrow> contains ''without a terminal reason'' msg | _ \<Rightarrow> False)"

definition test_poll_accept_recv_delivering_cause_commits_and_locks_identity :: bool where
  "test_poll_accept_recv_delivering_cause_commits_and_locks_identity = passes (do {
     let st = conn_record (CT_PeerApplication 9) accept_frontend_connection;
     let st = drop_conn_ctx st;
     let (w, r) = poll_accept_recv ref_conn_env ref_env 0 (snd st);
     check (recv_closed_with (ApplicationClose 9) r);
     let slot = record_conn_terminal (CT_PeerApplication 7) (cw_terminal w);
     check (snd (observe_terminal slot) = ApplicationClose 9)})"

definition test_poll_accept_recv_empty_slot_non_delivery_does_not_commit :: bool where
  "test_poll_accept_recv_empty_slot_non_delivery_does_not_commit = passes (do {
     let st = drop_conn_ctx accept_frontend_connection;
     let (w, r) = poll_accept_recv ref_conn_env ref_env 0 (snd st);
     check (no_reason r);
     let slot = record_conn_terminal (CT_PeerApplication 9) (cw_terminal w);
     check (snd (observe_terminal slot) = ApplicationClose 9)})"

definition test_poll_accept_bidi_delivering_cause_commits_and_locks_identity :: bool where
  "test_poll_accept_bidi_delivering_cause_commits_and_locks_identity = passes (do {
     let st = conn_record (CT_PeerApplication 9) accept_frontend_connection;
     let st = drop_conn_ctx st;
     let (w, r) = poll_accept_bidi ref_conn_env 0 (snd st);
     check (recv_closed_with (ApplicationClose 9) r);
     let slot = record_conn_terminal (CT_PeerApplication 7) (cw_terminal w);
     check (snd (observe_terminal slot) = ApplicationClose 9)})"

definition test_poll_accept_bidi_empty_slot_non_delivery_does_not_commit :: bool where
  "test_poll_accept_bidi_empty_slot_non_delivery_does_not_commit = passes (do {
     let st = drop_conn_ctx accept_frontend_connection;
     let (w, r) = poll_accept_bidi ref_conn_env 0 (snd st);
     check (no_reason r);
     let slot = record_conn_terminal (CT_PeerApplication 9) (cw_terminal w);
     check (snd (observe_terminal slot) = ApplicationClose 9)})"

section \<open>The tests pass\<close>

lemma validate_stream_id_boundaries_passes: "test_validate_stream_id_boundaries"
  by code_simp

lemma accept_stream_id_success_takes_no_terminal_passes: "test_accept_stream_id_success_takes_no_terminal"
  by code_simp

lemma accept_stream_id_query_failure_publishes_internal_and_wakes_acceptors_passes: "test_accept_stream_id_query_failure_publishes_internal_and_wakes_acceptors"
  by code_simp

lemma accept_stream_id_invalid_id_publishes_internal_and_returns_internal_status_passes: "test_accept_stream_id_invalid_id_publishes_internal_and_returns_internal_status"
  by code_simp

lemma already_published_peer_terminal_wins_over_internal_passes: "test_already_published_peer_terminal_wins_over_internal"
  by code_simp

lemma accepted_id_failpoint_query_fail_seam_rejects_then_consumes_passes: "test_accepted_id_failpoint_query_fail_seam_rejects_then_consumes"
  by code_simp

lemma accepted_id_failpoint_invalid_seam_rejects_passes: "test_accepted_id_failpoint_invalid_seam_rejects"
  by code_simp

lemma live_connection_arms_accepted_id_failpoint_passes: "test_live_connection_arms_accepted_id_failpoint"
  by code_simp

lemma classify_start_outcome_valid_id_passes: "test_classify_start_outcome_valid_id"
  by code_simp

lemma classify_start_outcome_invalid_local_id_is_internal_passes: "test_classify_start_outcome_invalid_local_id_is_internal"
  by code_simp

lemma classify_start_outcome_failed_start_without_terminal_is_unknown_passes: "test_classify_start_outcome_failed_start_without_terminal_is_unknown"
  by code_simp

lemma classify_start_outcome_failed_start_with_terminal_is_connection_error_passes: "test_classify_start_outcome_failed_start_with_terminal_is_connection_error"
  by code_simp

lemma stream_open_conn_error_without_reason_is_internal_passes: "test_stream_open_conn_error_without_reason_is_internal"
  by code_simp

lemma stream_open_conn_error_with_reason_converts_terminal_passes: "test_stream_open_conn_error_with_reason_converts_terminal"
  by code_simp

lemma classify_start_outcome_failed_start_commits_connection_cause_passes: "test_classify_start_outcome_failed_start_commits_connection_cause"
  by code_simp

lemma classify_start_outcome_failed_start_empty_slot_does_not_commit_passes: "test_classify_start_outcome_failed_start_empty_slot_does_not_commit"
  by code_simp

lemma stream_open_conn_error_commits_connection_cause_passes: "test_stream_open_conn_error_commits_connection_cause"
  by code_simp

lemma stream_open_conn_error_empty_slot_does_not_commit_passes: "test_stream_open_conn_error_empty_slot_does_not_commit"
  by code_simp

lemma stop_sending_submits_clamped_code_via_seam_passes: "test_stop_sending_submits_clamped_code_via_seam"
  by code_simp

lemma open_streams_close_submits_clamped_code_via_seam_passes: "test_open_streams_close_submits_clamped_code_via_seam"
  by code_simp

lemma poll_open_inner_start_cancellation_maps_through_real_function_passes: "test_poll_open_inner_start_cancellation_maps_through_real_function"
  by code_simp

lemma poll_open_inner_fail_fast_commits_connection_cause_both_orderings_passes: "test_poll_open_inner_fail_fast_commits_connection_cause_both_orderings"
  by code_simp

lemma poll_accept_recv_delivering_cause_commits_and_locks_identity_passes: "test_poll_accept_recv_delivering_cause_commits_and_locks_identity"
  by code_simp

lemma poll_accept_recv_empty_slot_non_delivery_does_not_commit_passes: "test_poll_accept_recv_empty_slot_non_delivery_does_not_commit"
  by code_simp

lemma poll_accept_bidi_delivering_cause_commits_and_locks_identity_passes: "test_poll_accept_bidi_delivering_cause_commits_and_locks_identity"
  by code_simp

lemma poll_accept_bidi_empty_slot_non_delivery_does_not_commit_passes: "test_poll_accept_bidi_empty_slot_non_delivery_does_not_commit"
  by code_simp

end
