(* ===== verification/H3_Callback_Tests.thy ===== *)
theory H3_Callback_Tests
  imports H3_Stream_Tests H3_Connection
begin

text \<open>
  The tests of \<open>callback.rs\<close> (module \<open>callback_safety\<close>), replayed on \<open>guard_callback\<close> and on the recoveries and
  poison dispositions of the stream and connection callbacks. The native handle behind the force-close
  seam is the list of the requests it received.
\<close>

section \<open>The fixture\<close>

definition is_internal_err :: "(unit, status) result \<Rightarrow> bool" where
  "is_internal_err r = (case r of Err s \<Rightarrow> s = status_new ref_status QUIC_STATUS_INTERNAL_ERROR | Ok _ \<Rightarrow> False)"

definition is_status :: "(unit, status) result \<Rightarrow> status_code \<Rightarrow> bool" where
  "is_status r code = (case r of Err s \<Rightarrow> s = status_new ref_status code | Ok _ \<Rightarrow> False)"

type_synonym seam_calls = "(force_shutdown \<times> u64) list"

definition recording_seam :: "force_shutdown \<Rightarrow> u64 \<Rightarrow> seam_calls \<Rightarrow> seam_calls" where
  "recording_seam request code seen = seen @ [(request, code)]"

text \<open>
  \<open>TestCtx\<close>, with the counter its recovery closure captures and whether a closure that must not run ran.
\<close>

record test_ctx =
  tc_poisoned :: bool
  tc_ran :: nat
  tc_tripped :: bool

definition test_ctx_with :: "bool \<Rightarrow> test_ctx" where
  "test_ctx_with p = \<lparr>tc_poisoned = p, tc_ran = 0, tc_tripped = False\<rparr>"

definition body_must_not_run :: "test_ctx \<Rightarrow> test_ctx \<times> (unit, status) result outcome" where
  "body_must_not_run c = (c\<lparr>tc_tripped := True\<rparr>, Panicked)"

definition recover_must_not_run :: "test_ctx \<Rightarrow> test_ctx \<times> (unit, status) result" where
  "recover_must_not_run c = (c\<lparr>tc_tripped := True\<rparr>, Ok ())"

definition t_guard ::
  "bool \<Rightarrow> (unit, status) result \<Rightarrow> (test_ctx \<Rightarrow> test_ctx \<times> (unit, status) result outcome) \<Rightarrow>
   (test_ctx \<Rightarrow> test_ctx \<times> (unit, status) result) \<Rightarrow> test_ctx \<times> (unit, status) result" where
  "t_guard p disp body recover = guard_callback tc_poisoned disp body recover (test_ctx_with p)"

text \<open>
  A connection context with its receivers on a recording seam, and the guard around a body that panics
  before or after \<open>Stream::from_raw\<close>. A body that must not run would show as a second force-close.
\<close>

type_synonym seam_conn_st =
  "((unit, status) result cell, unit cell, ref_peer_stream option fifo, seam_calls) conn_st"

definition seam_conn :: seam_conn_st where
  "seam_conn = fst (conn_ctx_channel ref_conn_env h3_config_default [])"

definition conn_guard ::
  "(unit, status) result \<Rightarrow> (seam_conn_st \<times> bool \<Rightarrow> seam_conn_st \<times> bool) \<Rightarrow> seam_conn_st \<Rightarrow>
   seam_conn_st \<times> (unit, status) result" where
  "conn_guard disp unwound st =
     (let ((st, _), r) = guard_callback (\<lambda>ost. cx_poisoned (fst (fst ost))) disp
            (\<lambda>ost. (unwound ost, Panicked)) (connection_recover ref_conn_env recording_seam) (st, False)
      in (st, r))"

definition conn_boom ::
  "(unit, status) result \<Rightarrow> seam_conn_st \<Rightarrow> seam_conn_st \<times> (unit, status) result" where
  "conn_boom disp st = conn_guard disp (\<lambda>ost. ost) st"

text \<open>
  \<open>OwnedStreamStandIn\<close>: a body that marks the ownership token and panics holding the owned stream, which the
  unwind closes.
\<close>

definition owned_stream_stand_in :: "seam_conn_st \<times> bool \<Rightarrow> seam_conn_st \<times> bool" where
  "owned_stream_stand_in ost = (let ((c, w), _) = ost in ((c, w\<lparr>cw_closed := 0 # cw_closed w\<rparr>), True))"

definition connect_waiter_failed :: "seam_conn_st \<Rightarrow> bool" where
  "connect_waiter_failed st =
     (case snd (oneshot_poll (ce_connected ref_conn_env) 0 (cw_connected (snd st))) of
        PollReady (Some (Err _)) \<Rightarrow> True | _ \<Rightarrow> False)"

text \<open>What every contained panic of a connection callback leaves behind.\<close>

definition conn_contained :: "seam_conn_st \<Rightarrow> unit option" where
  "conn_contained st = do {
     check (cw_native (snd st) = [(FS_Connection CONNECTION_SHUTDOWN_NONE, H3_INTERNAL_ERROR)]);
     check (cx_poisoned (fst st));
     check (connect_waiter_failed st)}"

text \<open>A stream context before its id is known, and the guard around a body that panics at once.\<close>

type_synonym seam_stream_st =
  "((u64, status) result cell, send_event fifo, receive_event fifo, seam_calls) stream_st"

definition seam_stream :: seam_stream_st where
  "seam_stream = stream_ctx_channel_pre_id ref_env conn_terminal_default h3_config_default []"

definition stream_boom ::
  "stream_event \<Rightarrow> seam_stream_st \<Rightarrow> seam_stream_st \<times> (unit, status) result" where
  "stream_boom ev st =
     guard_callback (\<lambda>st. sx_poisoned (fst st)) (stream_poison_disp ref_status ev)
       (\<lambda>st. (st, Panicked)) (stream_recover ref_env recording_seam) st"

definition open_waiter_failed :: "seam_stream_st \<Rightarrow> bool" where
  "open_waiter_failed st =
     (case snd (oneshot_poll (se_start ref_env) 0 (w_start (snd st))) of
        PollReady (Some (Err _)) \<Rightarrow> True | _ \<Rightarrow> False)"

definition send_half_woken :: "seam_stream_st \<Rightarrow> bool" where
  "send_half_woken st \<longleftrightarrow> snd (poll_next (se_send ref_env) 0 (w_send (snd st))) = PollReady (Some TerminalWake)"

definition stream_teardown :: stream_event where
  "stream_teardown = SE_ShutdownComplete False False False 0 (status_new ref_status QUIC_STATUS_SUCCESS)"

section \<open>Dropped receivers\<close>

text \<open>
  \<open>drop(rx)\<close> drops the accept receivers. The error of resolving a one-shot nobody waits for is discarded by
  the callback and is not part of the one-shot's interface.
\<close>

definition test_connection_callback_connected_with_dropped_receiver_is_noop :: bool where
  "test_connection_callback_connected_with_dropped_receiver_is_noop = passes (do {
     let (c, w) = seam_conn;
     let w = w\<lparr>cw_bidi := mpsc_drop_rx (ce_accept ref_conn_env) (cw_bidi w),
               cw_uni := mpsc_drop_rx (ce_accept ref_conn_env) (cw_uni w)\<rparr>;
     let (((c, w), own), r) = connection_callback ref_conn_env ref_env ref_stream_id () CE_Connected ((c, w), False);
     check (is_ok r);
     check (\<not> cx_connected c)})"

definition test_stream_callback_send_complete_with_dropped_receiver_is_noop :: bool where
  "test_stream_callback_send_complete_with_dropped_receiver_is_noop = passes (do {
     let ((c, w), srx, rrx) = stream_ctx_channel ref_env (4::nat) ();
     let w = w\<lparr>w_send := mpsc_drop_rx (se_send ref_env) (w_send w),
               w_recv := mpsc_drop_rx (se_recv ref_env) (w_recv w)\<rparr>;
     check (is_ok (snd (stream_callback ref_env (SE_SendComplete False 0) (c, w))))})"

section \<open>The guard\<close>

definition test_guard_callback_passes_through_results_without_recovering :: bool where
  "test_guard_callback_passes_through_results_without_recovering = passes (do {
     let (ctx, got) = t_guard False (Ok ()) (\<lambda>c. (c, Returned (Ok ()))) recover_must_not_run;
     check (is_ok got);
     check (\<not> tc_poisoned ctx \<and> \<not> tc_tripped ctx);
     let (ctx, got) = t_guard False (Ok ())
       (\<lambda>c. (c, Returned (Err (status_new ref_status QUIC_STATUS_INTERNAL_ERROR)))) recover_must_not_run;
     check (is_internal_err got);
     check (\<not> tc_poisoned ctx \<and> \<not> tc_tripped ctx);
     let (ctx, got) = t_guard False (Ok ())
       (\<lambda>c. (c, Returned (Err (status_new ref_status QUIC_STATUS_PENDING)))) recover_must_not_run;
     check (is_status got QUIC_STATUS_PENDING);
     check (\<not> tc_poisoned ctx \<and> \<not> tc_tripped ctx)})"

definition test_guard_callback_runs_recover_once_on_panic :: bool where
  "test_guard_callback_runs_recover_once_on_panic = passes (do {
     let (ctx, got) = t_guard False (Ok ()) (\<lambda>c. (c, Panicked))
       (\<lambda>c. (c\<lparr>tc_ran := tc_ran c + 1, tc_poisoned := True\<rparr>,
             Err (status_new ref_status QUIC_STATUS_INTERNAL_ERROR)));
     check (is_internal_err got);
     check (tc_ran ctx = 1);
     check (tc_poisoned ctx)})"

definition test_guard_callback_poisoned_returns_disposition_without_body :: bool where
  "test_guard_callback_poisoned_returns_disposition_without_body = passes (do {
     let (ctx, got) = t_guard True (Ok ()) body_must_not_run recover_must_not_run;
     check (is_ok got \<and> \<not> tc_tripped ctx);
     let (ctx, got) = t_guard True (Err (status_new ref_status QUIC_STATUS_INTERNAL_ERROR))
       body_must_not_run recover_must_not_run;
     check (is_internal_err got \<and> \<not> tc_tripped ctx)})"

section \<open>Connection\<close>

definition test_connection_callback_panic_is_contained :: bool where
  "test_connection_callback_panic_is_contained = passes (do {
     let (st, got) = conn_boom (conn_poison_disp ref_status CE_Connected) seam_conn;
     check (is_internal_err got);
     conn_contained st;
     check (\<not> cx_bidi (fst st) \<and> \<not> cx_uni (fst st))})"

definition test_connection_poison_short_circuit_is_event_aware :: bool where
  "test_connection_poison_short_circuit_is_event_aware = passes (do {
     let (st, _) = conn_boom (conn_poison_disp ref_status CE_Connected) seam_conn;
     check (cx_poisoned (fst st));
     check (is_ok (conn_poison_disp ref_status CE_ShutdownComplete));
     let (st, got) = conn_boom (conn_poison_disp ref_status CE_ShutdownComplete) st;
     check (is_ok got);
     check (is_internal_err (conn_poison_disp ref_status CE_Connected));
     let (st, got) = conn_boom (conn_poison_disp ref_status CE_Connected) st;
     check (is_internal_err got);
     check (length (cw_native (snd st)) = 1)})"

definition test_connection_teardown_body_panic_is_contained_and_wakes_waiters :: bool where
  "test_connection_teardown_body_panic_is_contained_and_wakes_waiters = passes (do {
     let (st, got) = conn_boom (conn_poison_disp ref_status CE_ShutdownComplete) seam_conn;
     check (is_internal_err got);
     conn_contained st;
     let (st, got) = conn_boom (conn_poison_disp ref_status CE_ShutdownComplete) st;
     check (is_ok got);
     check (length (cw_native (snd st)) = 1)})"

definition test_connection_peer_stream_panic_before_from_raw_rejects :: bool where
  "test_connection_peer_stream_panic_before_from_raw_rejects = passes (do {
     let (st, got) = conn_boom (Err (status_new ref_status QUIC_STATUS_INTERNAL_ERROR)) seam_conn;
     check (is_internal_err got);
     check (cw_closed (snd st) = []);
     conn_contained st;
     check (\<not> cx_bidi (fst st) \<and> \<not> cx_uni (fst st))})"

definition test_connection_peer_stream_panic_after_from_raw_does_not_reject :: bool where
  "test_connection_peer_stream_panic_after_from_raw_does_not_reject = passes (do {
     let (st, got) = conn_guard (Err (status_new ref_status QUIC_STATUS_INTERNAL_ERROR)) owned_stream_stand_in seam_conn;
     check (is_ok got);
     check (length (cw_closed (snd st)) = 1);
     conn_contained st;
     check (\<not> cx_bidi (fst st) \<and> \<not> cx_uni (fst st))})"

section \<open>Stream\<close>

definition test_stream_callback_panic_is_contained :: bool where
  "test_stream_callback_panic_is_contained = passes (do {
     let (st, got) = stream_boom SE_PeerSendShutdown seam_stream;
     check (is_internal_err got);
     check (w_native (snd st) = [(FS_Stream SHUTDOWN_ABORT, H3_INTERNAL_ERROR)]);
     check (sx_poisoned (fst st));
     check (case load_winner (w_send_slot (snd st)) of Some (ST_Internal _) \<Rightarrow> True | _ \<Rightarrow> False);
     check (send_half_woken st);
     check (case snd (poll_next (se_recv ref_env) 0 (w_recv (snd st))) of
              PollReady (Some (RE_Internal _)) \<Rightarrow> True | _ \<Rightarrow> False);
     check (open_waiter_failed st)})"

definition test_stream_poison_short_circuit_is_event_aware :: bool where
  "test_stream_poison_short_circuit_is_event_aware = passes (do {
     let (st, _) = stream_boom SE_PeerSendShutdown seam_stream;
     check (sx_poisoned (fst st));
     check (is_ok (stream_poison_disp ref_status stream_teardown));
     let (st, got) = stream_boom stream_teardown st;
     check (is_ok got);
     check (is_internal_err (stream_poison_disp ref_status SE_PeerSendShutdown))})"

definition test_stream_teardown_body_panic_is_contained_and_wakes_waiters :: bool where
  "test_stream_teardown_body_panic_is_contained_and_wakes_waiters = passes (do {
     let (st, got) = stream_boom stream_teardown seam_stream;
     check (is_internal_err got);
     check (w_native (snd st) = [(FS_Stream SHUTDOWN_ABORT, H3_INTERNAL_ERROR)]);
     check (sx_poisoned (fst st));
     check (send_half_woken st);
     check (open_waiter_failed st);
     let (st, got) = stream_boom stream_teardown st;
     check (is_ok got);
     check (length (w_native (snd st)) = 1)})"

text \<open>The helper thread takes the lock, writes and panics; joining it yields its outcome.\<close>

definition test_lock_recover_recovers_poisoned_mutex :: bool where
  "test_lock_recover_recovers_poisoned_mutex = passes (do {
     let m = mutex_new (41 :: u32);
     let (m, joined) = locked (\<lambda>_. (42, Panicked :: unit outcome)) m;
     check (joined = Panicked);
     check (mx_poisoned m);
     check (lock_recover m = 42)})"

section \<open>The tests pass\<close>

lemma lock_recover_recovers_poisoned_mutex_passes: "test_lock_recover_recovers_poisoned_mutex"
  by code_simp

lemma connection_callback_connected_with_dropped_receiver_is_noop_passes: "test_connection_callback_connected_with_dropped_receiver_is_noop"
  by code_simp

lemma stream_callback_send_complete_with_dropped_receiver_is_noop_passes: "test_stream_callback_send_complete_with_dropped_receiver_is_noop"
  by code_simp

lemma guard_callback_passes_through_results_without_recovering_passes: "test_guard_callback_passes_through_results_without_recovering"
  by code_simp

lemma guard_callback_runs_recover_once_on_panic_passes: "test_guard_callback_runs_recover_once_on_panic"
  by code_simp

lemma guard_callback_poisoned_returns_disposition_without_body_passes: "test_guard_callback_poisoned_returns_disposition_without_body"
  by code_simp

lemma connection_callback_panic_is_contained_passes: "test_connection_callback_panic_is_contained"
  by code_simp

lemma connection_poison_short_circuit_is_event_aware_passes: "test_connection_poison_short_circuit_is_event_aware"
  by code_simp

lemma connection_teardown_body_panic_is_contained_and_wakes_waiters_passes: "test_connection_teardown_body_panic_is_contained_and_wakes_waiters"
  by code_simp

lemma connection_peer_stream_panic_before_from_raw_rejects_passes: "test_connection_peer_stream_panic_before_from_raw_rejects"
  by code_simp

lemma connection_peer_stream_panic_after_from_raw_does_not_reject_passes: "test_connection_peer_stream_panic_after_from_raw_does_not_reject"
  by code_simp

lemma stream_callback_panic_is_contained_passes: "test_stream_callback_panic_is_contained"
  by code_simp

lemma stream_poison_short_circuit_is_event_aware_passes: "test_stream_poison_short_circuit_is_event_aware"
  by code_simp

lemma stream_teardown_body_panic_is_contained_and_wakes_waiters_passes: "test_stream_teardown_body_panic_is_contained_and_wakes_waiters"
  by code_simp

end
