(* ===== verification/H3_Listener.thy ===== *)
theory H3_Listener
  imports H3_Connection
begin

text \<open>
  The listener (\<open>listener.rs\<close>): its context, the close-or-reject decision for a new connection, the
  callback with its poison disposition and panic recovery, construction, \<open>accept\<close> and \<open>shutdown\<close>.

  The state behind the listener is the record \<open>listener_world\<close>: the accept queue, the shutdown
  one-shot, the rundown count of the registration with the wakers it has woken, the handles of
  connections the adapter closed itself, and the native library. The native library closes the
  connection of a \<open>NewConnection\<close> event exactly when the callback answers with an error.
\<close>

section \<open>State\<close>

record ('q, 'h, 'x) listener_env =
  le_status :: status_ops
  le_conn :: "('q, 'x option) mpsc"
  le_shutdown :: "('h, unit) oneshot"

record ('q, 'h, 'n) listener_world =
  lw_conn :: 'q
  lw_shutdown :: 'h
  lw_rundown :: rundown_state
  lw_woken :: "waker list"
  lw_closed :: "nat list"
  lw_native :: 'n

record listener_ctx_sender =
  lx_conn :: bool
  lx_shutdown :: bool
  lx_poisoned :: bool

record listener_ctx_receiver =
  lr_shutdown :: bool

type_synonym ('q, 'h, 'n) listener_st = "listener_ctx_sender \<times> ('q, 'h, 'n) listener_world"

text \<open>An accepted connection: its handle, its two contexts and its connection handle.\<close>

type_synonym ('co, 'ch, 'cq, 'n) accepted =
  "nat \<times> (('co, 'ch, 'cq, 'n) conn_st \<times> conn_ctx_receiver) \<times> conn_handle"

datatype listener_event = LE_NewConnection nat | LE_StopComplete

record 'n native_listener =
  nl_open :: "'n \<Rightarrow> 'n \<times> (unit, status) result"
  nl_start :: "'n \<Rightarrow> 'n \<times> (unit, status) result"
  nl_stop :: "'n \<Rightarrow> 'n"
  nl_close :: "'n \<Rightarrow> 'n"
  nl_set_configuration :: "nat \<Rightarrow> 'n \<Rightarrow> 'n \<times> (unit, status) result"
  nl_connection_close :: "nat \<Rightarrow> 'n \<Rightarrow> 'n"

definition listener_ctx_channel ::
  "('q, 'h, 'x) listener_env \<Rightarrow> rundown_state \<Rightarrow> 'n \<Rightarrow> ('q, 'h, 'n) listener_st \<times> listener_ctx_receiver" where
  "listener_ctx_channel L rd n =
     ((\<lparr>lx_conn = True, lx_shutdown = True, lx_poisoned = False\<rparr>,
       \<lparr>lw_conn = mpsc_new (le_conn L), lw_shutdown = oneshot_new (le_shutdown L), lw_rundown = rd, lw_woken = [],
        lw_closed = [], lw_native = n\<rparr>),
      \<lparr>lr_shutdown = True\<rparr>)"

section \<open>Guards and owned connections\<close>

definition reserve_guard :: "('q, 'h, 'n) listener_world \<Rightarrow> ('q, 'h, 'n) listener_world" where
  "reserve_guard w = w\<lparr>lw_rundown := guard_new (lw_rundown w)\<rparr>"

definition release_guard :: "('q, 'h, 'n) listener_world \<Rightarrow> ('q, 'h, 'n) listener_world" where
  "release_guard w = (let (rd, ws) = guard_drop (lw_rundown w) in w\<lparr>lw_rundown := rd, lw_woken := ws @ lw_woken w\<rparr>)"

text \<open>Dropping an owned connection: the native close first, then its guard.\<close>

definition drop_connection ::
  "'n native_listener \<Rightarrow> nat \<Rightarrow> ('q, 'h, 'n) listener_world \<Rightarrow> ('q, 'h, 'n) listener_world" where
  "drop_connection NL conn w =
     (let ((n, rd), ws) = conn_handle_drop (nl_connection_close NL conn) (lw_native w, lw_rundown w)
      in w\<lparr>lw_native := n, lw_rundown := rd, lw_woken := ws @ lw_woken w, lw_closed := conn # lw_closed w\<rparr>)"

section \<open>The callback\<close>

datatype new_conn_decision = ConfigFailedClose status | DeliveredOwned | DeliveryFailedDropOwned

text \<open>
  \<open>decide_new_connection\<close>: \<open>deliver\<close> runs only when the configuration succeeded; otherwise it is
  dropped without having been called, which runs \<open>undelivered\<close>, the drop of what it captured.
\<close>

definition decide_new_connection ::
  "(unit, status) result \<Rightarrow> ('w \<Rightarrow> 'w \<times> bool) \<Rightarrow> ('w \<Rightarrow> 'w) \<Rightarrow> 'w \<Rightarrow> 'w \<times> new_conn_decision" where
  "decide_new_connection config deliver undelivered w =
     (case config of
        Err e \<Rightarrow> (undelivered w, ConfigFailedClose e)
      | Ok _ \<Rightarrow> (let (w, ok) = deliver w in (w, if ok then DeliveredOwned else DeliveryFailedDropOwned)))"

text \<open>The \<open>deliver\<close> closure: take ownership, attach, hand the connection to the frontend or drop it.\<close>

definition deliver_connection ::
  "('q, 'h, ('co, 'ch, 'cq, 'n) accepted) listener_env \<Rightarrow> ('co, 'ch, 'cq, 'x) conn_env \<Rightarrow> 'n native_listener \<Rightarrow> h3_config \<Rightarrow>
   nat \<Rightarrow> ('q, 'h, 'n) listener_st \<times> bool \<Rightarrow> (('q, 'h, 'n) listener_st \<times> bool) \<times> bool" where
  "deliver_connection L CE NL h3config connection ost =
     (let ((c, w), _) = ost;
          conn = (connection, connection_attach CE h3config (lw_native w))
      in if lx_conn c then
           (let (ch, sent) = unbounded_send (le_conn L) (Some conn) (lw_conn w); w = w\<lparr>lw_conn := ch\<rparr>
            in if sent then (((c, w), True), True) else (((c, drop_connection NL connection w), True), False))
         else (((c, drop_connection NL connection w), True), False))"

definition cb_NewConnection ::
  "('q, 'h, ('co, 'ch, 'cq, 'n) accepted) listener_env \<Rightarrow> ('co, 'ch, 'cq, 'x) conn_env \<Rightarrow> 'n native_listener \<Rightarrow> h3_config \<Rightarrow>
   nat \<Rightarrow> ('q, 'h, 'n) listener_st \<times> bool \<Rightarrow> (('q, 'h, 'n) listener_st \<times> bool) \<times> (unit, status) result" where
  "cb_NewConnection L CE NL h3config connection ost =
     (let ((c, w), own) = ost;
          w = reserve_guard w;
          (n, config) = nl_set_configuration NL connection (lw_native w);
          (ost, decision) = decide_new_connection config (deliver_connection L CE NL h3config connection)
            (\<lambda>((c, w), own). ((c, release_guard w), own)) ((c, w\<lparr>lw_native := n\<rparr>), own)
      in case decision of ConfigFailedClose e \<Rightarrow> (ost, Err e) | _ \<Rightarrow> (ost, Ok ()))"

text \<open>The end of connections: the frontend is told and a pending \<open>shutdown\<close> resolved.\<close>

definition signal_end ::
  "('q, 'h, 'x) listener_env \<Rightarrow> ('q, 'h, 'n) listener_st \<Rightarrow> ('q, 'h, 'n) listener_st" where
  "signal_end L st =
     (let (c, w) = st;
          w = (if lx_conn c then w\<lparr>lw_conn := fst (unbounded_send (le_conn L) None (lw_conn w))\<rparr> else w)
      in if lx_shutdown c
         then (c\<lparr>lx_shutdown := False\<rparr>, w\<lparr>lw_shutdown := oneshot_send (le_shutdown L) () (lw_shutdown w)\<rparr>)
         else (c, w))"

fun listener_callback ::
  "('q, 'h, ('co, 'ch, 'cq, 'n) accepted) listener_env \<Rightarrow> ('co, 'ch, 'cq, 'x) conn_env \<Rightarrow> 'n native_listener \<Rightarrow> h3_config \<Rightarrow>
   listener_event \<Rightarrow> ('q, 'h, 'n) listener_st \<times> bool \<Rightarrow> (('q, 'h, 'n) listener_st \<times> bool) \<times> (unit, status) result" where
  "listener_callback L CE NL h3config (LE_NewConnection connection) ost = cb_NewConnection L CE NL h3config connection ost"
| "listener_callback L CE NL h3config LE_StopComplete (st, own) = ((signal_end L st, own), Ok ())"

fun listener_poison_disp :: "status_ops \<Rightarrow> listener_event \<Rightarrow> (unit, status) result" where
  "listener_poison_disp S LE_StopComplete = Ok ()"
| "listener_poison_disp S _ = Err (internal_error_status S)"

definition listener_recover ::
  "('q, 'h, 'x) listener_env \<Rightarrow> ('q, 'h, 'n) listener_st \<times> bool \<Rightarrow>
   (('q, 'h, 'n) listener_st \<times> bool) \<times> (unit, status) result" where
  "listener_recover L ost =
     (let (st, own) = ost; (c, w) = signal_end L st
      in (((c\<lparr>lx_poisoned := True\<rparr>, w), own), if own then Ok () else Err (internal_error_status (le_status L))))"

definition listener_body ::
  "('q, 'h, ('co, 'ch, 'cq, 'n) accepted) listener_env \<Rightarrow> ('co, 'ch, 'cq, 'x) conn_env \<Rightarrow> 'n native_listener \<Rightarrow> h3_config \<Rightarrow>
   (listener_event \<Rightarrow> ('q, 'h, 'n) listener_st \<times> bool \<Rightarrow> (('q, 'h, 'n) listener_st \<times> bool) option) \<Rightarrow>
   listener_event \<Rightarrow> ('q, 'h, 'n) listener_st \<times> bool \<Rightarrow>
   (('q, 'h, 'n) listener_st \<times> bool) \<times> (unit, status) result outcome" where
  "listener_body L CE NL h3config pan ev ost =
     (case pan ev ost of
        Some ost' \<Rightarrow> (ost', Panicked)
      | None \<Rightarrow> (let (ost', r) = listener_callback L CE NL h3config ev ost in (ost', Returned r)))"

text \<open>The closure \<open>with_config\<close> registers: a fresh ownership token per invocation.\<close>

definition listener_handler ::
  "('q, 'h, ('co, 'ch, 'cq, 'n) accepted) listener_env \<Rightarrow> ('co, 'ch, 'cq, 'x) conn_env \<Rightarrow> 'n native_listener \<Rightarrow> h3_config \<Rightarrow>
   (listener_event \<Rightarrow> ('q, 'h, 'n) listener_st \<times> bool \<Rightarrow> (('q, 'h, 'n) listener_st \<times> bool) option) \<Rightarrow>
   listener_event \<Rightarrow> ('q, 'h, 'n) listener_st \<Rightarrow> ('q, 'h, 'n) listener_st \<times> (unit, status) result" where
  "listener_handler L CE NL h3config pan ev st =
     (let ((st', _), r) =
        guard_callback (\<lambda>ost. lx_poisoned (fst (fst ost))) (listener_poison_disp (le_status L) ev)
          (listener_body L CE NL h3config pan ev) (listener_recover L) (st, False)
      in (st', r))"

section \<open>The frontend\<close>

text \<open>
  \<open>with_config\<close>: the configuration is captured beside the sending context in the handler it registers.
  A failed start closes the listener before its guard is released.
\<close>

definition listener_with_config ::
  "('q, 'h, 'x) listener_env \<Rightarrow> 'n native_listener \<Rightarrow> h3_config \<Rightarrow> 'n \<times> rundown_state \<Rightarrow>
   ('q, 'h, 'n) listener_world \<times> ((listener_ctx_sender \<times> h3_config) \<times> listener_ctx_receiver, status) result" where
  "listener_with_config L NL h3config nr =
     (let ((tx, w), lrx) = listener_ctx_channel L (snd nr) (fst nr);
          w = reserve_guard w;
          (n, opened) = nl_open NL (lw_native w);
          w = w\<lparr>lw_native := n\<rparr>
      in case opened of
           Err status \<Rightarrow> (release_guard w, Err status)
         | Ok _ \<Rightarrow>
             (let (n, started) = nl_start NL (lw_native w); w = w\<lparr>lw_native := n\<rparr> in
              case started of
                Err status \<Rightarrow> (release_guard (w\<lparr>lw_native := nl_close NL (lw_native w)\<rparr>), Err status)
              | Ok _ \<Rightarrow> (w, Ok ((tx, h3config), lrx))))"

definition listener_new ::
  "('q, 'h, 'x) listener_env \<Rightarrow> 'n native_listener \<Rightarrow> 'n \<times> rundown_state \<Rightarrow>
   ('q, 'h, 'n) listener_world \<times> ((listener_ctx_sender \<times> h3_config) \<times> listener_ctx_receiver, status) result" where
  "listener_new L NL nr = listener_with_config L NL h3_config_default nr"

definition listener_poll_accept ::
  "('q, 'h, 'x) listener_env \<Rightarrow> waker \<Rightarrow> ('q, 'h, 'n) listener_world \<Rightarrow>
   ('q, 'h, 'n) listener_world \<times> ('x option, status) result poll" where
  "listener_poll_accept L cx w =
     (let (ch, p) = poll_next (le_conn L) cx (lw_conn w)
      in (w\<lparr>lw_conn := ch\<rparr>, poll_map (\<lambda>s. Ok (unwrap_or s None)) p))"

text \<open>
  \<open>shutdown\<close> up to its await: the first call takes the receiver and stops the listener, a later
  one has nothing to wait for.
\<close>

definition shutdown_begin ::
  "'n native_listener \<Rightarrow> listener_ctx_receiver \<times> ('q, 'h, 'n) listener_world \<Rightarrow>
   (listener_ctx_receiver \<times> ('q, 'h, 'n) listener_world) \<times> bool" where
  "shutdown_begin NL rw =
     (let (lrx, w) = rw in
      if lr_shutdown lrx then ((lrx\<lparr>lr_shutdown := False\<rparr>, w\<lparr>lw_native := nl_stop NL (lw_native w)\<rparr>), True)
      else ((lrx, w), False))"

text \<open>Its await; \<open>waits\<close> is the flag the first part returned.\<close>

definition shutdown_poll ::
  "('q, 'h, 'x) listener_env \<Rightarrow> bool \<Rightarrow> waker \<Rightarrow> ('q, 'h, 'n) listener_world \<Rightarrow>
   ('q, 'h, 'n) listener_world \<times> unit poll" where
  "shutdown_poll L waits cx w =
     (if waits then
        (let (ch, p) = oneshot_poll (le_shutdown L) cx (lw_shutdown w) in (w\<lparr>lw_shutdown := ch\<rparr>, poll_map (\<lambda>_. ()) p))
      else (w, PollReady ()))"

text \<open>Dropping a listener, its fields in order: \<open>ListenerClose\<close>, the receivers, and last the rundown guard.\<close>

definition listener_drop ::
  "('q, 'h, 'x) listener_env \<Rightarrow> 'n native_listener \<Rightarrow> ('q, 'h, 'n) listener_world \<Rightarrow> ('q, 'h, 'n) listener_world" where
  "listener_drop L NL w =
     release_guard (w\<lparr>lw_native := nl_close NL (lw_native w), lw_conn := mpsc_drop_rx (le_conn L) (lw_conn w)\<rparr>)"

section \<open>Specification vocabulary\<close>

definition listener_sync :: "('q \<Rightarrow> bool) \<Rightarrow> ('h \<Rightarrow> bool) \<Rightarrow> ('q, 'h, 'n) listener_st \<Rightarrow> bool" where
  "listener_sync tx alive st \<longleftrightarrow>
     lx_conn (fst st) = tx (lw_conn (snd st)) \<and> lx_shutdown (fst st) = alive (lw_shutdown (snd st))"

text \<open>How often the adapter has taken care of a connection, and how many wait for the frontend.\<close>

definition conn_handled :: "('q \<Rightarrow> (nat \<times> 'y) option list) \<Rightarrow> nat \<Rightarrow> ('q, 'h, 'n) listener_world \<Rightarrow> nat" where
  "conn_handled q h w = length (filter (carries h) (q (lw_conn w))) + length (filter (\<lambda>h'. h' = h) (lw_closed w))"

definition queued :: "('q \<Rightarrow> 'x option list) \<Rightarrow> ('q, 'h, 'n) listener_world \<Rightarrow> nat" where
  "queued q w = length (filter (\<lambda>x. x \<noteq> None) (q (lw_conn w)))"

text \<open>
  One connection event is balanced: the connection is taken care of once if and only if ownership was
  taken, and every unit of the rundown count belongs to a queued connection.
\<close>

definition balanced ::
  "('q \<Rightarrow> (nat \<times> 'y) option list) \<Rightarrow> nat \<Rightarrow> bool \<Rightarrow> ('q, 'h, 'n) listener_world \<Rightarrow> ('q, 'h, 'n) listener_world \<Rightarrow> bool" where
  "balanced q h own w w' \<longleftrightarrow>
     conn_handled q h w' = conn_handled q h w + (if own then 1 else 0) \<and>
     rd_active (lw_rundown w') + queued q w = rd_active (lw_rundown w) + queued q w'"

fun accept_list ::
  "('q, 'h, 'x) listener_env \<Rightarrow> waker \<Rightarrow> nat \<Rightarrow> ('q, 'h, 'n) listener_world \<Rightarrow> ('x option, status) result poll list" where
  "accept_list L cx 0 w = []"
| "accept_list L cx (Suc k) w = (let (w, p) = listener_poll_accept L cx w in p # accept_list L cx k w)"

type_synonym ref_accepted =
  "((unit, status) result cell, unit cell, ref_peer_stream option fifo, nat list) accepted"

definition ref_listener_env :: "(ref_accepted option fifo, unit cell, ref_accepted) listener_env" where
  "ref_listener_env = \<lparr>le_status = ref_status, le_conn = fifo_mpsc, le_shutdown = cell_oneshot\<rparr>"

text \<open>A native listener that logs the connections it is asked to close and configures even handles only.\<close>

definition ref_native_listener :: "nat list native_listener" where
  "ref_native_listener =
     \<lparr>nl_open = (\<lambda>n. (n, Ok ())), nl_start = (\<lambda>n. (n, Ok ())), nl_stop = (\<lambda>n. n), nl_close = (\<lambda>n. n),
      nl_set_configuration = (\<lambda>h n. (n, if even h then Ok () else Err (Status 1))),
      nl_connection_close = (\<lambda>h n. h # n)\<rparr>"

section \<open>Lemmas\<close>

lemma ref_listener_env_simps [simp]:
  "le_status ref_listener_env = ref_status" "le_conn ref_listener_env = fifo_mpsc" "le_shutdown ref_listener_env = cell_oneshot"
  by (simp_all add: ref_listener_env_def)

lemma release_guard_view:
  "rd_active (lw_rundown (release_guard w)) = rd_active (lw_rundown w) - 1"
  "lw_conn (release_guard w) = lw_conn w" "lw_closed (release_guard w) = lw_closed w"
  "lw_shutdown (release_guard w) = lw_shutdown w" "lw_native (release_guard w) = lw_native w"
  using guard_drop_active [of "lw_rundown w"] by (cases "guard_drop (lw_rundown w)"; simp add: release_guard_def)+

lemma drop_connection_view:
  "rd_active (lw_rundown (drop_connection NL h w)) = rd_active (lw_rundown w) - 1"
  "lw_conn (drop_connection NL h w) = lw_conn w" "lw_closed (drop_connection NL h w) = h # lw_closed w"
  "lw_shutdown (drop_connection NL h w) = lw_shutdown w"
  using guard_drop_active [of "lw_rundown w"]
  by (cases "guard_drop (lw_rundown w)"; simp add: drop_connection_def conn_handle_drop_def)+

lemma signal_end_poison: "lx_poisoned (fst (signal_end L st)) = lx_poisoned (fst st)"
  by (cases st) (simp add: signal_end_def)

lemma deliver_connection_poison:
  "deliver_connection L CE NL cfg h (st, own) = ((st', own'), b) \<Longrightarrow> lx_poisoned (fst st') = lx_poisoned (fst st)"
  by (cases st) (auto simp: deliver_connection_def Let_def split: prod.splits if_splits)

lemma listener_callback_poison:
  assumes "listener_callback L CE NL cfg ev (st, own) = ((st', own'), r)"
  shows "lx_poisoned (fst st') = lx_poisoned (fst st)"
proof (cases ev)
  case (LE_NewConnection h)
  with assms show ?thesis
    by (cases st) (auto simp: cb_NewConnection_def decide_new_connection_def Let_def dest!: deliver_connection_poison
        split: prod.splits result.splits if_splits)
qed (use assms in \<open>auto simp: signal_end_poison\<close>)

interpretation listener_cb: guarded_class "\<lambda>ost. lx_poisoned (fst (fst ost))" "listener_poison_disp (le_status L)"
    "listener_body L CE NL cfg pan" "\<lambda>_. listener_recover L"
  for L :: "('q, 'h, ('co, 'ch, 'cq, 'n) accepted) listener_env" and CE :: "('co, 'ch, 'cq, 'x) conn_env"
    and NL :: "'n native_listener" and cfg :: h3_config
    and pan :: "listener_event \<Rightarrow> ('q, 'h, 'n) listener_st \<times> bool \<Rightarrow> (('q, 'h, 'n) listener_st \<times> bool) option"
proof unfold_locales
  show "lx_poisoned (fst (fst (fst (listener_recover L c))))" for c :: "('q, 'h, 'n) listener_st \<times> bool"
    by (simp add: listener_recover_def Let_def split: prod.split)
  show "lx_poisoned (fst (fst c')) = lx_poisoned (fst (fst c))"
    if "listener_body L CE NL cfg pan e c = (c', Returned r)" for e c c' r
    using that
    by (cases c; cases "fst c")
      (auto simp: listener_body_def split: option.splits prod.splits dest!: listener_callback_poison)
qed

section \<open>The listener over its channels\<close>

locale listener_channels =
  acc: mpsc_channel "le_conn L" q tx rx park +
  sh: oneshot_channel "le_shutdown L" content alive waiting
  for L :: "('q, 'h, ('co, 'ch, 'cq, 'n) accepted) listener_env"
    and q :: "'q \<Rightarrow> ('co, 'ch, 'cq, 'n) accepted option list" and tx rx :: "'q \<Rightarrow> bool" and park :: "'q \<Rightarrow> waker option"
    and content :: "'h \<Rightarrow> unit option" and alive :: "'h \<Rightarrow> bool" and waiting :: "'h \<Rightarrow> waker option"
begin

lemma channel_sync: "listener_sync tx alive (fst (listener_ctx_channel L rd n))"
  by (simp add: listener_ctx_channel_def listener_sync_def acc.new_view sh.one_new)

lemma signal_end_view:
  assumes "listener_sync tx alive (c, w)" and "signal_end L (c, w) = (c', w')"
  shows "listener_sync tx alive (c', w') \<and> \<not> alive (lw_shutdown w') \<and>
    q (lw_conn w') = q (lw_conn w) @ (if tx (lw_conn w) \<and> rx (lw_conn w) then [None] else []) \<and>
    rx (lw_conn w') = rx (lw_conn w) \<and>
    (tx (lw_conn w) \<longrightarrow> tx (lw_conn w')) \<and> (lx_shutdown c \<longrightarrow> content (lw_shutdown w') = Some ()) \<and>
    lw_rundown w' = lw_rundown w \<and> lw_closed w' = lw_closed w"
proof -
  have ch: "tx (lw_conn w) \<Longrightarrow> tx (fst (unbounded_send (le_conn L) None (lw_conn w))) \<and>
      rx (fst (unbounded_send (le_conn L) None (lw_conn w))) = rx (lw_conn w) \<and>
      q (fst (unbounded_send (le_conn L) None (lw_conn w))) = q (lw_conn w) @ (if rx (lw_conn w) then [None] else [])"
    using acc.send_tx acc.send_rx acc.send_queue acc.send_lost by auto
  from assms show ?thesis
    by (cases "lx_conn c"; cases "lx_shutdown c") (auto simp: signal_end_def listener_sync_def sh.one_send ch)
qed

text \<open>Delivery after ownership was taken, from a world that already counts the connection's guard.\<close>

lemma deliver_balanced:
  assumes sync: "listener_sync tx alive (c, w)" and pos: "0 < rd_active (lw_rundown w)"
    and r: "deliver_connection L CE NL cfg h ((c, w), own) = (((c', w'), own'), b)"
  shows "listener_sync tx alive (c', w') \<and> own' \<and> conn_handled q h w' = conn_handled q h w + 1 \<and>
    rd_active (lw_rundown w') + queued q w + 1 = rd_active (lw_rundown w) + queued q w'"
proof -
  let ?x = "(h, connection_attach CE cfg (lw_native w))"
  obtain ch sent where s: "unbounded_send (le_conn L) (Some ?x) (lw_conn w) = (ch, sent)" by fastforce
  have x: "carries h (Some ?x)" by (simp add: carries_def)
  have ch: "tx (lw_conn w) \<Longrightarrow> tx ch \<and> sent = rx (lw_conn w) \<and> q ch = q (lw_conn w) @ (if rx (lw_conn w) then [Some ?x] else [])"
    using acc.send_ok [of "lw_conn w" "Some ?x"] acc.send_tx [of "lw_conn w" "Some ?x"]
      acc.send_queue [of "lw_conn w" "Some ?x"] acc.send_lost [of "lw_conn w" "Some ?x"] s by auto
  show ?thesis
    using r sync pos ch x
    by (cases "lx_conn c"; cases "rx (lw_conn w)")
      (auto simp: deliver_connection_def s listener_sync_def conn_handled_def queued_def drop_connection_view
        simp del: not_None_eq)
qed

lemma new_connection_balanced:
  assumes sync: "listener_sync tx alive (c, w)"
    and r: "cb_NewConnection L CE NL cfg h ((c, w), False) = (((c', w'), own'), res)"
  shows "listener_sync tx alive (c', w') \<and> own' = is_ok res \<and> balanced q h own' w w'"
proof -
  obtain n config where conf: "nl_set_configuration NL h (lw_native w) = (n, config)" by fastforce
  let ?w1 = "w\<lparr>lw_rundown := guard_new (lw_rundown w), lw_native := n\<rparr>"
  have w1: "reserve_guard w\<lparr>lw_native := n\<rparr> = ?w1" "lw_native (reserve_guard w) = lw_native w"
    by (simp_all add: reserve_guard_def)
  have active: "rd_active (lw_rundown ?w1) = Suc (rd_active (lw_rundown w))" by (simp add: guard_new_def)
  have same: "listener_sync tx alive (c, ?w1)" "conn_handled q h ?w1 = conn_handled q h w" "queued q ?w1 = queued q w"
    using sync by (simp_all add: listener_sync_def conn_handled_def queued_def)
  show ?thesis
  proof (cases config)
    case (Err e)
    with r conf w1 sync show ?thesis
      by (auto simp: cb_NewConnection_def decide_new_connection_def balanced_def release_guard_view guard_new_def
          listener_sync_def conn_handled_def queued_def)
  next
    case (Ok u)
    obtain c2 w2 own2 b where d: "deliver_connection L CE NL cfg h ((c, ?w1), False) = (((c2, w2), own2), b)"
      by (metis prod.exhaust)
    from deliver_balanced [OF same(1) _ d] active same r conf w1 Ok d show ?thesis
      by (auto simp: cb_NewConnection_def decide_new_connection_def balanced_def split: if_splits)
  qed
qed

lemma listener_recover_view:
  assumes "listener_sync tx alive (c, w)" and "listener_recover L ((c, w), own) = (((c', w'), own'), r)"
  shows "\<not> alive (lw_shutdown w') \<and> own' = own \<and> r = (if own then Ok () else Err (internal_error_status (le_status L))) \<and>
    q (lw_conn w') = q (lw_conn w) @ (if tx (lw_conn w) \<and> rx (lw_conn w) then [None] else []) \<and>
    rx (lw_conn w') = rx (lw_conn w) \<and> lw_rundown w' = lw_rundown w \<and> lw_closed w' = lw_closed w"
proof -
  obtain c1 w1 where s: "signal_end L (c, w) = (c1, w1)" by fastforce
  from signal_end_view [OF assms(1) s] assms(2) s show ?thesis by (auto simp: listener_recover_def)
qed

lemma end_marker_balanced:
  assumes "lw_rundown w' = lw_rundown w" and "lw_closed w' = lw_closed w"
    and "q (lw_conn w') = q (lw_conn w) @ (if b then [None] else [])"
  shows "balanced q h False w w'" "queued q w' = queued q w" "conn_handled q h w' = conn_handled q h w"
  using assms by (auto simp: balanced_def conn_handled_def queued_def carries_def)

text \<open>Accepting yields the queue item by item.\<close>

lemma accept_list_queue:
  assumes "rx (lw_conn w)" and "q (lw_conn w) = xs @ ys"
  shows "accept_list L cx (length xs) w = map (\<lambda>x. PollReady (Ok x)) xs"
  using assms
proof (induction xs arbitrary: w)
  case (Cons x xs)
  obtain ch p where p: "poll_next (le_conn L) cx (lw_conn w) = (ch, p)" by fastforce
  with Cons.prems acc.poll_item [of "lw_conn w" x "xs @ ys" cx] acc.poll_item_queue [of "lw_conn w" x "xs @ ys" cx]
    acc.poll_ends(2) [of "lw_conn w" cx] Cons.IH [of "w\<lparr>lw_conn := ch\<rparr>"]
  show ?case by (simp add: listener_poll_accept_def)
qed simp

end

interpretation ref_listener: listener_channels ref_listener_env fifo_items fifo_tx fifo_rx fifo_parked
    cell_value cell_tx cell_waiting
  unfolding listener_channels_def ref_listener_env_simps
  by (simp add: fifo.mpsc_channel_axioms cell.oneshot_channel_axioms)

text \<open>The handler on an unpoisoned context.\<close>

lemma listener_handler_cases:
  assumes "\<not> lx_poisoned (fst st)"
  shows "listener_handler L CE NL cfg pan ev st =
    (case pan ev (st, False) of
       None \<Rightarrow> (let ((st', _), r) = listener_callback L CE NL cfg ev (st, False) in (st', r))
     | Some ost \<Rightarrow> (let ((st', _), r) = listener_recover L ost in (st', r)))"
  using assms
  by (simp add: listener_handler_def guard_callback_def listener_body_def Let_def split: option.split prod.split)

lemma listener_handler_poisoned:
  "lx_poisoned (fst st) \<Longrightarrow>
    listener_handler L CE NL cfg pan ev st = (st, listener_poison_disp (le_status L) ev)"
  by (simp add: listener_handler_def guard_callback_def)

section \<open>Properties\<close>

text \<open>
  C13: every offered connection is disposed of exactly once, and the rundown count stays exact.
  Whatever becomes of a \<open>NewConnection\<close> event (configuration refused, delivered, frontend gone,
  poisoned context, panic before or after the ownership transfer), the connection is queued or closed by
  the adapter, once, with an \<open>Ok\<close> answer, or neither, and the error answer makes the native library
  reject it; and the rundown count grows by one exactly when a connection was queued. The hypothesis
  on \<open>pan\<close> is what unwinding does: an owned connection is closed and its guard released.
\<close>

theorem new_connection_disposed_once:
  assumes "listener_channels L q tx rx park content alive waiting"
    and "listener_sync tx alive st"
    and "\<And>st' own. pan (LE_NewConnection h) (st, False) = Some (st', own) \<Longrightarrow>
      listener_sync tx alive st' \<and> balanced q h own (snd st) (snd st')"
    and "listener_handler L CE NL cfg pan (LE_NewConnection h) st = (st', r)"
  shows "conn_handled q h (snd st') + (if is_ok r then 0 else 1) = conn_handled q h (snd st) + 1 \<and>
    rd_active (lw_rundown (snd st')) + queued q (snd st) = rd_active (lw_rundown (snd st)) + queued q (snd st')"
proof (cases "lx_poisoned (fst st)")
  case True
  with assms(4) show ?thesis by (auto simp: listener_handler_poisoned)
next
  case False
  obtain c w where st: "st = (c, w)" by fastforce
  show ?thesis
  proof (cases "pan (LE_NewConnection h) (st, False)")
    case None
    obtain c2 w2 own r2 where cb: "cb_NewConnection L CE NL cfg h ((c, w), False) = (((c2, w2), own), r2)"
      by (metis prod.exhaust)
    from listener_channels.new_connection_balanced [OF assms(1) _ cb] assms(2,4) False None st cb show ?thesis
      by (auto simp: listener_handler_cases balanced_def)
  next
    case (Some ost)
    obtain c1 w1 own where ost: "ost = ((c1, w1), own)" by (metis prod.exhaust)
    obtain c2 w2 own2 r2 where rec: "listener_recover L ((c1, w1), own) = (((c2, w2), own2), r2)" by (metis prod.exhaust)
    have bal: "listener_sync tx alive (c1, w1)" "balanced q h own w w1" using assms(3) [OF Some [unfolded ost]] st by auto
    note v = listener_channels.listener_recover_view [OF assms(1) bal(1) rec]
    with listener_channels.end_marker_balanced(2,3) [OF assms(1)] have
      "queued q w2 = queued q w1" "conn_handled q h w2 = conn_handled q h w1" by metis+
    with v bal(2) assms(4) False Some ost rec st show ?thesis
      by (auto simp: listener_handler_cases balanced_def)
  qed
qed

theorem new_connection_disposed_once_witness:
  "\<exists>st' r. listener_handler ref_listener_env ref_conn_env ref_native_listener h3_config_default (\<lambda>_ _. None) (LE_NewConnection 6)
      (fst (listener_ctx_channel ref_listener_env rundown_default [])) = (st', r) \<and>
    conn_handled fifo_items 6 (snd st') + (if is_ok r then 0 else 1) = 1 \<and>
    rd_active (lw_rundown (snd st')) = queued fifo_items (snd st')"
proof -
  let ?st = "fst (listener_ctx_channel ref_listener_env rundown_default ([] :: nat list))"
  obtain st' r where h: "listener_handler ref_listener_env ref_conn_env ref_native_listener h3_config_default (\<lambda>_ _. None)
      (LE_NewConnection 6) ?st = (st', r)" by (metis prod.exhaust)
  have z: "conn_handled fifo_items 6 (snd ?st) = 0" "queued fifo_items (snd ?st) = 0" "rd_active (lw_rundown (snd ?st)) = 0"
    by (simp_all add: conn_handled_def queued_def listener_ctx_channel_def chan_defs rundown_default_def)
  from new_connection_disposed_once [OF ref_listener.listener_channels_axioms ref_listener.channel_sync _ h] z h show ?thesis
    by auto
qed

text \<open>
  C28: the end of a listener reaches both of its waiters. When \<open>StopComplete\<close> is handled, and when a
  panic of the callback is recovered, accepting yields every connection queued before, in order, and
  then the end of connections, and a pending \<open>shutdown\<close> resolves.
\<close>

theorem listener_end_reaches_waiters:
  assumes "listener_channels L q tx rx park content alive waiting"
    and "\<not> lx_poisoned (fst st)"
    and "case pan ev (st, False) of None \<Rightarrow> ev = LE_StopComplete \<and> (c, w) = st | Some ost \<Rightarrow> (c, w) = fst ost"
    and "listener_sync tx alive (c, w)" and "lx_conn c" and "rx (lw_conn w)"
    and "listener_handler L CE NL cfg pan ev st = ((c', w'), r)"
  shows "accept_list L cx (Suc (length (q (lw_conn w)))) w' = map (\<lambda>x. PollReady (Ok x)) (q (lw_conn w) @ [None]) \<and>
    snd (shutdown_poll L waits cx w') \<noteq> PollPending"
proof -
  have tx: "tx (lw_conn w)" using assms(4,5) by (simp add: listener_sync_def)
  have "q (lw_conn w') = q (lw_conn w) @ [None] \<and> rx (lw_conn w') \<and> \<not> alive (lw_shutdown w')"
  proof (cases "pan ev (st, False)")
    case None
    obtain c1 w1 where s: "signal_end L (c, w) = (c1, w1)" by fastforce
    from listener_channels.signal_end_view [OF assms(1,4) s] assms(2,3,6,7) None s tx show ?thesis
      by (auto simp: listener_handler_cases)
  next
    case (Some ost)
    obtain own where ost: "ost = ((c, w), own)" using assms(3) Some by (cases ost) auto
    obtain c1 w1 own1 r1 where s: "listener_recover L ((c, w), own) = (((c1, w1), own1), r1)" by (metis prod.exhaust)
    from listener_channels.listener_recover_view [OF assms(1,4) s] assms(2,6,7) Some ost s tx show ?thesis
      by (auto simp: listener_handler_cases)
  qed
  with listener_channels.accept_list_queue [OF assms(1), of w' "q (lw_conn w) @ [None]" "[]" cx]
    oneshot_channel.resolved_not_pending [OF listener_channels.axioms(2) [OF assms(1)], of "lw_shutdown w'" cx]
  show ?thesis by (auto simp: shutdown_poll_def split: prod.splits)
qed

theorem listener_end_reaches_waiters_witness:
  "\<exists>c' w' r. listener_handler ref_listener_env ref_conn_env ref_native_listener h3_config_default (\<lambda>_ _. None) LE_StopComplete
      (fst (listener_ctx_channel ref_listener_env rundown_default [])) = ((c', w'), r) \<and>
    accept_list ref_listener_env 3 1 w' = [PollReady (Ok None)] \<and> snd (shutdown_poll ref_listener_env True 3 w') \<noteq> PollPending"
proof -
  obtain c w where st: "fst (listener_ctx_channel ref_listener_env rundown_default ([] :: nat list)) = (c, w)" by fastforce
  obtain c' w' r where h: "listener_handler ref_listener_env ref_conn_env ref_native_listener h3_config_default (\<lambda>_ _. None)
      LE_StopComplete (c, w) = ((c', w'), r)" by (metis prod.exhaust)
  have p: "\<not> lx_poisoned (fst (c, w))" "lx_conn c" "fifo_rx (lw_conn w)" "fifo_items (lw_conn w) = []"
    using st by (auto simp: listener_ctx_channel_def chan_defs)
  have sync: "listener_sync fifo_tx cell_tx (c, w)" using ref_listener.channel_sync st by metis
  from listener_end_reaches_waiters [OF ref_listener.listener_channels_axioms p(1) _ sync p(2,3) h, of 3 True] p(4) st h show ?thesis
    by auto
qed

text \<open>
  Constructing a listener keeps the rundown count exact, and shutting one down happens once. A
  failed open or start gives back the reservation made before it (a failed start after closing the
  listener), a successful one keeps it; the first \<open>shutdown\<close> stops the native listener and waits for
  its end, and any later one makes no native call and returns at once.
\<close>

theorem listener_construction_and_shutdown:
  "(case listener_with_config L NL cfg (n, rd) of
      (w, Ok _) \<Rightarrow> rd_active (lw_rundown w) = rd_active rd + 1
    | (w, Err _) \<Rightarrow> rd_active (lw_rundown w) = rd_active rd \<and>
        lw_native w = (case nl_open NL n of (n', Err _) \<Rightarrow> n' | (n', Ok _) \<Rightarrow> nl_close NL (fst (nl_start NL n')))) \<and>
   (let ((lrx1, w1), waits1) = shutdown_begin NL (\<lparr>lr_shutdown = True\<rparr>, w);
        ((lrx2, w2), waits2) = shutdown_begin NL (lrx1, w1)
    in lw_native w1 = nl_stop NL (lw_native w) \<and> waits1 \<and> w2 = w1 \<and> \<not> waits2 \<and>
       shutdown_poll L waits2 cx w2 = (w2, PollReady ()))"
proof -
  have "case listener_with_config L NL cfg (n, rd) of
      (w, Ok _) \<Rightarrow> rd_active (lw_rundown w) = rd_active rd + 1
    | (w, Err _) \<Rightarrow> rd_active (lw_rundown w) = rd_active rd \<and>
        lw_native w = (case nl_open NL n of (n', Err _) \<Rightarrow> n' | (n', Ok _) \<Rightarrow> nl_close NL (fst (nl_start NL n')))"
    by (cases "nl_open NL n"; cases "snd (nl_open NL n)"; cases "nl_start NL (fst (nl_open NL n))";
        cases "snd (nl_start NL (fst (nl_open NL n)))")
      (auto simp: listener_with_config_def listener_ctx_channel_def reserve_guard_def guard_new_def release_guard_view Let_def)
  then show ?thesis by (simp add: shutdown_begin_def shutdown_poll_def)
qed

text \<open>
  C31: a panic in the listener callback is contained. The handler answers \<open>Ok\<close> exactly when this
  event's connection was already owned (so it is not closed twice), never touches the native library,
  and every later event is inert and gets its poison disposition.
\<close>

theorem listener_panic_contained:
  assumes "\<not> lx_poisoned (fst st)" and "pan ev (st, False) = Some ((c, w), own)"
  shows "\<exists>c' w'. guarded_run (\<lambda>ost. lx_poisoned (fst (fst ost))) (listener_poison_disp (le_status L))
        (listener_body L CE NL cfg pan) (\<lambda>_. listener_recover L) (ev # evs) (st, False) =
      (((c', w'), own), (if own then Ok () else Err (internal_error_status (le_status L))) #
         map (listener_poison_disp (le_status L)) evs) \<and>
    lw_native w' = lw_native w \<and> lw_rundown w' = lw_rundown w \<and> lw_closed w' = lw_closed w"
proof -
  obtain c' w' own' res where r: "listener_recover L ((c, w), own) = (((c', w'), own'), res)" by (metis prod.exhaust)
  have "listener_body L CE NL cfg pan ev (st, False) = (((c, w), own), Panicked)"
    using assms(2) by (simp add: listener_body_def)
  from listener_cb.panic_recovers_once [OF _ this, of evs] assms(1) r show ?thesis
    by (auto simp: listener_recover_def signal_end_def Let_def split: prod.splits if_splits)
qed

theorem listener_panic_contained_witness:
  "\<exists>c' w'. guarded_run (\<lambda>ost. lx_poisoned (fst (fst ost))) (listener_poison_disp ref_status)
      (listener_body ref_listener_env ref_conn_env ref_native_listener h3_config_default (\<lambda>_ ost. Some (fst ost, False)))
      (\<lambda>_. listener_recover ref_listener_env) [LE_NewConnection 2, LE_StopComplete]
      (fst (listener_ctx_channel ref_listener_env rundown_default []), False) =
    (((c', w'), False), [Err (Status 5), Ok ()]) \<and> lw_native w' = []"
proof -
  obtain c w where st: "fst (listener_ctx_channel ref_listener_env rundown_default ([] :: nat list)) = (c, w)" by fastforce
  then have p: "\<not> lx_poisoned (fst (c, w))" "lw_native w = []" by (auto simp: listener_ctx_channel_def)
  show ?thesis
    using listener_panic_contained [where pan = "\<lambda>_ ost. Some (fst ost, False)" and L = ref_listener_env and own = False and
        evs = "[LE_StopComplete]" and ev = "LE_NewConnection 2" and c = c and w = w and CE = ref_conn_env and
        NL = ref_native_listener and cfg = h3_config_default, OF p(1)] p(2) st
    by (auto simp: internal_error_status_def status_simps)
qed

end
