(* ===== verification/H3_Listener_Tests.thy ===== *)
theory H3_Listener_Tests
  imports H3_Scenario H3_Listener
begin

text \<open>
  The tests of \<open>listener.rs\<close> (modules \<open>new_conn_decision\<close> and \<open>callback_safety\<close>), replayed on the close-or-reject
  decision, the guard and the recovery of the listener, and the tests of \<open>registration.rs\<close>, replayed on the rundown
  state.
\<close>

section \<open>Listener fixture\<close>

type_synonym ref_listener_st = "(ref_accepted option fifo, unit cell, nat list) listener_st"

definition t_listener :: ref_listener_st where
  "t_listener = fst (listener_ctx_channel ref_listener_env rundown_default [])"

definition l_is_internal_err :: "(unit, status) result \<Rightarrow> bool" where
  "l_is_internal_err r = (case r of Err s \<Rightarrow> s = status_new ref_status QUIC_STATUS_INTERNAL_ERROR | Ok _ \<Rightarrow> False)"

text \<open>
  The guard around a body that panics after \<open>unwound\<close>, with a fresh ownership token; the token is returned too.
  \<open>OwnedStandIn\<close> is a body that marks the token and panics holding the owned connection.
\<close>

definition listener_guard ::
  "(unit, status) result \<Rightarrow> (ref_listener_st \<times> bool \<Rightarrow> ref_listener_st \<times> bool) \<Rightarrow> ref_listener_st \<Rightarrow>
   (ref_listener_st \<times> bool) \<times> (unit, status) result" where
  "listener_guard disp unwound st =
     guard_callback (\<lambda>ost. lx_poisoned (fst (fst ost))) disp (\<lambda>ost. (unwound ost, Panicked))
       (listener_recover ref_listener_env) (st, False)"

definition listener_boom :: "ref_listener_st \<times> bool \<Rightarrow> ref_listener_st \<times> bool" where
  "listener_boom ost = ost"

definition owned_stand_in :: "ref_listener_st \<times> bool \<Rightarrow> ref_listener_st \<times> bool" where
  "owned_stand_in ost = (let ((c, w), _) = ost in ((c, w\<lparr>lw_closed := 0 # lw_closed w\<rparr>), True))"

definition assert_both_waiters_woken :: "ref_listener_st \<Rightarrow> unit option" where
  "assert_both_waiters_woken st = do {
     check (case snd (poll_next (le_conn ref_listener_env) 0 (lw_conn (snd st))) of
              PollReady (Some None) \<Rightarrow> True | _ \<Rightarrow> False);
     check (case snd (oneshot_poll (le_shutdown ref_listener_env) 0 (lw_shutdown (snd st))) of
              PollReady (Some ()) \<Rightarrow> True | _ \<Rightarrow> False)}"

section \<open>The decision for a new connection\<close>

text \<open>
  The state is the rundown count with whether the delivery ran. The guard is released by the closure
  that captured it, run or not.
\<close>

definition drop_rundown :: "rundown_state \<times> bool \<Rightarrow> rundown_state \<times> bool" where
  "drop_rundown sd = (fst (guard_drop (fst sd)), snd sd)"

definition test_config_failure_closes_once_without_taking_ownership :: bool where
  "test_config_failure_closes_once_without_taking_ownership = passes (do {
     let base = rd_active rundown_default;
     let state = guard_new rundown_default;
     check (rd_active state = base + 1);
     let status = status_new ref_status QUIC_STATUS_INTERNAL_ERROR;
     let expected = try_as_status_code ref_status status;
     let ((state, delivered), decision) = decide_new_connection (Err status)
       (\<lambda>sd. (drop_rundown (fst sd, True), True)) drop_rundown (state, False);
     check (case decision of ConfigFailedClose e \<Rightarrow> try_as_status_code ref_status e = expected | _ \<Rightarrow> False);
     check (\<not> delivered);
     check (rd_active state = base)})"

definition test_delivery_success_reports_delivered_owned :: bool where
  "test_delivery_success_reports_delivered_owned = passes (
     check (snd (decide_new_connection (Ok ()) (\<lambda>u. (u, True)) (\<lambda>u. u) ()) = DeliveredOwned))"

definition test_delivery_failure_reports_drop_owned :: bool where
  "test_delivery_failure_reports_drop_owned = passes (
     check (snd (decide_new_connection (Ok ()) (\<lambda>u. (u, False)) (\<lambda>u. u) ()) = DeliveryFailedDropOwned))"

section \<open>Panic containment\<close>

definition test_listener_callback_panic_before_from_raw_rejects :: bool where
  "test_listener_callback_panic_before_from_raw_rejects = passes (do {
     let ((st, _), got) = listener_guard (Err (status_new ref_status QUIC_STATUS_INTERNAL_ERROR)) listener_boom t_listener;
     check (l_is_internal_err got);
     check (lw_closed (snd st) = []);
     check (lx_poisoned (fst st));
     assert_both_waiters_woken st})"

definition test_listener_callback_panic_after_from_raw_does_not_reject :: bool where
  "test_listener_callback_panic_after_from_raw_does_not_reject = passes (do {
     let ((st, _), got) = listener_guard (Err (status_new ref_status QUIC_STATUS_INTERNAL_ERROR)) owned_stand_in t_listener;
     check (is_ok got);
     check (length (lw_closed (snd st)) = 1);
     check (lx_poisoned (fst st));
     assert_both_waiters_woken st})"

definition test_listener_ownership_decision_is_invocation_local :: bool where
  "test_listener_ownership_decision_is_invocation_local = passes (do {
     let ((st_a, owned_a), got_a) =
       listener_guard (Err (status_new ref_status QUIC_STATUS_INTERNAL_ERROR)) owned_stand_in t_listener;
     let ((st_b, owned_b), got_b) =
       listener_guard (Err (status_new ref_status QUIC_STATUS_INTERNAL_ERROR)) listener_boom t_listener;
     check (lx_poisoned (fst st_a));
     check (lx_poisoned (fst st_b));
     check (is_ok got_a);
     check (length (lw_closed (snd st_a)) = 1);
     check (l_is_internal_err got_b);
     check (lw_closed (snd st_b) = []);
     check owned_a;
     check (\<not> owned_b)})"

definition test_listener_poison_short_circuit_is_event_aware :: bool where
  "test_listener_poison_short_circuit_is_event_aware = passes (do {
     let st = (let (c, w) = t_listener in (c\<lparr>lx_poisoned := True\<rparr>, w));
     check (is_ok (listener_poison_disp ref_status LE_StopComplete));
     let ((st', _), got) = listener_guard (listener_poison_disp ref_status LE_StopComplete) owned_stand_in st;
     check (is_ok got \<and> lw_closed (snd st') = []);
     let ((st', _), got) =
       listener_guard (Err (status_new ref_status QUIC_STATUS_INTERNAL_ERROR)) owned_stand_in st;
     check (l_is_internal_err got \<and> lw_closed (snd st') = [])})"

definition test_listener_teardown_body_panic_is_contained_and_wakes_waiters :: bool where
  "test_listener_teardown_body_panic_is_contained_and_wakes_waiters = passes (do {
     let ((st, _), got) = listener_guard (listener_poison_disp ref_status LE_StopComplete) listener_boom t_listener;
     check (l_is_internal_err got);
     check (lx_poisoned (fst st));
     assert_both_waiters_woken st;
     let (_, got) = listener_guard (listener_poison_disp ref_status LE_StopComplete) listener_boom st;
     check (is_ok got)})"

section \<open>Rundown\<close>

text \<open>A future is its key; the no-op waker is waker 0.\<close>

definition t_poll :: "nat option \<Rightarrow> rundown_state \<Rightarrow> (rundown_state \<times> nat option) \<times> unit poll" where
  "t_poll fut state = wait_idle_poll fut 0 state"

definition t_drop :: "rundown_state \<Rightarrow> rundown_state" where
  "t_drop state = fst (guard_drop state)"

definition test_idle_from_start_resolves_immediately :: bool where
  "test_idle_from_start_resolves_immediately = passes (
     check (snd (t_poll wait_idle rundown_default) = PollReady ()))"

definition test_reservation_keeps_pending_until_dropped :: bool where
  "test_reservation_keeps_pending_until_dropped = passes (do {
     let state = guard_new rundown_default;
     let ((state, fut), p) = t_poll wait_idle state;
     check (p = PollPending);
     check (snd (t_poll fut (t_drop state)) = PollReady ())})"

definition test_guard_drop_wakes_registered_waiter :: bool where
  "test_guard_drop_wakes_registered_waiter = passes (do {
     let state = guard_new rundown_default;
     let ((state, fut), p) = wait_idle_poll wait_idle 7 state;
     check (p = PollPending);
     let (state, woken) = guard_drop state;
     check (7 \<in> set woken);
     check (snd (t_poll fut state) = PollReady ())})"

definition test_concurrent_waiters_all_complete :: bool where
  "test_concurrent_waiters_all_complete = passes (do {
     let state = guard_new rundown_default;
     let ((state, a), pa) = t_poll wait_idle state;
     let ((state, b), pb) = t_poll wait_idle state;
     check (pa = PollPending);
     check (pb = PollPending);
     let state = t_drop state;
     let ((state, a), pa) = t_poll a state;
     check (pa = PollReady ());
     check (snd (t_poll b state) = PollReady ())})"

definition test_dropped_waiter_deregisters_its_slot :: bool where
  "test_dropped_waiter_deregisters_its_slot = passes (do {
     let state = guard_new rundown_default;
     let ((state, fut), p) = t_poll wait_idle state;
     check (p = PollPending);
     check (length (rd_map state) = 1);
     check (length (rd_map (wait_idle_drop fut state)) = 0)})"

definition test_nested_reservations_need_all_released :: bool where
  "test_nested_reservations_need_all_released = passes (do {
     let state = guard_new (guard_new rundown_default);
     let ((state, fut), p) = t_poll wait_idle state;
     check (p = PollPending);
     let ((state, fut), p) = t_poll fut (t_drop state);
     check (p = PollPending);
     check (snd (t_poll fut (t_drop state)) = PollReady ())})"

section \<open>A live listener\<close>

definition test_listener_keeps_wait_idle_pending :: bool where
  "test_listener_keeps_wait_idle_pending = passes (do {
     let (w, l) = listener_new ref_listener_env ref_native_listener ([], rundown_default);
     _ \<leftarrow> unwrap l;
     let ((rd, fut), p) = t_poll wait_idle (lw_rundown w);
     check (p = PollPending);
     let w = listener_drop ref_listener_env ref_native_listener (w\<lparr>lw_rundown := wait_idle_drop fut rd\<rparr>);
     check (snd (t_poll wait_idle (lw_rundown w)) = PollReady ())})"

section \<open>The tests pass\<close>

lemma listener_keeps_wait_idle_pending_passes: "test_listener_keeps_wait_idle_pending"
  by code_simp

lemma config_failure_closes_once_without_taking_ownership_passes: "test_config_failure_closes_once_without_taking_ownership"
  by code_simp

lemma delivery_success_reports_delivered_owned_passes: "test_delivery_success_reports_delivered_owned"
  by code_simp

lemma delivery_failure_reports_drop_owned_passes: "test_delivery_failure_reports_drop_owned"
  by code_simp

lemma listener_callback_panic_before_from_raw_rejects_passes: "test_listener_callback_panic_before_from_raw_rejects"
  by code_simp

lemma listener_callback_panic_after_from_raw_does_not_reject_passes: "test_listener_callback_panic_after_from_raw_does_not_reject"
  by code_simp

lemma listener_ownership_decision_is_invocation_local_passes: "test_listener_ownership_decision_is_invocation_local"
  by code_simp

lemma listener_poison_short_circuit_is_event_aware_passes: "test_listener_poison_short_circuit_is_event_aware"
  by code_simp

lemma listener_teardown_body_panic_is_contained_and_wakes_waiters_passes: "test_listener_teardown_body_panic_is_contained_and_wakes_waiters"
  by code_simp

lemma idle_from_start_resolves_immediately_passes: "test_idle_from_start_resolves_immediately"
  by code_simp

lemma reservation_keeps_pending_until_dropped_passes: "test_reservation_keeps_pending_until_dropped"
  by code_simp

lemma guard_drop_wakes_registered_waiter_passes: "test_guard_drop_wakes_registered_waiter"
  by code_simp

lemma concurrent_waiters_all_complete_passes: "test_concurrent_waiters_all_complete"
  by code_simp

lemma dropped_waiter_deregisters_its_slot_passes: "test_dropped_waiter_deregisters_its_slot"
  by code_simp

lemma nested_reservations_need_all_released_passes: "test_nested_reservations_need_all_released"
  by code_simp

end
