(* ===== verification/H3_Send_Seam.thy ===== *)
theory H3_Send_Seam
  imports H3_Stream_Tests H3_Connection
begin

text \<open>
  The send-seam tests of \<open>send_seam.rs\<close>: the two test doubles of the executor seam and the scenarios run
  against them. A scenario is an executable program in the option monad whose failed assertion is
  \<open>None\<close>; that it passes is a theorem about the model of \<open>stream.rs\<close>.

  The tests read the doubles' counters through a shared handle; here the handle is the native state of the
  world. The heap of boxes is the process's, so a box is submitted and completed in one world, and
  the drop counter of a buffer is the number of frees of its address. The channels, the status
  codes and the framed payloads are the reference instances.
\<close>

section \<open>Payloads\<close>

text \<open>
  A frame of type DATA around a payload of less than 64 bytes or of 64 to 16383 bytes, as RFC 9114 lays it
  out (type 0, variable-length length, payload): what \<open>WriteBuf\<close> holds when the tests send.
\<close>

definition data_frame :: "bytes \<Rightarrow> nat \<times> bytes" where
  "data_frame payload =
     (100, 0 # (if length payload < 64 then [of_nat (length payload)]
                else [64 + of_nat (length payload div 256), of_nat (length payload mod 256)]) @ payload)"

section \<open>CountingExec\<close>

record counting =
  sends :: nat
  gracefuls :: nat
  resets :: nat
  reset_codes :: "u64 list"
  allocs :: nat
  reclaims :: nat
  client_ctx :: "nat list"
  script :: "(unit, status) result list"

definition counting_new :: "(unit, status) result list \<Rightarrow> counting" where
  "counting_new scr = \<lparr>sends = 0, gracefuls = 0, resets = 0, reset_codes = [], allocs = 0, reclaims = 0,
     client_ctx = [], script = scr\<rparr>"

definition counting_submit_send ::
  "send_buffer \<Rightarrow> ('o, 's, 'r, counting) stream_world \<Rightarrow> ('o, 's, 'r, counting) stream_world \<times> (unit, status) result" where
  "counting_submit_send buf w =
     (let h = w_native w;
          h = h\<lparr>sends := sends h + 1\<rparr>;
          (scripted, h) = (case script h of [] \<Rightarrow> (Ok (), h) | r # rs \<Rightarrow> (r, h\<lparr>script := rs\<rparr>));
          (w, res) = submit_owned_send buf
            (\<lambda>_ cc h. let h = h\<lparr>allocs := allocs h + 1\<rparr> in
               case scripted of
                 Ok _ \<Rightarrow> (h\<lparr>client_ctx := client_ctx h @ [cc]\<rparr>, Ok ())
               | Err status \<Rightarrow> (h, Err status)) (w\<lparr>w_native := h\<rparr>)
      in (if is_ok res then w else w\<lparr>w_native := (w_native w)\<lparr>reclaims := reclaims (w_native w) + 1\<rparr>\<rparr>, res))"

definition counting_submit_graceful ::
  "('o, 's, 'r, counting) stream_world \<Rightarrow> ('o, 's, 'r, counting) stream_world \<times> (unit, status) result" where
  "counting_submit_graceful w = (w\<lparr>w_native := (w_native w)\<lparr>gracefuls := gracefuls (w_native w) + 1\<rparr>\<rparr>, Ok ())"

definition counting_submit_reset ::
  "u64 \<Rightarrow> ('o, 's, 'r, counting) stream_world \<Rightarrow> ('o, 's, 'r, counting) stream_world \<times> (unit, status) result" where
  "counting_submit_reset code w =
     (w\<lparr>w_native := (w_native w)\<lparr>resets := resets (w_native w) + 1, reset_codes := reset_codes (w_native w) @ [code]\<rparr>\<rparr>, Ok ())"

definition counting_exec :: "('o, 's, 'r, counting) stream_world send_exec" where
  "counting_exec = \<lparr>submit_send = counting_submit_send, submit_graceful = counting_submit_graceful,
     submit_reset = counting_submit_reset\<rparr>"

text \<open>The native library the double stands for: it answers sends from the script and accepts everything else.\<close>

definition counting_native :: "counting native_stream" where
  "counting_native =
     \<lparr>ns_send = (\<lambda>bufs cc h.
        let h = h\<lparr>sends := sends h + 1, allocs := allocs h + 1\<rparr> in
        (case script h of
           [] \<Rightarrow> (h\<lparr>client_ctx := client_ctx h @ [cc]\<rparr>, Ok ())
         | Ok _ # rs \<Rightarrow> (h\<lparr>script := rs, client_ctx := client_ctx h @ [cc]\<rparr>, Ok ())
         | Err status # rs \<Rightarrow> (h\<lparr>script := rs, reclaims := reclaims h + 1\<rparr>, Err status))),
      ns_shutdown = (\<lambda>flags code h.
        if flags = SHUTDOWN_GRACEFUL then (h\<lparr>gracefuls := gracefuls h + 1\<rparr>, Ok ())
        else (h\<lparr>resets := resets h + 1, reset_codes := reset_codes h @ [code]\<rparr>, Ok ())),
      ns_receive_complete = (\<lambda>len h. h)\<rparr>"

section \<open>InjectingExec\<close>

text \<open>
  Each downcall records a connection cause in the shared slot and fails. The closure of \<open>submit_send\<close> records
  while the box is out; the box heap and the slot are disjoint parts of the world.
\<close>

definition inject :: "connection_terminal \<Rightarrow> ('o, 's, 'r, 'n) stream_world \<Rightarrow> ('o, 's, 'r, 'n) stream_world" where
  "inject cause w = w\<lparr>w_conn_slot := record_conn_terminal cause (w_conn_slot w)\<rparr>"

definition injecting_status :: status where
  "injecting_status = status_new ref_status QUIC_STATUS_INVALID_PARAMETER"

definition injecting_exec :: "connection_terminal \<Rightarrow> ('o, 's, 'r, 'n) stream_world send_exec" where
  "injecting_exec cause =
     \<lparr>submit_send = (\<lambda>buf w. submit_owned_send buf (\<lambda>_ _ n. (n, Err injecting_status)) (inject cause w)),
      submit_graceful = (\<lambda>w. (inject cause w, Err injecting_status)),
      submit_reset = (\<lambda>_ w. (inject cause w, Err injecting_status))\<rparr>"

section \<open>The test fixture\<close>

text \<open>A send half with its double, and the callback context of the same stream.\<close>

type_synonym 'n ref_world = "((u64, status) result cell, send_event fifo, receive_event fifo, 'n) stream_world"

record 'n seam =
  sm_s :: "nat send_stream_receive_ctx"
  sm_c :: stream_send_ctx
  sm_w :: "'n ref_world"

definition seam_of ::
  "((u64, status) result cell, send_event fifo, receive_event fifo, 'n) stream_st \<times> nat send_stream_receive_ctx \<times>
   nat recv_stream_receive_ctx \<Rightarrow> 'n seam" where
  "seam_of x = (let ((c, w), s, _) = x in \<lparr>sm_s = s, sm_c = c, sm_w = w\<rparr>)"

definition test_send_ctx :: "'n \<Rightarrow> 'n seam" where
  "test_send_ctx n = seam_of (stream_ctx_channel ref_env 0 n)"

definition test_send_ctx_with_conn :: "conn_terminal_state \<Rightarrow> 'n \<Rightarrow> 'n seam" where
  "test_send_ctx_with_conn conn n = seam_of (stream_ctx_channel_with_conn ref_env 0 conn n)"

definition test_send_ctx_with_config :: "h3_config \<Rightarrow> 'n \<Rightarrow> 'n seam" where
  "test_send_ctx_with_config config n = seam_of (stream_ctx_channel_with_config ref_env 0 conn_terminal_default config n)"

definition cfg_with_ceiling :: "u64 \<Rightarrow> h3_config option" where
  "cfg_with_ceiling ceiling = unwrap (build (with_max_send_bytes ceiling builder))"

definition on_s ::
  "((nat send_stream_receive_ctx \<times> 'n ref_world) \<times> 'a) option \<Rightarrow> 'n seam \<Rightarrow> ('n seam \<times> 'a) option" where
  "on_s r st = map_option (\<lambda>((s, w), a). (st\<lparr>sm_s := s, sm_w := w\<rparr>, a)) r"

text \<open>The calls the scenarios make; \<open>noop_cx\<close> is the task 0.\<close>

definition t_poll_ready :: "'n seam \<Rightarrow> ('n seam \<times> (unit, stream_error_incoming) result poll) option" where
  "t_poll_ready st = on_s (poll_ready ref_env calm 0 (sm_s st, sm_w st)) st"

definition t_poll_finish ::
  "'n ref_world send_exec \<Rightarrow> 'n seam \<Rightarrow> ('n seam \<times> (unit, stream_error_incoming) result poll) option" where
  "t_poll_finish X st = on_s (poll_finish ref_env calm X 0 (sm_s st, sm_w st)) st"

definition t_send_data ::
  "'n ref_world send_exec \<Rightarrow> nat \<times> bytes \<Rightarrow> 'n seam \<Rightarrow> ('n seam \<times> (unit, stream_error_incoming) result) option" where
  "t_send_data X frame st = on_s (send_data ref_env calm X native_buffer_ref slice_buf frame (sm_s st, sm_w st)) st"

definition t_reset :: "'n ref_world send_exec \<Rightarrow> u64 \<Rightarrow> 'n seam \<Rightarrow> 'n seam option" where
  "t_reset X code st =
     map_option (\<lambda>(s, w). st\<lparr>sm_s := s, sm_w := w\<rparr>) (reset ref_env calm X code (sm_s st, sm_w st))"

text \<open>\<open>stream_callback(..).unwrap()\<close>.\<close>

definition t_callback :: "stream_event \<Rightarrow> 'n seam \<Rightarrow> 'n seam option" where
  "t_callback ev st =
     (let ((c, w), r) = stream_callback ref_env ev (sm_c st, sm_w st)
      in if is_ok r then Some (st\<lparr>sm_c := c, sm_w := w\<rparr>) else None)"

definition t_record :: "connection_terminal \<Rightarrow> 'n seam \<Rightarrow> 'n seam" where
  "t_record cause st = st\<lparr>sm_w := inject cause (sm_w st)\<rparr>"

definition t_observe :: "'n seam \<Rightarrow> 'n seam \<times> connection_error_incoming" where
  "t_observe st =
     (let (sl, e) = observe_terminal (w_conn_slot (sm_w st)) in (st\<lparr>sm_w := (sm_w st)\<lparr>w_conn_slot := sl\<rparr>\<rparr>, e))"

definition t_try_recv :: "'n seam \<Rightarrow> 'n seam \<times> send_event option" where
  "t_try_recv st =
     (case fifo_items (w_send (sm_w st)) of
        [] \<Rightarrow> (st, None)
      | e # es \<Rightarrow> (st\<lparr>sm_w := (sm_w st)\<lparr>w_send := (w_send (sm_w st))\<lparr>fifo_items := es\<rparr>\<rparr>\<rparr>, Some e))"

text \<open>\<open>client_ctx.pop_front().unwrap()\<close>.\<close>

definition t_pop_ctx :: "counting seam \<Rightarrow> (counting seam \<times> nat) option" where
  "t_pop_ctx st =
     (case client_ctx (w_native (sm_w st)) of
        [] \<Rightarrow> None
      | cc # ccs \<Rightarrow> Some (st\<lparr>sm_w := (sm_w st)\<lparr>w_native := (w_native (sm_w st))\<lparr>client_ctx := ccs\<rparr>\<rparr>\<rparr>, cc))"

text \<open>\<open>exec.submit_send(buf)\<close> on a counted buffer.\<close>

definition t_submit :: "bytes \<Rightarrow> counting seam \<Rightarrow> counting seam \<times> (unit, status) result" where
  "t_submit b st =
     (let (w, r) = submit_send counting_exec (send_buffer_new native_buffer_ref \<lparr>storage = 100, content_of = b\<rparr>) (sm_w st)
      in (st\<lparr>sm_w := w\<rparr>, r))"

abbreviation hd_of :: "counting seam \<Rightarrow> counting" where
  "hd_of st \<equiv> w_native (sm_w st)"

abbreviation red_of :: "'n seam \<Rightarrow> send_state" where
  "red_of st \<equiv> ss_reducer (sm_s st)"

text \<open>How often the box at an address has been dropped: the drop counter of its buffer.\<close>

definition drops :: "nat \<Rightarrow> 'n seam \<Rightarrow> nat" where
  "drops cc st = length (filter (\<lambda>p. p = cc) (w_frees (sm_w st)))"

abbreviation app_close :: "u64 \<Rightarrow> stream_error_incoming" where
  "app_close code \<equiv> ConnectionErrorIncoming (ApplicationClose code)"

abbreviation conn_closed_by_peer :: "u64 \<Rightarrow> stream_event" where
  "conn_closed_by_peer code \<equiv>
     SE_ShutdownComplete True True True code (status_new ref_status QUIC_STATUS_ABORTED)"

definition provisional_local_close :: "'n seam \<Rightarrow> 'n seam option" where
  "provisional_local_close st =
     t_callback (SE_ShutdownComplete True True False 0 (status_new ref_status QUIC_STATUS_ABORTED)) st"

definition submit_then_cancel :: "counting seam \<Rightarrow> counting seam option" where
  "submit_then_cancel st =
     do {(st, r) \<leftarrow> t_send_data counting_exec (data_frame [112, 97, 121, 108, 111, 97, 100]) st;
         unwrap r;
         check (sends (hd_of st) = 1);
         (st, cc) \<leftarrow> t_pop_ctx st;
         t_callback (SE_SendComplete True cc) st}"

section \<open>The connection cause at the send half\<close>

definition test_f1_send_refinement_before_observation_surfaces_refined_cause :: bool where
  "test_f1_send_refinement_before_observation_surfaces_refined_cause = passes (do {
     let st = test_send_ctx_with_conn conn_terminal_default (counting_new []);
     st \<leftarrow> provisional_local_close st;
     let st = t_record (CT_PeerApplication 9) st;
     (st, r) \<leftarrow> t_poll_ready st;
     check (r = PollReady (Err (app_close 9)));
     let st = t_record (CT_PeerApplication 11) st;
     (st, r) \<leftarrow> t_poll_finish counting_exec st;
     check (r = PollReady (Err (app_close 9)))})"

definition test_f1_send_refinement_after_observation_is_rejected :: bool where
  "test_f1_send_refinement_after_observation_is_rejected = passes (do {
     let st = test_send_ctx_with_conn conn_terminal_default (counting_new []);
     st \<leftarrow> provisional_local_close st;
     (st, r) \<leftarrow> t_poll_ready st;
     check (r = PollReady (Err (ConnectionErrorIncoming (Undefined LocalConnectionClose))));
     let st = t_record (CT_PeerApplication 9) st;
     (st, r) \<leftarrow> t_poll_finish counting_exec st;
     check (r = PollReady (Err (ConnectionErrorIncoming (Undefined LocalConnectionClose))))})"

definition test_f1_reset_does_not_freeze_connection_winner_before_observation :: bool where
  "test_f1_reset_does_not_freeze_connection_winner_before_observation = passes (do {
     let st = test_send_ctx_with_conn conn_terminal_default (counting_new []);
     st \<leftarrow> provisional_local_close st;
     st \<leftarrow> t_reset counting_exec 5 st;
     let st = t_record (CT_PeerApplication 9) st;
     (st, r) \<leftarrow> t_poll_ready st;
     check (r = PollReady (Err (app_close 9)));
     let st = t_record (CT_PeerApplication 11) st;
     (st, r) \<leftarrow> t_poll_finish counting_exec st;
     check (r = PollReady (Err (app_close 9)))})"

section \<open>Submission, completion and rejection\<close>

definition test_send_data_wires_through_seam_and_signals_ready :: bool where
  "test_send_data_wires_through_seam_and_signals_ready = passes (do {
     let st = test_send_ctx (counting_new []);
     (st, r) \<leftarrow> t_send_data counting_exec (data_frame [104, 101, 108, 108, 111, 32, 119, 111, 114, 108, 100]) st;
     unwrap r;
     check (sends (hd_of st) = 1);
     check (allocs (hd_of st) = 1);
     check (reclaims (hd_of st) = 0);
     check (length (client_ctx (hd_of st)) = 1);
     (st, cc) \<leftarrow> t_pop_ctx st;
     st \<leftarrow> t_callback (SE_SendComplete False cc) st;
     let (st, e) = t_try_recv st;
     check (e = Some (Complete False));
     let (st, e) = t_try_recv st;
     check (e = None);
     check (reclaims (hd_of st) = 0)})"

definition test_send_buffer_reclaimed_exactly_once_via_callback :: bool where
  "test_send_buffer_reclaimed_exactly_once_via_callback = passes (do {
     let (st, r) = t_submit [112, 97, 121, 108, 111, 97, 100] (test_send_ctx (counting_new []));
     unwrap r;
     check (allocs (hd_of st) = 1);
     check (drops 1 st = 0);
     check (length (client_ctx (hd_of st)) = 1);
     (st, cc) \<leftarrow> t_pop_ctx st;
     st \<leftarrow> t_callback (SE_SendComplete False cc) st;
     check (drops 1 st = 1);
     check (reclaims (hd_of st) = 0)})"

definition test_send_complete_null_client_context_surfaces_internal_error :: bool where
  "test_send_complete_null_client_context_surfaces_internal_error = passes (do {
     let st = test_send_ctx (counting_new []);
     st \<leftarrow> t_callback (SE_SendComplete False 0) st;
     (st, r) \<leftarrow> t_poll_ready st;
     check (r = PollReady (Err (ConnectionErrorIncoming (InternalError ''SendComplete missing client context''))))})"

definition test_immediate_send_failure_reclaims_without_completion :: bool where
  "test_immediate_send_failure_reclaims_without_completion = passes (do {
     let st = test_send_ctx (counting_new [Err (status_new ref_status QUIC_STATUS_INVALID_PARAMETER)]);
     (st, r) \<leftarrow> t_send_data counting_exec (data_frame [104, 101, 108, 108, 111, 32, 119, 111, 114, 108, 100]) st;
     check (\<not> is_ok r);
     check (sends (hd_of st) = 1);
     check (allocs (hd_of st) = 1);
     check (reclaims (hd_of st) = 1);
     check (client_ctx (hd_of st) = []);
     check (snd (t_try_recv st) = None)})"

definition test_send_data_while_in_progress_returns_internal_error :: bool where
  "test_send_data_while_in_progress_returns_internal_error = passes (do {
     let st = test_send_ctx (counting_new []);
     (st, r) \<leftarrow> t_send_data counting_exec (data_frame [102, 105, 114, 115, 116]) st;
     unwrap r;
     check (sends (hd_of st) = 1);
     (st, r) \<leftarrow> t_send_data counting_exec (data_frame [115, 101, 99, 111, 110, 100]) st;
     check (case r of Err (ConnectionErrorIncoming (InternalError _)) \<Rightarrow> True | _ \<Rightarrow> False);
     check (sends (hd_of st) = 1);
     check (allocs (hd_of st) = 1)})"

text \<open>The payload just past the default ceiling, with the two bytes or more its frame adds in front.\<close>

definition test_oversized_send_rejected_before_allocation :: "bytes \<Rightarrow> bool" where
  "test_oversized_send_rejected_before_allocation header = passes (do {
     let st = test_send_ctx (counting_new []);
     (st, r) \<leftarrow> t_send_data counting_exec (100, header @ replicate (unat MAX_ADAPTER_SEND + 1) 0) st;
     check (case r of Err (Unknown (OversizedSend _ _)) \<Rightarrow> True | _ \<Rightarrow> False);
     check (sends (hd_of st) = 0);
     check (allocs (hd_of st) = 0);
     check (snd (t_try_recv st) = None)})"

text \<open>The test measures the frame header of a payload of this size, so that the framed length is exact.\<close>

definition test_custom_ceiling_send_data_rejects_oversized_before_allocation :: "bytes \<Rightarrow> bool" where
  "test_custom_ceiling_send_data_rejects_oversized_before_allocation header = passes (do {
     let over = header @ replicate (4096 + 1 - length header) 0;
     check (length over = 4096 + 1);
     config \<leftarrow> cfg_with_ceiling 4096;
     let st = test_send_ctx_with_config config (counting_new []);
     (st, r) \<leftarrow> t_send_data counting_exec (100, over) st;
     check (case r of
         Err (Unknown (OversizedSend len max_bytes)) \<Rightarrow> len = 4096 + 1 \<and> max_bytes = 4096 \<and> max_bytes \<noteq> MAX_ADAPTER_SEND
       | _ \<Rightarrow> False);
     check (sends (hd_of st) = 0);
     check (allocs (hd_of st) = 0);
     check (snd (t_try_recv st) = None)})"

definition test_custom_ceiling_send_data_accepts_payload_at_the_ceiling :: "bytes \<Rightarrow> bool" where
  "test_custom_ceiling_send_data_accepts_payload_at_the_ceiling header = passes (do {
     let at = header @ replicate (4096 - length header) 0;
     check (length at = 4096);
     config \<leftarrow> cfg_with_ceiling 4096;
     let st = test_send_ctx_with_config config (counting_new [Ok ()]);
     (st, r) \<leftarrow> t_send_data counting_exec (100, at) st;
     unwrap r;
     check (sends (hd_of st) = 1);
     check (allocs (hd_of st) = 1);
     check (length (client_ctx (hd_of st)) = 1)})"

section \<open>Reset, finish and the peer's stop\<close>

definition reset_clamp_case :: "u64 \<Rightarrow> u64 \<Rightarrow> unit option" where
  "reset_clamp_case input expected = do {
     let st = test_send_ctx (counting_new []);
     st \<leftarrow> t_reset counting_exec input st;
     check (resets (hd_of st) = 1);
     check (reset_codes (hd_of st) = [expected]);
     check (\<not> reset_submitting (red_of st));
     st \<leftarrow> t_reset counting_exec input st;
     check (resets (hd_of st) = 1)}"

definition test_reset_issues_one_clamped_reset_stream_via_seam :: bool where
  "test_reset_issues_one_clamped_reset_stream_via_seam = passes (do {
     let m = push_bit 62 1 - 1;
     reset_clamp_case m m;
     reset_clamp_case (push_bit 62 1) m;
     reset_clamp_case (- 1) m})"

definition test_sf2_finish_completion_survives_intervening_poll_ready :: bool where
  "test_sf2_finish_completion_survives_intervening_poll_ready = passes (do {
     let st = test_send_ctx (counting_new []);
     (st, r) \<leftarrow> t_poll_finish counting_exec st;
     check (r = PollPending);
     check (gracefuls (hd_of st) = 1);
     st \<leftarrow> t_callback (SE_SendShutdownComplete True) st;
     (st, r) \<leftarrow> t_poll_ready st;
     check (case r of PollReady (Err _) \<Rightarrow> True | _ \<Rightarrow> False);
     (st, r) \<leftarrow> t_poll_finish counting_exec st;
     check (r = PollReady (Ok ()));
     check (gracefuls (hd_of st) = 1)})"

definition test_poll_finish_is_idempotent_one_graceful :: bool where
  "test_poll_finish_is_idempotent_one_graceful = passes (do {
     let st = test_send_ctx (counting_new []);
     (st, r) \<leftarrow> t_poll_finish counting_exec st;
     check (r = PollPending);
     (st, r) \<leftarrow> t_poll_finish counting_exec st;
     check (r = PollPending);
     check (gracefuls (hd_of st) = 1);
     st \<leftarrow> t_callback (SE_SendShutdownComplete True) st;
     (st, r) \<leftarrow> t_poll_finish counting_exec st;
     check (r = PollReady (Ok ()));
     (st, r) \<leftarrow> t_poll_finish counting_exec st;
     check (r = PollReady (Ok ()));
     check (gracefuls (hd_of st) = 1)})"

definition stop_sending_case :: "bool \<Rightarrow> unit option" where
  "stop_sending_case use_finish = do {
     let st = test_send_ctx (counting_new []);
     st \<leftarrow> t_callback (SE_PeerReceiveAborted 42) st;
     (st, got) \<leftarrow> (if use_finish then t_poll_finish counting_exec st else t_poll_ready st);
     check (got = PollReady (Err (StreamTerminated 42)));
     check (sends (hd_of st) = 0)}"

definition test_peer_stop_sending_observable_without_send_in_flight :: bool where
  "test_peer_stop_sending_observable_without_send_in_flight =
     passes (do {stop_sending_case False; stop_sending_case True})"

definition test_peer_stop_sending_observed_with_send_outstanding :: bool where
  "test_peer_stop_sending_observed_with_send_outstanding = passes (do {
     let st = test_send_ctx (counting_new []);
     (st, r) \<leftarrow> t_send_data counting_exec (data_frame [109, 111, 114, 101, 45, 100, 97, 116, 97]) st;
     unwrap r;
     check (sends (hd_of st) = 1);
     check (length (client_ctx (hd_of st)) = 1);
     check (reclaims (hd_of st) = 0);
     check (send_inprogress (red_of st));
     st \<leftarrow> t_callback (SE_PeerReceiveAborted 0x6364) st;
     check (length (client_ctx (hd_of st)) = 1);
     check (send_inprogress (red_of st));
     (st, r) \<leftarrow> t_poll_ready st;
     check (r = PollReady (Err (StreamTerminated 0x6364)));
     (st, cc) \<leftarrow> t_pop_ctx st;
     st \<leftarrow> t_callback (SE_SendComplete True cc) st;
     check (reclaims (hd_of st) = 0);
     check (client_ctx (hd_of st) = [])})"

definition test_reset_loses_to_published_peer_terminal_no_native_op :: bool where
  "test_reset_loses_to_published_peer_terminal_no_native_op = passes (do {
     let st = test_send_ctx (counting_new []);
     st \<leftarrow> t_callback (SE_PeerReceiveAborted 9) st;
     st \<leftarrow> t_reset counting_exec 5 st;
     check (resets (hd_of st) = 0);
     check (\<not> reset_submitting (red_of st));
     (st, r) \<leftarrow> t_poll_ready st;
     check (r = PollReady (Err (StreamTerminated 9)));
     st \<leftarrow> t_reset counting_exec 5 st;
     check (resets (hd_of st) = 0)})"

definition test_reset_loses_to_published_connection_terminal_no_native_op :: bool where
  "test_reset_loses_to_published_connection_terminal_no_native_op = passes (do {
     let st = test_send_ctx (counting_new []);
     st \<leftarrow> t_callback (conn_closed_by_peer 7) st;
     st \<leftarrow> t_reset counting_exec 5 st;
     check (resets (hd_of st) = 0);
     check (\<not> reset_submitting (red_of st));
     (st, r) \<leftarrow> t_poll_finish counting_exec st;
     check (r = PollReady (Err (app_close 7)))})"

definition test_reset_first_stays_stable_winner_with_single_native_reset :: bool where
  "test_reset_first_stays_stable_winner_with_single_native_reset = passes (do {
     let st = test_send_ctx (counting_new []);
     st \<leftarrow> t_reset counting_exec 5 st;
     check (resets (hd_of st) = 1);
     check (\<not> reset_submitting (red_of st));
     st \<leftarrow> t_callback (SE_PeerReceiveAborted 9) st;
     (st, r) \<leftarrow> t_poll_ready st;
     check (case r of PollReady (Err (Unknown _)) \<Rightarrow> True | _ \<Rightarrow> False);
     check (resets (hd_of st) = 1)})"

definition test_reset_first_stays_stable_winner_over_connection_shutdown :: bool where
  "test_reset_first_stays_stable_winner_over_connection_shutdown = passes (do {
     let st = test_send_ctx (counting_new []);
     st \<leftarrow> t_reset counting_exec 5 st;
     check (resets (hd_of st) = 1);
     check (\<not> reset_submitting (red_of st));
     st \<leftarrow> t_callback (conn_closed_by_peer 7) st;
     (st, r) \<leftarrow> t_poll_ready st;
     check (case r of PollReady (Err (Unknown _)) \<Rightarrow> True | _ \<Rightarrow> False);
     check (resets (hd_of st) = 1)})"

section \<open>Cancelled completions\<close>

definition test_mf2_cancellation_first_refines_to_peer_stop_before_observation :: bool where
  "test_mf2_cancellation_first_refines_to_peer_stop_before_observation = passes (do {
     let st = test_send_ctx (counting_new []);
     st \<leftarrow> submit_then_cancel st;
     (st, r) \<leftarrow> t_poll_ready st;
     check (r = PollPending);
     st \<leftarrow> t_callback (SE_PeerReceiveAborted 9) st;
     (st, r) \<leftarrow> t_poll_ready st;
     check (r = PollReady (Err (StreamTerminated 9)));
     (st, r) \<leftarrow> t_poll_finish counting_exec st;
     check (r = PollReady (Err (StreamTerminated 9)))})"

definition test_mf2_cancellation_first_refines_to_connection_before_observation :: bool where
  "test_mf2_cancellation_first_refines_to_connection_before_observation = passes (do {
     let st = test_send_ctx (counting_new []);
     st \<leftarrow> submit_then_cancel st;
     (st, r) \<leftarrow> t_poll_ready st;
     check (r = PollPending);
     st \<leftarrow> t_callback (conn_closed_by_peer 7) st;
     (st, r) \<leftarrow> t_poll_ready st;
     check (r = PollReady (Err (app_close 7)));
     (st, r) \<leftarrow> t_poll_ready st;
     check (case r of PollReady (Err (ConnectionErrorIncoming _)) \<Rightarrow> True | _ \<Rightarrow> False)})"

definition test_mf2_terminal_first_peer_stop_with_outstanding_send :: bool where
  "test_mf2_terminal_first_peer_stop_with_outstanding_send = passes (do {
     let st = test_send_ctx (counting_new []);
     (st, r) \<leftarrow> t_send_data counting_exec (data_frame [112, 97, 121, 108, 111, 97, 100]) st;
     unwrap r;
     st \<leftarrow> t_callback (SE_PeerReceiveAborted 4) st;
     (st, cc) \<leftarrow> t_pop_ctx st;
     st \<leftarrow> t_callback (SE_SendComplete True cc) st;
     (st, r) \<leftarrow> t_poll_ready st;
     check (r = PollReady (Err (StreamTerminated 4)))})"

text \<open>\<open>ctx.send.take()\<close>.\<close>

definition t_take_send :: "'n seam \<Rightarrow> 'n seam" where
  "t_take_send st = (let (c, w) = take_send ref_env (sm_c st, sm_w st) in st\<lparr>sm_c := c, sm_w := w\<rparr>)"

definition test_mf2_cancellation_only_closure_yields_authoritative_abort :: bool where
  "test_mf2_cancellation_only_closure_yields_authoritative_abort = passes (do {
     let st = test_send_ctx (counting_new []);
     st \<leftarrow> submit_then_cancel st;
     (st, r) \<leftarrow> t_poll_ready st;
     check (r = PollPending);
     let st = t_take_send st;
     (st, r) \<leftarrow> t_poll_ready st;
     check (case r of PollReady (Err (Unknown _)) \<Rightarrow> True | _ \<Rightarrow> False)})"

section \<open>Ownership of the send buffers\<close>

definition test_accepted_send_reclaims_via_callback_exactly_once :: bool where
  "test_accepted_send_reclaims_via_callback_exactly_once = passes (do {
     let (st, r) = t_submit [111, 117, 116, 115, 116, 97, 110, 100, 105, 110, 103] (test_send_ctx (counting_new []));
     unwrap r;
     check (allocs (hd_of st) = 1);
     check (length (client_ctx (hd_of st)) = 1);
     check (reclaims (hd_of st) = 0);
     check (drops 1 st = 0);
     (st, cc) \<leftarrow> t_pop_ctx st;
     st \<leftarrow> t_callback (SE_SendComplete False cc) st;
     check (drops 1 st = 1);
     let (st, e) = t_try_recv st;
     check (e = Some (Complete False));
     check (snd (t_try_recv st) = None)})"

text \<open>Feed each of a list of pending contexts through the callback, and count the queued completions.\<close>

fun complete_all :: "nat list \<Rightarrow> 'n seam \<Rightarrow> 'n seam option" where
  "complete_all [] st = Some st"
| "complete_all (cc # ccs) st = do {st \<leftarrow> t_callback (SE_SendComplete False cc) st; complete_all ccs st}"

definition completes :: "'n seam \<Rightarrow> nat" where
  "completes st = length (fifo_items (w_send (sm_w st)))"

definition drain_ctx :: "counting seam \<Rightarrow> counting seam \<times> nat list" where
  "drain_ctx st = (st\<lparr>sm_w := (sm_w st)\<lparr>w_native := (hd_of st)\<lparr>client_ctx := []\<rparr>\<rparr>\<rparr>, client_ctx (hd_of st))"

definition submit_ok :: "bytes \<Rightarrow> counting seam \<Rightarrow> counting seam option" where
  "submit_ok b st = (let (st, r) = t_submit b st in do {unwrap r; Some st})"

definition test_multiple_outstanding_sends_each_reclaimed_exactly_once :: bool where
  "test_multiple_outstanding_sends_each_reclaimed_exactly_once = passes (do {
     let st = test_send_ctx (counting_new []);
     let b = [112, 97, 121, 108, 111, 97, 100];
     st \<leftarrow> submit_ok b st;
     st \<leftarrow> submit_ok b st;
     st \<leftarrow> submit_ok b st;
     st \<leftarrow> submit_ok b st;
     st \<leftarrow> submit_ok b st;
     check (allocs (hd_of st) = 5);
     check (length (client_ctx (hd_of st)) = 5);
     check (reclaims (hd_of st) = 0);
     check (list_all (\<lambda>cc. drops cc st = 0) [1, 2, 3, 4, 5]);
     let (st, pending) = drain_ctx st;
     st \<leftarrow> complete_all pending st;
     check (list_all (\<lambda>cc. drops cc st = 1) [1, 2, 3, 4, 5]);
     check (completes st = 5)})"

definition test_immediate_failure_reclaims_in_place_counted :: bool where
  "test_immediate_failure_reclaims_in_place_counted = passes (do {
     let st = test_send_ctx (counting_new [Err (status_new ref_status QUIC_STATUS_INVALID_PARAMETER)]);
     let (st, r) = t_submit [100, 111, 111, 109, 101, 100] st;
     check (\<not> is_ok r);
     check (allocs (hd_of st) = 1);
     check (reclaims (hd_of st) = 1);
     check (drops 1 st = 1);
     check (client_ctx (hd_of st) = [])})"

definition test_mixed_ok_err_script_retains_only_accepted_sends :: bool where
  "test_mixed_ok_err_script_retains_only_accepted_sends = passes (do {
     let st = test_send_ctx (counting_new [Ok (), Err (status_new ref_status QUIC_STATUS_INVALID_PARAMETER), Ok ()]);
     st \<leftarrow> submit_ok [97] st;
     let (st, r) = t_submit [98] st;
     check (\<not> is_ok r);
     st \<leftarrow> submit_ok [99] st;
     check (allocs (hd_of st) = 3);
     check (reclaims (hd_of st) = 1);
     check (length (client_ctx (hd_of st)) = 2);
     check (drops 2 st = 1);
     check (drops 1 st = 0);
     check (drops 3 st = 0);
     let (st, pending) = drain_ctx st;
     st \<leftarrow> complete_all pending st;
     check (drops 1 st = 1);
     check (drops 3 st = 1)})"

definition test_cancelled_send_complete_reclaims_buffer_exactly_once :: bool where
  "test_cancelled_send_complete_reclaims_buffer_exactly_once = passes (do {
     let st = test_send_ctx (counting_new []);
     st \<leftarrow> submit_ok [99, 97, 110, 99, 101, 108, 108, 101, 100] st;
     check (drops 1 st = 0);
     (st, cc) \<leftarrow> t_pop_ctx st;
     st \<leftarrow> t_callback (SE_SendComplete True cc) st;
     check (drops 1 st = 1)})"

section \<open>Causes injected during a downcall\<close>

definition test_mf1_send_data_immediate_error_delivers_injected_connection_cause :: bool where
  "test_mf1_send_data_immediate_error_delivers_injected_connection_cause = passes (do {
     let st = test_send_ctx_with_conn conn_terminal_default ();
     (st, r) \<leftarrow> t_send_data (injecting_exec (CT_PeerApplication 9)) (data_frame [100, 97, 116, 97]) st;
     check (r = Err (app_close 9));
     check (load_winner (w_send_slot (sm_w st)) = Some (ST_Connection (CT_PeerApplication 9)))})"

definition test_mf1_poll_finish_immediate_error_delivers_injected_connection_cause :: bool where
  "test_mf1_poll_finish_immediate_error_delivers_injected_connection_cause = passes (do {
     let st = test_send_ctx_with_conn conn_terminal_default ();
     (st, r) \<leftarrow> t_poll_finish (injecting_exec (CT_PeerApplication 9)) st;
     check (r = PollReady (Err (app_close 9)));
     check (load_winner (w_send_slot (sm_w st)) = Some (ST_Connection (CT_PeerApplication 9)))})"

definition test_mf1_reset_injected_cause_surfaced_by_subsequent_poll :: bool where
  "test_mf1_reset_injected_cause_surfaced_by_subsequent_poll = passes (do {
     let st = test_send_ctx_with_conn conn_terminal_default ();
     let X = injecting_exec (CT_PeerApplication 9);
     st \<leftarrow> t_reset X 5 st;
     (st, r) \<leftarrow> t_poll_finish X st;
     check (r = PollReady (Err (app_close 9)))})"

definition test_resolve_prefers_recorded_connection_over_provisional_marker :: bool where
  "test_resolve_prefers_recorded_connection_over_provisional_marker = passes (do {
     let st = test_send_ctx_with_conn conn_terminal_default (counting_new []);
     st \<leftarrow> submit_then_cancel st;
     (st, r) \<leftarrow> t_poll_ready st;
     check (r = PollPending);
     check (load_winner (w_send_slot (sm_w st)) = Some ST_ProvisionalAbort);
     let st = t_record (CT_PeerApplication 9) st;
     (st, r) \<leftarrow> t_poll_ready st;
     check (r = PollReady (Err (app_close 9)))})"

definition test_mf2_graceful_finish_does_not_commit_connection_slot :: bool where
  "test_mf2_graceful_finish_does_not_commit_connection_slot = passes (do {
     let st = test_send_ctx_with_conn conn_terminal_default (counting_new []);
     (st, r) \<leftarrow> t_poll_finish counting_exec st;
     check (r = PollPending);
     check (gracefuls (hd_of st) = 1);
     st \<leftarrow> t_callback (SE_SendShutdownComplete True) st;
     let st = t_record CT_LocalClose st;
     (st, r) \<leftarrow> t_poll_finish counting_exec st;
     check (r = PollReady (Ok ()));
     let st = t_record (CT_PeerApplication 9) st;
     check (snd (t_observe st) = ApplicationClose 9)})"

definition test_sc003_send_delivery_locks_identity_both_orderings :: bool where
  "test_sc003_send_delivery_locks_identity_both_orderings = passes (do {
     let st = test_send_ctx_with_conn conn_terminal_default ();
     (st, r) \<leftarrow> t_send_data (injecting_exec (CT_PeerApplication 9)) (data_frame [100]) st;
     check (r = Err (app_close 9));
     let st = t_record (CT_PeerApplication 7) st;
     check (snd (t_observe st) = ApplicationClose 9);
     let st = test_send_ctx_with_conn conn_terminal_default (counting_new []);
     let st = t_record (CT_PeerApplication 9) st;
     (st, r) \<leftarrow> t_poll_ready st;
     check (r = PollReady (Err (app_close 9)));
     let st = t_record (CT_PeerApplication 7) st;
     check (snd (t_observe st) = ApplicationClose 9)})"

section \<open>The scenarios pass\<close>

lemma f1_send_refinement_before_observation_surfaces_refined_cause_passes: "test_f1_send_refinement_before_observation_surfaces_refined_cause"
  by code_simp

lemma f1_send_refinement_after_observation_is_rejected_passes: "test_f1_send_refinement_after_observation_is_rejected"
  by code_simp

lemma f1_reset_does_not_freeze_connection_winner_before_observation_passes: "test_f1_reset_does_not_freeze_connection_winner_before_observation"
  by code_simp

lemma send_data_wires_through_seam_and_signals_ready_passes: "test_send_data_wires_through_seam_and_signals_ready"
  by code_simp

lemma send_buffer_reclaimed_exactly_once_via_callback_passes: "test_send_buffer_reclaimed_exactly_once_via_callback"
  by code_simp

lemma send_complete_null_client_context_surfaces_internal_error_passes: "test_send_complete_null_client_context_surfaces_internal_error"
  by code_simp

lemma immediate_send_failure_reclaims_without_completion_passes: "test_immediate_send_failure_reclaims_without_completion"
  by code_simp

lemma send_data_while_in_progress_returns_internal_error_passes: "test_send_data_while_in_progress_returns_internal_error"
  by code_simp

lemma reset_issues_one_clamped_reset_stream_via_seam_passes: "test_reset_issues_one_clamped_reset_stream_via_seam"
  by code_simp

lemma sf2_finish_completion_survives_intervening_poll_ready_passes: "test_sf2_finish_completion_survives_intervening_poll_ready"
  by code_simp

lemma poll_finish_is_idempotent_one_graceful_passes: "test_poll_finish_is_idempotent_one_graceful"
  by code_simp

lemma peer_stop_sending_observable_without_send_in_flight_passes: "test_peer_stop_sending_observable_without_send_in_flight"
  by code_simp

lemma peer_stop_sending_observed_with_send_outstanding_passes: "test_peer_stop_sending_observed_with_send_outstanding"
  by code_simp

lemma reset_loses_to_published_peer_terminal_no_native_op_passes: "test_reset_loses_to_published_peer_terminal_no_native_op"
  by code_simp

lemma reset_loses_to_published_connection_terminal_no_native_op_passes: "test_reset_loses_to_published_connection_terminal_no_native_op"
  by code_simp

lemma reset_first_stays_stable_winner_with_single_native_reset_passes: "test_reset_first_stays_stable_winner_with_single_native_reset"
  by code_simp

lemma reset_first_stays_stable_winner_over_connection_shutdown_passes: "test_reset_first_stays_stable_winner_over_connection_shutdown"
  by code_simp

lemma mf2_cancellation_first_refines_to_peer_stop_before_observation_passes: "test_mf2_cancellation_first_refines_to_peer_stop_before_observation"
  by code_simp

lemma mf2_cancellation_first_refines_to_connection_before_observation_passes: "test_mf2_cancellation_first_refines_to_connection_before_observation"
  by code_simp

lemma mf2_terminal_first_peer_stop_with_outstanding_send_passes: "test_mf2_terminal_first_peer_stop_with_outstanding_send"
  by code_simp

lemma mf2_cancellation_only_closure_yields_authoritative_abort_passes: "test_mf2_cancellation_only_closure_yields_authoritative_abort"
  by code_simp

lemma accepted_send_reclaims_via_callback_exactly_once_passes: "test_accepted_send_reclaims_via_callback_exactly_once"
  by code_simp

lemma multiple_outstanding_sends_each_reclaimed_exactly_once_passes: "test_multiple_outstanding_sends_each_reclaimed_exactly_once"
  by code_simp

lemma immediate_failure_reclaims_in_place_counted_passes: "test_immediate_failure_reclaims_in_place_counted"
  by code_simp

lemma mixed_ok_err_script_retains_only_accepted_sends_passes: "test_mixed_ok_err_script_retains_only_accepted_sends"
  by code_simp

lemma cancelled_send_complete_reclaims_buffer_exactly_once_passes: "test_cancelled_send_complete_reclaims_buffer_exactly_once"
  by code_simp

lemma mf1_send_data_immediate_error_delivers_injected_connection_cause_passes: "test_mf1_send_data_immediate_error_delivers_injected_connection_cause"
  by code_simp

lemma mf1_poll_finish_immediate_error_delivers_injected_connection_cause_passes: "test_mf1_poll_finish_immediate_error_delivers_injected_connection_cause"
  by code_simp

lemma mf1_reset_injected_cause_surfaced_by_subsequent_poll_passes: "test_mf1_reset_injected_cause_surfaced_by_subsequent_poll"
  by code_simp

lemma resolve_prefers_recorded_connection_over_provisional_marker_passes: "test_resolve_prefers_recorded_connection_over_provisional_marker"
  by code_simp

lemma mf2_graceful_finish_does_not_commit_connection_slot_passes: "test_mf2_graceful_finish_does_not_commit_connection_slot"
  by code_simp

lemma sc003_send_delivery_locks_identity_both_orderings_passes: "test_sc003_send_delivery_locks_identity_both_orderings"
  by code_simp

text \<open>The scenarios around a ceiling, for whatever header the frame of the payload has.\<close>

lemmas seam_eval = t_send_data_def on_s_def seam_of_def test_send_ctx_with_config_def stream_ctx_channel_with_config_def
  stream_ctx_channel_pre_id_def
  pre_id_receivers_def send_data_def slice_buf_def classify_payload_def classify_send_len_def loop_fuel_def calm_def
  numeral_eq_Suc send_data_iter_def reducer_defs resolve_terminal_def load_winner_def new_send_terminal_slot_def
  peek_conn_terminal_def conn_terminal_default_def send_state_new_def

lemma test_send_ctx_default: "test_send_ctx n = test_send_ctx_with_config h3_config_default n"
  by (simp add: test_send_ctx_def test_send_ctx_with_config_def stream_ctx_channel_def stream_ctx_channel_with_conn_def)

lemma t_send_data_oversized:
  assumes "max_send_bytes config < of_nat (length frame)"
  shows "\<exists>s. t_send_data X (p, frame) (test_send_ctx_with_config config n) =
    Some ((test_send_ctx_with_config config n)\<lparr>sm_s := s\<rparr>,
      Err (Unknown (OversizedSend (of_nat (length frame)) (max_send_bytes config))))"
proof -
  have "(of_nat (length frame) :: u64) \<noteq> 0" using assms by auto
  with assms show ?thesis by (simp add: seam_eval)
qed

lemma t_send_data_accepted:
  assumes "of_nat (length frame) \<le> max_send_bytes config" and "(of_nat (length frame) :: u64) \<noteq> 0"
  shows "\<exists>st. t_send_data counting_exec (p, frame) (test_send_ctx_with_config config (counting_new (Ok () # scr))) =
      Some (st, Ok ()) \<and>
    hd_of st = (counting_new scr)\<lparr>sends := 1, allocs := 1, client_ctx := [1]\<rparr>"
proof -
  have "\<not> max_send_bytes config < of_nat (length frame)" using assms(1) by simp
  with assms(2) show ?thesis
    by (simp add: seam_eval counting_exec_def counting_submit_send_def counting_new_def copy_into_send_buffer_def
      submit_owned_send_def box_into_raw_def)
qed

lemma cfg_with_ceiling_4096: "\<exists>config. cfg_with_ceiling 4096 = Some config \<and> max_send_bytes config = 4096"
proof -
  have "map_option max_send_bytes (cfg_with_ceiling 4096) = Some 4096" by code_simp
  then show ?thesis by auto
qed

lemma oversized_send_rejected_before_allocation_passes:
  assumes "length header \<le> 16"
  shows "test_oversized_send_rejected_before_allocation header"
proof -
  let ?f = "header @ replicate (unat MAX_ADAPTER_SEND + 1) 0"
  have l: "unat MAX_ADAPTER_SEND = 16777216" by (simp add: MAX_ADAPTER_SEND_def)
  have "length ?f < 2 ^ 64" using assms by (simp add: l)
  then have "unat (of_nat (length ?f) :: u64) = length ?f" by (rule unat_of_nat_u64)
  then have "max_send_bytes h3_config_default < of_nat (length ?f)"
    using assms by (simp add: h3_config_default_def u64_less_iff_unat l)
  from t_send_data_oversized [OF this, of counting_exec 100 "counting_new []"] assms
  show ?thesis
    by (auto simp: test_oversized_send_rejected_before_allocation_def passes_def test_send_ctx_default l Let_def)
      (simp_all add: test_send_ctx_with_config_def seam_of_def stream_ctx_channel_with_config_def
        stream_ctx_channel_pre_id_def counting_new_def t_try_recv_def fifo_mpsc_def fifo_new_def)
qed

lemma custom_ceiling_send_data_rejects_oversized_before_allocation_passes:
  assumes "length header \<le> 16"
  shows "test_custom_ceiling_send_data_rejects_oversized_before_allocation header"
proof -
  let ?f = "header @ replicate (4096 + 1 - length header) 0"
  have l: "length ?f = 4097" using assms by simp
  obtain config where c: "cfg_with_ceiling 4096 = Some config" "max_send_bytes config = 4096"
    using cfg_with_ceiling_4096 by blast
  have "max_send_bytes config < of_nat (length ?f)" unfolding l c by simp
  from t_send_data_oversized [OF this, of counting_exec 100 "counting_new []"] obtain s where
    "t_send_data counting_exec (100, ?f) (test_send_ctx_with_config config (counting_new [])) =
      Some ((test_send_ctx_with_config config (counting_new []))\<lparr>sm_s := s\<rparr>, Err (Unknown (OversizedSend 4097 4096)))"
    unfolding l c by auto
  moreover have "sm_w (test_send_ctx_with_config config (counting_new [])) =
      snd (stream_ctx_channel_pre_id ref_env conn_terminal_default config (counting_new []))"
    by (simp add: test_send_ctx_with_config_def seam_of_def stream_ctx_channel_with_config_def stream_ctx_channel_pre_id_def)
  ultimately show ?thesis
    using l by (simp add: test_custom_ceiling_send_data_rejects_oversized_before_allocation_def passes_def c Let_def
      t_try_recv_def stream_ctx_channel_pre_id_def fifo_mpsc_def fifo_new_def
      counting_new_def MAX_ADAPTER_SEND_def)
qed

lemma custom_ceiling_send_data_accepts_payload_at_the_ceiling_passes:
  assumes "length header \<le> 16"
  shows "test_custom_ceiling_send_data_accepts_payload_at_the_ceiling header"
proof -
  let ?f = "header @ replicate (4096 - length header) 0"
  have l: "length ?f = 4096" using assms by simp
  obtain config where c: "cfg_with_ceiling 4096 = Some config" "max_send_bytes config = 4096"
    using cfg_with_ceiling_4096 by blast
  have "of_nat (length ?f) \<le> max_send_bytes config" "(of_nat (length ?f) :: u64) \<noteq> 0" unfolding l c by simp_all
  from t_send_data_accepted [OF this, of 100 "[]"] obtain st where
    "t_send_data counting_exec (100, ?f) (test_send_ctx_with_config config (counting_new [Ok ()])) = Some (st, Ok ())"
    "hd_of st = (counting_new [])\<lparr>sends := 1, allocs := 1, client_ctx := [1]\<rparr>" by blast
  with l c show ?thesis
    by (simp add: test_custom_ceiling_send_data_accepts_payload_at_the_ceiling_def passes_def counting_new_def Let_def)
qed

section \<open>Properties\<close>

text \<open>
  The test double tests production code. The counting executor of the send-seam tests is, call for call, the
  production executor over a native library that answers from the script: it makes the same changes to
  the boxes, the frees and the counters and returns the same results. What is proved of the send
  half over any native stream thus holds of every scenario the tests build on it.
\<close>

theorem counting_exec_is_production:
  "(counting_exec :: ('o, 's, 'r, counting) stream_world send_exec) = stream_executor counting_native"
proof -
  have "counting_submit_send buf w = submit_owned_send buf (ns_send counting_native) w"
    for buf and w :: "('o, 's, 'r, counting) stream_world"
    by (cases "script (w_native w)"; cases "hd (script (w_native w))")
      (auto simp: counting_submit_send_def submit_owned_send_def counting_native_def box_into_raw_def box_drop_def Let_def)
  moreover have "counting_submit_graceful = (shutdown_call counting_native SHUTDOWN_GRACEFUL 0 ::
      ('o, 's, 'r, counting) stream_world \<Rightarrow> _)"
    by (intro ext) (simp add: counting_submit_graceful_def shutdown_call_def counting_native_def)
  moreover have "counting_submit_reset = (shutdown_call counting_native SHUTDOWN_ABORT_SEND ::
      u64 \<Rightarrow> ('o, 's, 'r, counting) stream_world \<Rightarrow> _)"
    by (intro ext) (simp add: counting_submit_reset_def shutdown_call_def counting_native_def)
  ultimately show ?thesis by (simp add: counting_exec_def stream_executor_def fun_eq_iff)
qed

end
