(* ===== verification/H3_Peak_Alloc.thy ===== *)
theory H3_Peak_Alloc
  imports H3_Scenario
begin

text \<open>
  The counting allocator of \<open>buffer.rs\<close> (module \<open>peak_alloc\<close>) that the memory gate of the send copy rests on: the
  counters, the two allocator entry points as they book-keep, and the measurement of one operation. An operation is
  the list of the allocator calls it makes; the system allocator's answers are part of it.

  The counters are machine words and wrap. The measured peak is proved to be the highest number of bytes
  the operation itself holds at any moment, whatever the counters held before, as long as it frees only what it
  allocated.
\<close>

section \<open>The counters\<close>

record peak_counters =
  pa_live :: usize
  pa_peak :: usize
  pa_active :: bool
  pa_measuring :: bool

text \<open>An allocation that succeeded or returned null, and a release, with the size of the layout.\<close>

datatype alloc_call = Alloc bool usize | Dealloc usize

definition counting_alloc :: "bool \<Rightarrow> usize \<Rightarrow> peak_counters \<Rightarrow> peak_counters" where
  "counting_alloc is_null sz st =
     (if \<not> is_null \<and> pa_measuring st then
        (let now = pa_live st + sz in st\<lparr>pa_live := now, pa_peak := max (pa_peak st) now\<rparr>)
      else st)"

definition counting_dealloc :: "usize \<Rightarrow> peak_counters \<Rightarrow> peak_counters" where
  "counting_dealloc sz st = (if pa_measuring st then st\<lparr>pa_live := pa_live st - sz\<rparr> else st)"

fun alloc_run :: "alloc_call list \<Rightarrow> peak_counters \<Rightarrow> peak_counters" where
  "alloc_run [] st = st"
| "alloc_run (Alloc is_null sz # ops) st = alloc_run ops (counting_alloc is_null sz st)"
| "alloc_run (Dealloc sz # ops) st = alloc_run ops (counting_dealloc sz st)"

text \<open>A second measurement while one is active panics, which is \<open>None\<close>; \<open>saturating_sub\<close> is cut off at 0.\<close>

definition measure_peak_resident :: "alloc_call list \<Rightarrow> peak_counters \<Rightarrow> (peak_counters \<times> usize) option" where
  "measure_peak_resident op st =
     (if pa_active st then None
      else
        (let st = st\<lparr>pa_active := True, pa_measuring := True\<rparr>;
             baseline = pa_live st;
             st = st\<lparr>pa_peak := baseline\<rparr>;
             st = alloc_run op st;
             pk = pa_peak st;
             st = st\<lparr>pa_measuring := False, pa_active := False\<rparr>
         in Some (st, if baseline \<le> pk then pk - baseline else 0)))"

section \<open>What is measured\<close>

text \<open>The bytes an operation holds after its calls, none if it frees more than it holds, and the highest such number.\<close>

fun held_after :: "nat \<Rightarrow> alloc_call list \<Rightarrow> nat option" where
  "held_after h [] = Some h"
| "held_after h (Alloc is_null sz # ops) = held_after (if is_null then h else h + unat sz) ops"
| "held_after h (Dealloc sz # ops) = (if unat sz \<le> h then held_after (h - unat sz) ops else None)"

fun highest :: "nat \<Rightarrow> alloc_call list \<Rightarrow> nat" where
  "highest h [] = h"
| "highest h (Alloc is_null sz # ops) = max h (highest (if is_null then h else h + unat sz) ops)"
| "highest h (Dealloc sz # ops) = max h (highest (h - unat sz) ops)"

text \<open>The gate of the send copy: the source, its owned copy, both live when the peak is read.\<close>

definition test_send_copy_peak_resident_bound :: bool where
  "test_send_copy_peak_resident_bound = passes (do {
     let payload = push_bit 24 1;
     (st, peak_delta) \<leftarrow> measure_peak_resident [Alloc False payload, Alloc False payload]
       \<lparr>pa_live = 0, pa_peak = 0, pa_active = False, pa_measuring = False\<rparr>;
     check (peak_delta \<le> 2 * payload + push_bit 20 1);
     check (payload \<le> peak_delta)})"

section \<open>Correctness\<close>

lemma highest_ge: "h \<le> highest h ops"
  by (cases "(h, ops)" rule: highest.cases) simp_all

lemma alloc_step:
  assumes "pa_measuring st" and "unat (pa_live st) = b + h" and "b + h + unat sz < 2 ^ 64"
  shows "pa_measuring (counting_alloc False sz st)" and "unat (pa_live (counting_alloc False sz st)) = b + (h + unat sz)"
    and "unat (pa_peak (counting_alloc False sz st)) = max (unat (pa_peak st)) (b + (h + unat sz))"
proof -
  have now: "unat (pa_live st + sz) = b + (h + unat sz)"
    using assms(2,3) by (simp add: unat_word_ariths(1) add.assoc)
  with assms(1) show "pa_measuring (counting_alloc False sz st)"
    "unat (pa_live (counting_alloc False sz st)) = b + (h + unat sz)"
    "unat (pa_peak (counting_alloc False sz st)) = max (unat (pa_peak st)) (b + (h + unat sz))"
    by (simp_all add: counting_alloc_def Let_def max_def word_le_nat_alt)
qed

lemma dealloc_step:
  assumes "pa_measuring st" and "unat (pa_live st) = b + h" and "unat sz \<le> h"
  shows "pa_measuring (counting_dealloc sz st)" and "unat (pa_live (counting_dealloc sz st)) = b + (h - unat sz)"
    and "pa_peak (counting_dealloc sz st) = pa_peak st"
proof -
  have "sz \<le> pa_live st" using assms(2,3) by (simp add: word_le_nat_alt)
  then have "unat (pa_live st - sz) = b + (h - unat sz)" using assms(2,3) by (simp add: unat_sub)
  with assms(1) show "pa_measuring (counting_dealloc sz st)" "unat (pa_live (counting_dealloc sz st)) = b + (h - unat sz)"
    "pa_peak (counting_dealloc sz st) = pa_peak st" by (simp_all add: counting_dealloc_def)
qed

lemma alloc_run_counts:
  assumes "held_after h ops = Some h'" and "pa_measuring st" and "unat (pa_live st) = b + h" and "b + h \<le> unat (pa_peak st)"
    and "b + highest h ops < 2 ^ 64"
  shows "unat (pa_live (alloc_run ops st)) = b + h' \<and> unat (pa_peak (alloc_run ops st)) = max (unat (pa_peak st)) (b + highest h ops)"
  using assms
proof (induction ops arbitrary: h st)
  case (Cons op ops)
  show ?case
  proof (cases op)
    case (Alloc is_null sz)
    show ?thesis
    proof (cases is_null)
      case True
      then have "counting_alloc is_null sz st = st" by (simp add: counting_alloc_def)
      with True Alloc Cons.IH [of h st] Cons.prems highest_ge [of h ops] show ?thesis by (simp add: max_absorb2)
    next
      case False
      have le: "h + unat sz \<le> highest (h + unat sz) ops" by (rule highest_ge)
      with Cons.prems(5) Alloc False have "b + h + unat sz < 2 ^ 64" by simp
      note step = alloc_step [OF Cons.prems(2,3) this]
      have "unat (pa_live (alloc_run ops (counting_alloc False sz st))) = b + h' \<and>
          unat (pa_peak (alloc_run ops (counting_alloc False sz st))) =
            max (unat (pa_peak (counting_alloc False sz st))) (b + highest (h + unat sz) ops)"
        using Cons.prems(1,5) Alloc False step by (intro Cons.IH) auto
      with Alloc False step(3) le Cons.prems(4) show ?thesis by (simp add: max_def)
    qed
  next
    case (Dealloc sz)
    with Cons.prems(1) have sz: "unat sz \<le> h" and held: "held_after (h - unat sz) ops = Some h'" by (auto split: if_splits)
    note step = dealloc_step [OF Cons.prems(2,3) sz]
    have "unat (pa_live (alloc_run ops (counting_dealloc sz st))) = b + h' \<and>
        unat (pa_peak (alloc_run ops (counting_dealloc sz st))) =
          max (unat (pa_peak (counting_dealloc sz st))) (b + highest (h - unat sz) ops)"
      using Cons.prems(4,5) Dealloc step held by (intro Cons.IH) auto
    with Dealloc step(3) Cons.prems(4) show ?thesis by (simp add: max_def)
  qed
qed simp

text \<open>
  The measurement is exact. Measuring an operation that frees only what it allocated, with no measurement active,
  yields the highest number of bytes the operation holds at any moment, whatever the counters held before,
  and leaves the counters ready for the next one; a measurement inside another panics.
\<close>

theorem measured_peak_exact:
  assumes "held_after 0 op = Some h'" and "unat (pa_live st) + highest 0 op < 2 ^ 64" and "\<not> pa_active st"
  shows "\<exists>st' d. measure_peak_resident op st = Some (st', d) \<and> unat d = highest 0 op \<and>
    unat (pa_live st') = unat (pa_live st) + h' \<and> \<not> pa_active st' \<and> \<not> pa_measuring st'"
proof -
  let ?s = "st\<lparr>pa_active := True, pa_measuring := True, pa_peak := pa_live st\<rparr>"
  from alloc_run_counts [OF assms(1), of ?s "unat (pa_live st)"] assms(2) have
    run: "unat (pa_live (alloc_run op ?s)) = unat (pa_live st) + h'"
    "unat (pa_peak (alloc_run op ?s)) = unat (pa_live st) + highest 0 op" by (simp_all add: max_absorb2)
  then have le: "pa_live st \<le> pa_peak (alloc_run op ?s)" by (simp add: word_le_nat_alt)
  then have "unat (pa_peak (alloc_run op ?s) - pa_live st) = highest 0 op" using run(2) by (simp add: unat_sub)
  with run le assms(3) show ?thesis by (simp add: measure_peak_resident_def Let_def)
qed

theorem measured_peak_exact_witness:
  "\<exists>st' d. measure_peak_resident [Alloc False 10, Dealloc 4, Alloc False 3]
      \<lparr>pa_live = 7, pa_peak = 9, pa_active = False, pa_measuring = False\<rparr> = Some (st', d) \<and> unat d = 10"
  using measured_peak_exact [of "[Alloc False 10, Dealloc 4, Alloc False 3]" 9
      "\<lparr>pa_live = 7, pa_peak = 9, pa_active = False, pa_measuring = False\<rparr>"] by auto

lemma send_copy_peak_resident_bound_passes: "test_send_copy_peak_resident_bound"
  by code_simp

end
