(* ===== verification/H3_Connect.thy ===== *)
theory H3_Connect
  imports H3_Opener
begin

text \<open>
  The future of \<open>Connection::connect\<close> (\<open>connection.rs\<close>): reserved when it is created, opened and started
  by its first poll, then awaiting the connect one-shot. It may be dropped at any point. The theory
  composes the parts of \<open>H3_Connection\<close> the way the \<open>async\<close> block does and accounts for the rundown guard
  and the native handle on every path.
\<close>

section \<open>The future\<close>

datatype ('o, 'h, 'q, 'n) connect_future =
    CF_Unpolled h3_config 'n
  | CF_Awaiting "('o, 'h, 'q, 'n) conn_st" conn_ctx_receiver conn_handle
  | CF_Done 'n

text \<open>The future, the registration's rundown state and the wakers a step has woken.\<close>

type_synonym ('o, 'h, 'q, 'n) connecting = "('o, 'h, 'q, 'n) connect_future \<times> rundown_state \<times> waker list"

definition connect_with_config :: "h3_config \<Rightarrow> 'n \<Rightarrow> rundown_state \<Rightarrow> ('o, 'h, 'q, 'n) connecting" where
  "connect_with_config h3config n rd = (CF_Unpolled h3config n, connect_reserve rd, [])"

definition connect :: "'n \<Rightarrow> rundown_state \<Rightarrow> ('o, 'h, 'q, 'n) connecting" where
  "connect n rd = connect_with_config h3_config_default n rd"

text \<open>From the await on. An error drops the handle: the native close first, then the guard.\<close>

definition connect_resume ::
  "('o, 'h, 'q, 'x) conn_env \<Rightarrow> 'n native_conn \<Rightarrow> waker \<Rightarrow> ('o, 'h, 'q, 'n) conn_st \<Rightarrow> conn_ctx_receiver \<Rightarrow> conn_handle \<Rightarrow>
   rundown_state \<Rightarrow> ('o, 'h, 'q, 'n) connecting \<times> (('o, 'h, 'q, 'n) conn_st \<times> 'p connection, status) result poll" where
  "connect_resume E NC cx st crx conn rd =
     (let (c, w) = st; ((crx, w), polled) = connect_await E cx (crx, w) in
      case polled of
        PollPending \<Rightarrow> ((CF_Awaiting (c, w) crx conn, rd, []), PollPending)
      | PollReady (Err status) \<Rightarrow>
          (let ((n, rd), ws) = conn_handle_drop (nc_close NC) (cw_native w, rd) in ((CF_Done n, rd, ws), PollReady (Err status)))
      | PollReady (Ok _) \<Rightarrow> ((CF_Done (cw_native w), rd, []), PollReady (Ok ((c, w), connection_new conn crx))))"

text \<open>One poll; polling a future that has completed panics, which is \<open>None\<close>.\<close>

definition connect_poll ::
  "('o, 'h, 'q, 'x) conn_env \<Rightarrow> 'n native_conn \<Rightarrow> waker \<Rightarrow> ('o, 'h, 'q, 'n) connect_future \<Rightarrow> rundown_state \<Rightarrow>
   (('o, 'h, 'q, 'n) connecting \<times> (('o, 'h, 'q, 'n) conn_st \<times> 'p connection, status) result poll) option" where
  "connect_poll E NC cx fut rd =
     (case fut of
        CF_Unpolled h3config n \<Rightarrow>
          (case connect_start E NC h3config (n, rd) of
             (((n, rd), ws), Err status) \<Rightarrow> Some ((CF_Done n, rd, ws), PollReady (Err status))
           | (((n, rd), ws), Ok ((st, crx), conn)) \<Rightarrow> Some (connect_resume E NC cx st crx conn rd))
      | CF_Awaiting st crx conn \<Rightarrow> Some (connect_resume E NC cx st crx conn rd)
      | CF_Done n \<Rightarrow> None)"

text \<open>Dropping the future: an unpolled one holds the guard alone, an awaiting one the handle.\<close>

definition connect_drop ::
  "'n native_conn \<Rightarrow> ('o, 'h, 'q, 'n) connect_future \<Rightarrow> rundown_state \<Rightarrow> ('o, 'h, 'q, 'n) connecting" where
  "connect_drop NC fut rd =
     (case fut of
        CF_Unpolled h3config n \<Rightarrow> (let (rd, ws) = guard_drop rd in (CF_Done n, rd, ws))
      | CF_Awaiting st crx conn \<Rightarrow>
          (let ((n, rd), ws) = conn_handle_drop (nc_close NC) (cw_native (snd st), rd) in (CF_Done n, rd, ws))
      | CF_Done n \<Rightarrow> (CF_Done n, rd, []))"

section \<open>Specification vocabulary\<close>

datatype connect_outcome_state = CO_Pending | CO_Failed | CO_Connected

fun poll_outcome :: "('a, 'e) result poll \<Rightarrow> connect_outcome_state" where
  "poll_outcome PollPending = CO_Pending"
| "poll_outcome (PollReady (Ok _)) = CO_Connected"
| "poll_outcome (PollReady (Err _)) = CO_Failed"

fun native_of :: "('o, 'h, 'q, 'n) connect_future \<Rightarrow> 'n" where
  "native_of (CF_Unpolled h3config n) = n"
| "native_of (CF_Awaiting st crx conn) = cw_native (snd st)"
| "native_of (CF_Done n) = n"

text \<open>
  The life of a connect future among other holders of the registration: polls, callbacks (which
  change the contexts and the channels but neither open nor close a connection), a drop, and
  guards other than its own, \<open>b\<close> of which are alive.
\<close>

inductive connect_life ::
  "('o, 'h, 'q, 'x) conn_env \<Rightarrow> 'n native_conn \<Rightarrow> ('n \<Rightarrow> int) \<Rightarrow> 'n \<Rightarrow> nat \<Rightarrow>
   ('o, 'h, 'q, 'n) connect_future \<Rightarrow> rundown_state \<Rightarrow> connect_outcome_state \<Rightarrow> bool"
  for E NC live n0 where
  cl_new: "connect_with_config h3config n0 rd = (fut, rd', ws) \<Longrightarrow> connect_life E NC live n0 (rd_active rd) fut rd' CO_Pending"
| cl_poll: "connect_life E NC live n0 b fut rd CO_Pending \<Longrightarrow> connect_poll E NC cx fut rd = Some ((fut', rd', ws), (r :: (_ \<times> unit connection, status) result poll)) \<Longrightarrow>
    connect_life E NC live n0 b fut' rd' (poll_outcome r)"
| cl_callback: "connect_life E NC live n0 b (CF_Awaiting st crx conn) rd CO_Pending \<Longrightarrow>
    live (cw_native (snd st')) = live (cw_native (snd st)) \<Longrightarrow> connect_life E NC live n0 b (CF_Awaiting st' crx conn) rd CO_Pending"
| cl_drop: "connect_life E NC live n0 b fut rd CO_Pending \<Longrightarrow> connect_drop NC fut rd = (fut', rd', ws) \<Longrightarrow>
    connect_life E NC live n0 b fut' rd' CO_Failed"
| cl_guard: "connect_life E NC live n0 b fut rd oc \<Longrightarrow> connect_life E NC live n0 (Suc b) fut (guard_new rd) oc"
| cl_release: "connect_life E NC live n0 (Suc b) fut rd oc \<Longrightarrow> guard_drop rd = (rd', ws) \<Longrightarrow> connect_life E NC live n0 b fut rd' oc"

text \<open>Its guard is held and its handle open exactly as long as it is pending past its start, or connected.\<close>

definition accounted ::
  "('n \<Rightarrow> int) \<Rightarrow> 'n \<Rightarrow> nat \<Rightarrow> ('o, 'h, 'q, 'n) connect_future \<Rightarrow> rundown_state \<Rightarrow> connect_outcome_state \<Rightarrow> bool" where
  "accounted live n0 b fut rd oc \<longleftrightarrow>
     rd_active rd = (if oc = CO_Failed then b else Suc b) \<and>
     live (native_of fut) = live n0 + (case fut of CF_Awaiting _ _ _ \<Rightarrow> 1 | _ \<Rightarrow> if oc = CO_Connected then 1 else 0) \<and>
     (oc = CO_Pending \<longleftrightarrow> (\<forall>n. fut \<noteq> CF_Done n))"

text \<open>A native library that counts, and refuses to start when the count is negative.\<close>

definition count_connections :: "int native_conn" where
  "count_connections = \<lparr>nc_open = (\<lambda>n. (n + 1, Ok ())), nc_start = (\<lambda>n. (n, if n < 0 then Err (Status 1) else Ok ())),
     nc_close = (\<lambda>n. n - 1), nc_shutdown = (\<lambda>_ _ n. n)\<rparr>"

section \<open>Accounting\<close>

text \<open>The native library counts the connections that were opened and not closed.\<close>

locale native_connections =
  fixes NC :: "'n native_conn" and live :: "'n \<Rightarrow> int"
  assumes open_ok: "nc_open NC n = (n', Ok u) \<Longrightarrow> live n' = live n + 1"
    and open_err: "nc_open NC n = (n', Err e) \<Longrightarrow> live n' = live n"
    and start_live: "live (fst (nc_start NC n)) = live n"
    and close_live: "live (nc_close NC n) = live n - 1"
begin

lemma handle_drop_accounted:
  assumes "conn_handle_drop (nc_close NC) (n, rd) = ((n', rd'), ws)" and "rd_active rd = Suc b" and "live n = live n0 + 1"
  shows "accounted live n0 b (CF_Done n') rd' CO_Failed"
  using assms guard_drop_active [of rd] by (auto simp: conn_handle_drop_def accounted_def close_live split: prod.splits)

lemma connect_await_native: "connect_await E cx (crx, w) = ((crx', w'), p) \<Longrightarrow> cw_native w' = cw_native w"
  by (auto simp: connect_await_def Let_def split: if_splits prod.splits poll.splits option.splits)

lemma resume_accounted:
  assumes "connect_resume E NC cx st crx conn rd = ((fut', rd', ws), r)" and "rd_active rd = Suc b"
    and "live (cw_native (snd st)) = live n0 + 1"
  shows "accounted live n0 b fut' rd' (poll_outcome r)"
proof -
  obtain c w where st: "st = (c, w)" by fastforce
  obtain crx' w' p where a: "connect_await E cx (crx, w) = ((crx', w'), p)" by (metis prod.exhaust)
  have nat: "live (cw_native w') = live n0 + 1" using connect_await_native [OF a] assms(3) st by simp
  obtain n' rd1 ws1 where d: "conn_handle_drop (nc_close NC) (cw_native w', rd) = ((n', rd1), ws1)" by (metis prod.exhaust)
  from handle_drop_accounted [OF d assms(2) nat] have "accounted live n0 b (CF_Done n') rd1 CO_Failed" .
  with assms nat a d show ?thesis
    by (cases p rule: poll_outcome.cases) (auto simp: connect_resume_def st accounted_def)
qed

lemma poll_accounted:
  assumes "connect_poll E NC cx fut rd = Some ((fut', rd', ws), r)" and "accounted live n0 b fut rd CO_Pending"
  shows "accounted live n0 b fut' rd' (poll_outcome r)"
proof (cases fut)
  case (CF_Awaiting st crx conn)
  with assms show ?thesis by (intro resume_accounted) (auto simp: connect_poll_def accounted_def)
next
  case (CF_Unpolled h3config n)
  have p: "rd_active rd = Suc b" "live n = live n0" using assms(2) by (simp_all add: CF_Unpolled accounted_def)
  obtain n1 o1 where op: "nc_open NC n = (n1, o1)" by fastforce
  obtain n2 s1 where stt: "nc_start NC n1 = (n2, s1)" by fastforce
  obtain n3 rd3 ws3 where d: "conn_handle_drop (nc_close NC) (n2, rd) = ((n3, rd3), ws3)" by (metis prod.exhaust)
  obtain rd4 ws4 where g: "guard_drop rd = (rd4, ws4)" by fastforce
  note poll = assms(1) [unfolded CF_Unpolled connect_poll_def connect_start_def]
  show ?thesis
  proof (cases o1)
    case (Err e)
    with poll op g p open_err guard_drop_active [of rd] show ?thesis by (auto simp: accounted_def)
  next
    case (Ok u)
    have live2: "live n2 = live n0 + 1" using open_ok op Ok p start_live [of n1] stt by simp
    show ?thesis
    proof (cases s1)
      case (Err e)
      with poll op Ok stt d handle_drop_accounted [OF d p(1) live2] show ?thesis by auto
    next
      case (Ok u')
      obtain st crx where c: "conn_ctx_channel E h3config n2 = (st, crx)" by fastforce
      have "cw_native (snd st) = n2" using c by (auto simp: conn_ctx_channel_def)
      then show ?thesis
        using poll op \<open>o1 = result.Ok u\<close> stt Ok c p live2 by (intro resume_accounted) (auto simp: Let_def)
    qed
  qed
next
  case (CF_Done n)
  with assms show ?thesis by (simp add: connect_poll_def)
qed

lemma drop_accounted:
  assumes "connect_drop NC fut rd = (fut', rd', ws)" and "accounted live n0 b fut rd CO_Pending"
  shows "accounted live n0 b fut' rd' CO_Failed"
proof (cases fut)
  case (CF_Awaiting st crx conn)
  obtain n1 rd1 ws1 where d: "conn_handle_drop (nc_close NC) (cw_native (snd st), rd) = ((n1, rd1), ws1)" by (metis prod.exhaust)
  from handle_drop_accounted [OF d, of b n0] assms d show ?thesis by (auto simp: CF_Awaiting connect_drop_def accounted_def)
next
  case (CF_Unpolled h3config n)
  obtain rd1 ws1 where "guard_drop rd = (rd1, ws1)" by fastforce
  with guard_drop_active [of rd] assms show ?thesis by (auto simp: CF_Unpolled connect_drop_def accounted_def)
qed (use assms in \<open>auto simp: accounted_def\<close>)

lemma life_accounted:
  assumes "connect_life E NC live n0 b fut rd oc"
  shows "accounted live n0 b fut rd oc"
  using assms
proof (induction rule: connect_life.induct)
  case (cl_poll b fut rd cx fut' rd' ws r)
  then show ?case using poll_accounted by blast
next
  case (cl_drop b fut rd fut' rd' ws)
  then show ?case using drop_accounted by blast
next
  case (cl_release b fut rd oc rd' ws)
  with cl_release(2) guard_drop_active [of rd] show ?case by (auto simp: accounted_def)
qed (auto simp: accounted_def connect_with_config_def connect_reserve_def guard_new_def)

end

interpretation counted_connections: native_connections count_connections id
  by unfold_locales (auto simp: count_connections_def)

section \<open>Property\<close>

text \<open>
  C16: connecting leaks nothing. From the moment \<open>connect\<close> is called its guard holds the registration,
  before the future is ever polled; if opening, starting or the handshake fails, or the future is
  dropped at any point, the guard is released once and a connection that was opened is closed once;
  when it resolves to a connection, exactly one guard and one open handle are left.
\<close>

theorem connect_accounts_for_handle:
  assumes "native_connections NC live" and "connect_life E NC live n0 b fut rd oc"
  shows "(oc = CO_Pending \<longrightarrow> rd_active rd = Suc b) \<and>
    (oc = CO_Connected \<longrightarrow> rd_active rd = Suc b \<and> live (native_of fut) = live n0 + 1) \<and>
    (oc = CO_Failed \<longrightarrow> rd_active rd = b \<and> live (native_of fut) = live n0)"
proof -
  have a: "accounted live n0 b fut rd oc" by (rule native_connections.life_accounted [OF assms])
  then have "oc \<noteq> CO_Pending \<Longrightarrow> \<exists>n. fut = CF_Done n" by (auto simp: accounted_def)
  with a show ?thesis by (auto simp: accounted_def)
qed

theorem connect_accounts_for_handle_witness:
  "\<exists>fut :: ((unit, status) result cell, unit cell, ref_peer_stream option fifo, int) connect_future. \<exists>rd.
    connect_life ref_conn_env count_connections id 0 0 fut rd CO_Failed \<and> rd_active rd = 0 \<and> native_of fut = 0"
proof -
  let ?f = "fst (connect 0 rundown_default) :: ((unit, status) result cell, unit cell, ref_peer_stream option fifo, int) connect_future"
  let ?rd = "fst (snd (connect 0 rundown_default :: (unit, unit, unit, int) connecting))"
  let ?p = "the (connect_poll ref_conn_env count_connections 7 ?f ?rd
      :: (((unit, status) result cell, unit cell, ref_peer_stream option fifo, int) connecting \<times> (_ \<times> unit connection, status) result poll) option)"
  let ?f1 = "fst (fst ?p)" and ?rd1 = "fst (snd (fst ?p))"
  have z: "rd_active rundown_default = 0" by (simp add: rundown_default_def)
  have l0: "connect_life ref_conn_env count_connections id 0 0 ?f ?rd CO_Pending"
    using cl_new [of h3_config_default 0 rundown_default ?f ?rd "[]" ref_conn_env count_connections id] z
    by (simp add: connect_def connect_with_config_def)
  have o1: "poll_outcome (snd ?p) = CO_Pending" by code_simp
  have "connect_life ref_conn_env count_connections id 0 0 ?f1 ?rd1 (poll_outcome (snd ?p))"
    by (rule cl_poll [OF l0, where cx = 7 and ws = "snd (snd (fst ?p))"])
      (simp add: connect_poll_def connect_def connect_with_config_def connect_start_def count_connections_def split: prod.split)
  then have "connect_life ref_conn_env count_connections id 0 0 ?f1 ?rd1 CO_Pending" by (simp only: o1)
  from cl_drop [OF this] obtain f2 rd2 where l2: "connect_life ref_conn_env count_connections id 0 0 f2 rd2 CO_Failed"
    by (metis prod.exhaust)
  from connect_accounts_for_handle [OF counted_connections.native_connections_axioms l2] l2 show ?thesis by auto
qed

end
