(* ===== verification/H3_Send_Cycle.thy ===== *)
theory H3_Send_Cycle
  imports H3_Send_Stream
begin

text \<open>
  The send direction end to end: \<open>send_data\<close>, the completion the library indicates, \<open>poll_ready\<close>, again for the
  next payload, and at the end \<open>poll_finish\<close>. When the library accepts the calls and completes the sends, every
  call succeeds and the library is handed the payloads once each, in order, followed by one graceful shutdown.
\<close>

section \<open>The schedule\<close>

text \<open>The stream as the send direction sees it: the send half, the callback's context and the shared world.\<close>

type_synonym ('i, 'o, 's, 'r, 'n) sending =
  "'i send_stream_receive_ctx \<times> stream_send_ctx \<times> ('o, 's, 'r, 'n) stream_world"

text \<open>One payload: send it, let the library complete it, wait until the half is ready.\<close>

definition send_cycle ::
  "('o, 's, 'r) stream_env \<Rightarrow> 'n native_stream \<Rightarrow> (nat \<Rightarrow> usize \<Rightarrow> buffer_ref) \<Rightarrow> 'b buf_ops \<Rightarrow> waker \<Rightarrow> 'b \<Rightarrow>
   ('i, 'o, 's, 'r, 'n) sending \<Rightarrow>
   (('i, 'o, 's, 'r, 'n) sending \<times> (unit, stream_error_incoming) result \<times> (unit, stream_error_incoming) result poll) option" where
  "send_cycle E N ref_from Bu cx wb scw = do {
     let (s, c, w) = scw;
     let cc = w_next w;
     ((s, w), sent) \<leftarrow> send_data E calm (stream_executor N) ref_from Bu wb (s, w);
     let ((c, w), _) = stream_callback E (SE_SendComplete False cc) (c, w);
     ((s, w), ready) \<leftarrow> poll_ready E calm cx (s, w);
     Some ((s, c, w), sent, ready)
   }"

fun send_cycles ::
  "('o, 's, 'r) stream_env \<Rightarrow> 'n native_stream \<Rightarrow> (nat \<Rightarrow> usize \<Rightarrow> buffer_ref) \<Rightarrow> 'b buf_ops \<Rightarrow> waker \<Rightarrow> 'b list \<Rightarrow>
   ('i, 'o, 's, 'r, 'n) sending \<Rightarrow>
   (('i, 'o, 's, 'r, 'n) sending \<times> ((unit, stream_error_incoming) result \<times> (unit, stream_error_incoming) result poll) list) option" where
  "send_cycles E N ref_from Bu cx [] scw = Some (scw, [])"
| "send_cycles E N ref_from Bu cx (wb # wbs) scw = do {
     (scw, r) \<leftarrow> send_cycle E N ref_from Bu cx wb scw;
     (scw, rs) \<leftarrow> send_cycles E N ref_from Bu cx wbs scw;
     Some (scw, r # rs)
   }"

text \<open>The end of the stream: finish, let the library complete the shutdown, finish again.\<close>

definition finish_cycle ::
  "('o, 's, 'r) stream_env \<Rightarrow> 'n native_stream \<Rightarrow> waker \<Rightarrow> ('i, 'o, 's, 'r, 'n) sending \<Rightarrow>
   (('i, 'o, 's, 'r, 'n) sending \<times> (unit, stream_error_incoming) result poll \<times> (unit, stream_error_incoming) result poll) option" where
  "finish_cycle E N cx scw = do {
     let (s, c, w) = scw;
     ((s, w), first) \<leftarrow> poll_finish E calm (stream_executor N) cx (s, w);
     let ((c, w), _) = stream_callback E (SE_SendShutdownComplete True) (c, w);
     ((s, w), final) \<leftarrow> poll_finish E calm (stream_executor N) cx (s, w);
     Some ((s, c, w), first, final)
   }"

section \<open>Specification vocabulary\<close>

text \<open>Nothing in flight, nothing queued, no cause known.\<close>

definition send_idle ::
  "('s \<Rightarrow> send_event list) \<Rightarrow> ('s \<Rightarrow> bool) \<Rightarrow> ('s \<Rightarrow> bool) \<Rightarrow> ('i, 'o, 's, 'r, 'n) sending \<Rightarrow> bool" where
  "send_idle sq stx srx scw =
     (let (s, c, w) = scw in
      ss_reducer s = send_state_new \<and> sx_send c \<and> stx (w_send w) \<and> srx (w_send w) \<and> sq (w_send w) = [] \<and>
      w_send_slot w = None \<and> ct_terminal (w_conn_slot w) = None \<and> 1 \<le> w_next w)"

text \<open>The native state after the buffers were sent in order, under consecutive contexts.\<close>

fun native_sends :: "'n native_stream \<Rightarrow> send_buffer list \<Rightarrow> nat \<Rightarrow> 'n \<Rightarrow> 'n" where
  "native_sends N [] cc n = n"
| "native_sends N (b # bs) cc n = native_sends N bs (Suc cc) (fst (ns_send N (buffers b) cc n))"

definition accepts_all :: "'n native_stream \<Rightarrow> bool" where
  "accepts_all N \<longleftrightarrow> (\<forall>bufs cc n. snd (ns_send N bufs cc n) = Ok ()) \<and> (\<forall>fl code n. snd (ns_shutdown N fl code n) = Ok ())"

text \<open>What a stretch of the send direction leaves behind: the boxes it made are freed, the native state advanced.\<close>

definition sent_effect ::
  "'n native_stream \<Rightarrow> send_buffer list \<Rightarrow> ('i, 'o, 's, 'r, 'n) sending \<Rightarrow> ('i, 'o, 's, 'r, 'n) sending \<Rightarrow> bool" where
  "sent_effect N bufs scw scw' =
     (let (s, c, w) = scw; (s', c', w') = scw' in
      ss_max_send_bytes s' = ss_max_send_bytes s \<and>
      w_native w' = native_sends N bufs (w_next w) (w_native w) \<and> w_next w' = w_next w + length bufs \<and>
      w_frees w' = rev [w_next w..<w_next w + length bufs] @ w_frees w \<and>
      w_heap w' = (\<lambda>p. if w_next w \<le> p \<and> p < w_next w + length bufs then None else w_heap w p))"

section \<open>The steps of a cycle\<close>

lemma fuel_three:
  obtains m where "loop_fuel = Suc (Suc (Suc m))"
  by (rule that [of 3]) (simp add: loop_fuel_def)

lemma resolve_none: "w_send_slot w = None \<Longrightarrow> ct_terminal (w_conn_slot w) = None \<Longrightarrow> resolve_terminal w = None"
  by (simp add: resolve_terminal_def load_winner_def peek_conn_terminal_def)

lemma send_data_accepted:
  assumes "ss_reducer s = send_state_new" and "w_send_slot w = None" and "ct_terminal (w_conn_slot w) = None"
    and "remaining Bu wb \<noteq> 0" and "remaining Bu wb \<le> ss_max_send_bytes s"
    and "ns_send N (buffers buf) (w_next w) (w_native w) = (n', Ok ())" and "copy_into_send_buffer ref_from Bu wb = (wb', buf)"
  shows "send_data E calm (stream_executor N) ref_from Bu wb (s, w) =
    Some ((s\<lparr>ss_reducer := send_state_new\<lparr>send_inprogress := True\<rparr>\<rparr>,
      w\<lparr>w_native := n', w_heap := (w_heap w)(w_next w \<mapsto> buf), w_next := Suc (w_next w)\<rparr>), Ok ())"
proof -
  obtain l where p: "classify_payload (remaining Bu wb) (ss_max_send_bytes s) = SendPayload_NonEmpty l"
    using assms(4,5) classify_payload_NonEmpty_iff by blast
  have r: "resolve_terminal (w\<lparr>w_heap := h, w_next := k, w_native := m\<rparr>) = None" for h k m
    by (rule resolve_none) (simp_all add: assms(2,3))
  obtain m where fuel: "loop_fuel = Suc (Suc (Suc m))" by (rule fuel_three)
  show ?thesis
    using assms(1,6,7) r resolve_none [OF assms(2,3)]
    by (simp add: send_data_def p fuel calm_def send_data_iter_def reducer_defs definitive_def send_state_new_def
        submit_owned_send_def box_into_raw_def)
qed

lemma completion_callback:
  assumes "sx_send c" and "cc \<noteq> 0"
  shows "stream_callback E (SE_SendComplete False cc) (c, w) =
    ((c, w\<lparr>w_heap := (w_heap w)(cc := None), w_frees := cc # w_frees w,
        w_send := fst (unbounded_send (se_send E) (Complete False) (w_send w))\<rparr>), Ok ())"
  using assms by (simp add: cb_SendComplete_def ctx_send_event_def box_drop_def)

lemma poll_ready_completed:
  assumes "ss_reducer s = send_state_new\<lparr>send_inprogress := True\<rparr>" and "w_send_slot w = None" and "ct_terminal (w_conn_slot w) = None"
    and "poll_next (se_send E) cx (w_send w) = (ch, PollReady (Some (Complete False)))"
  shows "poll_ready E calm cx (s, w) = Some ((s\<lparr>ss_reducer := send_state_new\<rparr>, w\<lparr>w_send := ch\<rparr>), PollReady (Ok ()))"
proof -
  have r: "resolve_terminal (w\<lparr>w_send := ch\<rparr>) = None" by (rule resolve_none) (simp_all add: assms(2,3))
  obtain m where fuel: "loop_fuel = Suc (Suc (Suc m))" by (rule fuel_three)
  show ?thesis
    using assms(1,4) r
    by (simp add: poll_ready_def poll_ready_input_def poll_send_channel_def fuel calm_def poll_ready_iter_def reducer_defs
        definitive_def send_state_new_def)
qed

lemma poll_finish_starts:
  assumes "ss_reducer s = send_state_new" and "w_send_slot w = None" and "ct_terminal (w_conn_slot w) = None"
    and "poll_next (se_send E) cx (w_send w) = (ch, PollPending)" and "poll_next (se_send E) cx ch = (ch', PollPending)"
    and "ns_shutdown N SHUTDOWN_GRACEFUL 0 (w_native w) = (n', Ok ())"
  shows "poll_finish E calm (stream_executor N) cx (s, w) =
    Some ((s\<lparr>ss_reducer := send_state_new\<lparr>finish_started := True\<rparr>\<rparr>, w\<lparr>w_send := ch', w_native := n'\<rparr>), PollPending)"
proof -
  have r: "resolve_terminal (w\<lparr>w_send := x\<rparr>) = None" "resolve_terminal (w\<lparr>w_send := x, w_native := n\<rparr>) = None"
      "resolve_terminal (w\<lparr>w_native := n, w_send := x\<rparr>) = None" for x n
    by (rule resolve_none; simp add: assms(2,3))+
  obtain m where fuel: "loop_fuel = Suc (Suc (Suc m))" by (rule fuel_three)
  show ?thesis
    using assms(1,4-6) r
    by (simp add: poll_finish_def poll_finish_input_def poll_send_channel_def fuel calm_def poll_finish_iter_def reducer_defs
        definitive_def send_state_new_def shutdown_call_def)
qed

lemma poll_finish_completes:
  assumes "ss_reducer s = send_state_new\<lparr>finish_started := True\<rparr>"
    and "poll_next (se_send E) cx (w_send w) = (ch, PollReady (Some (FinishComplete True)))"
  shows "poll_finish E calm X cx (s, w) =
    Some ((s\<lparr>ss_reducer := send_state_new\<lparr>finish_started := True, finish_complete := True\<rparr>\<rparr>, w\<lparr>w_send := ch\<rparr>), PollReady (Ok ()))"
proof -
  obtain m where fuel: "loop_fuel = Suc (Suc (Suc m))" by (rule fuel_three)
  show ?thesis
    using assms
    by (simp add: poll_finish_def poll_finish_input_def poll_send_channel_def fuel calm_def poll_finish_iter_def reducer_defs
        send_state_new_def)
qed

section \<open>Whole cycles\<close>

lemma rev_upt_cons: "rev [k..<k + length (b # bs)] = rev [Suc k..<Suc k + length bs] @ [k]"
  by (simp add: upt_conv_Cons del: upt_Suc)

lemma sent_effect_cons:
  assumes "sent_effect N [b] x y" and "sent_effect N bs y z"
  shows "sent_effect N (b # bs) x z"
proof -
  obtain s c w s' c' w' s'' c'' w'' where xyz: "x = (s, c, w)" "y = (s', c', w')" "z = (s'', c'', w'')"
    by (metis prod.exhaust)
  have 1: "ss_max_send_bytes s' = ss_max_send_bytes s" "w_next w' = Suc (w_next w)" "w_frees w' = w_next w # w_frees w"
    "w_native w' = fst (ns_send N (buffers b) (w_next w) (w_native w))"
    "w_heap w' = (\<lambda>p. if p = w_next w then None else w_heap w p)"
    using assms(1) by (auto simp: xyz sent_effect_def)
  have 2: "w_frees w'' = rev [w_next w..<w_next w + length (b # bs)] @ w_frees w"
    using assms(2) 1 unfolding rev_upt_cons by (simp add: xyz sent_effect_def)
  have 3: "w_heap w'' = (\<lambda>p. if w_next w \<le> p \<and> p < w_next w + length (b # bs) then None else w_heap w p)"
    using assms(2) 1 by (auto simp: xyz sent_effect_def)
  show ?thesis using assms(2) 1 2 3 by (simp add: xyz sent_effect_def del: upt_Suc)
qed

text \<open>A native library that accepts, over a documented channel.\<close>

locale send_direction =
  send: mpsc_channel "se_send E" sq stx srx spark
  for E :: "('o, 's, 'r) stream_env" and sq stx srx spark +
  fixes N :: "'n native_stream"
  assumes accepts: "accepts_all N"
begin

lemma send_cycle_completes:
  assumes idle: "send_idle sq stx srx (s, c, w)"
    and "remaining Bu wb \<noteq> 0" and "remaining Bu wb \<le> ss_max_send_bytes s"
  shows "\<exists>scw'. send_cycle E N ref_from Bu cx wb (s, c, w) = Some (scw', Ok (), PollReady (Ok ())) \<and>
    send_idle sq stx srx scw' \<and> sent_effect N [snd (copy_into_send_buffer ref_from Bu wb)] (s, c, w) scw'"
proof -
  have i: "ss_reducer s = send_state_new" "sx_send c" "stx (w_send w)" "srx (w_send w)" "sq (w_send w) = []"
    "w_send_slot w = None" "ct_terminal (w_conn_slot w) = None" "1 \<le> w_next w"
    using idle by (simp_all add: send_idle_def)
  obtain wb' buf where b: "copy_into_send_buffer ref_from Bu wb = (wb', buf)" by fastforce
  obtain n' where n: "ns_send N (buffers buf) (w_next w) (w_native w) = (n', Ok ())"
    using accepts by (metis accepts_all_def prod.collapse)
  let ?w1 = "w\<lparr>w_native := n', w_heap := (w_heap w)(w_next w \<mapsto> buf), w_next := Suc (w_next w)\<rparr>"
  let ?w2 = "?w1\<lparr>w_heap := (w_heap ?w1)(w_next w := None), w_frees := w_next w # w_frees ?w1,
    w_send := fst (unbounded_send (se_send E) (Complete False) (w_send ?w1))\<rparr>"
  let ?s1 = "s\<lparr>ss_reducer := send_state_new\<lparr>send_inprogress := True\<rparr>\<rparr>"
  have ch: "sq (w_send ?w2) = [Complete False]" "srx (w_send ?w2)" "stx (w_send ?w2)"
    using send.send_view [of "w_send w" "Complete False"] i(3-5) by simp_all
  obtain ch' where p: "poll_next (se_send E) cx (w_send ?w2) = (ch', PollReady (Some (Complete False)))"
    and ch': "sq ch' = []" "srx ch'" "stx ch'"
    using send.poll_item [OF ch(2,1), of cx] send.poll_item_queue [OF ch(2,1), of cx] send.poll_ends [OF ch(2), of cx] ch(3)
    by (metis prod.collapse)
  note sd = send_data_accepted [OF i(1,6,7) assms(2,3) n b, of E]
  have cb: "stream_callback E (SE_SendComplete False (w_next w)) (c, ?w1) = ((c, ?w2), Ok ())"
    by (rule completion_callback) (use i in auto)
  have pr: "poll_ready E calm cx (?s1, ?w2) =
      Some ((?s1\<lparr>ss_reducer := send_state_new\<rparr>, ?w2\<lparr>w_send := ch'\<rparr>), PollReady (Ok ()))"
    by (rule poll_ready_completed [OF _ _ _ p]) (use i in auto)
  have "send_cycle E N ref_from Bu cx wb (s, c, w) =
      Some ((?s1\<lparr>ss_reducer := send_state_new\<rparr>, c, ?w2\<lparr>w_send := ch'\<rparr>), Ok (), PollReady (Ok ()))"
    unfolding send_cycle_def Let_def by (simp only: sd cb pr prod.case Option.bind_lunit)
  moreover have "send_idle sq stx srx (?s1\<lparr>ss_reducer := send_state_new\<rparr>, c, ?w2\<lparr>w_send := ch'\<rparr>)"
    using i ch' by (simp add: send_idle_def)
  moreover have "sent_effect N [snd (copy_into_send_buffer ref_from Bu wb)] (s, c, w)
      (?s1\<lparr>ss_reducer := send_state_new\<rparr>, c, ?w2\<lparr>w_send := ch'\<rparr>)"
    using n b by (auto simp: sent_effect_def)
  ultimately show ?thesis by blast
qed

lemma send_cycles_complete:
  assumes "send_idle sq stx srx scw"
    and "\<forall>wb \<in> set wbs. remaining Bu wb \<noteq> 0 \<and> remaining Bu wb \<le> ss_max_send_bytes (fst scw)"
  shows "\<exists>scw'. send_cycles E N ref_from Bu cx wbs scw = Some (scw', replicate (length wbs) (Ok (), PollReady (Ok ()))) \<and>
    send_idle sq stx srx scw' \<and> sent_effect N (map (\<lambda>wb. snd (copy_into_send_buffer ref_from Bu wb)) wbs) scw scw'"
  using assms
proof (induction wbs arbitrary: scw)
  case Nil
  then show ?case by (cases scw) (auto simp: sent_effect_def fun_eq_iff)
next
  case (Cons wb wbs)
  obtain s c w where scw: "scw = (s, c, w)" by (metis prod.exhaust)
  from send_cycle_completes [of s c w Bu wb ref_from cx] Cons.prems scw
  obtain y where y: "send_cycle E N ref_from Bu cx wb scw = Some (y, Ok (), PollReady (Ok ()))" "send_idle sq stx srx y"
    "sent_effect N [snd (copy_into_send_buffer ref_from Bu wb)] scw y" by auto
  have "ss_max_send_bytes (fst y) = ss_max_send_bytes (fst scw)"
    using y(3) by (cases y; cases scw) (simp add: sent_effect_def)
  with Cons.prems(2) have "\<forall>wb \<in> set wbs. remaining Bu wb \<noteq> 0 \<and> remaining Bu wb \<le> ss_max_send_bytes (fst y)" by simp
  from Cons.IH [OF y(2) this] obtain z where
    z: "send_cycles E N ref_from Bu cx wbs y = Some (z, replicate (length wbs) (Ok (), PollReady (Ok ())))" "send_idle sq stx srx z"
    "sent_effect N (map (\<lambda>wb. snd (copy_into_send_buffer ref_from Bu wb)) wbs) y z" by blast
  from y(1) z(1,2) sent_effect_cons [OF y(3) z(3)] show ?case by auto
qed

lemma finish_cycle_completes:
  assumes idle: "send_idle sq stx srx (s, c, w)"
  shows "\<exists>ch. finish_cycle E N cx (s, c, w) =
    Some ((s\<lparr>ss_reducer := send_state_new\<lparr>finish_started := True, finish_complete := True\<rparr>\<rparr>, c,
      w\<lparr>w_send := ch, w_native := fst (ns_shutdown N SHUTDOWN_GRACEFUL 0 (w_native w))\<rparr>), PollPending, PollReady (Ok ()))"
proof -
  have i: "ss_reducer s = send_state_new" "sx_send c" "stx (w_send w)" "srx (w_send w)" "sq (w_send w) = []"
    "w_send_slot w = None" "ct_terminal (w_conn_slot w) = None"
    using idle by (simp_all add: send_idle_def)
  have pend: "\<exists>ch'. poll_next (se_send E) cx ch = (ch', PollPending) \<and> sq ch' = [] \<and> srx ch' \<and> stx ch'"
    if "srx ch" "sq ch = []" "stx ch" for ch
    using send.poll_pending [OF that, of cx] send.poll_empty_queue [OF that(1,2), of cx] send.poll_ends [OF that(1), of cx] that(3)
    by (metis prod.collapse)
  obtain ch where ch: "poll_next (se_send E) cx (w_send w) = (ch, PollPending)" "sq ch = []" "srx ch" "stx ch"
    using pend [OF i(4,5,3)] by blast
  obtain ch' where ch': "poll_next (se_send E) cx ch = (ch', PollPending)" "sq ch' = []" "srx ch'" "stx ch'"
    using pend [OF ch(3,2,4)] by blast
  obtain n' where n: "ns_shutdown N SHUTDOWN_GRACEFUL 0 (w_native w) = (n', Ok ())"
    using accepts by (metis accepts_all_def prod.collapse)
  let ?w1 = "w\<lparr>w_send := ch', w_native := n'\<rparr>"
  let ?s1 = "s\<lparr>ss_reducer := send_state_new\<lparr>finish_started := True\<rparr>\<rparr>"
  let ?ch2 = "fst (unbounded_send (se_send E) (FinishComplete True) ch')"
  let ?w2 = "?w1\<lparr>w_send := ?ch2\<rparr>"
  have c2: "sq ?ch2 = [FinishComplete True]" "srx ?ch2"
    using send.send_view [of ch' "FinishComplete True"] ch' by simp_all
  obtain ch3 where p: "poll_next (se_send E) cx (w_send ?w2) = (ch3, PollReady (Some (FinishComplete True)))"
    using send.poll_item [OF c2(2,1), of cx] by (cases "poll_next (se_send E) cx ?ch2") simp
  note f1 = poll_finish_starts [where s = s and w = w, OF i(1,6,7) ch(1) ch'(1) n]
  have cb: "stream_callback E (SE_SendShutdownComplete True) (c, ?w1) = ((c, ?w2), Ok ())"
    using i(2) by (simp add: ctx_send_event_def)
  have f2: "poll_finish E calm (stream_executor N) cx (?s1, ?w2) =
      Some ((?s1\<lparr>ss_reducer := send_state_new\<lparr>finish_started := True, finish_complete := True\<rparr>\<rparr>, ?w2\<lparr>w_send := ch3\<rparr>), PollReady (Ok ()))"
    by (rule poll_finish_completes [OF _ p]) simp
  have "finish_cycle E N cx (s, c, w) =
      Some ((?s1\<lparr>ss_reducer := send_state_new\<lparr>finish_started := True, finish_complete := True\<rparr>\<rparr>, c, ?w2\<lparr>w_send := ch3\<rparr>),
        PollPending, PollReady (Ok ()))"
    unfolding finish_cycle_def Let_def by (simp only: f1 cb f2 prod.case Option.bind_lunit)
  then show ?thesis using n by (intro exI [of _ ch3]) simp
qed

end

interpretation ref_send: send_direction ref_env fifo_items fifo_tx fifo_rx fifo_parked log_native
  by unfold_locales (simp_all add: accepts_all_def log_native_def fifo.mpsc_channel_axioms [unfolded mpsc_channel_def])

section \<open>Property\<close>

text \<open>
  C9: end-to-end sending. Over documented channels and a library that accepts the calls and completes
  what it accepted, sending any list of payloads within the ceiling, each followed by its
  completion and a \<open>poll_ready\<close>, succeeds throughout; the library is handed each payload's bytes exactly
  once, in order, under consecutive contexts; every box made on the way is freed once; and
  finishing then submits one graceful shutdown, is pending until it completes and reports success.
\<close>

theorem send_end_to_end:
  assumes "mpsc_channel (se_send E) sq stx srx spark" and "accepts_all N" and "buf_source Bu rest fits"
    and "send_idle sq stx srx (s, c, w)"
    and "\<forall>wb \<in> set wbs. fits wb \<and> remaining Bu wb \<noteq> 0 \<and> remaining Bu wb \<le> ss_max_send_bytes s"
  shows "\<exists>s' c' w' s'' w'' bs.
    send_cycles E N ref_from Bu cx wbs (s, c, w) = Some ((s', c', w'), replicate (length wbs) (Ok (), PollReady (Ok ()))) \<and>
    map content_of bs = map rest wbs \<and>
    w_native w' = native_sends N (map (send_buffer_new ref_from) bs) (w_next w) (w_native w) \<and>
    w_frees w' = rev [w_next w..<w_next w + length wbs] @ w_frees w \<and>
    (\<forall>p. w_heap w' p = (if w_next w \<le> p \<and> p < w_next w + length wbs then None else w_heap w p)) \<and>
    finish_cycle E N cx (s', c', w') = Some ((s'', c', w''), PollPending, PollReady (Ok ())) \<and>
    w_native w'' = fst (ns_shutdown N SHUTDOWN_GRACEFUL 0 (w_native w'))"
proof -
  have L: "send_direction E sq stx srx spark N" by (simp add: send_direction_def send_direction_axioms_def assms(1,2))
  let ?bufs = "map (\<lambda>wb. snd (copy_into_send_buffer ref_from Bu wb)) wbs"
  let ?bs = "map (\<lambda>wb. snd (copy_to_bytes Bu (remaining Bu wb) wb)) wbs"
  have bufs: "?bufs = map (send_buffer_new ref_from) ?bs" by (simp add: copy_into_send_buffer_def case_prod_beta)
  have "\<forall>wb \<in> set wbs. remaining Bu wb \<noteq> 0 \<and> remaining Bu wb \<le> ss_max_send_bytes (fst (s, c, w))" using assms(5) by simp
  from send_direction.send_cycles_complete [OF L assms(4) this, of ref_from cx]
  obtain s' c' w' where cyc: "send_cycles E N ref_from Bu cx wbs (s, c, w) =
      Some ((s', c', w'), replicate (length wbs) (Ok (), PollReady (Ok ())))"
    "send_idle sq stx srx (s', c', w')" "sent_effect N ?bufs (s, c, w) (s', c', w')" by (metis prod.exhaust)
  from send_direction.finish_cycle_completes [OF L cyc(2), of cx] obtain s'' w'' where
    fin: "finish_cycle E N cx (s', c', w') = Some ((s'', c', w''), PollPending, PollReady (Ok ()))"
    "w_native w'' = fst (ns_shutdown N SHUTDOWN_GRACEFUL 0 (w_native w'))" by auto
  have "map content_of ?bs = map rest wbs" using assms(5) buf_source.copy_all(1) [OF assms(3)] by simp
  moreover have "w_native w' = native_sends N (map (send_buffer_new ref_from) ?bs) (w_next w) (w_native w)"
    "w_frees w' = rev [w_next w..<w_next w + length wbs] @ w_frees w"
    "\<forall>p. w_heap w' p = (if w_next w \<le> p \<and> p < w_next w + length wbs then None else w_heap w p)"
    using cyc(3) unfolding bufs by (simp_all add: sent_effect_def)
  ultimately show ?thesis using cyc(1) fin by blast
qed

theorem send_end_to_end_witness:
  "\<exists>s' c' w'. send_cycles ref_env log_native native_buffer_ref slice_buf 7 [(50, [1, 2]), (60, [3])]
      (ref_sctx, stream_ctx_new, ref_world conn_terminal_default) =
      Some ((s', c', w'), [(Ok (), PollReady (Ok ())), (Ok (), PollReady (Ok ()))]) \<and> w_frees w' = [2, 1]"
proof -
  let ?w = "ref_world conn_terminal_default" and ?wbs = "[(50, [1, 2]), (60, [3])] :: (nat \<times> bytes) list"
  have idle: "send_idle fifo_items fifo_tx fifo_rx (ref_sctx, stream_ctx_new, ?w)" by code_simp
  have M: "mpsc_channel (se_send ref_env) fifo_items fifo_tx fifo_rx fifo_parked" using fifo.mpsc_channel_axioms by simp
  have wbs: "\<forall>wb \<in> set ?wbs. (\<lambda>(p, bs). length bs < 2 ^ 64) wb \<and> remaining slice_buf wb \<noteq> 0 \<and>
      remaining slice_buf wb \<le> ss_max_send_bytes ref_sctx"
    by (simp add: slice_buf_def ref_sctx_def MAX_ADAPTER_SEND_def)
  have nf: "w_next ?w = 1" "w_frees ?w = []" by code_simp+
  from send_end_to_end [OF M ref_send.accepts slice.buf_source_axioms idle wbs, of native_buffer_ref 7]
  obtain s' c' w' where "send_cycles ref_env log_native native_buffer_ref slice_buf 7 ?wbs (ref_sctx, stream_ctx_new, ?w) =
      Some ((s', c', w'), replicate (length ?wbs) (Ok (), PollReady (Ok ())))"
    "w_frees w' = rev [w_next ?w..<w_next ?w + length ?wbs] @ w_frees ?w" by blast
  then show ?thesis unfolding nf by (simp add: upt_rec)
qed

end
