(* ===== verification/H3_Loopback.thy ===== *)
theory H3_Loopback
  imports H3_Send_Cycle H3_Recv_Stream "HOL-Library.Sublist"
begin

text \<open>
  Two endpoints joined by a stream: what one application hands to \<open>send_data\<close>, \<open>poll_finish\<close>, \<open>reset\<close> and
  \<open>stop_sending\<close> is what the other reads from \<open>poll_data\<close>, respectively \<open>poll_ready\<close>, whatever the interleaving of
  the callback's events with the polls.

  The transport between the two handles belongs to MsQuic. It appears as the locale \<open>quic_wire\<close>, the documented
  effect of each downcall on the stream's bytes and end, and as \<open>delivers\<close>, the indications a peer may get for such a
  stream: the bytes in order, cut anywhere, then the end.
\<close>

section \<open>The stream between the endpoints\<close>

text \<open>How the sending direction of a stream ends.\<close>

datatype stream_end = End_Open | End_Fin | End_Reset u64

text \<open>
  The bytes a send descriptor names. \<open>mem cc p\<close> are the bytes readable from address \<open>p\<close> while the send
  submitted under the context \<open>cc\<close> is outstanding, so addresses may be reused by later sends.
\<close>

definition desc_bytes :: "(nat \<Rightarrow> nat \<Rightarrow> bytes) \<Rightarrow> nat \<Rightarrow> buffer_ref \<Rightarrow> bytes" where
  "desc_bytes mem cc r = take (unat (ref_Length r)) (mem cc (ref_Buffer r))"

text \<open>The memory at the storage of each owned payload holds its content while the payload is outstanding.\<close>

fun memory_holds :: "(nat \<Rightarrow> nat \<Rightarrow> bytes) \<Rightarrow> nat \<Rightarrow> heap_bytes list \<Rightarrow> bool" where
  "memory_holds mem cc [] = True"
| "memory_holds mem cc (b # bs) =
     (take (length (content_of b)) (mem cc (storage b)) = content_of b \<and> memory_holds mem (Suc cc) bs)"

text \<open>
  The receive indications of a stream that carries \<open>bs\<close> and ends with \<open>e\<close>: the bytes in order, in pieces of
  any size, the end either with the last piece or on its own; a reset may cut the bytes short. Events of the other
  direction may come in between, and anything after the end.
\<close>

fun delivers :: "bytes \<Rightarrow> stream_end \<Rightarrow> stream_event list \<Rightarrow> bool" where
  "delivers bs e [] = False"
| "delivers bs e (SE_Receive tbl bufs fin # evs) =
     (if fin then e = End_Fin \<and> concat bufs = bs
      else prefix (concat bufs) bs \<and> delivers (drop (length (concat bufs)) bs) e evs)"
| "delivers bs e (SE_PeerSendShutdown # evs) = (e = End_Fin \<and> bs = [])"
| "delivers bs e (SE_PeerSendAborted code # evs) = (e = End_Reset code)"
| "delivers bs e (SE_ShutdownComplete cs by_app remote code s # evs) = False"
| "delivers bs e (_ # evs) = delivers bs e evs"

text \<open>The stream a log of accepted calls describes, for evaluation: the first shutdown of a direction ends it.\<close>

fun wire_bytes :: "(nat \<Rightarrow> nat \<Rightarrow> bytes) \<Rightarrow> native_call list \<Rightarrow> bytes" where
  "wire_bytes mem [] = []"
| "wire_bytes mem (NC_Send bufs cc # log) = concat (map (desc_bytes mem cc) bufs) @ wire_bytes mem log"
| "wire_bytes mem (_ # log) = wire_bytes mem log"

fun wire_fate :: "native_call list \<Rightarrow> stream_end" where
  "wire_fate [] = End_Open"
| "wire_fate (NC_Shutdown SHUTDOWN_GRACEFUL code # log) = End_Fin"
| "wire_fate (NC_Shutdown SHUTDOWN_ABORT_SEND code # log) = End_Reset code"
| "wire_fate (NC_Shutdown SHUTDOWN_ABORT code # log) = End_Reset code"
| "wire_fate (_ # log) = wire_fate log"

fun wire_stop :: "native_call list \<Rightarrow> u64 option" where
  "wire_stop [] = None"
| "wire_stop (NC_Shutdown SHUTDOWN_ABORT_RECEIVE code # log) = Some code"
| "wire_stop (NC_Shutdown SHUTDOWN_ABORT code # log) = Some code"
| "wire_stop (_ # log) = wire_stop log"

section \<open>The receiving endpoint\<close>

text \<open>An interleaving of the callback's events with the application's polls, and the answers of the polls.\<close>

datatype recv_move = RM_Indicate stream_event | RM_Poll waker

type_synonym ('i, 'o, 's, 'r, 'n) receiving = "stream_send_ctx \<times> ('i, 'o, 's, 'r, 'n) recv_st"

fun recv_moves ::
  "('o, 's, 'r) stream_env \<Rightarrow> ('o, 's, 'r, 'n) stream_world recv_exec \<Rightarrow> recv_move list \<Rightarrow>
   ('i, 'o, 's, 'r, 'n) receiving \<Rightarrow>
   ('i, 'o, 's, 'r, 'n) receiving \<times> (bytes option, stream_error_incoming) result poll list" where
  "recv_moves E X [] st = (st, [])"
| "recv_moves E X (RM_Indicate ev # ms) (c, rs, w) =
     (let (c, w) = fst (stream_callback E ev (c, w)) in recv_moves E X ms (c, rs, w))"
| "recv_moves E X (RM_Poll cx # ms) (c, rs, w) =
     (let (st, p) = poll_data E X cx (rs, w); (st, ps) = recv_moves E X ms (c, st) in (st, p # ps))"

fun indicated :: "recv_move list \<Rightarrow> stream_event list" where
  "indicated [] = []"
| "indicated (RM_Indicate ev # ms) = ev # indicated ms"
| "indicated (RM_Poll cx # ms) = indicated ms"

text \<open>The chunks a list of answers carries.\<close>

fun chunks :: "(bytes option, stream_error_incoming) result poll list \<Rightarrow> bytes list" where
  "chunks [] = []"
| "chunks (PollReady (Ok (Some b)) # ps) = b # chunks ps"
| "chunks (_ # ps) = chunks ps"

text \<open>The receiving endpoint of a stream just attached.\<close>

definition fresh_receiver ::
  "('o, 's, 'r) stream_env \<Rightarrow> 'i \<Rightarrow> conn_terminal_state \<Rightarrow> h3_config \<Rightarrow> 'n \<Rightarrow> ('i, 'o, 's, 'r, 'n) receiving" where
  "fresh_receiver E i conn cfg m =
     (let ((c, w), h) = attach E i conn cfg m in (c, h3_recv h, w))"

text \<open>The answer that ends the stream for the reader.\<close>

fun end_answer :: "stream_end \<Rightarrow> (bytes option, stream_error_incoming) result option" where
  "end_answer End_Fin = Some (Ok None)"
| "end_answer (End_Reset code) = Some (Err (StreamTerminated code))"
| "end_answer End_Open = None"

text \<open>An answer that is pending, carries a chunk or is the given end.\<close>

fun only_end ::
  "(bytes option, stream_error_incoming) result option \<Rightarrow> (bytes option, stream_error_incoming) result poll \<Rightarrow> bool" where
  "only_end r PollPending = True"
| "only_end r (PollReady (Ok (Some b))) = True"
| "only_end r (PollReady a) = (r = Some a)"

text \<open>
  Answers that read a stream carrying \<open>bs\<close> and ending with \<open>e\<close>: the chunks are the bytes in order, an answer
  without a chunk is the end, and a clean end comes only after every byte.
\<close>

definition reads :: "bytes \<Rightarrow> stream_end \<Rightarrow> (bytes option, stream_error_incoming) result poll list \<Rightarrow> bool" where
  "reads bs e ps \<longleftrightarrow>
     prefix (concat (chunks ps)) bs \<and>
     list_all (only_end (end_answer e)) ps \<and>
     (PollReady (Ok None) \<in> set ps \<longrightarrow> concat (chunks ps) = bs)"

text \<open>The event the receive queue must end with.\<close>

fun end_event :: "stream_end \<Rightarrow> receive_event" where
  "end_event End_Fin = RE_Fin"
| "end_event (End_Reset code) = RE_Reset code"
| "end_event End_Open = RE_Internal ''open''"

text \<open>
  What holds of a receiving endpoint that was indicated \<open>es\<close> and returned the chunks \<open>got\<close>: what it returned,
  followed by what is queued, is what the events specify, and a stored terminal is the specified one.
\<close>

definition recv_inv ::
  "('o, 's, 'r) stream_env \<Rightarrow> ('r \<Rightarrow> receive_event list) \<Rightarrow> ('r \<Rightarrow> bool) \<Rightarrow> ('r \<Rightarrow> bool) \<Rightarrow> ('s \<Rightarrow> bool) \<Rightarrow> ('o \<Rightarrow> bool) \<Rightarrow>
   stream_event list \<Rightarrow> bytes list \<Rightarrow> ('i, 'o, 's, 'r, 'n) receiving \<Rightarrow> bool" where
  "recv_inv E rq rtx rrx stx alive es got st =
     (let (c, rs, w) = st in
      ctx_sync rtx stx alive (c, w) \<and> rrx (w_recv w) \<and> \<not> rs_receive_closed rs \<and>
      sx_receive c = list_all (\<lambda>e. \<not> recv_ends e) es \<and>
      (case rs_terminal rs of
         None \<Rightarrow> recv_spec (se_status E) es = map RE_Data got @ rq (w_recv w)
       | Some t \<Rightarrow> \<not> sx_receive c \<and>
           (recv_spec (se_status E) es = map RE_Data got \<or>
            (\<exists>ev conn. recv_spec (se_status E) es = map RE_Data got @ [ev] \<and> \<not> is_data ev \<and> t = recv_terminal_of conn ev))))"

text \<open>The answers given so far agree with the terminal the half has stored.\<close>

definition answers_ok :: "receive_terminal option \<Rightarrow> (bytes option, stream_error_incoming) result poll list \<Rightarrow> bool" where
  "answers_ok t ps = list_all (only_end (map_option convert_recv t)) ps"

text \<open>A send cause of the stream itself: not the connection's and not provisional.\<close>

fun stream_scoped :: "send_terminal \<Rightarrow> bool" where
  "stream_scoped (ST_Connection _) = False"
| "stream_scoped ST_ProvisionalAbort = False"
| "stream_scoped _ = True"

text \<open>Two payloads and the memory that holds them, for evaluation.\<close>

definition demo_wbs :: "(nat \<times> bytes) list" where
  "demo_wbs = [(50, [1, 2]), (60, [3])]"

definition demo_mem :: "nat \<Rightarrow> nat \<Rightarrow> bytes" where
  "demo_mem cc p = (if p = 50 then [1, 2] else if p = 60 then [3] else [])"

section \<open>Lemmas on the receiving endpoint\<close>

lemma recv_spec_snoc:
  "recv_spec S (es @ [e]) = recv_spec S es @ (if list_all (\<lambda>e. \<not> recv_ends e) es then recv_out S e else [])"
  by (induction es) simp_all

lemma recv_spec_last:
  "recv_spec S es = xs @ x # ys \<Longrightarrow> \<not> is_data x \<Longrightarrow> ys = []"
proof -
  assume a: "recv_spec S es = xs @ x # ys" "\<not> is_data x"
  obtain ds ts where s: "recv_spec S es = map RE_Data ds @ ts" "length ts \<le> 1" using recv_spec_shape by blast
  show "ys = []"
  proof (rule ccontr)
    assume "ys \<noteq> []"
    then have "0 < length ys" by simp
    moreover have "length ds + length ts = length xs + Suc (length ys)"
      using arg_cong [OF s(1), of length] arg_cong [OF a(1), of length] by simp
    ultimately have "length xs < length ds" using s(2) by linarith
    then have "(map RE_Data ds @ ts) ! length xs = RE_Data (ds ! length xs)" by (simp add: nth_append)
    moreover have "(xs @ x # ys) ! length xs = x" by simp
    ultimately show False using a s by (metis is_data.simps(1))
  qed
qed

lemma delivers_prefix:
  assumes "delivers bs e evs" and "prefix es evs"
  shows "\<exists>ds ts. recv_spec S es = map RE_Data ds @ ts \<and> prefix (concat ds) bs \<and>
    (ts = [] \<and> list_all (\<lambda>e. \<not> recv_ends e) es \<or> ts = [end_event e] \<and> (e = End_Fin \<longrightarrow> concat ds = bs))"
  using assms
proof (induction bs e evs arbitrary: es rule: delivers.induct)
  case (2 bs e tbl bufs fin evs)
  show ?case
  proof (cases es)
    case (Cons x es')
    then have x: "x = SE_Receive tbl bufs fin" and pre: "prefix es' evs" using 2 by auto
    show ?thesis
    proof (cases fin)
      case True
      with 2 show ?thesis unfolding Cons x
        by (intro exI [of _ "if concat bufs = [] then [] else [concat bufs]"] exI [of _ "[RE_Fin]"]) auto
    next
      case False
      with 2 have d: "prefix (concat bufs) bs" "delivers (drop (length (concat bufs)) bs) e evs" by auto
      from "2.IH" [OF _ this(2) pre] False obtain ds ts where
        ih: "recv_spec S es' = map RE_Data ds @ ts" "prefix (concat ds) (drop (length (concat bufs)) bs)"
        "ts = [] \<and> list_all (\<lambda>e. \<not> recv_ends e) es' \<or> ts = [end_event e] \<and> (e = End_Fin \<longrightarrow> concat ds = drop (length (concat bufs)) bs)"
        by blast
      have bs: "bs = concat bufs @ drop (length (concat bufs)) bs" using d(1) by (auto simp: prefix_def)
      let ?d = "(if concat bufs = [] then [] else [concat bufs]) @ ds"
      have "concat ?d = concat bufs @ concat ds" by simp
      moreover have "prefix (concat bufs @ concat ds) bs" using ih(2) by (subst bs) simp
      ultimately show ?thesis using ih bs False unfolding Cons x
        by (intro exI [of _ ?d] exI [of _ ts]) auto
    qed
  qed auto
next
  case (3 bs e evs)
  then show ?case by (cases es) (auto intro!: exI [of _ "[]"])
next
  case (4 bs e code evs)
  then show ?case by (cases es) (auto intro!: exI [of _ "[]"])
qed (auto simp: prefix_Cons intro: exI [of _ "[]"])

lemma delivers_complete:
  assumes "delivers bs e evs"
  shows "e \<noteq> End_Open \<and> (\<exists>ds. recv_spec S evs = map RE_Data ds @ [end_event e] \<and> prefix (concat ds) bs \<and>
    length ds \<le> length evs \<and> (e = End_Fin \<longrightarrow> concat ds = bs))"
  using assms
proof (induction bs e evs rule: delivers.induct)
  case (2 bs e tbl bufs fin evs)
  show ?case
  proof (cases fin)
    case True
    with 2 show ?thesis
      by (intro conjI exI [of _ "if concat bufs = [] then [] else [concat bufs]"]) auto
  next
    case False
    with 2 have d: "prefix (concat bufs) bs" "delivers (drop (length (concat bufs)) bs) e evs" by auto
    from "2.IH" [OF _ this(2)] False obtain ds where ih: "e \<noteq> End_Open" "recv_spec S evs = map RE_Data ds @ [end_event e]"
      "prefix (concat ds) (drop (length (concat bufs)) bs)" "length ds \<le> length evs"
      "e = End_Fin \<longrightarrow> concat ds = drop (length (concat bufs)) bs" by blast
    obtain r where r: "bs = concat bufs @ r" using d(1) by (auto simp: prefix_def)
    let ?d = "(if concat bufs = [] then [] else [concat bufs]) @ ds"
    have d: "concat ?d = concat bufs @ concat ds" by simp
    have "prefix (concat ?d) bs" "e = End_Fin \<longrightarrow> concat ?d = bs" unfolding d using ih r by auto
    with ih False show ?thesis by (intro conjI exI [of _ ?d]) auto
  qed
qed auto

lemma chunks_append [simp]: "chunks (ps @ qs) = chunks ps @ chunks qs"
  by (induction ps rule: chunks.induct) simp_all

lemma chunks_cons: "chunks (p # ps) = chunks [p] @ chunks ps"
  using chunks_append [of "[p]" ps] by simp

lemma recv_moves_append:
  "recv_moves E X (as @ bs) st =
    (let (st, ps) = recv_moves E X as st; (st, qs) = recv_moves E X bs st in (st, ps @ qs))"
proof (induction E X as st rule: recv_moves.induct)
  case (3 E X cx ms c rs w)
  then show ?case by (cases "poll_data E X cx (rs, w)") (simp add: case_prod_beta Let_def)
qed (simp_all add: case_prod_beta Let_def)

lemma recv_moves_polls:
  "recv_moves E X (replicate n (RM_Poll cx)) (c, st) =
    ((c, fst (poll_many E X cx n st)), snd (poll_many E X cx n st))"
proof (induction n arbitrary: st)
  case (Suc n)
  then show ?case by (cases st) (simp add: case_prod_beta Let_def)
qed simp

lemma recv_spec_open: "list_all (\<lambda>e. \<not> recv_ends e) es \<Longrightarrow> \<exists>ds. recv_spec S es = map RE_Data ds"
proof (induction es)
  case (Cons e es)
  then obtain ds ds' ts where "recv_spec S es = map RE_Data ds" "recv_out S e = map RE_Data ds' @ ts" "ts = []"
    using recv_out_shape [of S e] by auto
  with Cons.prems show ?case by (auto intro: exI [of _ "ds' @ ds"])
qed simp

lemma indicated_append [simp]: "indicated (as @ bs) = indicated as @ indicated bs"
  by (induction as rule: indicated.induct) simp_all

lemma indicated_polls [simp]: "indicated (replicate n (RM_Poll cx)) = []"
  by (induction n) simp_all

lemma data_split:
  assumes "map RE_Data ds @ [ev] = map RE_Data got @ q" and "\<not> is_data ev"
  shows "\<exists>es. ds = got @ es \<and> q = map RE_Data es @ [ev]"
  using assms(1)
proof (induction got arbitrary: ds)
  case (Cons g got)
  then obtain ds' where "ds = g # ds'" using assms(2) by (cases ds) auto
  with Cons show ?case by auto
qed auto

lemma data_prefix:
  assumes "map RE_Data ds @ ts = map RE_Data got @ q" and "\<forall>t \<in> set ts. \<not> is_data t"
  shows "prefix got ds"
  using assms(1)
proof (induction got arbitrary: ds)
  case (Cons g got)
  then obtain ds' where "ds = g # ds'" using assms(2) by (cases ds) auto
  with Cons show ?case by auto
qed simp

lemma concat_mono_prefix: "prefix xs ys \<Longrightarrow> prefix (concat xs) (concat ys)"
  by (auto simp: prefix_def)

lemma poll_data_frame:
  assumes "\<not> rs_receive_closed rs" and "rs_terminal rs = None" and "poll_next (se_recv E) cx (w_recv w) = (ch, p)"
    and "poll_data E (recv_stream_executor N) cx (rs, w) = ((rs', w'), r)"
  shows "w_recv w' = ch \<and> w_send w' = w_send w \<and> w_start w' = w_start w"
proof (cases "\<exists>b. p = PollReady (Some (RE_Data b))")
  case True
  then obtain b where "p = PollReady (Some (RE_Data b))" by blast
  from poll_data_eqs(1) [OF assms(1-3) this, of N] assms(4) show ?thesis by auto
next
  case False
  with poll_data_no_data [OF assms(1-3) _ assms(4)] obtain sl where "w' = w\<lparr>w_recv := ch, w_conn_slot := sl\<rparr>" by blast
  then show ?thesis by simp
qed

lemma terminal_answer:
  "chunks [PollReady (convert_recv t)] = []" "answers_ok (Some t) [PollReady (convert_recv t)]"
  by (cases t; simp add: answers_ok_def)+

lemma only_end_mono: "only_end r p \<Longrightarrow> r \<noteq> None \<longrightarrow> r' = r \<Longrightarrow> only_end r' p"
  by (induction r p rule: only_end.induct) auto

lemma answers_ok_mono: "answers_ok t ps \<Longrightarrow> t \<noteq> None \<longrightarrow> t' = t \<Longrightarrow> answers_ok t' ps"
  by (auto simp: answers_ok_def list_all_iff intro: only_end_mono)

lemma answers_none:
  assumes "answers_ok None ps" and "prefix (concat (chunks ps)) bs"
  shows "reads bs e ps"
  using assms by (auto simp: reads_def answers_ok_def list_all_iff intro: only_end_mono dest: bspec [of _ _ "PollReady (Ok None)"])

lemma answers_some:
  assumes "answers_ok (Some t) ps" and "end_answer e = Some (convert_recv t)"
    and "prefix (concat (chunks ps)) bs" and "e = End_Fin \<longrightarrow> concat (chunks ps) = bs"
  shows "reads bs e ps"
proof -
  have "e = End_Fin" if "PollReady (Ok None) \<in> set ps"
    using that assms(1,2) by (cases e) (auto simp: answers_ok_def list_all_iff dest!: bspec [of _ _ "PollReady (Ok None)"])
  with assms show ?thesis by (auto simp: reads_def answers_ok_def)
qed

lemma answers_ok_append [simp]: "answers_ok t (ps @ qs) \<longleftrightarrow> answers_ok t ps \<and> answers_ok t qs"
  by (simp add: answers_ok_def)

context stream_channels
begin

abbreviation "receiver_inv \<equiv> recv_inv E rq rtx rrx stx alive"

lemma receiver_inv_new: "receiver_inv [] [] (fresh_receiver E i conn cfg m)"
  using pre_id_sync [of conn cfg m] recv.new_view
  by (simp add: recv_inv_def fresh_receiver_def attach_def finalize_def case_prod_beta stream_ctx_channel_pre_id_def stream_ctx_new_def)

lemma receiver_inv_event:
  assumes "receiver_inv es got (c, rs, w)" and "stream_callback E ev (c, w) = ((c', w'), res)"
  shows "receiver_inv (es @ [ev]) got (c', rs, w')"
proof -
  from assms(1) have i: "ctx_sync rtx stx alive (c, w)" "rrx (w_recv w)" "sx_receive c = list_all (\<lambda>e. \<not> recv_ends e) es"
    by (simp_all add: recv_inv_def)
  from assms(1) stream_callback_step [OF i(1,2) assms(2)] i(3) show ?thesis
    by (auto simp: recv_inv_def recv_spec_snoc split: option.split)
qed

lemma receiver_inv_poll:
  assumes inv: "receiver_inv es got (c, rs, w)" and r: "poll_data E (recv_stream_executor N) cx (rs, w) = ((rs', w'), p)"
  shows "receiver_inv es (got @ chunks [p]) (c, rs', w') \<and> answers_ok (rs_terminal rs') [p] \<and>
    (rs_terminal rs \<noteq> None \<longrightarrow> rs_terminal rs' = rs_terminal rs)"
proof (cases "rs_terminal rs")
  case (Some t)
  from inv have "\<not> rs_receive_closed rs" by (simp add: recv_inv_def)
  with Some r have "rs' = rs" "w' = w" "p = PollReady (convert_recv t)" by (simp_all add: poll_data_replay)
  with inv Some show ?thesis by (cases t) (simp_all add: answers_ok_def)
next
  case None
  from inv have i: "ctx_sync rtx stx alive (c, w)" "rrx (w_recv w)" "\<not> rs_receive_closed rs"
    "sx_receive c = list_all (\<lambda>e. \<not> recv_ends e) es" "recv_spec (se_status E) es = map RE_Data got @ rq (w_recv w)"
    by (simp_all add: recv_inv_def None)
  obtain ch q where q: "poll_next (se_recv E) cx (w_recv w) = (ch, q)" by fastforce
  have ends: "rtx ch = rtx (w_recv w)" "rrx ch" using recv.poll_ends [OF i(2), of cx] q by simp_all
  note eqs = poll_data_eqs [OF i(3) None q]
  have items: "rq (w_recv w) = (case q of PollReady (Some ev) \<Rightarrow> ev # rq ch | _ \<Rightarrow> rq ch)"
    using recv.poll_preserves_items [OF i(2), of cx] unfolding q fst_conv snd_conv .
  have sx: "sx_receive c = rtx (w_recv w)" using i(1) by (simp add: ctx_sync_def)
  have w': "w_recv w' = ch" "ctx_sync rtx stx alive (c, w')"
    using poll_data_frame [OF i(3) None q r] i(1) ends by (auto simp: ctx_sync_def)
  show ?thesis
  proof (cases q)
    case PollPending
    with r None i w' ends items show ?thesis by (auto simp: eqs recv_inv_def answers_ok_def)
  next
    case (PollReady x)
    show ?thesis
    proof (cases x)
      case None
      then have "rq (w_recv w) = []" "\<not> rtx (w_recv w)"
        using PollReady q recv.poll_item [OF i(2), of _ _ cx] recv.poll_pending [OF i(2), of cx]
        by (cases "rq (w_recv w)"; cases "rtx (w_recv w)"; simp)+
      with None PollReady r i w' ends sx \<open>rs_terminal rs = None\<close> show ?thesis
        by (auto simp: eqs recv_inv_def answers_ok_def)
    next
      case (Some ev)
      have spec: "recv_spec (se_status E) es = map RE_Data got @ ev # rq ch" using i(5) items PollReady Some by simp
      show ?thesis
      proof (cases "is_data ev")
        case True
        then obtain b where "ev = RE_Data b" by (cases ev) simp_all
        with Some PollReady r i w' ends spec \<open>rs_terminal rs = None\<close> show ?thesis
          by (auto simp: eqs recv_inv_def answers_ok_def)
      next
        case False
        from recv_spec_last [OF spec False] have "rq ch = []" .
        moreover have "\<not> sx_receive c"
          using recv_spec_open [of es "se_status E"] spec False i(4) by (auto simp: append_eq_map_conv)
        moreover have "rs' = rs\<lparr>rs_terminal := Some (recv_terminal_of (ct_terminal (w_conn_slot w)) ev)\<rparr>"
          "p = PollReady (convert_recv (recv_terminal_of (ct_terminal (w_conn_slot w)) ev))"
          using r False Some PollReady by (cases ev; simp add: eqs)+
        ultimately show ?thesis using i(3,4) w' ends spec False \<open>rs_terminal rs = None\<close>
          by (simp add: recv_inv_def terminal_answer del: is_data.simps) blast
      qed
    qed
  qed
qed

lemma receiver_inv_moves:
  assumes "receiver_inv es got st" and "recv_moves E (recv_stream_executor N) ms st = (st', ps)"
  shows "receiver_inv (es @ indicated ms) (got @ chunks ps) st' \<and> answers_ok (rs_terminal (fst (snd st'))) ps \<and>
    (rs_terminal (fst (snd st)) \<noteq> None \<longrightarrow> rs_terminal (fst (snd st')) = rs_terminal (fst (snd st)))"
  using assms
proof (induction ms arbitrary: es got st ps)
  case Nil
  then show ?case by (simp add: answers_ok_def)
next
  case (Cons m ms)
  obtain c rs w where st: "st = (c, rs, w)" by (metis prod.exhaust)
  show ?case
  proof (cases m)
    case (RM_Indicate ev)
    obtain c' w' res where cb: "stream_callback E ev (c, w) = ((c', w'), res)" by (metis prod.exhaust)
    from Cons.IH [OF receiver_inv_event [OF Cons.prems(1) [unfolded st] cb], of ps] Cons.prems(2) RM_Indicate st cb
    show ?thesis by simp
  next
    case (RM_Poll cx)
    obtain rs1 w1 p where pd: "poll_data E (recv_stream_executor N) cx (rs, w) = ((rs1, w1), p)" by (metis prod.exhaust)
    obtain qs where qs: "recv_moves E (recv_stream_executor N) ms (c, rs1, w1) = (st', qs)" "ps = p # qs"
      using Cons.prems(2) RM_Poll st pd by (auto split: prod.splits)
    note one = receiver_inv_poll [OF Cons.prems(1) [unfolded st] pd]
    from Cons.IH [OF conjunct1 [OF one] qs(1)] one
    have rest: "receiver_inv (es @ indicated ms) (got @ chunks [p] @ chunks qs) st'" "answers_ok (rs_terminal (fst (snd st'))) qs"
      "rs_terminal rs1 \<noteq> None \<longrightarrow> rs_terminal (fst (snd st')) = rs_terminal rs1" by simp_all
    moreover have "answers_ok (rs_terminal (fst (snd st'))) ([p] @ qs)"
      unfolding answers_ok_append using answers_ok_mono [OF conjunct1 [OF conjunct2 [OF one]] rest(3)] rest(2) by blast
    ultimately show ?thesis using RM_Poll st one qs(2) chunks_cons [of p qs] by simp
  qed
qed

text \<open>Once a terminal is queued, one poll per queued item and one more store it.\<close>

lemma polls_reach_terminal:
  assumes inv: "receiver_inv es got (c, rs, w)" and spec: "recv_spec (se_status E) es = map RE_Data ds @ [ev]"
    and "\<not> is_data ev" and n: "length ds \<le> n"
    and r: "poll_many E (recv_stream_executor N) cx (Suc n) (rs, w) = ((rs', w'), ps)"
  shows "rs_terminal rs' \<noteq> None \<and> (\<exists>t. rs_terminal rs' = Some t \<and> last ps = PollReady (convert_recv t))"
proof -
  let ?X = "recv_stream_executor N"
  from inv have i: "rrx (w_recv w)" "\<not> rs_receive_closed rs" by (simp_all add: recv_inv_def)
  show ?thesis
  proof (cases "rs_terminal rs")
    case (Some t)
    from poll_many_replay [OF i(2) Some, of E ?X cx "Suc n" w] r Some show ?thesis by auto
  next
    case None
    then have q: "map RE_Data ds @ [ev] = map RE_Data got @ rq (w_recv w)" using inv spec by (simp add: recv_inv_def)
    obtain es' where es: "ds = got @ es'" "rq (w_recv w) = map RE_Data es' @ [ev]"
      using data_split [OF q assms(3)] by blast
    obtain w1 where many: "poll_many E ?X cx (length es') (rs, w) = ((rs, w1), map (\<lambda>d. PollReady (Ok (Some d))) es')"
      and w1: "rq (w_recv w1) = [ev]" "rrx (w_recv w1)"
      using poll_many_data [OF i(2) None i(1) es(2)] by blast
    obtain w2 t where one: "poll_data E ?X cx (rs, w1) = ((rs\<lparr>rs_terminal := Some t\<rparr>, w2), PollReady (convert_recv t))"
      using poll_data_terminal [OF i(2) None w1(2,1) assms(3)] by blast
    obtain k where k: "Suc n = length es' + Suc k" using n es(1) by (metis add_Suc_right le_add_diff_inverse length_append add_leD2)
    have "poll_many E ?X cx k (rs\<lparr>rs_terminal := Some t\<rparr>, w2) =
        ((rs\<lparr>rs_terminal := Some t\<rparr>, w2), replicate k (PollReady (convert_recv t)))"
      using i(2) by (intro poll_many_replay) simp_all
    then have "poll_many E ?X cx (Suc n) (rs, w) = ((rs\<lparr>rs_terminal := Some t\<rparr>, w2),
        map (\<lambda>d. PollReady (Ok (Some d))) es' @ replicate (Suc k) (PollReady (convert_recv t)))"
      unfolding k poll_many_add many using one by simp
    with r show ?thesis by auto
  qed
qed

text \<open>
  Every interleaving of a delivery with polls reads the stream, and once the delivery is complete
  as many polls as there were events and one more reach its end.
\<close>

lemma receiver_reads:
  assumes d: "delivers bs e evs" and pre: "prefix (indicated ms) evs"
    and r: "recv_moves E (recv_stream_executor N) ms (fresh_receiver E i conn cfg m) = (st, ps)"
  shows "reads bs e ps"
proof -
  obtain c rs w where st: "st = (c, rs, w)" by (metis prod.exhaust)
  let ?S = "se_status E"
  from receiver_inv_moves [OF receiver_inv_new r] have inv: "receiver_inv (indicated ms) (chunks ps) (c, rs, w)"
    and ok: "answers_ok (rs_terminal rs) ps" by (simp_all add: st)
  obtain ds ts where sp: "recv_spec ?S (indicated ms) = map RE_Data ds @ ts" "prefix (concat ds) bs"
    "ts = [] \<and> list_all (\<lambda>e. \<not> recv_ends e) (indicated ms) \<or> ts = [end_event e] \<and> (e = End_Fin \<longrightarrow> concat ds = bs)"
    using delivers_prefix [OF d pre] by blast
  have e: "e \<noteq> End_Open" "\<not> is_data (end_event e)" using delivers_complete [OF d] by (cases e; simp)+
  show ?thesis
  proof (cases "rs_terminal rs")
    case None
    with inv have q: "map RE_Data ds @ ts = map RE_Data (chunks ps) @ rq (w_recv w)" using sp(1) by (simp add: recv_inv_def)
    have "prefix (chunks ps) ds" using sp(3) e(2) by (intro data_prefix [OF q]) auto
    then have "prefix (concat (chunks ps)) bs" using sp(2) by (meson concat_mono_prefix prefix_order.trans)
    with answers_none [of ps bs e] ok None show ?thesis by simp
  next
    case (Some t)
    with inv have q: "\<not> list_all (\<lambda>e. \<not> recv_ends e) (indicated ms)"
      "map RE_Data ds @ ts = map RE_Data (chunks ps) \<or>
       (\<exists>ev con. map RE_Data ds @ ts = map RE_Data (chunks ps) @ [ev] \<and> \<not> is_data ev \<and> t = recv_terminal_of con ev)"
      using sp(1) by (auto simp: recv_inv_def)
    from q(1) sp(3) have ts: "ts = [end_event e]" "e = End_Fin \<longrightarrow> concat ds = bs" by auto
    have "map RE_Data ds @ [end_event e] \<noteq> map RE_Data (chunks ps)"
      using e(2) by (auto simp: append_eq_map_conv)
    with q(2) ts obtain ev con where "map RE_Data ds @ [end_event e] = map RE_Data (chunks ps) @ [ev]" "t = recv_terminal_of con ev" by auto
    then have "ds = chunks ps" and t: "end_answer e = Some (convert_recv t)"
      using e(1) by (auto simp: inj_map_eq_map inj_def) (cases e; simp)
    with sp(2) ts(2) answers_some [of t ps e bs] ok Some show ?thesis by simp
  qed
qed

lemma receiver_ends:
  assumes d: "delivers bs e evs" and "indicated ms = evs"
    and r: "recv_moves E (recv_stream_executor N) (ms @ replicate (Suc (length evs)) (RM_Poll cx)) (fresh_receiver E i conn cfg m) = (st, ps)"
  shows "map_option PollReady (end_answer e) = Some (last ps) \<and> ps \<noteq> []"
proof -
  let ?X = "recv_stream_executor N"
  obtain st1 ps1 where m: "recv_moves E ?X ms (fresh_receiver E i conn cfg m) = (st1, ps1)" by fastforce
  obtain c rs w where st1: "st1 = (c, rs, w)" by (metis prod.exhaust)
  obtain rs' w' qs where polls: "poll_many E ?X cx (Suc (length evs)) (rs, w) = ((rs', w'), qs)" by (metis prod.exhaust)
  from receiver_inv_moves [OF receiver_inv_new m] assms(2) have inv: "receiver_inv evs (chunks ps1) (c, rs, w)" by (simp add: st1)
  obtain ds where sp: "e \<noteq> End_Open" "recv_spec (se_status E) evs = map RE_Data ds @ [end_event e]" "length ds \<le> length evs"
    using delivers_complete [OF d] by blast
  have "\<not> is_data (end_event e)" by (cases e) simp_all
  from polls_reach_terminal [OF inv sp(2) this sp(3) polls] obtain t where
    t: "rs_terminal rs' = Some t" "last qs = PollReady (convert_recv t)" by blast
  have ps: "ps = ps1 @ qs" "st = (c, rs', w')"
    using r polls unfolding recv_moves_append m recv_moves_polls st1 by (simp_all add: recv_moves_polls del: replicate_Suc poll_many.simps)
  have "qs \<noteq> []" using polls by (auto simp: case_prod_beta)
  then have last: "last ps = PollReady (convert_recv t)" using t(2) ps(1) by simp
  then have "PollReady (convert_recv t) \<in> set ps" using ps(1) \<open>qs \<noteq> []\<close> by (metis append_is_Nil_conv last_in_set)
  moreover have "reads bs e ps" by (rule receiver_reads [OF d _ r]) (simp add: assms(2))
  ultimately have "end_answer e = Some (convert_recv t)"
    by (cases t) (auto simp: reads_def list_all_iff dest: bspec)
  with last ps(1) \<open>qs \<noteq> []\<close> show ?thesis by simp
qed

lemma receiver_reads_all:
  assumes d: "delivers bs e evs" and all: "indicated ms = evs"
  shows "\<exists>st ps. recv_moves E (recv_stream_executor N) (ms @ replicate (Suc (length evs)) (RM_Poll cx)) (fresh_receiver E i conn cfg m) = (st, ps) \<and>
    reads bs e ps \<and> map_option PollReady (end_answer e) = Some (last ps) \<and> (e = End_Fin \<longrightarrow> concat (chunks ps) = bs)"
proof -
  obtain st ps where q: "recv_moves E (recv_stream_executor N) (ms @ replicate (Suc (length evs)) (RM_Poll cx))
    (fresh_receiver E i conn cfg m) = (st, ps)" by fastforce
  have last: "map_option PollReady (end_answer e) = Some (last ps)" "ps \<noteq> []" using receiver_ends [OF d all q] by auto
  have reads: "reads bs e ps" by (rule receiver_reads [OF d _ q]) (simp add: all)
  with last have "e = End_Fin \<longrightarrow> concat (chunks ps) = bs" using last_in_set [of ps] by (auto simp: reads_def)
  with q last reads show ?thesis by blast
qed

end

section \<open>Reset and stop\<close>

text \<open>With no cause known and no submission reserved, \<open>reset\<close> submits the abort and the local reset wins.\<close>

lemma reset_submits:
  assumes "w_send_slot w = None" and "ct_terminal (w_conn_slot w) = None" and "\<not> submission_reserved (ss_reducer s)"
    and "\<not> finish_complete (ss_reducer s)"
    and "ns_shutdown N SHUTDOWN_ABORT_SEND (clamp_application_code code) (w_native w) = (n', Ok ())"
  shows "reset E calm (stream_executor N) code (s, w) =
    Some (s, w\<lparr>w_native := n', w_send_slot := Some (ST_LocalReset (clamp_application_code code))\<rparr>)"
proof -
  have r: "resolve_terminal w = None" "resolve_terminal (w\<lparr>w_native := n'\<rparr>) = None"
    by (rule resolve_none; simp add: assms(1,2))+
  obtain m where fuel: "loop_fuel = Suc (Suc (Suc m))" by (rule fuel_three)
  have red: "(ss_reducer s)\<lparr>reset_submitting := False\<rparr> = ss_reducer s" using assms(3) by (simp add: submission_reserved_def)
  show ?thesis
    using assms r
    by (simp add: reset_def fuel calm_def reset_iter_def reducer_defs definitive_def shutdown_call_def publish_winner_def
        publish_send_def red)
qed

text \<open>A stream-scoped cause in the send slot is what every send operation reports, whatever else is queued.\<close>

lemma stream_cause_resolves: "w_send_slot w = Some t \<Longrightarrow> stream_scoped t \<Longrightarrow> resolve_terminal w = Some t"
  by (cases t) (simp_all add: resolve_terminal_def load_winner_def)

lemma stream_scoped_simps:
  "stream_scoped t \<Longrightarrow> definitive (Some t) = Some t" "stream_scoped t \<Longrightarrow> commit_send_winner t w = (w, t)"
  by (cases t; simp add: definitive_def commit_send_winner_def)+

lemma poll_ready_caused:
  assumes "w_send_slot w = Some t" and "stream_scoped t" and "\<not> submission_reserved (ss_reducer s)"
  shows "\<exists>s' w'. poll_ready E calm cx (s, w) = Some ((s', w'), PollReady (Err (convert_send (se_status E) t))) \<and>
    w_send_slot w' = Some t \<and> \<not> submission_reserved (ss_reducer s') \<and> w_native w' = w_native w"
proof -
  obtain ch p where p: "poll_next (se_send E) cx (w_send w) = (ch, p)" by fastforce
  have r: "resolve_terminal w = Some t" "resolve_terminal (w\<lparr>w_send := ch\<rparr>) = Some t"
    by (rule stream_cause_resolves; simp add: assms(1,2))+
  obtain m where fuel: "loop_fuel = Suc (Suc (Suc m))" by (rule fuel_three)
  show ?thesis
    using assms p r
    by (auto simp: poll_ready_def poll_ready_input_def poll_send_channel_def fuel calm_def poll_ready_iter_def reducer_defs
        stream_scoped_simps)
qed

lemma send_data_caused:
  assumes "w_send_slot w = Some t" and "stream_scoped t"
  shows "\<exists>s'. send_data E calm X ref_from Bu wb (s, w) = Some ((s', w), Err (convert_send (se_status E) t))"
proof -
  obtain m where fuel: "loop_fuel = Suc (Suc (Suc m))" by (rule fuel_three)
  show ?thesis
    using stream_cause_resolves [OF assms] assms(2)
    by (auto simp: send_data_def fuel calm_def send_data_iter_def reducer_defs stream_scoped_simps)
qed

lemma poll_finish_caused:
  assumes "w_send_slot w = Some t" and "stream_scoped t" and "\<not> submission_reserved (ss_reducer s)"
    and "\<not> finish_complete (ss_reducer s)" and "poll_next (se_send E) cx (w_send w) = (ch, p)"
    and "\<forall>g. p \<noteq> PollReady (Some (FinishComplete g))"
  shows "\<exists>s'. poll_finish E calm X cx (s, w) = Some ((s', w\<lparr>w_send := ch\<rparr>), PollReady (Err (convert_send (se_status E) t)))"
proof -
  have r: "resolve_terminal (w\<lparr>w_send := ch\<rparr>) = Some t" by (rule stream_cause_resolves; simp add: assms(1,2))
  obtain m where fuel: "loop_fuel = Suc (Suc (Suc m))" by (rule fuel_three)
  show ?thesis
    using assms r
    by (auto simp: poll_finish_def poll_finish_input_def poll_send_channel_def fuel calm_def poll_finish_iter_def reducer_defs
        stream_scoped_simps split: poll.split option.split send_event.split)
qed

section \<open>The sending endpoint\<close>

text \<open>
  What the sender relies on: a send appends the bytes its descriptors name, a graceful shutdown ends the stream
  with a FIN, an abort of the send direction resets it with the given code, an abort of the receive direction asks
  the peer to stop with the given code.
\<close>

locale quic_wire =
  fixes N :: "'n native_stream" and mem :: "nat \<Rightarrow> nat \<Rightarrow> bytes"
    and sent :: "'n \<Rightarrow> bytes" and fate :: "'n \<Rightarrow> stream_end" and stop_code :: "'n \<Rightarrow> u64 option"
  assumes accepts_wire: "accepts_all N"
    and send_appends: "fate n = End_Open \<Longrightarrow> sent (fst (ns_send N bufs cc n)) = sent n @ concat (map (desc_bytes mem cc) bufs)"
    and send_fate: "fate (fst (ns_send N bufs cc n)) = fate n"
    and shutdown_sent: "sent (fst (ns_shutdown N flags code n)) = sent n"
    and graceful_fate: "fate n = End_Open \<Longrightarrow> fate (fst (ns_shutdown N SHUTDOWN_GRACEFUL code n)) = End_Fin"
    and abort_fate: "fate n = End_Open \<Longrightarrow> fate (fst (ns_shutdown N SHUTDOWN_ABORT_SEND code n)) = End_Reset code"
    and abort_stop: "stop_code n = None \<Longrightarrow> stop_code (fst (ns_shutdown N SHUTDOWN_ABORT_RECEIVE code n)) = Some code"
begin

lemma send_buffer_bytes:
  assumes "take (length (content_of b)) (mem cc (storage b)) = content_of b" and "length (content_of b) < 2 ^ 32"
  shows "concat (map (desc_bytes mem cc) (buffers (send_buffer_new native_buffer_ref b))) = content_of b"
  using assms by (simp add: buffers_def send_buffer_new_def native_buffer_ref_def desc_bytes_def unat_ucast_u32 unat_of_nat_u64)

lemma native_sends_bytes:
  assumes "fate n = End_Open" and "memory_holds mem cc bs" and "\<forall>b \<in> set bs. length (content_of b) < 2 ^ 32"
  shows "sent (native_sends N (map (send_buffer_new native_buffer_ref) bs) cc n) = sent n @ concat (map content_of bs) \<and>
    fate (native_sends N (map (send_buffer_new native_buffer_ref) bs) cc n) = End_Open"
  using assms
proof (induction bs arbitrary: cc n)
  case (Cons b bs)
  have "concat (map (desc_bytes mem cc) (buffers (send_buffer_new native_buffer_ref b))) = content_of b"
    using Cons.prems by (intro send_buffer_bytes) simp_all
  with Cons.IH [of "fst (ns_send N (buffers (send_buffer_new native_buffer_ref b)) cc n)" "Suc cc"] Cons.prems
  show ?case by (simp add: send_appends send_fate)
qed simp

end

lemma wire_bytes_snoc: "wire_bytes mem (log @ [x]) = wire_bytes mem log @ wire_bytes mem [x]"
  by (induction mem log rule: wire_bytes.induct) simp_all

lemma wire_fate_snoc: "wire_fate (log @ [x]) = (if wire_fate log = End_Open then wire_fate [x] else wire_fate log)"
  by (induction log rule: wire_fate.induct) simp_all

lemma wire_stop_snoc: "wire_stop (log @ [x]) = (if wire_stop log = None then wire_stop [x] else wire_stop log)"
  by (induction log rule: wire_stop.induct) simp_all

interpretation log_wire: quic_wire log_native mem "wire_bytes mem" wire_fate wire_stop
  by unfold_locales (auto simp: log_native_def accepts_all_def wire_bytes_snoc wire_fate_snoc wire_stop_snoc)

text \<open>The endpoints together: a sender over the wire and a receiver with documented channels.\<close>

locale stream_loopback =
  wire: quic_wire N mem sent fate stop_code +
  out: mpsc_channel "se_send E" sq stx srx spark +
  peer: stream_channels E' rq rtx rrx rpark sq' stx' srx' spark' content alive waiting
  for N :: "'n native_stream" and mem sent fate stop_code and E :: "('o, 's, 'r) stream_env" and sq stx srx spark
    and E' :: "('p, 't, 'q) stream_env" and rq rtx rrx rpark sq' stx' srx' spark' content alive waiting

sublocale stream_loopback \<subseteq> send_direction E sq stx srx spark N
  by unfold_locales (rule wire.accepts_wire)

context stream_loopback
begin

lemma payloads_on_wire:
  assumes "buf_source Bu rest fits" and "config_valid cfg" and "ss_max_send_bytes s = max_send_bytes cfg"
    and "send_idle sq stx srx (s, c, w)" and "fate (w_native w) = End_Open"
    and "\<forall>wb \<in> set wbs. fits wb \<and> remaining Bu wb \<noteq> 0 \<and> remaining Bu wb \<le> max_send_bytes cfg"
    and "memory_holds mem (w_next w) (map (\<lambda>wb. snd (copy_to_bytes Bu (remaining Bu wb) wb)) wbs)"
  shows "\<exists>s' c' w'. send_cycles E N native_buffer_ref Bu cx wbs (s, c, w) =
      Some ((s', c', w'), replicate (length wbs) (Ok (), PollReady (Ok ()))) \<and>
    send_idle sq stx srx (s', c', w') \<and> sent (w_native w') = sent (w_native w) @ concat (map rest wbs) \<and>
    fate (w_native w') = End_Open"
proof -
  let ?bs = "map (\<lambda>wb. snd (copy_to_bytes Bu (remaining Bu wb) wb)) wbs"
  have bufs: "map (\<lambda>wb. snd (copy_into_send_buffer native_buffer_ref Bu wb)) wbs = map (send_buffer_new native_buffer_ref) ?bs"
    by (simp add: copy_into_send_buffer_def case_prod_beta)
  have content: "map content_of ?bs = map rest wbs" using assms(6) buf_source.copy_all(1) [OF assms(1)] by simp
  have len: "\<forall>b \<in> set ?bs. length (content_of b) < 2 ^ 32"
    using assms(2,6) buf_source.copy_all(1) [OF assms(1)] buf_source.remaining_rest [OF assms(1)]
    by (auto simp: config_valid_def word_le_nat_alt)
  have "\<forall>wb \<in> set wbs. remaining Bu wb \<noteq> 0 \<and> remaining Bu wb \<le> ss_max_send_bytes (fst (s, c, w))" using assms(3,6) by simp
  from send_cycles_complete [OF assms(4) this, of native_buffer_ref cx] obtain y where
    y: "send_cycles E N native_buffer_ref Bu cx wbs (s, c, w) = Some (y, replicate (length wbs) (Ok (), PollReady (Ok ())))"
    "send_idle sq stx srx y" "sent_effect N (map (send_buffer_new native_buffer_ref) ?bs) (s, c, w) y"
    unfolding bufs by blast
  obtain s' c' w' where s': "y = (s', c', w')" by (rule prod_cases3)
  note cyc = y [unfolded s']
  from cyc(3) have "w_native w' = native_sends N (map (send_buffer_new native_buffer_ref) ?bs) (w_next w) (w_native w)"
    by (simp add: sent_effect_def)
  then have "sent (w_native w') = sent (w_native w) @ concat (map rest wbs)" "fate (w_native w') = End_Open"
    using wire.native_sends_bytes [OF assms(5,7) len] unfolding content by simp_all
  with cyc(1,2) show ?thesis by blast
qed

lemma finish_on_wire:
  assumes "send_idle sq stx srx (s, c, w)" and "fate (w_native w) = End_Open"
    and "finish_cycle E N cx (s, c, w) = Some ((s', c', w'), first, final)"
  shows "final = PollReady (Ok ()) \<and> sent (w_native w') = sent (w_native w) \<and> fate (w_native w') = End_Fin"
  using finish_cycle_completes [OF assms(1), of cx] assms(2,3) wire.shutdown_sent wire.graceful_fate by auto

lemma reset_on_wire:
  assumes "send_idle sq stx srx (s, c, w)" and "fate (w_native w) = End_Open"
    and "reset E calm (stream_executor N) code (s, w) = Some (s', w')"
  shows "sent (w_native w') = sent (w_native w) \<and> fate (w_native w') = End_Reset (clamp_application_code code) \<and>
    s' = s \<and> w_send_slot w' = Some (ST_LocalReset (clamp_application_code code)) \<and> w_send w' = w_send w"
proof -
  let ?n = "fst (ns_shutdown N SHUTDOWN_ABORT_SEND (clamp_application_code code) (w_native w))"
  have n: "ns_shutdown N SHUTDOWN_ABORT_SEND (clamp_application_code code) (w_native w) = (?n, Ok ())"
    using wire.accepts_wire by (metis accepts_all_def prod.collapse)
  have "\<not> submission_reserved (ss_reducer s)" "\<not> finish_complete (ss_reducer s)" "w_send_slot w = None"
    "ct_terminal (w_conn_slot w) = None"
    using assms(1) by (simp_all add: send_idle_def send_state_new_def submission_reserved_def)
  from reset_submits [OF this(3,4,1,2) n, of E] assms(2,3) wire.shutdown_sent wire.abort_fate show ?thesis by auto
qed

end

interpretation log_loopback: stream_loopback log_native mem "wire_bytes mem" wire_fate wire_stop
    ref_env fifo_items fifo_tx fifo_rx fifo_parked
    ref_env fifo_items fifo_tx fifo_rx fifo_parked fifo_items fifo_tx fifo_rx fifo_parked cell_value cell_tx cell_waiting
  by intro_locales

section \<open>A concrete pair\<close>

lemma demo_idle: "send_idle fifo_items fifo_tx fifo_rx (ref_sctx, stream_ctx_new, ref_world conn_terminal_default)"
  by code_simp

lemma demo_world: "w_native (ref_world conn) = []" "w_next (ref_world conn) = 1"
  "ss_max_send_bytes ref_sctx = max_send_bytes h3_config_default"
  by (simp_all add: ref_world_def stream_ctx_channel_pre_id_def ref_sctx_def h3_config_default_def)

lemma demo_payloads: "\<forall>wb \<in> set demo_wbs. (\<lambda>(p, bs). length bs < 2 ^ 64) wb \<and> remaining slice_buf wb \<noteq> 0 \<and>
    remaining slice_buf wb \<le> max_send_bytes h3_config_default"
  by (simp add: demo_wbs_def slice_buf_def h3_config_default_def MAX_ADAPTER_SEND_def)

lemma demo_holds: "memory_holds demo_mem (w_next (ref_world conn_terminal_default))
    (map (\<lambda>wb. snd (copy_to_bytes slice_buf (remaining slice_buf wb) wb)) demo_wbs)"
  by (simp add: demo_wbs_def demo_mem_def slice_buf_def)

section \<open>Properties\<close>

text \<open>
  C2: what one endpoint sends is what the other reads. Over the documented wire and channels, the payloads handed
  to \<open>send_data\<close> (each completed and made ready again) and then finished reach the peer's application byte for
  byte and in order: in every interleaving of the peer's indications, cut anywhere, with its polls, the
  chunks returned so far are a prefix of the payloads, a clean end is reported only after all of them, and
  no error is; once everything is indicated, one poll per event and one more return the whole
  stream and its clean end.
\<close>

theorem loopback_delivers:
  assumes "stream_loopback N mem sent fate stop_code E sq stx srx spark E' rq rtx rrx rpark sq' stx' srx' spark' content alive waiting"
    and "buf_source Bu rest fits" and "config_valid cfg" and "ss_max_send_bytes s = max_send_bytes cfg"
    and "send_idle sq stx srx (s, c, w)" and "sent (w_native w) = []" and "fate (w_native w) = End_Open"
    and "\<forall>wb \<in> set wbs. fits wb \<and> remaining Bu wb \<noteq> 0 \<and> remaining Bu wb \<le> max_send_bytes cfg"
    and "memory_holds mem (w_next w) (map (\<lambda>wb. snd (copy_to_bytes Bu (remaining Bu wb) wb)) wbs)"
    and "send_cycles E N native_buffer_ref Bu cx wbs (s, c, w) = Some (scw, results)"
    and "finish_cycle E N cx scw = Some ((s', c', w'), first, final)"
    and "delivers (sent (w_native w')) (fate (w_native w')) evs" and "prefix (indicated ms) evs"
    and "recv_moves E' (recv_stream_executor N') ms (fresh_receiver E' i conn cfg' m) = (st, ps)"
  shows "set results \<subseteq> {(Ok (), PollReady (Ok ()))} \<and> final = PollReady (Ok ()) \<and>
    reads (concat (map rest wbs)) End_Fin ps \<and>
    (indicated ms = evs \<longrightarrow> (\<exists>st' qs.
       recv_moves E' (recv_stream_executor N') (ms @ replicate (Suc (length evs)) (RM_Poll cx')) (fresh_receiver E' i conn cfg' m) = (st', qs) \<and>
       concat (chunks qs) = concat (map rest wbs) \<and> last qs = PollReady (Ok None)))"
proof -
  note L = assms(1)
  note P = stream_loopback.axioms(3) [OF L]
  from stream_loopback.payloads_on_wire [OF L assms(2-5,7-9), of cx] assms(6,10) obtain s1 c1 w1 where
    cyc: "results = replicate (length wbs) (Ok (), PollReady (Ok ()))" "scw = (s1, c1, w1)" "send_idle sq stx srx (s1, c1, w1)"
    "sent (w_native w1) = concat (map rest wbs)" "fate (w_native w1) = End_Open" by auto
  have wire: "sent (w_native w') = concat (map rest wbs)" "fate (w_native w') = End_Fin" "final = PollReady (Ok ())"
    using stream_loopback.finish_on_wire [OF L cyc(3,5) assms(11) [unfolded cyc(2)]] cyc(4) by simp_all
  note d = assms(12) [unfolded wire(1,2)]
  have "\<exists>st' qs. recv_moves E' (recv_stream_executor N') (ms @ replicate (Suc (length evs)) (RM_Poll cx')) (fresh_receiver E' i conn cfg' m) = (st', qs) \<and>
      concat (chunks qs) = concat (map rest wbs) \<and> last qs = PollReady (Ok None)" if "indicated ms = evs"
    using stream_channels.receiver_reads_all [OF P d that, of N' cx' i conn cfg' m] by auto
  with wire(3) cyc(1) stream_channels.receiver_reads [OF P d assms(13,14)] show ?thesis by auto
qed

theorem loopback_delivers_witness:
  "\<exists>st ps. recv_moves ref_env (recv_stream_executor log_native)
      ([RM_Indicate (SE_Receive 1 [[1]] False), RM_Poll 7, RM_Poll 7, RM_Indicate (SE_Receive 2 [[2], [3]] True)] @ replicate 3 (RM_Poll 7))
      (fresh_receiver ref_env () conn_terminal_default h3_config_default ([] :: native_call list)) = (st, ps) \<and>
    concat (chunks ps) = [1, 2, 3] \<and> last ps = PollReady (Ok None)"
proof -
  let ?evs = "[SE_Receive 1 [[1]] False, SE_Receive 2 [[2], [3]] True]"
  let ?ms = "[RM_Indicate (SE_Receive 1 [[1]] False), RM_Poll 7, RM_Poll 7, RM_Indicate (SE_Receive 2 [[2], [3]] True)]"
  let ?fresh = "fresh_receiver ref_env () conn_terminal_default h3_config_default ([] :: native_call list)"
  note I = demo_idle and P = demo_payloads and H = demo_holds
  note C = log_loopback.payloads_on_wire [OF slice.buf_source_axioms config_valid_default _ I _ P H, of 7]
  obtain s1 c1 w1 where cyc: "send_cycles ref_env log_native native_buffer_ref slice_buf 7 demo_wbs (ref_sctx, stream_ctx_new, ref_world conn_terminal_default) =
      Some ((s1, c1, w1), replicate (length demo_wbs) (Ok (), PollReady (Ok ())))" "send_idle fifo_items fifo_tx fifo_rx (s1, c1, w1)"
    "wire_bytes demo_mem (w_native w1) = [1, 2, 3]" "wire_fate (w_native w1) = End_Open" using C demo_world by (auto simp: demo_wbs_def)
  obtain s2 w2 where fin: "finish_cycle ref_env log_native 7 (s1, c1, w1) = Some ((s2, c1, w2), PollPending, PollReady (Ok ()))"
    using ref_send.finish_cycle_completes [OF cyc(2), of 7] by auto
  have d: "delivers (wire_bytes demo_mem (w_native w2)) (wire_fate (w_native w2)) ?evs"
    using log_loopback.finish_on_wire [OF cyc(2,4) fin, of demo_mem] cyc(3) by simp
  obtain st ps where r: "recv_moves ref_env (recv_stream_executor log_native) ?ms ?fresh = (st, ps)" by fastforce
  from loopback_delivers [OF log_loopback.stream_loopback_axioms slice.buf_source_axioms config_valid_default _ I _ _ P H cyc(1) fin d _ r, of 7]
  show ?thesis using demo_world by (auto simp: numeral_eq_Suc demo_wbs_def)
qed

text \<open>
  C4: a reset reaches the peer with its code. When payloads were sent and the application then resets the
  stream, the peer's application reads a prefix of the payloads and then exactly the clamped code as
  \<open>StreamTerminated\<close>, never a clean end; the resetting side itself reports its local reset.
\<close>

theorem loopback_reset:
  assumes "stream_loopback N mem sent fate stop_code E sq stx srx spark E' rq rtx rrx rpark sq' stx' srx' spark' content alive waiting"
    and "buf_source Bu rest fits" and "config_valid cfg" and "ss_max_send_bytes s = max_send_bytes cfg"
    and "send_idle sq stx srx (s, c, w)" and "sent (w_native w) = []" and "fate (w_native w) = End_Open"
    and "\<forall>wb \<in> set wbs. fits wb \<and> remaining Bu wb \<noteq> 0 \<and> remaining Bu wb \<le> max_send_bytes cfg"
    and "memory_holds mem (w_next w) (map (\<lambda>wb. snd (copy_to_bytes Bu (remaining Bu wb) wb)) wbs)"
    and "send_cycles E N native_buffer_ref Bu cx wbs (s, c, w) = Some ((s1, c1, w1), results)"
    and "reset E calm (stream_executor N) code (s1, w1) = Some (s', w')"
    and "delivers (sent (w_native w')) (fate (w_native w')) evs" and "prefix (indicated ms) evs"
    and "recv_moves E' (recv_stream_executor N') ms (fresh_receiver E' i conn cfg' m) = (st, ps)"
  shows "reads (concat (map rest wbs)) (End_Reset (clamp_application_code code)) ps \<and>
    (indicated ms = evs \<longrightarrow> (\<exists>st' qs.
       recv_moves E' (recv_stream_executor N') (ms @ replicate (Suc (length evs)) (RM_Poll cx')) (fresh_receiver E' i conn cfg' m) = (st', qs) \<and>
       last qs = PollReady (Err (StreamTerminated (clamp_application_code code))))) \<and>
    (\<exists>st''. poll_finish E calm (stream_executor N) cx (s', w') =
       Some (st'', PollReady (Err (Unknown (LocalStreamReset (clamp_application_code code))))))"
proof -
  note L = assms(1)
  note P = stream_loopback.axioms(3) [OF L] and M = stream_loopback.axioms(2) [OF L]
  from stream_loopback.payloads_on_wire [OF L assms(2-5,7-9), of cx] assms(6,10) have
    cyc: "send_idle sq stx srx (s1, c1, w1)" "sent (w_native w1) = concat (map rest wbs)" "fate (w_native w1) = End_Open" by auto
  have wire: "sent (w_native w') = concat (map rest wbs)" "fate (w_native w') = End_Reset (clamp_application_code code)"
    "s' = s1" "w_send_slot w' = Some (ST_LocalReset (clamp_application_code code))" "w_send w' = w_send w1"
    using stream_loopback.reset_on_wire [OF L cyc(1,3) assms(11)] cyc(2) by simp_all
  note d = assms(12) [unfolded wire(1,2)]
  obtain ch q where q: "poll_next (se_send E) cx (w_send w') = (ch, q)" by fastforce
  have idle: "ss_reducer s' = send_state_new" "srx (w_send w')" "sq (w_send w') = []" "stx (w_send w')"
    using cyc(1) by (simp_all add: send_idle_def wire(3,5))
  have "q = PollPending" using mpsc_channel.poll_pending [OF M idle(2-4), of cx] q by simp
  then have "\<exists>s''. poll_finish E calm (stream_executor N) cx (s', w') =
      Some ((s'', w'\<lparr>w_send := ch\<rparr>), PollReady (Err (convert_send (se_status E) (ST_LocalReset (clamp_application_code code)))))"
    using idle(1) by (intro poll_finish_caused [OF wire(4) _ _ _ q]) (simp_all add: send_state_new_def submission_reserved_def)
  moreover have "\<exists>st' qs. recv_moves E' (recv_stream_executor N') (ms @ replicate (Suc (length evs)) (RM_Poll cx')) (fresh_receiver E' i conn cfg' m) = (st', qs) \<and>
      last qs = PollReady (Err (StreamTerminated (clamp_application_code code)))" if "indicated ms = evs"
    using stream_channels.receiver_reads_all [OF P d that, of N' cx' i conn cfg' m] by auto
  ultimately show ?thesis using stream_channels.receiver_reads [OF P d assms(13,14)] by auto
qed

theorem loopback_reset_witness:
  "\<exists>st ps. recv_moves ref_env (recv_stream_executor log_native)
      ([RM_Indicate (SE_Receive 1 [[1]] False), RM_Poll 7, RM_Indicate (SE_PeerSendAborted 16706)] @ replicate 3 (RM_Poll 7))
      (fresh_receiver ref_env () conn_terminal_default h3_config_default ([] :: native_call list)) = (st, ps) \<and>
    last ps = PollReady (Err (StreamTerminated 16706))"
proof -
  let ?evs = "[SE_Receive 1 [[1]] False, SE_PeerSendAborted 16706]"
  let ?ms = "[RM_Indicate (SE_Receive 1 [[1]] False), RM_Poll 7, RM_Indicate (SE_PeerSendAborted 16706)]"
  let ?fresh = "fresh_receiver ref_env () conn_terminal_default h3_config_default ([] :: native_call list)"
  have code: "clamp_application_code 16706 = 16706" by code_simp
  note I = demo_idle and P = demo_payloads and H = demo_holds
  note C = log_loopback.payloads_on_wire [OF slice.buf_source_axioms config_valid_default _ I _ P H, of 7]
  obtain s1 c1 w1 where cyc: "send_cycles ref_env log_native native_buffer_ref slice_buf 7 demo_wbs (ref_sctx, stream_ctx_new, ref_world conn_terminal_default) =
      Some ((s1, c1, w1), replicate (length demo_wbs) (Ok (), PollReady (Ok ())))" "send_idle fifo_items fifo_tx fifo_rx (s1, c1, w1)"
    "wire_bytes demo_mem (w_native w1) = [1, 2, 3]" "wire_fate (w_native w1) = End_Open" using C demo_world by (auto simp: demo_wbs_def)
  obtain s2 w2 where fin: "reset ref_env calm (stream_executor log_native) 16706 (s1, w1) = Some (s2, w2)"
    using reset_returns [of ref_env calm "stream_executor log_native" 16706 "(s1, w1)"] by auto
  have d: "delivers (wire_bytes demo_mem (w_native w2)) (wire_fate (w_native w2)) ?evs"
    using log_loopback.reset_on_wire [OF cyc(2,4) fin, of demo_mem] cyc(3) code by simp
  obtain st ps where r: "recv_moves ref_env (recv_stream_executor log_native) ?ms ?fresh = (st, ps)" by fastforce
  from loopback_reset [OF log_loopback.stream_loopback_axioms slice.buf_source_axioms config_valid_default _ I _ _ P H cyc(1) fin d _ r, of 7]
  show ?thesis using demo_world by (auto simp: numeral_eq_Suc code)
qed

text \<open>
  C5: a stop reaches the sender with its code. \<open>stop_sending\<close> asks the library to stop the peer with the clamped
  code and ends the local half cleanly at once; when the peer's library indicates that request, the peer's
  \<open>poll_ready\<close> and \<open>send_data\<close> report exactly this code as \<open>StreamTerminated\<close>, with or without a send in
  flight, submit nothing, and keep reporting it.
\<close>

theorem loopback_stop:
  assumes "quic_wire N mem sent fate stop_code" and "stop_code (w_native w) = None"
    and "stop_sending (recv_stream_executor N) code (rs, w) = (rs', w')"
    and "stop_code (w_native w') = Some asked"
    and "w_send_slot v = None" and "\<not> submission_reserved (ss_reducer s)"
    and "stream_callback E (SE_PeerReceiveAborted asked) (c, v) = ((c', v'), res)"
  shows "asked = clamp_application_code code \<and> poll_many E' X cx k (rs', w') = ((rs', w'), replicate k (PollReady (Ok None))) \<and>
    (\<exists>s1 v1. poll_ready E calm cx (s, v') = Some ((s1, v1), PollReady (Err (StreamTerminated (clamp_application_code code)))) \<and>
       w_native v1 = w_native v \<and> (\<exists>st2. poll_ready E calm cx' (s1, v1) = Some (st2, PollReady (Err (StreamTerminated (clamp_application_code code)))))) \<and>
    (\<exists>s1. send_data E calm X' ref_from Bu wb (s, v') = Some ((s1, v'), Err (StreamTerminated (clamp_application_code code))))"
proof -
  have stop: "w_native w' = fst (ns_shutdown N SHUTDOWN_ABORT_RECEIVE (clamp_application_code code) (w_native w))" "rs_receive_closed rs'"
    using assms(3) by (auto simp: stop_sending_def shutdown_call_def close_receive_locally_def case_prod_beta)
  have a: "asked = clamp_application_code code"
    using quic_wire.abort_stop [OF assms(1,2)] assms(4) stop(1) by simp
  have v': "w_send_slot v' = Some (ST_Stopped asked)" "w_native v' = w_native v"
    using assms(5,7) by (auto simp: cb_PeerReceiveAborted_def ctx_publish_send_def ctx_send_event_def publish_send_def split: if_splits)
  from poll_ready_caused [OF v'(1) _ assms(6), of E cx] obtain s1 v1 where
    one: "poll_ready E calm cx (s, v') = Some ((s1, v1), PollReady (Err (StreamTerminated asked)))"
    "w_send_slot v1 = Some (ST_Stopped asked)" "\<not> submission_reserved (ss_reducer s1)" "w_native v1 = w_native v'" by auto
  from poll_ready_caused [OF one(2) _ one(3), of E cx'] have
    two: "\<exists>st2. poll_ready E calm cx' (s1, v1) = Some (st2, PollReady (Err (StreamTerminated asked)))" by auto
  from send_data_caused [OF v'(1), of E X' ref_from Bu wb s] have
    three: "\<exists>s1. send_data E calm X' ref_from Bu wb (s, v') = Some ((s1, v'), Err (StreamTerminated asked))" by auto
  from one(1,4) two three poll_many_closed [OF stop(2)] v'(2) show ?thesis unfolding a by auto
qed

theorem loopback_stop_witness:
  "\<exists>c' v' st'. stream_callback ref_env (SE_PeerReceiveAborted 21075) (stream_ctx_new, ref_world conn_terminal_default) = ((c', v'), Ok ()) \<and>
    poll_ready ref_env calm 7 (ref_sctx, v') = Some (st', PollReady (Err (StreamTerminated 21075)))"
proof -
  let ?rs = "h3_recv (finalize (pre_id_receivers h3_config_default) ())" and ?w = "ref_world conn_terminal_default"
  have code: "clamp_application_code 21075 = 21075" by code_simp
  obtain rs' w' where stop: "stop_sending (recv_stream_executor log_native) 21075 (?rs, ?w) = (rs', w')" by fastforce
  have asked: "wire_stop (w_native w') = Some 21075"
    using stop demo_world code by (auto simp: stop_sending_def shutdown_call_def log_native_def)
  obtain c' v' where cb: "stream_callback ref_env (SE_PeerReceiveAborted 21075) (stream_ctx_new, ?w) = ((c', v'), Ok ())"
    by (metis prod.exhaust stream_callback.simps(6))
  have "wire_stop (w_native ?w) = None" "w_send_slot ?w = None" "\<not> submission_reserved (ss_reducer ref_sctx)" by code_simp+
  from loopback_stop [OF log_wire.quic_wire_axioms this(1) stop asked this(2,3) cb, where cx = 7 and cx' = 7 and E' = ref_env and k = 0
      and X = "recv_stream_executor log_native" and X' = "stream_executor log_native" and ref_from = native_buffer_ref
      and Bu = slice_buf and wb = "(50, [1])"] cb
  show ?thesis unfolding code by blast
qed

end
