(* ===== verification/H3_Conformance_Tests.thy ===== *)
theory H3_Conformance_Tests
  imports H3_Scenario H3_Failpoint H3_Listener H3_Connect H3_Loopback
begin

text \<open>
  The loopback tests of \<open>conformance.rs\<close>, replayed on two endpoints of the model. The library between them belongs to
  MsQuic; its reference instance logs the downcalls of each endpoint and turns them into the
  events it documents: a send is read from the outstanding box and indicated to the peer, then completed; a
  shutdown of a stream or of a connection is indicated to the peer with its code. Awaiting a future is polling it,
  letting the library act when it is pending, and polling it again; a future that stays pending is \<open>None\<close>. The drops
  that end each test and the teardown of the registration assert nothing and are left out.
\<close>

section \<open>The library between the endpoints\<close>

datatype lb_call =
    LB_Send "buffer_ref list" nat
  | LB_Shutdown stream_shutdown_flags u64
  | LB_ReceiveComplete u64
  | LB_ConnShutdown u64
  | LB_Handle string

type_synonym lb_native = "lb_call list"

definition lb_stream_ops :: "lb_native native_stream" where
  "lb_stream_ops =
     \<lparr>ns_send = (\<lambda>bufs cc n. (n @ [LB_Send bufs cc], Ok ())),
      ns_shutdown = (\<lambda>flags code n. (n @ [LB_Shutdown flags code], Ok ())),
      ns_receive_complete = (\<lambda>len n. n @ [LB_ReceiveComplete len])\<rparr>"

definition lb_open_ops :: "lb_native native_open" where
  "lb_open_ops =
     \<lparr>no_open = (\<lambda>_ n. (n @ [LB_Handle ''StreamOpen''], Ok ())), no_start = (\<lambda>n. (n @ [LB_Handle ''StreamStart''], Ok ())),
      no_close = (\<lambda>n. n @ [LB_Handle ''StreamClose''])\<rparr>"

definition lb_conn_ops :: "lb_native native_conn" where
  "lb_conn_ops =
     \<lparr>nc_open = (\<lambda>n. (n @ [LB_Handle ''ConnectionOpen''], Ok ())), nc_start = (\<lambda>n. (n @ [LB_Handle ''ConnectionStart''], Ok ())),
      nc_close = (\<lambda>n. n @ [LB_Handle ''ConnectionClose'']), nc_shutdown = (\<lambda>_ code n. n @ [LB_ConnShutdown code])\<rparr>"

definition lb_listener_ops :: "lb_native native_listener" where
  "lb_listener_ops =
     \<lparr>nl_open = (\<lambda>n. (n @ [LB_Handle ''ListenerOpen''], Ok ())), nl_start = (\<lambda>n. (n @ [LB_Handle ''ListenerStart''], Ok ())),
      nl_stop = (\<lambda>n. n @ [LB_Handle ''ListenerStop'']), nl_close = (\<lambda>n. n @ [LB_Handle ''ListenerClose'']),
      nl_set_configuration = (\<lambda>_ n. (n, Ok ())), nl_connection_close = (\<lambda>_ n. n @ [LB_Handle ''ConnectionClose''])\<rparr>"

type_synonym lb_stream_world =
  "((u64, status) result cell, send_event fifo, receive_event fifo, lb_native) stream_world"

type_synonym lb_stream = "(stream_send_ctx \<times> lb_stream_world) \<times> u64 h3_stream"

type_synonym lb_in_flight = "((u64, status) result cell, send_event fifo, receive_event fifo, lb_native) in_flight"

type_synonym lb_peer = "(u64, (u64, status) result cell, send_event fifo, receive_event fifo, lb_native) peer_stream"

definition lb_conn_env :: "((unit, status) result cell, unit cell, lb_peer option fifo, lb_peer) conn_env" where
  "lb_conn_env = \<lparr>ce_status = ref_status, ce_connected = cell_oneshot, ce_shutdown = cell_oneshot, ce_accept = fifo_mpsc\<rparr>"

type_synonym lb_conn_st = "((unit, status) result cell, unit cell, lb_peer option fifo, lb_native) conn_st"

type_synonym lb_accepted = "((unit, status) result cell, unit cell, lb_peer option fifo, lb_native) accepted"

definition lb_listener_env :: "(lb_accepted option fifo, unit cell, lb_accepted) listener_env" where
  "lb_listener_env = \<lparr>le_status = ref_status, le_conn = fifo_mpsc, le_shutdown = cell_oneshot\<rparr>"

text \<open>A \<open>Connection\<close>: what its callback owns and shares, and what the application owns.\<close>

record lb_conn =
  lb_st :: lb_conn_st
  lb_cn :: "lb_in_flight connection"

text \<open>The memory the library reads a send from: the box it was handed and has not given back.\<close>

definition box_mem :: "lb_stream_world \<Rightarrow> nat \<Rightarrow> nat \<Rightarrow> bytes" where
  "box_mem w cc p =
     (case w_heap w cc of
        Some b \<Rightarrow> if storage (sb_bytes b) = p then content_of (sb_bytes b) else []
      | None \<Rightarrow> [])"

fun peer_events :: "lb_stream_world \<Rightarrow> lb_call \<Rightarrow> stream_event list" where
  "peer_events w (LB_Send bufs cc) =
     (let b = concat (map (desc_bytes (box_mem w) cc) bufs) in [SE_Receive (of_nat (length b)) [b] False])"
| "peer_events w (LB_Shutdown SHUTDOWN_GRACEFUL code) = [SE_PeerSendShutdown]"
| "peer_events w (LB_Shutdown SHUTDOWN_ABORT_SEND code) = [SE_PeerSendAborted code]"
| "peer_events w (LB_Shutdown SHUTDOWN_ABORT_RECEIVE code) = [SE_PeerReceiveAborted code]"
| "peer_events w (LB_Shutdown SHUTDOWN_ABORT code) = [SE_PeerSendAborted code, SE_PeerReceiveAborted code]"
| "peer_events w _ = []"

fun own_events :: "lb_call \<Rightarrow> stream_event list" where
  "own_events (LB_Send bufs cc) = [SE_SendComplete False cc]"
| "own_events (LB_Shutdown SHUTDOWN_GRACEFUL code) = [SE_SendShutdownComplete True]"
| "own_events (LB_Shutdown SHUTDOWN_ABORT_SEND code) = [SE_SendShutdownComplete False]"
| "own_events _ = []"

text \<open>Everything a stream has submitted: completed on its side, with the events its peer gets.\<close>

definition lb_settle :: "lb_stream \<Rightarrow> lb_stream \<times> stream_event list" where
  "lb_settle s =
     (let ((c, w), h) = s
      in ((stream_run ref_env (concat (map own_events (w_native w))) (c, w\<lparr>w_native := []\<rparr>), h),
          concat (map (peer_events w) (w_native w))))"

definition lb_indicate :: "stream_event list \<Rightarrow> lb_stream \<Rightarrow> lb_stream" where
  "lb_indicate evs s = (stream_run ref_env evs (fst s), snd s)"

definition lb_transmit :: "lb_stream \<Rightarrow> lb_stream \<Rightarrow> lb_stream \<times> lb_stream" where
  "lb_transmit from to = (let (from, evs) = lb_settle from in (from, lb_indicate evs to))"

definition lb_conn_indicate :: "conn_event list \<Rightarrow> lb_conn \<Rightarrow> lb_conn" where
  "lb_conn_indicate evs cn = cn\<lparr>lb_st := conn_run lb_conn_env ref_env t_stream_id [] evs (lb_st cn)\<rparr>"

fun conn_codes :: "lb_native \<Rightarrow> u64 list" where
  "conn_codes [] = []"
| "conn_codes (LB_ConnShutdown code # n) = code # conn_codes n"
| "conn_codes (_ # n) = conn_codes n"

text \<open>A connection shutdown reaches the peer, and both connections end.\<close>

definition lb_conn_transmit :: "lb_conn \<Rightarrow> lb_conn \<Rightarrow> lb_conn \<times> lb_conn" where
  "lb_conn_transmit from to =
     (case conn_codes (cw_native (snd (lb_st from))) of
        [] \<Rightarrow> (from, to)
      | code # _ \<Rightarrow>
          (lb_conn_indicate [CE_ShutdownComplete] from,
           lb_conn_indicate [CE_ShutdownInitiatedByPeer code, CE_ShutdownComplete] to))"

section \<open>The poll adapters\<close>

text \<open>What the opener sees of the connection, and the connection after it acted.\<close>

definition lb_open_world :: "lb_conn \<Rightarrow> lb_native open_world" where
  "lb_open_world cn = \<lparr>ow_slot = cw_terminal (snd (lb_st cn)), ow_native = cw_native (snd (lb_st cn))\<rparr>"

definition lb_after_open :: "lb_in_flight connection \<times> lb_native open_world \<Rightarrow> lb_conn \<Rightarrow> lb_conn" where
  "lb_after_open cw cn =
     (let (c, w) = lb_st cn
      in cn\<lparr>lb_cn := fst cw, lb_st := (c, w\<lparr>cw_terminal := ow_slot (snd cw), cw_native := ow_native (snd cw)\<rparr>)\<rparr>)"

abbreviation lb_open_exec :: "(lb_in_flight, lb_native open_world) open_exec" where
  "lb_open_exec \<equiv> stream_open_executor ref_env lb_open_ops lb_conn_ops"

definition lb_poll_open :: "lb_conn \<Rightarrow> lb_conn \<times> (lb_stream, stream_error_incoming) result poll" where
  "lb_poll_open cn =
     (let (cw, r) = conn_poll_open_bidi ref_env t_stream_id lb_open_exec 0 (lb_cn cn, lb_open_world cn)
      in (lb_after_open cw cn, r))"

text \<open>The library completes the start of the stream in flight with its identity.\<close>

definition lb_start_complete :: "u64 \<Rightarrow> lb_conn \<Rightarrow> lb_conn" where
  "lb_start_complete sid cn =
     (case so_bidi (cn_opener (lb_cn cn)) of
        None \<Rightarrow> cn
      | Some (st, os) \<Rightarrow>
          cn\<lparr>lb_cn := (lb_cn cn)\<lparr>cn_opener := (cn_opener (lb_cn cn))\<lparr>so_bidi :=
            Some (stream_run ref_env [SE_StartComplete (Status 0) sid] st, os)\<rparr>\<rparr>\<rparr>)"

definition open_bidi :: "lb_conn \<Rightarrow> (lb_conn \<times> (lb_stream, stream_error_incoming) result) option" where
  "open_bidi conn =
     (case lb_poll_open conn of
        (conn, PollReady r) \<Rightarrow> Some (conn, r)
      | (conn, PollPending) \<Rightarrow>
          (case lb_poll_open (lb_start_complete 4 conn) of
             (conn, PollReady r) \<Rightarrow> Some (conn, r)
           | _ \<Rightarrow> None))"

definition accept_bidi :: "lb_conn \<Rightarrow> (lb_conn \<times> (lb_stream, connection_error_incoming) result) option" where
  "accept_bidi conn =
     (let (c, w) = lb_st conn in
      case poll_accept_bidi lb_conn_env 0 w of
        (w, PollReady r) \<Rightarrow> Some (conn\<lparr>lb_st := (c, w)\<rparr>, r)
      | _ \<Rightarrow> None)"

definition lb_poll_ready :: "lb_stream \<Rightarrow> (lb_stream \<times> (unit, stream_error_incoming) result poll) option" where
  "lb_poll_ready s =
     (let ((c, w), h) = s in map_option (\<lambda>((h, w), r). (((c, w), h), r)) (bidi_poll_ready ref_env calm 0 (h, w)))"

definition lb_poll_finish :: "lb_stream \<Rightarrow> (lb_stream \<times> (unit, stream_error_incoming) result poll) option" where
  "lb_poll_finish s =
     (let ((c, w), h) = s
      in map_option (\<lambda>((h, w), r). (((c, w), h), r)) (bidi_poll_finish ref_env calm (stream_executor lb_stream_ops) 0 (h, w)))"

definition lb_await ::
  "(lb_stream \<Rightarrow> (lb_stream \<times> (unit, stream_error_incoming) result poll) option) \<Rightarrow> lb_stream \<Rightarrow>
   (lb_stream \<times> (unit, stream_error_incoming) result) option" where
  "lb_await f s = do {
     (s, p) \<leftarrow> f s;
     (case p of
        PollReady r \<Rightarrow> Some (s, r)
      | PollPending \<Rightarrow> do {
          (s, p) \<leftarrow> f (fst (lb_settle s));
          (case p of PollReady r \<Rightarrow> Some (s, r) | PollPending \<Rightarrow> None)})}"

definition send_ready :: "lb_stream \<Rightarrow> (lb_stream \<times> (unit, stream_error_incoming) result) option" where
  "send_ready s = lb_await lb_poll_ready s"

definition send_finish :: "lb_stream \<Rightarrow> (lb_stream \<times> (unit, stream_error_incoming) result) option" where
  "send_finish s = lb_await lb_poll_finish s"

text \<open>
  The loop that re-polls an idle send half until the peer's stop is observed. Each round lets the library
  indicate one of the events that are on their way.
\<close>

fun await_peer_send_terminated :: "stream_event list \<Rightarrow> lb_stream \<Rightarrow> (lb_stream \<times> u64) option" where
  "await_peer_send_terminated evs s = do {
     (s, r) \<leftarrow> send_ready s;
     (case r of
        Err (StreamTerminated error_code) \<Rightarrow> Some (s, error_code)
      | Err other \<Rightarrow> None
      | Ok _ \<Rightarrow> (case evs of [] \<Rightarrow> None | ev # evs \<Rightarrow> await_peer_send_terminated evs (lb_indicate [ev] s)))}"

definition recv_next :: "lb_stream \<Rightarrow> (lb_stream \<times> (bytes option, stream_error_incoming) result) option" where
  "recv_next s =
     (let ((c, w), h) = s in
      case bidi_poll_data ref_env (recv_stream_executor lb_stream_ops) 0 (h, w) of
        ((h, w), PollReady r) \<Rightarrow> Some (((c, w), h), r)
      | _ \<Rightarrow> None)"

text \<open>The HTTP/3 DATA frame of a payload of fewer than 64 bytes: type 0, length, payload.\<close>

definition frame_bytes :: "bytes \<Rightarrow> bytes" where
  "frame_bytes payload = 0 # of_nat (length payload) # payload"

definition send_data_frame :: "bytes \<Rightarrow> lb_stream \<Rightarrow> (lb_stream \<times> (unit, stream_error_incoming) result) option" where
  "send_data_frame payload s =
     (let ((c, w), h) = s
      in map_option (\<lambda>((h, w), r). (((c, w), h), r))
           (bidi_send_data ref_env calm (stream_executor lb_stream_ops) native_buffer_ref slice_buf (100, frame_bytes payload) (h, w)))"

definition lb_reset :: "u64 \<Rightarrow> lb_stream \<Rightarrow> lb_stream option" where
  "lb_reset code s =
     (let ((c, w), h) = s
      in map_option (\<lambda>(h, w). ((c, w), h)) (bidi_reset ref_env calm (stream_executor lb_stream_ops) code (h, w)))"

definition lb_stop_sending :: "u64 \<Rightarrow> lb_stream \<Rightarrow> lb_stream" where
  "lb_stop_sending code s =
     (let ((c, w), h) = s; (h, w) = bidi_stop_sending (recv_stream_executor lb_stream_ops) code (h, w) in ((c, w), h))"

definition lb_close :: "u64 \<Rightarrow> lb_conn \<Rightarrow> lb_conn" where
  "lb_close code cn = lb_after_open (conn_close lb_open_exec code (lb_cn cn, lb_open_world cn)) cn"

section \<open>The loopback pair\<close>

text \<open>
  Both constructors run to completion: the listener is created, the connect future polled until it
  awaits, the library indicates the new connection to the listener and the handshake to the client, and
  the two futures resolve.
\<close>

definition loopback_with_configs :: "h3_config \<Rightarrow> h3_config \<Rightarrow> (lb_conn \<times> lb_conn) option" where
  "loopback_with_configs server_h3 client_h3 = do {
     let (lw, l) = listener_with_config lb_listener_env lb_listener_ops server_h3 ([], rundown_default);
     ((ltx, cfg), _) \<leftarrow> unwrap l;
     let (fut, rd, _) = connect_with_config client_h3 [] (lw_rundown lw);
     ((fut, rd, _), p :: (_ \<times> lb_in_flight connection, status) result poll) \<leftarrow> connect_poll lb_conn_env lb_conn_ops 0 fut rd;
     check (case p of PollPending \<Rightarrow> True | _ \<Rightarrow> False);
     let ((lst, _), _) = listener_callback lb_listener_env lb_conn_env lb_listener_ops cfg (LE_NewConnection 1) ((ltx, lw), False);
     (fut, rd, client) \<leftarrow> (case fut of
        CF_Awaiting st crx conn \<Rightarrow> do {
          let st = conn_run lb_conn_env ref_env t_stream_id [] [CE_Connected] st;
          ((fut, rd, _), p) \<leftarrow> connect_poll lb_conn_env lb_conn_ops 0 (CF_Awaiting st crx conn) rd;
          (case p of PollReady (Ok (st, cn)) \<Rightarrow> Some (fut, rd, \<lparr>lb_st = st, lb_cn = cn\<rparr>) | _ \<Rightarrow> None)}
      | _ \<Rightarrow> None);
     server \<leftarrow> (case snd (listener_poll_accept lb_listener_env 0 (snd lst)) of
        PollReady (Ok (Some (_, (st, crx), conn))) \<Rightarrow> Some \<lparr>lb_st = st, lb_cn = connection_new conn crx\<rparr>
      | _ \<Rightarrow> None);
     Some (server, client)}"

definition loopback :: "(lb_conn \<times> lb_conn) option" where
  "loopback = loopback_with_configs h3_config_default h3_config_default"

definition establish_bidi :: "lb_conn \<Rightarrow> lb_conn \<Rightarrow> bytes \<Rightarrow> (lb_conn \<times> lb_conn \<times> lb_stream \<times> lb_stream) option" where
  "establish_bidi client server first = do {
     (client, r) \<leftarrow> open_bidi client;
     cs \<leftarrow> unwrap r;
     (cs, r) \<leftarrow> send_data_frame first cs;
     _ \<leftarrow> unwrap r;
     let (_, evs) = lb_settle cs;
     (cs, r) \<leftarrow> send_ready cs;
     _ \<leftarrow> unwrap r;
     let server = lb_conn_indicate [CE_PeerStreamStarted 1 (Ok 4) False] server;
     (server, r) \<leftarrow> accept_bidi server;
     ss \<leftarrow> unwrap r;
     Some (client, server, cs, lb_indicate evs ss)}"

section \<open>Streams\<close>

definition ascii_bytes :: "string \<Rightarrow> bytes" where
  "ascii_bytes s = map of_char s"

text \<open>The client's loop: drain what came before the end, then look at the end.\<close>

fun drain :: "nat \<Rightarrow> lb_stream \<Rightarrow> (lb_stream \<times> (bytes option, stream_error_incoming) result) option" where
  "drain 0 s = None"
| "drain (Suc k) s = do {
     (s, r) \<leftarrow> recv_next s;
     (case r of Ok (Some _) \<Rightarrow> drain k s | _ \<Rightarrow> Some (s, r))}"

definition test_peer_reset_stream_maps_to_stream_terminated :: bool where
  "test_peer_reset_stream_maps_to_stream_terminated = passes (do {
     (server, client) \<leftarrow> loopback;
     (client, server, cs, ss) \<leftarrow> establish_bidi client server (ascii_bytes ''ping'');
     ss \<leftarrow> lb_reset 0x4142 ss;
     let (ss, cs) = lb_transmit ss cs;
     (cs, r) \<leftarrow> drain 4 cs;
     check (r = Err (StreamTerminated 0x4142))})"

definition test_peer_stop_sending_observed_from_send_side_idle :: bool where
  "test_peer_stop_sending_observed_from_send_side_idle = passes (do {
     (server, client) \<leftarrow> loopback;
     (client, server, cs, ss) \<leftarrow> establish_bidi client server (ascii_bytes ''hi'');
     let ss = lb_stop_sending 0x5253 ss;
     let (ss, evs) = lb_settle ss;
     (cs, code) \<leftarrow> await_peer_send_terminated evs cs;
     check (code = 0x5253)})"

definition test_local_reset_yields_local_stream_reset_outcome :: bool where
  "test_local_reset_yields_local_stream_reset_outcome = passes (do {
     (server, client) \<leftarrow> loopback;
     (client, server, cs, ss) \<leftarrow> establish_bidi client server (ascii_bytes ''payload'');
     cs \<leftarrow> lb_reset 0x0707 cs;
     (cs, r) \<leftarrow> send_finish cs;
     check (case r of Err (Unknown (LocalStreamReset _)) \<Rightarrow> True | _ \<Rightarrow> False)})"

definition test_local_stop_sending_yields_clean_local_eof :: bool where
  "test_local_stop_sending_yields_clean_local_eof = passes (do {
     (server, client) \<leftarrow> loopback;
     (client, server, cs, ss) \<leftarrow> establish_bidi client server (ascii_bytes ''payload'');
     let cs = lb_stop_sending 0x0809 cs;
     (cs, r) \<leftarrow> recv_next cs;
     check (r = Ok None)})"

definition ends_with :: "bytes \<Rightarrow> bytes \<Rightarrow> bool" where
  "ends_with s t \<longleftrightarrow> drop (length t - length s) t = s"

fun collect_until :: "bytes \<Rightarrow> nat \<Rightarrow> bytes \<Rightarrow> lb_stream \<Rightarrow> bytes option" where
  "collect_until target 0 got s = None"
| "collect_until target (Suc k) got s = do {
     (s, r) \<leftarrow> recv_next s;
     (case r of
        Ok (Some chunk) \<Rightarrow>
          (let got = got @ chunk in if ends_with target got then Some got else collect_until target k got s)
      | Ok None \<Rightarrow> Some got
      | Err e \<Rightarrow> None)}"

definition test_accepted_send_completes_and_teardown_is_panic_free :: bool where
  "test_accepted_send_completes_and_teardown_is_panic_free = passes (do {
     (server, client) \<leftarrow> loopback;
     (client, server, cs, ss) \<leftarrow> establish_bidi client server (ascii_bytes ''req'');
     let RESP = ascii_bytes ''accepted-response-body'';
     (ss, r) \<leftarrow> send_data_frame RESP ss;
     _ \<leftarrow> unwrap r;
     let (_, evs) = lb_settle ss;
     (ss, r) \<leftarrow> send_ready ss;
     _ \<leftarrow> unwrap r;
     got \<leftarrow> collect_until RESP 4 [] (lb_indicate evs cs);
     check (ends_with RESP got)})"

section \<open>Connections\<close>

definition test_loopback_idle_timeout_maps_to_timeout :: bool where
  "test_loopback_idle_timeout_maps_to_timeout = passes (do {
     (server, client) \<leftarrow> loopback;
     let client = lb_conn_indicate
       [CE_ShutdownInitiatedByTransport (status_new ref_status QUIC_STATUS_CONNECTION_IDLE) 0, CE_ShutdownComplete] client;
     (client, r) \<leftarrow> accept_bidi client;
     check (case r of Err Timeout \<Rightarrow> True | _ \<Rightarrow> False)})"

definition test_open_after_connection_close_is_connection_error_no_panic :: bool where
  "test_open_after_connection_close_is_connection_error_no_panic = passes (do {
     (server, client) \<leftarrow> loopback;
     let server = lb_close 0x0abc server;
     let (server, client) = lb_conn_transmit server client;
     (client, r) \<leftarrow> accept_bidi client;
     check (case r of Err (ApplicationClose code) \<Rightarrow> code = 0x0abc | _ \<Rightarrow> False);
     (client, r) \<leftarrow> open_bidi client;
     check (case r of Err (ConnectionErrorIncoming _) \<Rightarrow> True | _ \<Rightarrow> False)})"

definition test_accepted_stream_id_failpoint_rejects_and_closes_h3_internal_error :: bool where
  "test_accepted_stream_id_failpoint_rejects_and_closes_h3_internal_error = passes (do {
     (server, client) \<leftarrow> loopback;
     let fp = arm_query_fail FP_OFF;
     (client, r) \<leftarrow> open_bidi client;
     cs \<leftarrow> unwrap r;
     (cs, r) \<leftarrow> send_data_frame (ascii_bytes ''trigger'') cs;
     _ \<leftarrow> unwrap r;
     let (fp, query) = maybe_override ref_status 4 fp;
     let server = lb_conn_indicate [CE_PeerStreamStarted 1 query False] server;
     (server, r) \<leftarrow> accept_bidi server;
     check (case r of Err (InternalError _) \<Rightarrow> True | _ \<Rightarrow> False);
     let server = lb_close H3_INTERNAL_ERROR server;
     let (server, client) = lb_conn_transmit server client;
     (client, r) \<leftarrow> accept_bidi client;
     check (case r of Err (ApplicationClose code) \<Rightarrow> code = H3_INTERNAL_ERROR | _ \<Rightarrow> False)})"

definition test_peer_application_close_propagates_code :: bool where
  "test_peer_application_close_propagates_code = passes (do {
     (server, client) \<leftarrow> loopback;
     let server = lb_close 0x1234 server;
     let (server, client) = lb_conn_transmit server client;
     (client, r) \<leftarrow> accept_bidi client;
     check (case r of Err (ApplicationClose code) \<Rightarrow> code = 0x1234 | _ \<Rightarrow> False)})"

section \<open>Configurations\<close>

definition recv_budget_caps :: "lb_stream \<Rightarrow> usize \<times> usize" where
  "recv_budget_caps s = (let b = w_budget (snd (fst s)) in (rb_max_bytes b, rb_max_units b))"

definition stream_max_send_bytes :: "lb_stream \<Rightarrow> u64" where
  "stream_max_send_bytes s = ss_max_send_bytes (h3_send (snd s))"

definition carries_config :: "h3_config \<Rightarrow> lb_stream \<Rightarrow> unit option" where
  "carries_config config s = do {
     check (recv_budget_caps s = (max_recv_bytes config, max_recv_units config));
     check (stream_max_send_bytes s = max_send_bytes config)}"

definition test_custom_config_threads_through_real_loopback :: bool where
  "test_custom_config_threads_through_real_loopback = passes (do {
     custom \<leftarrow> unwrap (build (with_max_recv_units 4096 (with_max_recv_bytes (512 * 1024) (with_max_send_bytes 0x100000 builder))));
     (server, client) \<leftarrow> loopback_with_configs custom custom;
     (client, server, cs, ss) \<leftarrow> establish_bidi client server (ascii_bytes ''ping'');
     carries_config custom ss;
     carries_config custom cs})"

definition test_distinct_connection_configs_do_not_cross_talk :: bool where
  "test_distinct_connection_configs_do_not_cross_talk = passes (do {
     server_h3 \<leftarrow> unwrap (build (with_max_recv_units 1024 (with_max_recv_bytes (256 * 1024) (with_max_send_bytes 0x200000 builder))));
     client_h3 \<leftarrow> unwrap (build (with_max_recv_units 2048 (with_max_recv_bytes (768 * 1024) (with_max_send_bytes 0x500000 builder))));
     check (server_h3 \<noteq> client_h3);
     (server, client) \<leftarrow> loopback_with_configs server_h3 client_h3;
     (client, server, cs, ss) \<leftarrow> establish_bidi client server (ascii_bytes ''ping'');
     carries_config server_h3 ss;
     carries_config client_h3 cs})"

section \<open>The tests pass\<close>

lemma peer_reset_stream_maps_to_stream_terminated_passes: "test_peer_reset_stream_maps_to_stream_terminated"
  by code_simp

lemma peer_stop_sending_observed_from_send_side_idle_passes: "test_peer_stop_sending_observed_from_send_side_idle"
  by code_simp

lemma local_reset_yields_local_stream_reset_outcome_passes: "test_local_reset_yields_local_stream_reset_outcome"
  by code_simp

lemma local_stop_sending_yields_clean_local_eof_passes: "test_local_stop_sending_yields_clean_local_eof"
  by code_simp

lemma accepted_send_completes_and_teardown_is_panic_free_passes: "test_accepted_send_completes_and_teardown_is_panic_free"
  by code_simp

lemma loopback_idle_timeout_maps_to_timeout_passes: "test_loopback_idle_timeout_maps_to_timeout"
  by code_simp

lemma open_after_connection_close_is_connection_error_no_panic_passes: "test_open_after_connection_close_is_connection_error_no_panic"
  by code_simp

lemma accepted_stream_id_failpoint_rejects_and_closes_h3_internal_error_passes: "test_accepted_stream_id_failpoint_rejects_and_closes_h3_internal_error"
  by code_simp

lemma peer_application_close_propagates_code_passes: "test_peer_application_close_propagates_code"
  by code_simp

lemma custom_config_threads_through_real_loopback_passes: "test_custom_config_threads_through_real_loopback"
  by code_simp

lemma distinct_connection_configs_do_not_cross_talk_passes: "test_distinct_connection_configs_do_not_cross_talk"
  by code_simp

end
