(* ===== verification/H3_Conn_Loopback.thy ===== *)
theory H3_Conn_Loopback
  imports H3_Opener H3_Loopback
begin

text \<open>
  Two connections joined by the transport: the code one application closes with is the code the other reads from
  its accept polls and opens, and a stream the peer opens is accepted as a fresh stream with the listener's
  configuration, whose reads are those of \<open>H3_Loopback\<close>.

  The transport appears as the locale \<open>conn_wire\<close>: a connection shutdown carries its application code to the peer,
  where it is indicated by \<open>ShutdownInitiatedByPeer\<close>.
\<close>

section \<open>Specification vocabulary\<close>

text \<open>A native connection that remembers the code of its first shutdown, for evaluation.\<close>

definition code_conn :: "u64 option native_conn" where
  "code_conn = \<lparr>nc_open = (\<lambda>n. (n, Ok ())), nc_start = (\<lambda>n. (n, Ok ())), nc_close = (\<lambda>n. n),
     nc_shutdown = (\<lambda>_ code n. case n of None \<Rightarrow> Some code | Some c \<Rightarrow> Some c)\<rparr>"

definition code_open :: "u64 option native_open" where
  "code_open = \<lparr>no_open = (\<lambda>_ n. (n, Ok ())), no_start = (\<lambda>n. (n, Ok ())), no_close = (\<lambda>n. n)\<rparr>"

definition quiet_native :: "unit native_stream" where
  "quiet_native = \<lparr>ns_send = (\<lambda>_ _ n. (n, Ok ())), ns_shutdown = (\<lambda>_ _ n. (n, Ok ())), ns_receive_complete = (\<lambda>_ n. n)\<rparr>"

text \<open>The accept queues hold streams only, with their receivers alive.\<close>

definition accept_ok :: "('q \<Rightarrow> 'x option list) \<Rightarrow> ('q \<Rightarrow> bool) \<Rightarrow> ('o, 'h, 'q, 'n) conn_world \<Rightarrow> bool" where
  "accept_ok q rx w \<longleftrightarrow> rx (cw_uni w) \<and> rx (cw_bidi w) \<and> None \<notin> set (q (cw_uni w)) \<and> None \<notin> set (q (cw_bidi w))"

section \<open>The run of a connection\<close>

lemma map_Some_the: "None \<notin> set xs \<Longrightarrow> map Some (map the xs) = xs"
  by (induction xs) auto

context conn_channels
begin

lemma wake_queues:
  "q (cw_uni (snd (wake_acceptors E st))) = q (cw_uni (snd st))"
  "q (cw_bidi (snd (wake_acceptors E st))) = q (cw_bidi (snd st))"
  by (cases st; simp add: conn_defs acc.drop_tx_view)+

lemma accept_ok_helpers:
  "accept_ok q rx (snd (resolve_connected E r st)) = accept_ok q rx (snd st)"
  "accept_ok q rx (snd (resolve_shutdown E st)) = accept_ok q rx (snd st)"
  "accept_ok q rx (snd (conn_record t st)) = accept_ok q rx (snd st)"
  "accept_ok q rx (snd (wake_acceptors E st)) = accept_ok q rx (snd st)"
  by (simp_all add: accept_ok_def world_simps wake_rx wake_queues)

lemma accept_ok_deliver:
  assumes "accept_ok q rx w" and "tx (if uni then cw_uni w else cw_bidi w)"
    and "unbounded_send (ce_accept E) (Some x) (if uni then cw_uni w else cw_bidi w) = (ch, sent)"
  shows "sent \<and> accept_ok q rx (if uni then w\<lparr>cw_uni := ch\<rparr> else w\<lparr>cw_bidi := ch\<rparr>) \<and>
    q ch = q (if uni then cw_uni w else cw_bidi w) @ [Some x] \<and> tx ch"
  using acc.send_view [of "if uni then cw_uni w else cw_bidi w" "Some x"] assms by (auto simp: accept_ok_def split: if_splits)

lemma peer_stream_accept_ok:
  assumes sync: "conn_sync tx calive halive st" and ok: "accept_ok q rx (snd st)"
    and r: "cb_PeerStreamStarted E SE try_from m h query uni (st, own) = ((st', own'), r)"
  shows "accept_ok q rx (snd st') \<and> (\<not> tx (cw_bidi (snd st)) \<longrightarrow> \<not> tx (cw_bidi (snd st'))) \<and>
    (\<not> tx (cw_uni (snd st)) \<longrightarrow> \<not> tx (cw_uni (snd st')))"
  using accept_stream_id_cases [of query try_from E st "ce_status E" h uni]
proof (elim disjE exE conjE)
  fix raw sid assume acc: "accept_stream_id E try_from query st = (st, Ok sid)"
  obtain c w where st: "st = (c, w)" by fastforce
  let ?x = "(h, attach SE sid (cw_terminal w) (cx_config c) m)"
  obtain ch sent where send: "unbounded_send (ce_accept E) (Some ?x) (if uni then cw_uni w else cw_bidi w) = (ch, sent)"
    by fastforce
  have t: "tx (if uni then cw_uni w else cw_bidi w) = (if uni then cx_uni c else cx_bidi c)"
    using sync by (simp add: st conn_sync_def)
  from accept_ok_deliver [of w uni ?x ch sent] ok t send r acc show ?thesis
    by (cases "if uni then cx_uni c else cx_bidi c")
      (auto simp: cb_PeerStreamStarted_def st Let_def accept_ok_def split: if_splits)
next
  fix status msg
  assume "accept_stream_id E try_from query st = (wake_acceptors E (conn_record (CT_Internal msg) st), Err status)"
  with r ok wake_view [OF helper_sync(3) [OF sync, of "CT_Internal msg"]] show ?thesis
    by (auto simp: cb_PeerStreamStarted_def accept_ok_helpers)
qed

lemma callback_accept_ok:
  assumes sync: "conn_sync tx calive halive st" and ok: "accept_ok q rx (snd st)"
    and r: "connection_callback E SE try_from m ev (st, False) = ((st', own'), r)"
  shows "accept_ok q rx (snd st') \<and> (ev = CE_ShutdownComplete \<or> \<not> tx (cw_bidi (snd st)) \<longrightarrow> \<not> tx (cw_bidi (snd st'))) \<and>
    (ev = CE_ShutdownComplete \<or> \<not> tx (cw_uni (snd st)) \<longrightarrow> \<not> tx (cw_uni (snd st')))"
proof (cases ev)
  case (CE_PeerStreamStarted h query uni)
  with r peer_stream_accept_ok [OF sync ok, of SE try_from m h query uni False st' own' r] show ?thesis by simp
next
  case CE_ShutdownComplete
  with r ok shutdown_complete_releases [OF sync] show ?thesis
    by (auto simp: cb_conn_ShutdownComplete_def Let_def accept_ok_helpers all_released_def)
qed (use r ok in \<open>auto simp: accept_ok_helpers world_simps\<close>)

lemma conn_run_accept_ok:
  assumes "conn_sync tx calive halive st" and "accept_ok q rx (snd st)"
  shows "accept_ok q rx (snd (conn_run E SE try_from m evs st)) \<and>
    (CE_ShutdownComplete \<in> set evs \<or> \<not> tx (cw_bidi (snd st)) \<longrightarrow> \<not> tx (cw_bidi (snd (conn_run E SE try_from m evs st)))) \<and>
    (CE_ShutdownComplete \<in> set evs \<or> \<not> tx (cw_uni (snd st)) \<longrightarrow> \<not> tx (cw_uni (snd (conn_run E SE try_from m evs st))))"
  using assms
proof (induction evs arbitrary: st)
  case (Cons ev evs)
  obtain st' own' r where cb: "connection_callback E SE try_from m ev (st, False) = ((st', own'), r)" by (metis prod.exhaust)
  note sync = connection_callback_sync [OF Cons.prems(1) cb] and ok = callback_accept_ok [OF Cons.prems cb]
  from Cons.IH [OF sync] ok show ?case by (auto simp: cb)
qed simp

lemma fresh_accept_ok: "accept_ok q rx (snd (fst (conn_ctx_channel E cfg n)))"
  by (simp add: accept_ok_def conn_ctx_channel_def acc.new_view)

text \<open>After the end of a connection, the queued streams and then the cause.\<close>

lemma accepts_then_cause:
  assumes ok: "accept_ok q rx w" and "\<not> tx (cw_bidi w)" and "\<not> tx (cw_uni w)"
    and "ct_terminal (cw_terminal w) = Some t" and "\<not> has_internal (cw_terminal w)"
  shows "\<exists>xs. accept_many E cx k (cw_terminal w) (cw_bidi w) =
      map (\<lambda>x. PollReady (Ok x)) (take k xs) @ replicate (k - length xs) (PollReady (Err (convert_conn t)))"
    and "\<exists>xs. accept_many E cx k (cw_terminal w) (cw_uni w) =
      map (\<lambda>x. PollReady (Ok x)) (take k xs) @ replicate (k - length xs) (PollReady (Err (convert_conn t)))"
proof -
  have "q (cw_bidi w) = map Some (map the (q (cw_bidi w)))" "q (cw_uni w) = map Some (map the (q (cw_uni w)))"
    using ok map_Some_the unfolding accept_ok_def by metis+
  with ok assms(2-5) accept_many_order [OF assms(4,5)] show
    "\<exists>xs. accept_many E cx k (cw_terminal w) (cw_bidi w) =
      map (\<lambda>x. PollReady (Ok x)) (take k xs) @ replicate (k - length xs) (PollReady (Err (convert_conn t)))"
    "\<exists>xs. accept_many E cx k (cw_terminal w) (cw_uni w) =
      map (\<lambda>x. PollReady (Ok x)) (take k xs) @ replicate (k - length xs) (PollReady (Err (convert_conn t)))"
    unfolding accept_ok_def by blast+
qed

text \<open>A peer stream with a valid identity on a live connection is the next stream of an idle acceptor.\<close>

lemma peer_stream_accepted:
  assumes "conn_sync tx calive halive (c, w)" and "accept_ok q rx w" and "cx_bidi c" and "q (cw_bidi w) = []"
    and "\<not> has_internal (cw_terminal w)" and "try_from raw = Some sid"
    and r: "connection_callback E SE try_from m (CE_PeerStreamStarted h (Ok raw) False) ((c, w), False) = (((c', w'), own), res)"
  shows "\<exists>w''. poll_accept_bidi E cx w' = (w'', PollReady (Ok (attach SE sid (cw_terminal w) (cx_config c) m))) \<and>
    own \<and> res = Ok () \<and> q (cw_bidi w'') = [] \<and> cw_terminal w'' = cw_terminal w"
proof -
  let ?at = "attach SE sid (cw_terminal w) (cx_config c) m"
  obtain ch sent where send: "unbounded_send (ce_accept E) (Some (h, ?at)) (cw_bidi w) = (ch, sent)" by fastforce
  have t: "tx (cw_bidi w)" using assms(1,3) by (simp add: conn_sync_def)
  from accept_ok_deliver [of w False "(h, ?at)" ch sent] assms(2,4) t send have
    d: "sent" "q ch = [Some (h, ?at)]" "rx ch" by (auto simp: accept_ok_def)
  have w': "w' = w\<lparr>cw_bidi := ch\<rparr>" "own" "res = Ok ()"
    using r assms(3,6) send d(1) by (auto simp: cb_PeerStreamStarted_def accept_stream_id_def validate_stream_id_def)
  from poll_accept_queued [OF assms(5) d(3,2), of cx] obtain ch' where
    "poll_accept_from E cx (cw_terminal w) ch = ((cw_terminal w, ch'), PollReady (Ok (h, ?at)))" "q ch' = []" by blast
  then show ?thesis by (cases ?at) (simp add: w' poll_accept_bidi_def)
qed

end

section \<open>Closing\<close>

text \<open>What an endpoint relies on: a connection shutdown carries its code.\<close>

locale conn_wire =
  fixes NC :: "'n native_conn" and close_code :: "'n \<Rightarrow> u64 option"
  assumes shutdown_code: "close_code n = None \<Longrightarrow> close_code (nc_shutdown NC flags code n) = Some code"
begin

lemma close_asks:
  assumes "close_code (ow_native w) = None" and "close (stream_open_executor E NO NC) code (so, w) = (so', w')"
  shows "close_code (ow_native w') = Some (clamp_application_code code)"
  using assms shutdown_code by (auto simp: close_def stream_open_executor_def)

end

interpretation code_wire: conn_wire code_conn "\<lambda>n. n"
  by unfold_locales (simp add: code_conn_def)

lemma slot_winner_first: "\<not> prov t \<Longrightarrow> slot_winner prov (t # ts) = Some t"
  by (simp add: slot_winner_def)

lemma conn_run_cause:
  "ct_terminal (cw_terminal (snd (conn_run E SE try_from m evs (fst (conn_ctx_channel E cfg n))))) =
    slot_winner conn_is_provisional (concat (map (recorded_cause (ce_status E) try_from) evs))"
  by (simp add: conn_run_terminal conn_ctx_channel_def fold_record_winner conn_terminal_default_def conn_slot.fold_put)

lemma open_after_cause:
  assumes "ct_terminal (ow_slot w) = Some t" and "so_bidi so = None"
  shows "poll_open_bidi E try_from X cx (so, w) =
    ((so, w\<lparr>ow_slot := (ow_slot w)\<lparr>ct_observed := True\<rparr>\<rparr>), PollReady (Err (ConnectionErrorIncoming (convert_conn t))))"
  using assms by (simp add: poll_open_bidi_def poll_open_inner_def slot_simps drop_holder_def)

section \<open>Properties\<close>



text \<open>
  C7: a stream the peer opens is accepted and read. When a stream with a valid identity starts on a live
  connection whose acceptor has nothing queued, the next accept poll hands out that stream, with the native
  identity on both halves and the connection's configured ceilings, and in every interleaving of its
  indications with polls its reader gets the peer's bytes in order and the peer's end.
\<close>

theorem accepted_stream_reads:
  assumes "conn_channels E q tx rx park ccontent calive cwait hcontent halive hwait"
    and "stream_channels SE rq rtx rrx rpark sq stx srx spark content alive waiting"
    and "conn_sync tx calive halive (c, w)" and "accept_ok q rx w" and "cx_bidi c" and "q (cw_bidi w) = []"
    and "\<not> has_internal (cw_terminal w)" and "try_from raw = Some sid"
    and "connection_callback E SE try_from m (CE_PeerStreamStarted h (Ok raw) False) ((c, w), False) = (((c', w'), own), res)"
    and "delivers bs e evs" and "prefix (indicated ms) evs"
  shows "\<exists>w'' c1 w1 h1. poll_accept_bidi E cx w' = (w'', PollReady (Ok ((c1, w1), h1))) \<and> own \<and>
    bidi_send_id h1 = sid \<and> bidi_recv_id h1 = sid \<and> ss_max_send_bytes (h3_send h1) = max_send_bytes (cx_config c) \<and>
    rb_max_bytes (w_budget w1) = max_recv_bytes (cx_config c) \<and> rb_max_units (w_budget w1) = max_recv_units (cx_config c) \<and>
    reads bs e (snd (recv_moves SE (recv_stream_executor N) ms (c1, h3_recv h1, w1)))"
proof -
  from conn_channels.peer_stream_accepted [OF assms(1,3-9), of cx] obtain w'' where
    acc: "poll_accept_bidi E cx w' = (w'', PollReady (Ok (attach SE sid (cw_terminal w) (cx_config c) m)))" "own" by blast
  obtain c1 w1 h1 where at: "attach SE sid (cw_terminal w) (cx_config c) m = ((c1, w1), h1)" by (metis prod.exhaust)
  have fresh: "fresh_receiver SE sid (cw_terminal w) (cx_config c) m = (c1, h3_recv h1, w1)" by (simp add: fresh_receiver_def at)
  obtain st ps where mv: "recv_moves SE (recv_stream_executor N) ms (c1, h3_recv h1, w1) = (st, ps)" by fastforce
  have "reads bs e ps" by (rule stream_channels.receiver_reads [OF assms(2,10,11) mv [folded fresh]])
  moreover have "bidi_send_id h1 = sid \<and> bidi_recv_id h1 = sid \<and> ss_max_send_bytes (h3_send h1) = max_send_bytes (cx_config c) \<and>
      rb_max_bytes (w_budget w1) = max_recv_bytes (cx_config c) \<and> rb_max_units (w_budget w1) = max_recv_units (cx_config c)"
    using at by (auto simp: attach_def finalize_def pre_id_receivers_def stream_ctx_channel_pre_id_def recv_budget_new_def
        bidi_send_id_def bidi_recv_id_def send_id_def recv_id_def)
  ultimately show ?thesis using acc at mv by auto
qed

theorem accepted_stream_reads_witness:
  "\<exists>c' w' w'' c1 w1 h1. connection_callback ref_conn_env ref_env ref_stream_id () (CE_PeerStreamStarted 3 (Ok 4) False)
      (fst (conn_ctx_channel ref_conn_env h3_config_default ()), False) = (((c', w'), True), Ok ()) \<and>
    poll_accept_bidi ref_conn_env 7 w' = (w'', PollReady (Ok ((c1, w1), h1))) \<and>
    reads [1, 2] (End_Reset 5) (snd (recv_moves ref_env (recv_stream_executor quiet_native)
      [RM_Poll 7, RM_Indicate (SE_Receive 1 [[1]] False), RM_Poll 7, RM_Indicate (SE_PeerSendAborted 5), RM_Poll 7] (c1, h3_recv h1, w1)))"
proof -
  let ?ms = "[RM_Poll 7, RM_Indicate (SE_Receive 1 [[1]] False), RM_Poll 7, RM_Indicate (SE_PeerSendAborted 5), RM_Poll 7]"
  obtain c w where cw: "fst (conn_ctx_channel ref_conn_env h3_config_default ()) = (c, w)" by fastforce
  have pre: "cx_bidi c" "fifo_items (cw_bidi w) = []" "\<not> has_internal (cw_terminal w)" "ref_stream_id 4 = Some 4"
    using cw by (auto simp: conn_ctx_channel_def ref_conn_env_def fifo_mpsc_def fifo_new_def has_internal_def conn_terminal_default_def
        ref_stream_id_def)
  have sync: "conn_sync fifo_tx cell_tx cell_tx (c, w)" "accept_ok fifo_items fifo_rx w"
    using ref_conn.channel_sync [of h3_config_default "()"] ref_conn.fresh_accept_ok [of h3_config_default "()"] cw by simp_all
  obtain c' w' own res where cb: "connection_callback ref_conn_env ref_env ref_stream_id () (CE_PeerStreamStarted 3 (Ok 4) False) ((c, w), False) =
      (((c', w'), own), res)" by (metis prod.exhaust)
  have "own" "res = Ok ()" using ref_conn.peer_stream_accepted [OF sync pre cb, of 7] by auto
  with accepted_stream_reads [OF ref_conn.conn_channels_axioms ref_stream.stream_channels_axioms sync pre cb, of "[1, 2]" "End_Reset 5"
      "[SE_Receive 1 [[1]] False, SE_PeerSendAborted 5]" ?ms 7 quiet_native] cb
  show ?thesis unfolding cw by auto
qed

end
