(* ===== verification/H3_Stream_System.thy ===== *)
theory H3_Stream_System
  imports H3_Recv_Stream
begin

text \<open>
  A stream as a concurrent system: its callback, its send half, its receive half and the other users
  of the shared connection slot act on one world. A frontend call is one step, but the callback and
  the slot's other users may act between any two iterations of its loop: the interference function of
  the send loops is a schedule of moves.

  The moves of the environment are restricted to what the native library and the crate allow: a
  callback runs on a context that is in step with its channels, the library completes a send it
  holds, once, and nobody observes an empty slot.
\<close>

section \<open>The system\<close>

datatype env_move = MoveCallback stream_send_ctx stream_event | MoveSlot conn_slot_op

record ('i, 'b, 'o, 's, 'r, 'n) sys_params =
  sp_id :: 'i
  sp_buf :: "'b buf_ops"
  sp_ref_from :: "nat \<Rightarrow> usize \<Rightarrow> buffer_ref"
  sp_env :: "('o, 's, 'r) stream_env"
  sp_native :: "'n native_stream"
  sp_complete :: "nat \<Rightarrow> 'n \<Rightarrow> 'n"
  sp_holds :: "'n \<Rightarrow> nat set"
  sp_sync :: "('o, 's, 'r, 'n) stream_st \<Rightarrow> bool"

text \<open>Before a completion is indicated, the library has let go of its context.\<close>

definition callback_move ::
  "('i, 'b, 'o, 's, 'r, 'n) sys_params \<Rightarrow> stream_send_ctx \<Rightarrow> stream_event \<Rightarrow> ('o, 's, 'r, 'n) stream_world \<Rightarrow> ('o, 's, 'r, 'n) stream_world" where
  "callback_move P c ev w =
     (if \<not> sp_sync P (c, w) then w
      else case ev of
        SE_SendComplete cancelled cc \<Rightarrow>
          if cc \<in> sp_holds P (w_native w)
          then snd (fst (stream_callback (sp_env P) ev (c, w\<lparr>w_native := sp_complete P cc (w_native w)\<rparr>)))
          else w
      | _ \<Rightarrow> snd (fst (stream_callback (sp_env P) ev (c, w))))"

fun env_step ::
  "('i, 'b, 'o, 's, 'r, 'n) sys_params \<Rightarrow> env_move \<Rightarrow> ('o, 's, 'r, 'n) stream_world \<Rightarrow> ('o, 's, 'r, 'n) stream_world" where
  "env_step P (MoveCallback c ev) w = callback_move P c ev w"
| "env_step P (MoveSlot op) w =
     (if op = OpObserve \<and> ct_terminal (w_conn_slot w) = None then w
      else w\<lparr>w_conn_slot := conn_slot_step op (w_conn_slot w)\<rparr>)"

definition env_run ::
  "('i, 'b, 'o, 's, 'r, 'n) sys_params \<Rightarrow> (nat \<Rightarrow> env_move list) \<Rightarrow> nat \<Rightarrow> ('o, 's, 'r, 'n) stream_world \<Rightarrow> ('o, 's, 'r, 'n) stream_world" where
  "env_run P sched k w = fold (env_step P) (sched k) w"

inductive stream_step ::
  "('i, 'b, 'o, 's, 'r, 'n) sys_params \<Rightarrow> ('o, 's, 'r, 'n) stream_world \<Rightarrow> ('o, 's, 'r, 'n) stream_world \<Rightarrow> bool" for P where
  sy_env: "stream_step P w (env_step P move w)"
| sy_ready: "ss_id s = sp_id P \<Longrightarrow> poll_ready (sp_env P) (env_run P sched) cx (s, w) = Some ((s', w'), r) \<Longrightarrow> stream_step P w w'"
| sy_finish: "ss_id s = sp_id P \<Longrightarrow> poll_finish (sp_env P) (env_run P sched) (stream_executor (sp_native P)) cx (s, w) = Some ((s', w'), r') \<Longrightarrow>
    stream_step P w w'"
| sy_send: "ss_id s = sp_id P \<Longrightarrow> send_data (sp_env P) (env_run P sched) (stream_executor (sp_native P)) (sp_ref_from P) (sp_buf P) wb (s, w) =
      Some ((s', w'), r'') \<Longrightarrow> stream_step P w w'"
| sy_reset: "ss_id s = sp_id P \<Longrightarrow> reset (sp_env P) (env_run P sched) (stream_executor (sp_native P)) code (s, w) = Some (s', w') \<Longrightarrow>
    stream_step P w w'"
| sy_data: "rs_id rs = sp_id P \<Longrightarrow>
    poll_data (sp_env P) (recv_stream_executor (sp_native P)) cx (rs, w) = ((rs', w'), polled) \<Longrightarrow> stream_step P w w'"
| sy_stop: "rs_id rs = sp_id P \<Longrightarrow> stop_sending (recv_stream_executor (sp_native P)) code (rs, w) = (rs', w') \<Longrightarrow> stream_step P w w'"

text \<open>The worlds a fresh stream can reach: nothing handed to the library yet, and a slot in use.\<close>

definition stream_initial :: "('i, 'b, 'o, 's, 'r, 'n) sys_params \<Rightarrow> ('o, 's, 'r, 'n) stream_world \<Rightarrow> bool" where
  "stream_initial P w \<longleftrightarrow>
     (\<exists>slot cfg n. w = snd (stream_ctx_channel_pre_id (sp_env P) slot cfg n) \<and> sp_holds P n = {} \<and>
        (ct_observed slot \<longrightarrow> ct_terminal slot \<noteq> None))"

definition stream_reach :: "('i, 'b, 'o, 's, 'r, 'n) sys_params \<Rightarrow> ('o, 's, 'r, 'n) stream_world \<Rightarrow> bool" where
  "stream_reach P w \<longleftrightarrow> (\<exists>w0. stream_initial P w0 \<and> (stream_step P)\<^sup>*\<^sup>* w0 w)"

section \<open>Specification vocabulary\<close>

text \<open>Every box ever made is either alive and held by the library or freed, and freed once.\<close>

definition boxes_ok :: "('n \<Rightarrow> nat set) \<Rightarrow> ('o, 's, 'r, 'n) stream_world \<Rightarrow> bool" where
  "boxes_ok holds w \<longleftrightarrow>
     dom (w_heap w) = holds (w_native w) \<and> distinct (w_frees w) \<and>
     set (w_frees w) \<inter> dom (w_heap w) = {} \<and> set (w_frees w) \<union> dom (w_heap w) = {1..<w_next w} \<and> 1 \<le> w_next w"

text \<open>Every connection cause a stream has queued or published is backed by the slot, which is never frozen empty.\<close>

definition slots_ok :: "('r \<Rightarrow> receive_event list) \<Rightarrow> ('r \<Rightarrow> bool) \<Rightarrow> ('o, 's, 'r, 'n) stream_world \<Rightarrow> bool" where
  "slots_ok rq rrx w \<longleftrightarrow>
     rrx (w_recv w) \<and> recv_backed rq w \<and> conn_backed w \<and> (ct_observed (w_conn_slot w) \<longrightarrow> ct_terminal (w_conn_slot w) \<noteq> None)"

text \<open>The one event that records a connection cause; the callback publishes that cause after recording it.\<close>

fun stream_cause :: "status_ops \<Rightarrow> stream_event \<Rightarrow> connection_terminal option" where
  "stream_cause S (SE_ShutdownComplete True by_app remote code s) = Some (classify_conn_shutdown S by_app remote code s)"
| "stream_cause S _ = None"

text \<open>
  A call of one of the stream's frontends, from \<open>w\<close> to \<open>w'\<close>, that fails with the connection cause \<open>t\<close>. A receive
  half that has stored its terminal replays it; the report is the call that stores it.
\<close>

inductive stream_reports ::
  "('i, 'b, 'o, 's, 'r, 'n) sys_params \<Rightarrow> ('o, 's, 'r, 'n) stream_world \<Rightarrow> connection_terminal \<Rightarrow> ('o, 's, 'r, 'n) stream_world \<Rightarrow> bool" for P where
  sr_ready: "ss_id s = sp_id P \<Longrightarrow>
    poll_ready (sp_env P) (env_run P sched) cx (s, w) = Some ((s', w'), PollReady (Err (ConnectionErrorIncoming (convert_conn t)))) \<Longrightarrow>
    stream_reports P w t w'"
| sr_finish: "ss_id s = sp_id P \<Longrightarrow>
    poll_finish (sp_env P) (env_run P sched) (stream_executor (sp_native P)) cx (s, w) =
      Some ((s', w'), PollReady (Err (ConnectionErrorIncoming (convert_conn t)))) \<Longrightarrow>
    stream_reports P w t w'"
| sr_send: "ss_id s = sp_id P \<Longrightarrow>
    send_data (sp_env P) (env_run P sched) (stream_executor (sp_native P)) (sp_ref_from P) (sp_buf P) wb (s, w) =
      Some ((s', w'), Err (ConnectionErrorIncoming (convert_conn t))) \<Longrightarrow>
    stream_reports P w t w'"
| sr_data: "rs_id rs = sp_id P \<Longrightarrow> \<not> rs_receive_closed rs \<Longrightarrow> rs_terminal rs = None \<Longrightarrow>
    poll_data (sp_env P) (recv_stream_executor (sp_native P)) cx (rs, w) =
      ((rs', w'), PollReady (Err (ConnectionErrorIncoming (convert_conn t)))) \<Longrightarrow>
    stream_reports P w t w'"

text \<open>The effects the iterations of the send loops have on the world. A code given to the library is a QUIC varint.\<close>

inductive send_effect ::
  "('o, 's, 'r) stream_env \<Rightarrow> 'n native_stream \<Rightarrow> ('o, 's, 'r, 'n) stream_world \<Rightarrow> ('o, 's, 'r, 'n) stream_world \<Rightarrow> bool" for E N where
  se_none: "send_effect E N w w"
| se_commit: "send_effect E N w (fst (commit_send_winner t w))"
| se_poll: "send_effect E N w (fst (poll_send_channel E cx w))"
| se_publish: "send_effect E N w (fst (publish_winner c w))"
| se_submit: "send_effect E N w (fst (submit_owned_send buf (ns_send N) w))"
| se_shutdown: "code \<le> MAX_QUIC_VARINT \<Longrightarrow> send_effect E N w (fst (shutdown_call N flags code w))"

text \<open>The inputs of the \<open>reset\<close> loop, whose code is clamped before the loop starts.\<close>

fun clamped_reset_input :: "send_input \<Rightarrow> bool" where
  "clamped_reset_input (ResetIn code _) \<longleftrightarrow> code \<le> MAX_QUIC_VARINT"
| "clamped_reset_input (ResetSubmitted code _ _) \<longleftrightarrow> code \<le> MAX_QUIC_VARINT"
| "clamped_reset_input (TerminalPublished _ _) = True"
| "clamped_reset_input _ = False"

text \<open>A native stream for evaluation: its state is the list of contexts it holds.\<close>

definition hold_native :: "nat list native_stream" where
  "hold_native =
     \<lparr>ns_send = (\<lambda>bufs cc held. (cc # held, Ok ())), ns_shutdown = (\<lambda>flags code held. (held, Ok ())),
      ns_receive_complete = (\<lambda>len held. held)\<rparr>"

definition ref_sys :: "(nat, nat \<times> bytes, (u64, status) result cell, send_event fifo, receive_event fifo, nat list) sys_params" where
  "ref_sys = \<lparr>sp_id = 4, sp_buf = slice_buf, sp_ref_from = native_buffer_ref, sp_env = ref_env, sp_native = hold_native, sp_complete = (\<lambda>cc held. removeAll cc held), sp_holds = set,
     sp_sync = ctx_sync fifo_tx fifo_tx cell_tx\<rparr>"

section \<open>The iterations\<close>

lemma poll_ready_iter_effect:
  "send_effect E N w (snd (fst (poll_ready_iter E cx i (s, w))))"
  by (cases "transition (se_status E) (ss_reducer s) i"; cases "snd (transition (se_status E) (ss_reducer s) i)")
    (auto simp: poll_ready_iter_def poll_ready_input_def case_prod_beta Let_def intro: send_effect.intros)

lemma poll_finish_iter_effect:
  "send_effect E N w (snd (fst (poll_finish_iter E (stream_executor N) cx i (s, w))))"
  by (cases "transition (se_status E) (ss_reducer s) i"; cases "snd (transition (se_status E) (ss_reducer s) i)")
    (auto simp: poll_finish_iter_def poll_finish_input_def case_prod_beta Let_def intro: send_effect.intros)

lemma send_data_iter_effect:
  "send_effect E N w (snd (fst (send_data_iter E (stream_executor N) ref_from Bu i (sb, w))))"
proof -
  obtain s wb where "sb = (s, wb)" by fastforce
  then show ?thesis
    by (cases "transition (se_status E) (ss_reducer s) i"; cases "snd (transition (se_status E) (ss_reducer s) i)")
      (auto simp: send_data_iter_def case_prod_beta Let_def intro: send_effect.intros)
qed

lemma clamp_le [simp]: "clamp_application_code code \<le> MAX_QUIC_VARINT"
  by (simp add: clamp_application_code_def)

lemma clamped_reset_command:
  assumes "clamped_reset_input i" and "transition S st i = (st', SubmitReset c)"
  shows "c \<le> MAX_QUIC_VARINT"
  using assms by (cases i) (auto simp: reducer_defs split: reducer_splits)

lemma reset_iter_effect:
  assumes "clamped_reset_input i"
  shows "send_effect E N w (snd (fst (reset_iter E (stream_executor N) i (s, w))))"
proof -
  obtain red cmd where t: "transition (se_status E) (ss_reducer s) i = (red, cmd)" by fastforce
  with clamped_reset_command [OF assms] show ?thesis
    by (cases cmd) (auto simp: reset_iter_def case_prod_beta Let_def intro: send_effect.intros)
qed

lemma reset_iter_clamped:
  assumes "clamped_reset_input i" and "reset_iter E X i (s, w) = (st, Continue i')"
  shows "clamped_reset_input i'"
proof -
  obtain red cmd where t: "transition (se_status E) (ss_reducer s) i = (red, cmd)" by fastforce
  with clamped_reset_command [OF assms(1)] assms(2) show ?thesis
    by (cases cmd) (auto simp: reset_iter_def case_prod_beta Let_def)
qed

lemma stop_sending_effect:
  "stop_sending (recv_stream_executor N) code (rs, w) = (rs', w') \<Longrightarrow> send_effect E N w w'"
  using se_shutdown [of "clamp_application_code code" E N w SHUTDOWN_ABORT_RECEIVE]
  by (auto simp: stop_sending_def recv_stream_executor_def Let_def split: prod.splits)

text \<open>What every effect and the interference preserve, a whole loop preserves.\<close>

lemma drive_preserves:
  assumes "drive rely f n i (c, w) = Some ((c', w'), a)" and "I w"
    and "\<And>k w. I w \<Longrightarrow> I (rely k w)" and "L i"
    and "\<And>i c w. I w \<Longrightarrow> L i \<Longrightarrow> I (snd (fst (f i (c, w))))"
    and "\<And>i c w st i'. L i \<Longrightarrow> f i (c, w) = (st, Continue i') \<Longrightarrow> L i'"
  shows "I w'"
proof -
  have "case (c', w') of (c', w') \<Rightarrow> I w'"
  proof (rule drive_invariant [OF assms(1), where P = "\<lambda>i c w. I w \<and> L i"])
    show "I w' \<and> L i'" if "I w \<and> L i" "f i (c, w) = ((c', w'), Continue i')" for i c w c' w' i'
      using assms(5) [of w i c] assms(6) that by fastforce
    show "case (c', w') of (c', w') \<Rightarrow> I w'" if "I w \<and> L i" "f i (c, w) = ((c', w'), Return a)" for i c w c' w' a
      using assms(5) [of w i c] that by simp
  qed (use assms in auto)
  then show ?thesis by simp
qed

lemma send_calls_preserve:
  assumes "I w" and rely: "\<And>k w. I w \<Longrightarrow> I (rely k w)" and eff: "\<And>w w'. I w \<Longrightarrow> send_effect E N w w' \<Longrightarrow> I w'"
  shows "poll_ready E rely cx (s, w) = Some ((s', w'), r) \<Longrightarrow> I w'"
    and "poll_finish E rely (stream_executor N) cx (s, w) = Some ((s', w'), r') \<Longrightarrow> I w'"
    and "send_data E rely (stream_executor N) ref_from Bu wb (s, w) = Some ((s', w'), r'') \<Longrightarrow> I w'"
    and "reset E rely (stream_executor N) code (s, w) = Some (s', w') \<Longrightarrow> I w'"
proof -
  have poll: "I (fst (poll_send_channel E cx w))" by (rule eff [OF assms(1) se_poll])
  note pres = drive_preserves [where I = I, OF _ _ rely]
  assume "poll_ready E rely cx (s, w) = Some ((s', w'), r)"
  then consider "finish_started (ss_reducer s)" "\<exists>t. w' = fst (commit_send_winner t w) \<or> w' = w"
    | i where "drive rely (poll_ready_iter E cx) loop_fuel i (s, fst (poll_send_channel E cx w)) = Some ((s', w'), r)"
    by (auto simp: poll_ready_def poll_ready_input_def case_prod_beta Let_def split: if_splits option.splits)
  then show "I w'"
  proof cases
    case 1
    then show ?thesis using assms(1) eff [OF assms(1) se_commit] by auto
  next
    case (2 i)
    then show ?thesis
      by (rule pres [OF _ poll, where L = "\<lambda>_. True"]) (assumption | rule TrueI | rule eff [OF _ poll_ready_iter_effect])+
  qed
next
  have poll: "I (fst (poll_send_channel E cx w))" by (rule eff [OF assms(1) se_poll])
  note pres = drive_preserves [where I = I, OF _ _ rely]
  assume "poll_finish E rely (stream_executor N) cx (s, w) = Some ((s', w'), r')"
  then obtain i where "drive rely (poll_finish_iter E (stream_executor N) cx) loop_fuel i
      (s, fst (poll_send_channel E cx w)) = Some ((s', w'), r')"
    by (auto simp: poll_finish_def poll_finish_input_def case_prod_beta Let_def)
  then show "I w'"
    by (rule pres [OF _ poll, where L = "\<lambda>_. True"]) (assumption | rule TrueI | rule eff [OF _ poll_finish_iter_effect])+
next
  note pres = drive_preserves [where I = I, OF _ _ rely]
  assume "send_data E rely (stream_executor N) ref_from Bu wb (s, w) = Some ((s', w'), r'')"
  then obtain i wb' where "drive rely (send_data_iter E (stream_executor N) ref_from Bu) loop_fuel i ((s, wb), w) =
      Some (((s', wb'), w'), r'')"
    by (auto simp: send_data_def)
  then show "I w'"
    by (rule pres [OF _ assms(1), where L = "\<lambda>_. True"]) (assumption | rule TrueI | rule eff [OF _ send_data_iter_effect])+
next
  note pres = drive_preserves [where I = I, OF _ _ rely]
  assume "reset E rely (stream_executor N) code (s, w) = Some (s', w')"
  then obtain r where "drive rely (reset_iter E (stream_executor N)) loop_fuel
      (ResetIn (clamp_application_code code) (resolve_terminal w)) (s, w) = Some ((s', w'), r)"
    by (auto simp: reset_def)
  then show "I w'"
    by (rule pres [OF _ assms(1), where L = clamped_reset_input])
      (assumption, simp, erule eff, erule reset_iter_effect, erule (1) reset_iter_clamped)
qed

lemma env_run_preserves:
  assumes "\<And>move w. I w \<Longrightarrow> I (env_step P move w)" and "I w"
  shows "I (env_run P sched k w)"
proof -
  have "I (fold (env_step P) ms w)" for ms
    using assms(2) by (induction ms arbitrary: w) (auto simp: assms(1))
  then show ?thesis by (simp add: env_run_def)
qed

text \<open>An invariant of the moves, of the effects of the send calls and of \<open>poll_data\<close> is one of the system.\<close>

lemma stream_step_preserves:
  assumes "stream_step P w w'" and "I w"
    and env: "\<And>move w. I w \<Longrightarrow> I (env_step P move w)"
    and eff: "\<And>w w'. I w \<Longrightarrow> send_effect (sp_env P) (sp_native P) w w' \<Longrightarrow> I w'"
    and data: "\<And>rs cx rs' polled w w'. I w \<Longrightarrow> \<not> rs_receive_closed rs \<Longrightarrow> rs_terminal rs = None \<Longrightarrow>
      rs_id rs = sp_id P \<Longrightarrow>
      poll_data (sp_env P) (recv_stream_executor (sp_native P)) cx (rs, w) = ((rs', w'), polled) \<Longrightarrow> I w'"
  shows "I w'"
proof -
  have run: "I w \<Longrightarrow> I (env_run P sched k w)" for sched k w using env by (rule env_run_preserves)
  note calls = send_calls_preserve [where I = I and E = "sp_env P" and N = "sp_native P", OF assms(2)]
  from assms(1) show ?thesis
  proof (cases rule: stream_step.cases)
    case (sy_ready s sched cx s' r)
    show ?thesis by (rule calls(1) [OF _ _ sy_ready(2)]) (use run eff in blast)+
  next
    case (sy_finish s sched cx s' r)
    show ?thesis by (rule calls(2) [OF _ _ sy_finish(2)]) (use run eff in blast)+
  next
    case (sy_send s sched wb s' r)
    show ?thesis by (rule calls(3) [OF _ _ sy_send(2)]) (use run eff in blast)+
  next
    case (sy_reset s sched code s')
    show ?thesis by (rule calls(4) [OF _ _ sy_reset(2)]) (use run eff in blast)+
  next
    case (sy_data rs cx rs' polled)
    then have "w' = w" if "rs_receive_closed rs \<or> rs_terminal rs \<noteq> None"
      using that by (cases "rs_receive_closed rs") (auto simp: poll_data_closed poll_data_replay)
    with assms(2) data sy_data show ?thesis by blast
  qed (use assms(2) env eff stop_sending_effect in blast)+
qed

section \<open>Ownership of the send buffers\<close>

lemma boxes_ok_view: "native_view w' = native_view w \<Longrightarrow> boxes_ok h w' = boxes_ok h w"
  by (simp add: native_view_def boxes_ok_def)

lemmas boxes_ok_frames = boxes_ok_view [OF native_view_frame(1)] boxes_ok_view [OF native_view_frame(2)]
  boxes_ok_view [OF native_view_frame(3)]

lemma boxes_ok_range:
  assumes "boxes_ok h w"
  shows "p \<in> h (w_native w) \<Longrightarrow> 1 \<le> p \<and> p < w_next w" and "p \<in> set (w_frees w) \<Longrightarrow> 1 \<le> p \<and> p < w_next w"
proof -
  have "set (w_frees w) \<union> h (w_native w) = {1..<w_next w}" using assms unfolding boxes_ok_def by (elim conjE) simp
  then show "p \<in> h (w_native w) \<Longrightarrow> 1 \<le> p \<and> p < w_next w" "p \<in> set (w_frees w) \<Longrightarrow> 1 \<le> p \<and> p < w_next w"
    by (metis UnCI atLeastLessThan_iff)+
qed

lemma native_view_simps:
  "native_view (w\<lparr>w_recv := r\<rparr>) = native_view w" "native_view (w\<lparr>w_budget := b\<rparr>) = native_view w"
  "native_view (w\<lparr>w_send := x\<rparr>) = native_view w" "native_view (w\<lparr>w_start := y\<rparr>) = native_view w"
  "native_view (w\<lparr>w_send_slot := sl\<rparr>) = native_view w" "native_view (w\<lparr>w_conn_slot := cs\<rparr>) = native_view w"
  by (simp_all add: native_view_def)

lemma callback_helper_view:
  "native_view (snd (publish_recv_terminal E e st)) = native_view (snd st)"
  "native_view (snd (take_receive E st)) = native_view (snd st)"
  "native_view (snd (take_send E st)) = native_view (snd st)"
  "native_view (snd (take_start E st)) = native_view (snd st)"
  "native_view (snd (resolve_start E r st)) = native_view (snd st)"
  "native_view (snd (ctx_send_event E ev st)) = native_view (snd st)"
  "native_view (snd (ctx_publish_send t st)) = native_view (snd st)"
  "native_view (snd (ctx_record_conn t' st)) = native_view (snd st)"
  by (cases st; simp add: stream_defs native_view_simps Let_def)+

lemma callback_native_view:
  assumes "\<And>b cc. ev \<noteq> SE_SendComplete b cc"
  shows "native_view (snd (fst (stream_callback E ev st))) = native_view (snd st)"
proof (cases ev)
  case (SE_Receive tbl bufs fin)
  obtain c w where st: "st = (c, w)" by fastforce
  obtain c' w' r where cb: "cb_Receive E bufs fin (c, w) = ((c', w'), r)" by (metis prod.exhaust)
  have "w' = w\<lparr>w_recv := w_recv w', w_budget := w_budget w'\<rparr>" using cb_Receive_frame [OF cb] by simp
  then have "native_view w' = native_view w" by (metis native_view_simps(1,2))
  then show ?thesis by (simp add: SE_Receive st cb)
qed (use assms in \<open>auto simp: cb_StartComplete_def cb_PeerReceiveAborted_def cb_ShutdownComplete_def Let_def
    callback_helper_view\<close>)

text \<open>
  What the adapter relies on from the library: an accepted send is held until it is completed, a
  refused one is not held, and the other calls keep what is held.
\<close>

locale send_contract =
  fixes P :: "('i, 'b, 'o, 's, 'r, 'n) sys_params"
  assumes send_ok: "ns_send (sp_native P) bufs cc n = (n', Ok u) \<Longrightarrow> sp_holds P n' = insert cc (sp_holds P n)"
    and send_err: "ns_send (sp_native P) bufs cc n = (n', Err e) \<Longrightarrow> sp_holds P n' = sp_holds P n"
    and shutdown_holds: "sp_holds P (fst (ns_shutdown (sp_native P) flags code n)) = sp_holds P n"
    and receive_complete_holds: "sp_holds P (ns_receive_complete (sp_native P) len n) = sp_holds P n"
    and complete_holds: "sp_holds P (sp_complete P cc n) = sp_holds P n - {cc}"
begin

lemma submit_boxes:
  assumes "boxes_ok (sp_holds P) w"
  shows "boxes_ok (sp_holds P) (fst (submit_owned_send buf (ns_send (sp_native P)) w))"
proof -
  obtain n' r where s: "ns_send (sp_native P) (buffers buf) (w_next w) (w_native w) = (n', r)" by fastforce
  let ?w = "fst (submit_owned_send buf (ns_send (sp_native P)) w)"
  have v: "w_native ?w = n'" "w_next ?w = Suc (w_next w)"
    "w_heap ?w = (w_heap w)(w_next w := (if is_ok r then Some buf else None))"
    "w_frees ?w = (if is_ok r then w_frees w else w_next w # w_frees w)"
    using submit_owned_send_view(1) [of buf "ns_send (sp_native P)" w] s by (simp_all add: native_view_def)
  have old: "dom (w_heap w) = sp_holds P (w_native w)" "distinct (w_frees w)" "set (w_frees w) \<inter> dom (w_heap w) = {}"
    "set (w_frees w) \<union> dom (w_heap w) = {1..<w_next w}"
    using assms unfolding boxes_ok_def by blast+
  have fresh: "w_next w \<notin> dom (w_heap w)" "w_next w \<notin> set (w_frees w)" "1 \<le> w_next w"
    using boxes_ok_range [OF assms, of "w_next w"] assms old(1) by (auto simp: boxes_ok_def)
  have int: "insert (w_next w) {1..<w_next w} = {1..<Suc (w_next w)}" using fresh(3) by auto
  show ?thesis
  proof (cases r)
    case (Ok u)
    with s send_ok have "sp_holds P n' = insert (w_next w) (sp_holds P (w_native w))" by blast
    with Ok v fresh old int show ?thesis by (auto simp: boxes_ok_def)
  next
    case (Err e)
    have "(w_heap w)(w_next w := None) = w_heap w" using fresh(1) by (auto simp: dom_def)
    with Err s send_err v fresh old int show ?thesis by (auto simp: boxes_ok_def)
  qed
qed

lemma send_effect_boxes:
  assumes "boxes_ok (sp_holds P) w" and "send_effect (sp_env P) (sp_native P) w w'"
  shows "boxes_ok (sp_holds P) w'"
  using assms(2,1)
proof (cases rule: send_effect.cases)
  case (se_shutdown code flags)
  with assms(1) show ?thesis
    by (cases "ns_shutdown (sp_native P) flags code (w_native w)")
      (auto simp: shutdown_call_def boxes_ok_def shutdown_holds [of flags code "w_native w", symmetric])
qed (simp_all add: submit_boxes boxes_ok_frames)

lemma callback_move_boxes:
  assumes "boxes_ok (sp_holds P) w"
  shows "boxes_ok (sp_holds P) (callback_move P c ev w)"
proof (cases "\<exists>b cc. ev = SE_SendComplete b cc")
  case False
  then have "native_view (snd (fst (stream_callback (sp_env P) ev (c, w)))) = native_view w"
    using callback_native_view [of ev "sp_env P" "(c, w)"] by auto
  with False assms boxes_ok_view show ?thesis
    by (cases ev) (auto simp: callback_move_def simp del: stream_callback.simps)
next
  case True
  then obtain b cc where ev: "ev = SE_SendComplete b cc" by blast
  show ?thesis
  proof (cases "sp_sync P (c, w) \<and> cc \<in> sp_holds P (w_native w)")
    case True
    let ?w1 = "w\<lparr>w_native := sp_complete P cc (w_native w)\<rparr>"
    have "cc \<noteq> 0" using True boxes_ok_range(1) [OF assms, of cc] by auto
    then have "callback_move P c ev w = snd (ctx_send_event (sp_env P) (Complete b) (c, box_drop cc ?w1))"
      using True by (simp add: callback_move_def ev cb_SendComplete_def)
    then have "native_view (callback_move P c ev w) = native_view (box_drop cc ?w1)"
      by (simp add: callback_helper_view)
    moreover have "boxes_ok (sp_holds P) (box_drop cc ?w1)"
      using assms True by (auto simp: boxes_ok_def box_drop_def complete_holds)
    ultimately show ?thesis using boxes_ok_view by blast
  qed (use assms ev in \<open>auto simp: callback_move_def\<close>)
qed

lemma env_step_boxes: "boxes_ok (sp_holds P) w \<Longrightarrow> boxes_ok (sp_holds P) (env_step P move w)"
  using boxes_ok_view [OF native_view_simps(6)] by (cases move) (auto simp: callback_move_boxes)

lemma poll_data_boxes:
  assumes "boxes_ok (sp_holds P) w"
    and "\<not> rs_receive_closed rs" and "rs_terminal rs = None"
    and "poll_data (sp_env P) (recv_stream_executor (sp_native P)) cx (rs, w) = ((rs', w'), polled)"
  shows "boxes_ok (sp_holds P) w'"
proof -
  obtain ch p where p: "poll_next (se_recv (sp_env P)) cx (w_recv w) = (ch, p)" by fastforce
  show ?thesis
  proof (cases "\<exists>b. p = PollReady (Some (RE_Data b))")
    case True
    then obtain b where "p = PollReady (Some (RE_Data b))" by blast
    from poll_data_eqs(1) [OF assms(2,3) p this, of "sp_native P"] assms(1,4) show ?thesis
      by (auto simp: boxes_ok_def receive_complete_holds split: option.splits)
  next
    case False
    with poll_data_no_data [OF assms(2,3) p _ assms(4)] have "w' = w\<lparr>w_recv := ch, w_conn_slot := w_conn_slot w'\<rparr>"
      by blast
    then have "native_view w' = native_view w" by (metis native_view_simps(1,6))
    with assms(1) boxes_ok_view show ?thesis by blast
  qed
qed

lemma stream_step_boxes:
  "stream_step P w w' \<Longrightarrow> boxes_ok (sp_holds P) w \<Longrightarrow> boxes_ok (sp_holds P) w'"
  by (erule stream_step_preserves) (use env_step_boxes send_effect_boxes poll_data_boxes in blast)+

lemma stream_reach_boxes:
  assumes "stream_reach P w"
  shows "boxes_ok (sp_holds P) w"
proof -
  obtain w0 where w0: "stream_initial P w0" "(stream_step P)\<^sup>*\<^sup>* w0 w" using assms by (auto simp: stream_reach_def)
  have "boxes_ok (sp_holds P) w0"
    using w0(1) by (auto simp: stream_initial_def boxes_ok_def stream_ctx_channel_pre_id_def)
  with w0(2) show ?thesis by (induction rule: rtranclp_induct) (auto intro: stream_step_boxes)
qed

end

interpretation ref_contract: send_contract ref_sys
  by unfold_locales (auto simp: ref_sys_def hold_native_def)

section \<open>The connection slot\<close>

lemma callback_helper_slots:
  "w_conn_slot (snd (publish_recv_terminal E e st)) = w_conn_slot (snd st)"
  "w_send_slot (snd (publish_recv_terminal E e st)) = w_send_slot (snd st)"
  "w_conn_slot (snd (take_receive E st)) = w_conn_slot (snd st)" "w_send_slot (snd (take_receive E st)) = w_send_slot (snd st)"
  "w_conn_slot (snd (take_send E st)) = w_conn_slot (snd st)" "w_send_slot (snd (take_send E st)) = w_send_slot (snd st)"
  "w_conn_slot (snd (take_start E st)) = w_conn_slot (snd st)" "w_send_slot (snd (take_start E st)) = w_send_slot (snd st)"
  "w_conn_slot (snd (resolve_start E r st)) = w_conn_slot (snd st)" "w_send_slot (snd (resolve_start E r st)) = w_send_slot (snd st)"
  "w_conn_slot (snd (ctx_send_event E ev st)) = w_conn_slot (snd st)" "w_send_slot (snd (ctx_send_event E ev st)) = w_send_slot (snd st)"
  "w_conn_slot (snd (ctx_publish_send t st)) = w_conn_slot (snd st)"
  "w_send_slot (snd (ctx_publish_send t st)) = fst (publish_send t (w_send_slot (snd st)))"
  "w_conn_slot (snd (ctx_record_conn t' st)) = record_conn_terminal t' (w_conn_slot (snd st))"
  "w_send_slot (snd (ctx_record_conn t' st)) = w_send_slot (snd st)"
  "w_conn_slot (box_drop cc w) = w_conn_slot w" "w_send_slot (box_drop cc w) = w_send_slot w"
  by (cases st; simp add: stream_defs Let_def)+

lemma callback_slots:
  "w_conn_slot (snd (fst (stream_callback E ev st))) =
     (case stream_cause (se_status E) ev of
        Some t \<Rightarrow> record_conn_terminal t (w_conn_slot (snd st)) | None \<Rightarrow> w_conn_slot (snd st)) \<and>
   (w_send_slot (snd (fst (stream_callback E ev st))) = w_send_slot (snd st) \<or>
    (\<exists>t. w_send_slot (snd (fst (stream_callback E ev st))) = fst (publish_send t (w_send_slot (snd st))) \<and>
       (\<forall>r. t = ST_Connection r \<longrightarrow> stream_cause (se_status E) ev = Some r)))"
proof (cases ev)
  case (SE_Receive tbl bufs fin)
  obtain c w where st: "st = (c, w)" by fastforce
  obtain c' w' r where cb: "cb_Receive E bufs fin (c, w) = ((c', w'), r)" by (metis prod.exhaust)
  have "w' = w\<lparr>w_recv := w_recv w', w_budget := w_budget w'\<rparr>" using cb_Receive_frame [OF cb] by simp
  then have "w_conn_slot w' = w_conn_slot w" "w_send_slot w' = w_send_slot w"
    by (metis stream_world.select_convs stream_world.surjective stream_world.update_convs)+
  then show ?thesis by (simp add: SE_Receive st cb)
next
  case (SE_ShutdownComplete cs a r e s)
  then show ?thesis by (cases cs) (auto simp: cb_ShutdownComplete_def Let_def callback_helper_slots)
qed (auto simp: cb_StartComplete_def cb_SendComplete_def cb_PeerReceiveAborted_def callback_helper_slots)

lemma record_occupies_ok:
  "(ct_observed slot \<longrightarrow> ct_terminal slot \<noteq> None) \<Longrightarrow> ct_terminal (record_conn_terminal t slot) \<noteq> None"
  by (cases "ct_observed slot") (simp_all add: record_occupies slot_simps)

text \<open>A world whose causes are backed stays so when the callback has run.\<close>

lemma callback_conn_backed:
  assumes "conn_backed w" and "ct_observed (w_conn_slot w) \<longrightarrow> ct_terminal (w_conn_slot w) \<noteq> None"
    and "w' = snd (fst (stream_callback E ev (c, w)))"
  shows "conn_backed w' \<and> (ct_observed (w_conn_slot w') \<longrightarrow> ct_terminal (w_conn_slot w') \<noteq> None) \<and>
    (ct_terminal (w_conn_slot w) \<noteq> None \<longrightarrow> ct_terminal (w_conn_slot w') \<noteq> None) \<and>
    (stream_cause (se_status E) ev \<noteq> None \<longrightarrow> ct_terminal (w_conn_slot w') \<noteq> None)"
proof -
  note cb = callback_slots [of E ev "(c, w)", folded assms(3)]
  have t: "(stream_cause (se_status E) ev \<noteq> None \<longrightarrow> ct_terminal (w_conn_slot w') \<noteq> None) \<and>
    (ct_terminal (w_conn_slot w) \<noteq> None \<longrightarrow> ct_terminal (w_conn_slot w') \<noteq> None) \<and>
    ct_observed (w_conn_slot w') = ct_observed (w_conn_slot w)"
    using cb record_occupies_ok [OF assms(2)] by (cases "stream_cause (se_status E) ev") (simp_all add: slot_simps)
  have "conn_backed w'"
    using cb assms(1) t unfolding conn_backed_def
    by (auto simp: publish_send_def split: option.splits send_terminal.splits if_splits)
  with t assms(2) show ?thesis by auto
qed

lemma recv_out_cause: "RE_Connection t \<in> set (recv_out S ev) \<Longrightarrow> stream_cause S ev = Some t"
  by (cases "(S, ev)" rule: recv_out.cases) (auto split: if_splits)

lemma conn_backed_iff:
  "conn_backed w \<longleftrightarrow> (\<forall>r. w_send_slot w = Some (ST_Connection r) \<longrightarrow> ct_terminal (w_conn_slot w) \<noteq> None)"
  by (auto simp: conn_backed_def split: option.split send_terminal.split)

lemma slots_ok_iff:
  "slots_ok rq rrx w \<longleftrightarrow> rrx (w_recv w) \<and>
     (\<forall>t. RE_Connection t \<in> set (rq (w_recv w)) \<longrightarrow> ct_terminal (w_conn_slot w) \<noteq> None) \<and>
     (\<forall>r. w_send_slot w = Some (ST_Connection r) \<longrightarrow> ct_terminal (w_conn_slot w) \<noteq> None) \<and>
     (ct_observed (w_conn_slot w) \<longrightarrow> ct_terminal (w_conn_slot w) \<noteq> None)"
proof -
  have "recv_backed rq w \<longleftrightarrow> (\<forall>t. RE_Connection t \<in> set (rq (w_recv w)) \<longrightarrow> ct_terminal (w_conn_slot w) \<noteq> None)"
    unfolding recv_backed_def by (auto split: receive_event.split)
  then show ?thesis by (simp only: slots_ok_def conn_backed_iff)
qed

lemma slots_ok_native [simp]: "slots_ok rq rrx (w\<lparr>w_native := n\<rparr>) = slots_ok rq rrx w"
  by (simp add: slots_ok_iff)

lemma slot_op_keeps:
  assumes "ct_observed sl \<longrightarrow> ct_terminal sl \<noteq> None" and "op = OpObserve \<longrightarrow> ct_terminal sl \<noteq> None"
  shows "(ct_observed (conn_slot_step op sl) \<longrightarrow> ct_terminal (conn_slot_step op sl) \<noteq> None) \<and>
    (ct_terminal sl \<noteq> None \<longrightarrow> ct_terminal (conn_slot_step op sl) \<noteq> None)"
proof (cases op)
  case (OpRecord c)
  with assms(1) record_occupies_ok [OF assms(1), of c] show ?thesis by (simp add: slot_simps)
qed (use assms in \<open>auto simp: observe_conn_winner_def commit_conn_def ct_observe_def terminal_is_some_def\<close>)

lemma slots_ok_slot:
  assumes "slots_ok rq rrx w" and "ct_observed sl \<longrightarrow> ct_terminal sl \<noteq> None"
    and "ct_terminal (w_conn_slot w) \<noteq> None \<longrightarrow> ct_terminal sl \<noteq> None"
  shows "slots_ok rq rrx (w\<lparr>w_conn_slot := sl\<rparr>)"
  using assms unfolding slots_ok_iff by (simp del: not_None_eq)

text \<open>The four calls of the send half only touch the slot by committing a cause that is there.\<close>

lemma commit_send_winner_slots:
  "w_send_slot (fst (commit_send_winner t w)) = w_send_slot w"
  "ct_terminal (w_conn_slot (fst (commit_send_winner t w))) = ct_terminal (w_conn_slot w)"
  "ct_observed (w_conn_slot w) \<Longrightarrow> ct_observed (w_conn_slot (fst (commit_send_winner t w)))"
  "ct_observed (w_conn_slot (fst (commit_send_winner t w))) \<Longrightarrow>
     ct_observed (w_conn_slot w) \<or> ct_terminal (w_conn_slot w) \<noteq> None"
  by (cases t; auto simp: commit_send_winner_def commit_conn_def ct_observe_def terminal_is_some_def split: if_splits)+

lemma send_effect_slot:
  assumes "send_effect E N w w'"
  shows "w_recv w' = w_recv w \<and> ct_terminal (w_conn_slot w') = ct_terminal (w_conn_slot w) \<and>
    (ct_observed (w_conn_slot w) \<longrightarrow> ct_observed (w_conn_slot w')) \<and>
    (ct_observed (w_conn_slot w') \<longrightarrow> ct_observed (w_conn_slot w) \<or> ct_terminal (w_conn_slot w) \<noteq> None)"
  using assms
proof (cases rule: send_effect.cases)
  case (se_commit t)
  moreover have "w_recv (fst (commit_send_winner t w)) = w_recv w"
    by (cases t) (simp_all add: commit_send_winner_def case_prod_beta)
  ultimately show ?thesis using commit_send_winner_slots(2,4) [of t w] commit_send_winner_slots(3) [of w t] by auto
next
  case (se_submit buf)
  moreover have "w_recv (fst (submit_owned_send buf (ns_send N) w)) = w_recv w"
    by (simp add: submit_owned_send_def box_into_raw_def box_drop_def case_prod_beta Let_def split: result.split)
  ultimately show ?thesis by (simp add: slots_frame)
qed (simp_all add: slots_frame publish_winner_def poll_send_channel_def shutdown_call_def case_prod_beta Let_def)

lemma send_effect_slots:
  "send_effect E N w w' \<Longrightarrow> slots_ok rq rrx w \<Longrightarrow> conn_backed w' \<Longrightarrow> slots_ok rq rrx w'"
  using send_effect_slot [of E N w w'] unfolding slots_ok_iff conn_backed_iff by (simp del: not_None_eq) blast

lemma poll_channel_slots:
  assumes "slots_ok rq rrx w"
  shows "slots_ok rq rrx (fst (poll_send_channel E cx w))" and "conn_backed (fst (poll_send_channel E cx w))"
proof -
  have "conn_backed w" using assms unfolding slots_ok_def by (elim conjE)
  then show bk: "conn_backed (fst (poll_send_channel E cx w))"
    by (simp only: conn_backed_frame [OF slots_frame(1,2) [of E cx w]])
  show "slots_ok rq rrx (fst (poll_send_channel E cx w))" by (rule send_effect_slots [OF se_poll assms bk])
qed

lemma iter_return_slots:
  "\<forall>i s w st a. poll_ready_iter E cx i (s, w) = (st, Return a) \<longrightarrow> w_send_slot (snd st) = w_send_slot w"
  "\<forall>i s w st a. poll_finish_iter E (stream_executor N) cx i (s, w) = (st, Return a) \<longrightarrow> w_send_slot (snd st) = w_send_slot w"
  "\<forall>i sb w st a. send_data_iter E (stream_executor N) ref_from Bu i (sb, w) = (st, Return a) \<longrightarrow>
     w_send_slot (snd st) = w_send_slot w"
  "\<forall>i s w st a. reset_iter E (stream_executor N) i (s, w) = (st, Return a) \<longrightarrow> w_send_slot (snd st) = w_send_slot w"
  by (auto simp: poll_ready_iter_def poll_finish_iter_def send_data_iter_def reset_iter_def case_prod_beta Let_def
      commit_send_winner_slots split: send_command.splits)

lemma reset_submitted_backed:
  assumes "transition S st (ResetSubmitted code r t) = (st', cmd)"
  shows "\<exists>c. cmd = PublishTerminal c K_Reset \<and> (\<forall>r. c = ST_Connection r \<longrightarrow> t = Some c)"
  using assms by (auto simp: reducer_defs dest: definitive_nonprovisional split: reducer_splits)

lemma reset_input_backed:
  "conn_backed w \<Longrightarrow> backed_input (ResetIn code (resolve_terminal w)) c w"
  "conn_backed w \<Longrightarrow> backed_input (ResetSubmitted code res (resolve_terminal w)) c w"
  by (auto simp: backed_input_def dest: resolve_terminal_backed)

lemma reset_backed:
  assumes "backed_input i s w" and "clamped_reset_input i"
  shows "iteration_ok (se_status E) False clamped_reset_input (\<lambda>_. None) (reset_iter E (stream_executor N) i (s, w))"
proof -
  obtain red cmd where t: "transition (se_status E) (ss_reducer s) i = (red, cmd)" by fastforce
  have bk: "conn_backed w" using assms(1) by (simp add: backed_input_def)
  have pub: ?thesis if "cmd = PublishTerminal c K_Reset" "\<forall>r. c = ST_Connection r \<longrightarrow> input_terminal i = Some c" for c
    using that published_backed [OF bk, of c] assms(1) t
    by (auto simp: reset_iter_def iteration_ok_def case_prod_beta backed_input_def)
  from assms(2) show ?thesis
  proof (cases rule: clamped_reset_input.elims(2))
    case (1 code x)
    have sub: ?thesis if "cmd = SubmitReset code"
      using that bk t 1(2)
      by (simp add: reset_iter_def iteration_ok_def case_prod_beta reset_input_backed conn_backed_frame [OF slots_frame(5,6)])
    from reset_commands [OF t [unfolded 1]] sub pub t show ?thesis by (auto simp: reset_iter_def iteration_ok_def)
  next
    case (2 code r x)
    with reset_submitted_backed [OF t [unfolded 2]] pub show ?thesis by auto
  next
    case (3 x k)
    from published_commands [OF t [unfolded 3]] t show ?thesis by (auto simp: reset_iter_def iteration_ok_def)
  qed
qed

lemma convert_conn_eqs:
  "convert_conn r = ApplicationClose c \<longleftrightarrow> r = CT_PeerApplication c" "convert_conn r = CE_Timeout \<longleftrightarrow> r = CT_Timeout"
  "convert_conn r = Undefined (MsQuicTransportError s c) \<longleftrightarrow> r = CT_Transport s c"
  "convert_conn r = Undefined LocalConnectionClose \<longleftrightarrow> r = CT_LocalClose"
  by (cases r; simp)+

text \<open>An error that names a connection cause other than an internal fault determines the cause.\<close>

lemma delivered_conn:
  assumes "convert_send S x = ConnectionErrorIncoming (convert_conn t)" and "\<forall>m. t \<noteq> CT_Internal m" and "delivered_terminal x w"
  shows "frozen_cause t w"
proof (cases x)
  case (ST_Connection r)
  with assms(1) have "r = t" by (simp add: convert_conn_inj)
  with ST_Connection assms(3) show ?thesis by (simp add: delivered_terminal_def)
next
  case (ST_Internal m)
  with assms(1,2) show ?thesis by (cases t) auto
qed (use assms(1) in auto)

lemma delivered_report:
  assumes "\<And>e. poll_error r = Some e \<Longrightarrow> \<exists>x. e = convert_send S x \<and> delivered_terminal x w"
    and "r = PollReady (Err (ConnectionErrorIncoming (convert_conn t)))" and "\<forall>m. t \<noteq> CT_Internal m"
  shows "frozen_cause t w"
proof -
  from assms(1) [of "ConnectionErrorIncoming (convert_conn t)"] assms(2)
  obtain x where "convert_send S x = ConnectionErrorIncoming (convert_conn t)" "delivered_terminal x w"
    by (metis poll_error.simps(1))
  from delivered_conn [OF this(1) assms(3) this(2)] show ?thesis .
qed

text \<open>A stream over documented channels, with callbacks run on contexts that are in step with them.\<close>

locale stream_system =
  stream_channels "sp_env P" rq rtx rrx rpark sq stx srx spark content alive waiting
  for P :: "('i, 'b, 'o, 's, 'r, 'n) sys_params" and rq rtx rrx rpark sq stx srx spark content alive waiting +
  assumes sync_ctx: "sp_sync P st = ctx_sync rtx stx alive st"
begin

lemma callback_slots_ok:
  assumes "slots_ok rq rrx w" and "ctx_sync rtx stx alive (c, w)"
    and w': "w' = snd (fst (stream_callback (sp_env P) ev (c, w)))"
  shows "slots_ok rq rrx w' \<and> (ct_terminal (w_conn_slot w) \<noteq> None \<longrightarrow> ct_terminal (w_conn_slot w') \<noteq> None)"
proof -
  have ok: "conn_backed w" "ct_observed (w_conn_slot w) \<longrightarrow> ct_terminal (w_conn_slot w) \<noteq> None" "rrx (w_recv w)"
    "\<forall>t. RE_Connection t \<in> set (rq (w_recv w)) \<longrightarrow> ct_terminal (w_conn_slot w) \<noteq> None"
    using assms(1) unfolding slots_ok_iff conn_backed_iff by blast+
  note bk = callback_conn_backed [OF ok(1,2) w']
  obtain c' res where "stream_callback (sp_env P) ev (c, w) = ((c', w'), res)" using w' by (metis prod.collapse)
  from stream_callback_step [OF assms(2) ok(3) this]
  have "rrx (w_recv w')" "set (rq (w_recv w')) \<subseteq> set (rq (w_recv w)) \<union> set (recv_out (se_status (sp_env P)) ev)" by auto
  with bk ok(4) recv_out_cause [of _ "se_status (sp_env P)" ev] show ?thesis unfolding slots_ok_iff conn_backed_iff by blast
qed

lemma env_step_slots:
  assumes "slots_ok rq rrx w"
  shows "slots_ok rq rrx (env_step P move w) \<and>
    (ct_terminal (w_conn_slot w) \<noteq> None \<longrightarrow> ct_terminal (w_conn_slot (env_step P move w)) \<noteq> None)"
proof (cases move)
  case (MoveSlot op)
  have "ct_observed (w_conn_slot w) \<longrightarrow> ct_terminal (w_conn_slot w) \<noteq> None" using assms by (simp add: slots_ok_def)
  from slot_op_keeps [OF this, of op] slots_ok_slot [OF assms] assms show ?thesis
    by (simp add: MoveSlot del: not_None_eq)
next
  case (MoveCallback c ev)
  let ?w1 = "\<lambda>n. w\<lparr>w_native := n\<rparr>"
  have keep: "slots_ok rq rrx w' \<and> (ct_terminal (w_conn_slot w) \<noteq> None \<longrightarrow> ct_terminal (w_conn_slot w') \<noteq> None)"
    if "w' = snd (fst (stream_callback (sp_env P) ev (c, ?w1 n)))" "sp_sync P (c, w)" for w' n
  proof -
    have "ctx_sync rtx stx alive (c, ?w1 n)" using that(2) by (auto simp: sync_ctx ctx_sync_def)
    from callback_slots_ok [OF _ this that(1)] assms show ?thesis by (simp del: not_None_eq)
  qed
  show ?thesis using assms keep [of _ "w_native w"] keep
    by (auto simp: MoveCallback callback_move_def simp del: stream_callback.simps not_None_eq split: stream_event.split)
qed

lemma env_run_slots:
  assumes "slots_ok rq rrx w"
  shows "slots_ok rq rrx (env_run P sched k w) \<and>
    (ct_terminal (w_conn_slot w) \<noteq> None \<longrightarrow> ct_terminal (w_conn_slot (env_run P sched k w)) \<noteq> None)"
proof -
  have ok: "slots_ok rq rrx w \<Longrightarrow> slots_ok rq rrx (env_run P sched k w)" for w
    by (rule env_run_preserves [where I = "slots_ok rq rrx"]) (use env_step_slots in blast)+
  have "slots_ok rq rrx w \<and> ct_terminal (w_conn_slot w) \<noteq> None \<Longrightarrow>
      slots_ok rq rrx (env_run P sched k w) \<and> ct_terminal (w_conn_slot (env_run P sched k w)) \<noteq> None" for w
    by (rule env_run_preserves [where I = "\<lambda>w. slots_ok rq rrx w \<and> ct_terminal (w_conn_slot w) \<noteq> None"])
      (use env_step_slots in blast)+
  with ok assms show ?thesis by blast
qed

text \<open>A delivering loop under the interference of the system: it keeps the slots, and its error is delivered.\<close>

lemma drive_slots:
  assumes iter: "\<And>i c w. backed_input i c w \<Longrightarrow> L i \<Longrightarrow> iteration_ok S imm L err (f i (c, w))"
    and eff: "\<And>i c w. L i \<Longrightarrow> send_effect (sp_env P) (sp_native P) w (snd (fst (f i (c, w))))"
    and ret: "\<forall>i c w st a. f i (c, w) = (st, Return a) \<longrightarrow> w_send_slot (snd st) = w_send_slot w"
    and d: "drive (env_run P sched) f n i (c, w) = Some ((c', w'), a)"
    and ok: "slots_ok rq rrx w" "backed_input i c w" "L i"
  shows "slots_ok rq rrx w' \<and> (\<forall>e. err a = Some e \<longrightarrow>
    (\<exists>t. e = convert_send S t \<and> delivered_terminal t w') \<or> imm \<and> (\<exists>op. e = convert_send_op op))"
proof -
  let ?P = "\<lambda>i c w. slots_ok rq rrx w \<and> backed_input i c w \<and> L i"
  let ?Q = "\<lambda>(c, w) a. slots_ok rq rrx w \<and> (\<forall>e. err a = Some e \<longrightarrow>
    (\<exists>t. e = convert_send S t \<and> delivered_terminal t w) \<or> imm \<and> (\<exists>op. e = convert_send_op op))"
  have "?Q (c', w') a"
  proof (rule drive_invariant [OF d, where P = ?P and Q = ?Q])
    show "?P i c w" using ok by blast
    show "?P i c (env_run P sched n w)" if "?P i c w" for n i c w
    proof -
      from that env_run_slots have "slots_ok rq rrx (env_run P sched n w)" by blast
      moreover have "conn_backed (env_run P sched n w)" using calculation by (simp add: slots_ok_def)
      ultimately show ?thesis using that env_run_slots [of w sched n] unfolding backed_input_def by blast
    qed
    show "?P i' c' w'" if "?P i c w" "f i (c, w) = ((c', w'), Continue i')" for i c w c' w' i'
    proof -
      have "backed_input i' c' w' \<and> L i'" using iter [of i c w] that by (simp add: iteration_ok_def)
      moreover have "send_effect (sp_env P) (sp_native P) w w'" using eff [of i w c] that by simp
      ultimately show ?thesis using that(1) send_effect_slots unfolding backed_input_def by blast
    qed
    show "?Q (c', w') a" if "?P i c w" "f i (c, w) = ((c', w'), Return a)" for i c w c' w' a
    proof -
      have e: "send_effect (sp_env P) (sp_native P) w w'" using eff [of i w c] that by simp
      have "conn_backed w'" using ret [rule_format, OF that(2)] send_effect_slot [OF e] that(1)
        unfolding slots_ok_def conn_backed_iff by simp
      with e that(1) send_effect_slots have "slots_ok rq rrx w'" by blast
      then show ?thesis using iter [of i c w] that by (simp add: iteration_ok_def)
    qed
  qed
  then show ?thesis by simp
qed

lemma poll_ready_slots:
  assumes "slots_ok rq rrx w" and r: "poll_ready (sp_env P) (env_run P sched) cx (s, w) = Some ((s', w'), r)"
  shows "slots_ok rq rrx w' \<and> (\<forall>t. r = PollReady (Err (ConnectionErrorIncoming (convert_conn t))) \<longrightarrow>
    (\<forall>m. t \<noteq> CT_Internal m) \<longrightarrow> frozen_cause t w')"
proof (cases "finish_started (ss_reducer s)")
  case True
  have bk: "conn_backed w" using assms(1) by (simp add: slots_ok_def)
  show ?thesis
  proof (cases "resolve_terminal w")
    case None
    with True r assms(1) show ?thesis by (auto simp: poll_ready_def) (metis convert_conn.simps(5) convert_conn_inj)
  next
    case (Some x)
    have eff: "send_effect (sp_env P) (sp_native P) w (fst (commit_send_winner x w))" by (rule se_commit)
    have w': "w' = fst (commit_send_winner x w)"
      "r = PollReady (Err (convert_send (se_status (sp_env P)) (snd (commit_send_winner x w))))"
      using True r Some by (auto simp: poll_ready_def case_prod_beta)
    have "conn_backed w'" using bk by (simp add: w' conn_backed_iff commit_send_winner_slots)
    with eff assms(1) w'(1) send_effect_slots have ok: "slots_ok rq rrx w'" by blast
    have "frozen_cause t w'" if "r = PollReady (Err (ConnectionErrorIncoming (convert_conn t)))" "\<forall>m. t \<noteq> CT_Internal m" for t
    proof (cases "send_is_provisional x")
      case True
      with that(1) w'(2) show ?thesis by (cases x) (auto simp: commit_send_winner_def)
    next
      case False
      have "delivered_terminal (snd (commit_send_winner x w)) w'"
        unfolding w'(1) by (rule commit_send_winner_delivered [OF False]) (use Some resolve_terminal_backed [OF bk] in auto)
      with that w'(2) delivered_conn show ?thesis by simp
    qed
    with ok show ?thesis by blast
  qed
next
  case False
  obtain v p x where i: "poll_ready_input (sp_env P) cx w = (v, PollReadyIn p x)" and v: "v = fst (poll_send_channel (sp_env P) cx w)"
    and x: "x = resolve_terminal v" by (cases "poll_send_channel (sp_env P) cx w") (simp add: poll_ready_input_def)
  have okv: "slots_ok rq rrx v" and bv: "conn_backed v" unfolding v by (rule poll_channel_slots [OF assms(1)])+
  have "drive (env_run P sched) (poll_ready_iter (sp_env P) cx) loop_fuel (PollReadyIn p x) (s, v) = Some ((s', w'), r)"
    using r False i by (simp add: poll_ready_def)
  from drive_slots [OF poll_ready_backed poll_ready_iter_effect iter_return_slots(1) this okv resolve_input_backed(1) [OF bv, folded x]]
  have "slots_ok rq rrx w'" "\<And>e. poll_error r = Some e \<Longrightarrow> \<exists>t. e = convert_send (se_status (sp_env P)) t \<and> delivered_terminal t w'"
    by auto
  then show ?thesis using delivered_report by blast
qed

lemma poll_finish_slots:
  assumes "slots_ok rq rrx w"
    and r: "poll_finish (sp_env P) (env_run P sched) (stream_executor (sp_native P)) cx (s, w) = Some ((s', w'), r)"
  shows "slots_ok rq rrx w' \<and> (\<forall>t. r = PollReady (Err (ConnectionErrorIncoming (convert_conn t))) \<longrightarrow>
    (\<forall>m. t \<noteq> CT_Internal m) \<longrightarrow> frozen_cause t w')"
proof -
  obtain v p x where i: "poll_finish_input (sp_env P) cx w = (v, PollFinishIn p x)" and v: "v = fst (poll_send_channel (sp_env P) cx w)"
    and x: "x = resolve_terminal v" by (cases "poll_send_channel (sp_env P) cx w") (simp add: poll_finish_input_def)
  have okv: "slots_ok rq rrx v" and bv: "conn_backed v" unfolding v by (rule poll_channel_slots [OF assms(1)])+
  have "drive (env_run P sched) (poll_finish_iter (sp_env P) (stream_executor (sp_native P)) cx) loop_fuel (PollFinishIn p x) (s, v) =
    Some ((s', w'), r)" using r i by (simp add: poll_finish_def)
  from drive_slots [OF poll_finish_backed poll_finish_iter_effect iter_return_slots(2) this okv resolve_input_backed(2) [OF bv, folded x]]
  have "slots_ok rq rrx w'" "\<And>e. poll_error r = Some e \<Longrightarrow> \<exists>t. e = convert_send (se_status (sp_env P)) t \<and> delivered_terminal t w'"
    by auto
  then show ?thesis using delivered_report by blast
qed

lemma send_data_slots:
  assumes "slots_ok rq rrx w"
    and r: "send_data (sp_env P) (env_run P sched) (stream_executor (sp_native P)) ref_from Bu wb (s, w) = Some ((s', w'), r)"
  shows "slots_ok rq rrx w' \<and> (\<forall>t. r = Err (ConnectionErrorIncoming (convert_conn t)) \<longrightarrow>
    (\<forall>m. t \<noteq> CT_Internal m) \<longrightarrow> frozen_cause t w')"
proof -
  have bk: "conn_backed w" using assms(1) by (simp add: slots_ok_def)
  obtain wb' pl where "drive (env_run P sched) (send_data_iter (sp_env P) (stream_executor (sp_native P)) ref_from Bu) loop_fuel
      (SendRequested pl (resolve_terminal w)) ((s, wb), w) = Some (((s', wb'), w'), r)"
    using r by (auto simp: send_data_def split: option.splits prod.splits)
  from drive_slots [OF send_data_backed send_data_iter_effect iter_return_slots(3) this assms(1) resolve_input_backed(3) [OF bk]]
  have ok: "slots_ok rq rrx w'" and e: "\<And>e. result_error r = Some e \<Longrightarrow>
      (\<exists>t. e = convert_send (se_status (sp_env P)) t \<and> delivered_terminal t w') \<or> (\<exists>op. e = convert_send_op op)"
    by simp_all
  have op: "convert_send_op op \<noteq> ConnectionErrorIncoming (convert_conn t)" if "\<forall>m. t \<noteq> CT_Internal m" for op t
    using that by (cases op; cases t) auto
  have "frozen_cause t w'" if "r = Err (ConnectionErrorIncoming (convert_conn t))" "\<forall>m. t \<noteq> CT_Internal m" for t
    using e [of "ConnectionErrorIncoming (convert_conn t)"] that op [OF that(2)] delivered_conn by (metis result_error.simps(1))
  with ok show ?thesis by blast
qed

lemma reset_slots:
  assumes "slots_ok rq rrx w"
    and r: "reset (sp_env P) (env_run P sched) (stream_executor (sp_native P)) code (s, w) = Some (s', w')"
  shows "slots_ok rq rrx w'"
proof -
  have bk: "conn_backed w" using assms(1) by (simp add: slots_ok_def)
  obtain a where "drive (env_run P sched) (reset_iter (sp_env P) (stream_executor (sp_native P))) loop_fuel
      (ResetIn (clamp_application_code code) (resolve_terminal w)) (s, w) = Some ((s', w'), a)"
    using r by (auto simp: reset_def)
  from drive_slots [OF reset_backed reset_iter_effect iter_return_slots(4) this assms(1) reset_input_backed(1) [OF bk]]
  show ?thesis by simp
qed

lemma poll_data_slots:
  assumes "slots_ok rq rrx w" and op: "\<not> rs_receive_closed rs" "rs_terminal rs = None"
    and r: "poll_data (sp_env P) (recv_stream_executor (sp_native P)) cx (rs, w) = ((rs', w'), polled)"
  shows "slots_ok rq rrx w' \<and> (\<forall>t. polled = PollReady (Err (ConnectionErrorIncoming (convert_conn t))) \<longrightarrow>
    (\<forall>m. t \<noteq> CT_Internal m) \<longrightarrow> frozen_cause t w')"
proof -
  have ok: "rrx (w_recv w)" "recv_backed rq w" "ct_observed (w_conn_slot w) \<longrightarrow> ct_terminal (w_conn_slot w) \<noteq> None"
    using assms(1) unfolding slots_ok_def by blast+
  note fr = receive_connection_cause_frozen [OF recv.mpsc_channel_axioms ok(1,2) op r]
  obtain ch p where p: "poll_next (se_recv (sp_env P)) cx (w_recv w) = (ch, p)" by fastforce
  have ch: "rrx ch" using recv.poll_ends [OF ok(1), of cx] p by simp
  have items: "rq (w_recv w) = (case p of PollReady (Some e) \<Rightarrow> e # rq ch | _ \<Rightarrow> rq ch)"
    using recv.poll_preserves_items [OF ok(1), of cx] unfolding p fst_conv snd_conv .
  have sub: "set (rq ch) \<subseteq> set (rq (w_recv w))" unfolding items by (auto split: poll.split option.split)
  have w': "w_recv w' = ch \<and> w_send_slot w' = w_send_slot w"
  proof (cases "\<exists>b. p = PollReady (Some (RE_Data b))")
    case True
    with poll_data_eqs(1) [OF op p] r show ?thesis by auto
  next
    case False
    with poll_data_no_data [OF op p _ r] obtain sl where "w' = w\<lparr>w_recv := ch, w_conn_slot := sl\<rparr>" by blast
    then show ?thesis by simp
  qed
  have obs: "ct_observed (w_conn_slot w') \<longrightarrow> ct_terminal (w_conn_slot w') \<noteq> None"
    using fr ok(3) by (auto simp: frozen_cause_def)
  have slots: "slots_ok rq rrx w'" using assms(1) w' ch sub obs fr unfolding slots_ok_iff by auto
  have "frozen_cause t w'" if "polled = PollReady (Err (ConnectionErrorIncoming (convert_conn t)))" "\<forall>m. t \<noteq> CT_Internal m" for t
  proof -
    from poll_data_shape [OF r] that(1) op obtain x where x: "rs_terminal rs' = Some x"
      "convert_recv x = Err (ConnectionErrorIncoming (convert_conn t))" by auto
    then have "x = RT_Connection t" using that(2) by (cases x; cases t) (simp_all add: convert_conn_eqs)
    with x fr show ?thesis by blast
  qed
  with slots show ?thesis by blast
qed

text \<open>The invariant of the system.\<close>

lemma stream_step_slots:
  assumes "stream_step P w w'" and "slots_ok rq rrx w"
  shows "slots_ok rq rrx w'"
  using assms(1)
proof (cases rule: stream_step.cases)
  case (sy_data rs cx rs' polled)
  then have "w' = w" if "rs_receive_closed rs \<or> rs_terminal rs \<noteq> None"
    using that by (cases "rs_receive_closed rs") (auto simp: poll_data_closed poll_data_replay)
  moreover have "slots_ok rq rrx w'" if "\<not> rs_receive_closed rs" "rs_terminal rs = None"
    using poll_data_slots [OF assms(2) that sy_data(2)] by (elim conjE)
  ultimately show ?thesis using assms(2) by blast
next
  case (sy_stop rs code rs')
  from stop_sending_effect [OF this(2)] have e: "send_effect (sp_env P) (sp_native P) w w'" .
  have "w_send_slot w' = w_send_slot w"
    using sy_stop(2) by (auto simp: stop_sending_def recv_stream_executor_def slots_frame Let_def split: prod.splits)
      (metis fst_conv slots_frame(5))
  with send_effect_slot [OF e] assms(2) have "conn_backed w'" by (simp add: slots_ok_iff conn_backed_iff del: not_None_eq)
  with send_effect_slots [OF e assms(2)] show ?thesis by blast
next
  case (sy_env move)
  with env_step_slots [OF assms(2), of move] show ?thesis by simp
next
  case (sy_ready s sched cx s' r)
  from poll_ready_slots [OF assms(2) this(2)] show ?thesis by (elim conjE)
next
  case (sy_finish s sched cx s' r)
  from poll_finish_slots [OF assms(2) this(2)] show ?thesis by (elim conjE)
next
  case (sy_send s sched wb s' r)
  from send_data_slots [OF assms(2) this(2)] show ?thesis by (elim conjE)
next
  case (sy_reset s sched code s')
  from reset_slots [OF assms(2) this(2)] show ?thesis .
qed

lemma stream_reach_slots:
  assumes "stream_reach P w"
  shows "slots_ok rq rrx w"
proof -
  obtain w0 where w0: "stream_initial P w0" "(stream_step P)\<^sup>*\<^sup>* w0 w" using assms by (auto simp: stream_reach_def)
  have "slots_ok rq rrx w0"
    using w0(1) by (auto simp: stream_initial_def slots_ok_iff stream_ctx_channel_pre_id_def recv.new_view new_send_terminal_slot_def)
  with w0(2) show ?thesis by (induction rule: rtranclp_induct) (auto intro: stream_step_slots)
qed

lemma reports_frozen:
  assumes "stream_reports P w t w'" and "slots_ok rq rrx w" and "\<forall>m. t \<noteq> CT_Internal m"
  shows "frozen_cause t w' \<and> slots_ok rq rrx w'"
  using assms(1)
proof (cases rule: stream_reports.cases)
  case (sr_ready s sched cx s')
  from poll_ready_slots [OF assms(2) this(2)] assms(3) show ?thesis by simp
next
  case (sr_finish s sched cx s')
  from poll_finish_slots [OF assms(2) this(2)] assms(3) show ?thesis by simp
next
  case (sr_send s sched wb s')
  from send_data_slots [OF assms(2) this(2)] assms(3) show ?thesis by simp
next
  case (sr_data rs cx rs')
  from poll_data_slots [OF assms(2) this(2-4)] assms(3) show ?thesis by simp
qed

end

interpretation ref_system: stream_system ref_sys fifo_items fifo_tx fifo_rx fifo_parked
    fifo_items fifo_tx fifo_rx fifo_parked cell_value cell_tx cell_waiting
  by (rule stream_system.intro) (simp_all add: ref_sys_def ref_stream.stream_channels_axioms stream_system_axioms_def)

section \<open>A frozen cause stays\<close>

lemma frozen_slot_step: "ct_observed sl \<Longrightarrow> ct_terminal (conn_slot_step op sl) = ct_terminal sl \<and> ct_observed (conn_slot_step op sl)"
  by (cases op) (simp_all add: slot_simps observe_conn_winner_def ct_observe_def commit_conn_def)

lemma frozen_env_step:
  assumes "frozen_cause t w"
  shows "frozen_cause t (env_step P move w)"
proof (cases move)
  case (MoveSlot op)
  with assms frozen_slot_step [of "w_conn_slot w" op] show ?thesis by (auto simp: frozen_cause_def)
next
  case (MoveCallback c ev)
  have "frozen_cause t (snd (fst (stream_callback (sp_env P) ev (c, w\<lparr>w_native := n\<rparr>))))" for n
    using callback_slots [of "sp_env P" ev "(c, w\<lparr>w_native := n\<rparr>)"] assms
    by (auto simp: frozen_cause_def slot_simps split: option.splits)
  from this [of "w_native w"] this show ?thesis using assms
    by (auto simp: MoveCallback callback_move_def simp del: stream_callback.simps split: stream_event.split)
qed

lemma frozen_poll_data:
  assumes "frozen_cause t w" and op: "\<not> rs_receive_closed rs" "rs_terminal rs = None"
    and r: "poll_data E (recv_stream_executor N) cx (rs, w) = ((rs', w'), polled)"
  shows "frozen_cause t w'"
proof -
  obtain ch p where p: "poll_next (se_recv E) cx (w_recv w) = (ch, p)" by fastforce
  note eqs = poll_data_eqs [OF op p]
  show ?thesis
  proof (cases p)
    case PollPending
    with assms(1) r show ?thesis by (auto simp: eqs frozen_cause_def)
  next
    case (PollReady q)
    show ?thesis
    proof (cases q)
      case None
      with PollReady assms(1) r show ?thesis by (auto simp: eqs frozen_cause_def)
    next
      case (Some ev)
      with PollReady assms(1) r show ?thesis by (cases ev) (auto simp: eqs frozen_cause_def)
    qed
  qed
qed

lemma frozen_stream_step:
  assumes "stream_step P w w'" and "frozen_cause t w"
  shows "frozen_cause t w'"
proof (rule stream_step_preserves [OF assms(1), where I = "frozen_cause t"])
  show "frozen_cause t w'" if "frozen_cause t w" "send_effect (sp_env P) (sp_native P) w w'" for w w'
    using that send_effect_slot [OF that(2)] by (simp add: frozen_cause_def)
qed (use assms(2) frozen_env_step frozen_poll_data in blast)+

lemma frozen_stream_steps: "(stream_step P)\<^sup>*\<^sup>* w w' \<Longrightarrow> frozen_cause t w \<Longrightarrow> frozen_cause t w'"
  by (induction rule: rtranclp_induct) (auto intro: frozen_stream_step)

section \<open>Properties of the system\<close>

lemma ref_initial:
  "stream_initial ref_sys (snd (stream_ctx_channel_pre_id ref_env conn_terminal_default h3_config_default []))"
  unfolding stream_initial_def by (rule exI [of _ conn_terminal_default]) (auto simp: ref_sys_def conn_terminal_default_def)

text \<open>
  C10: boxed send buffers are neither leaked nor freed twice. However the callback, the two halves
  and the other users of the connection slot interleave, the boxes alive are exactly those the
  native library holds, no freed box is alive or freed again, and every box ever made is one or the
  other.
\<close>

theorem send_boxes_reclaimed_once:
  assumes "send_contract P" and "stream_reach P w"
  shows "dom (w_heap w) = sp_holds P (w_native w) \<and> distinct (w_frees w) \<and>
    set (w_frees w) \<inter> dom (w_heap w) = {} \<and> set (w_frees w) \<union> dom (w_heap w) = {1..<w_next w}"
  using send_contract.stream_reach_boxes [OF assms] unfolding boxes_ok_def by (elim conjE) (intro conjI)

theorem send_boxes_reclaimed_once_witness:
  "\<exists>w. stream_reach ref_sys w \<and> w_next w = 3 \<and> w_frees w = [1] \<and> dom (w_heap w) = {2}"
proof -
  let ?w0 = "snd (stream_ctx_channel_pre_id ref_env conn_terminal_default h3_config_default ([] :: nat list))"
  let ?send = "\<lambda>wb st. send_data ref_env calm (stream_executor hold_native) native_buffer_ref slice_buf wb st"
  let ?w1 = "snd (fst (the (?send (50, [1, 2]) (ref_sctx, ?w0))))"
  let ?w2 = "env_step ref_sys (MoveCallback stream_ctx_new (SE_SendComplete False 1)) ?w1"
  let ?w3 = "snd (fst (the (?send (60, [3]) (ref_sctx, ?w2))))"
  have run: "env_run ref_sys (\<lambda>_. []) = calm" by (intro ext) (simp add: env_run_def calm_def)
  have sys: "sp_id ref_sys = 4" "sp_env ref_sys = ref_env" "sp_native ref_sys = hold_native"
    "sp_ref_from ref_sys = native_buffer_ref" "sp_buf ref_sys = slice_buf" by (simp_all add: ref_sys_def)
  have send: "stream_step ref_sys w (snd (fst (the (?send wb (ref_sctx, w)))))" for wb w
  proof -
    obtain s' w' r where r: "?send wb (ref_sctx, w) = Some ((s', w'), r)"
      using send_data_returns [of ref_env calm "stream_executor hold_native" native_buffer_ref slice_buf wb "(ref_sctx, w)"]
      by auto
    show ?thesis
      unfolding r option.sel fst_conv snd_conv
      by (rule sy_send [where P = ref_sys and s = ref_sctx and sched = "\<lambda>_. []" and wb = wb and s' = s' and r'' = r])
        (simp_all add: run sys r, simp add: ref_sctx_def)
  qed
  have "(stream_step ref_sys)\<^sup>*\<^sup>* ?w0 ?w3"
    using send [of ?w0 "(50, [1, 2])"] sy_env [of ref_sys ?w1] send [of ?w2 "(60, [3])"]
    by (meson rtranclp.rtrancl_into_rtrancl rtranclp.rtrancl_refl)
  with ref_initial have reach: "stream_reach ref_sys ?w3" unfolding stream_reach_def by blast
  have v: "w_next ?w3 = 3" "w_frees ?w3 = [1]" "w_native ?w3 = [2]" by code_simp+
  from send_boxes_reclaimed_once [OF ref_contract.send_contract_axioms reach]
  have "dom (w_heap ?w3) = sp_holds ref_sys (w_native ?w3)" by (elim conjE)
  then have "dom (w_heap ?w3) = {2}" unfolding v by (simp add: ref_sys_def)
  with reach v show ?thesis by blast
qed



end
