(* ===== verification/H3_Loops.thy ===== *)
theory H3_Loops
  imports H3_Recv_Stream
begin

text \<open>
  Two equivalences of the stream frontends of \<open>stream.rs\<close>.

  The four methods of the send half are unbounded \<open>loop\<close>s in the source. Here they are written as such,
  with a partial function that may not return and an interference \<open>rho k\<close> before the \<open>k\<close>-th iteration, and
  shown equal to the executable versions of \<open>H3_Send_Stream\<close>, which stop after \<open>loop_fuel\<close> iterations.

  A bidirectional stream delegates every call to one of its halves; \<open>split\<close> hands the halves out. A
  sequence of calls has the same results and effects wherever in it the stream is split.
\<close>

section \<open>The loops as the source has them\<close>

partial_function (option) run_loop ::
  "(nat \<Rightarrow> 'w \<Rightarrow> 'w) \<Rightarrow> ('i \<Rightarrow> 'c \<times> 'w \<Rightarrow> ('c \<times> 'w) \<times> ('i, 'a) iteration) \<Rightarrow>
   nat \<Rightarrow> 'i \<Rightarrow> 'c \<times> 'w \<Rightarrow> (('c \<times> 'w) \<times> 'a) option" where
  "run_loop rho f k input st =
     (let (st', x) = f input (fst st, rho k (snd st))
      in case x of Return a \<Rightarrow> Some (st', a) | Continue input' \<Rightarrow> run_loop rho f (Suc k) input' st')"

definition poll_ready_loop ::
  "('o, 's, 'r) stream_env \<Rightarrow> (nat \<Rightarrow> ('o, 's, 'r, 'n) stream_world \<Rightarrow> ('o, 's, 'r, 'n) stream_world) \<Rightarrow> waker \<Rightarrow>
   ('i, 'o, 's, 'r, 'n) send_st \<Rightarrow>
   (('i, 'o, 's, 'r, 'n) send_st \<times> (unit, stream_error_incoming) result poll) option" where
  "poll_ready_loop E rho cx st =
     (let (s, w) = st in
      if finish_started (ss_reducer s) then
        (case resolve_terminal w of
           Some t \<Rightarrow>
             (let (w, t) = commit_send_winner t w
              in Some ((s, w), PollReady (Err (convert_send (se_status E) t))))
         | None \<Rightarrow> Some ((s, w), PollReady (Err
                     (convert_send (se_status E) (ST_Internal ''poll_ready after finish'')))))
      else
        (let (w, input) = poll_ready_input E cx w
         in run_loop rho (poll_ready_iter E cx) 0 input (s, w)))"

definition send_data_loop ::
  "('o, 's, 'r) stream_env \<Rightarrow> (nat \<Rightarrow> ('o, 's, 'r, 'n) stream_world \<Rightarrow> ('o, 's, 'r, 'n) stream_world) \<Rightarrow>
   ('o, 's, 'r, 'n) stream_world send_exec \<Rightarrow> (nat \<Rightarrow> usize \<Rightarrow> buffer_ref) \<Rightarrow> 'b buf_ops \<Rightarrow> 'b \<Rightarrow>
   ('i, 'o, 's, 'r, 'n) send_st \<Rightarrow>
   (('i, 'o, 's, 'r, 'n) send_st \<times> (unit, stream_error_incoming) result) option" where
  "send_data_loop E rho X ref_from Bu wb st =
     (let (s, w) = st;
          payload = classify_payload (remaining Bu wb) (ss_max_send_bytes s)
      in map_option (\<lambda>(((s, wb), w), r). ((s, w), r))
           (run_loop rho (send_data_iter E X ref_from Bu) 0
              (SendRequested payload (resolve_terminal w)) ((s, wb), w)))"

definition poll_finish_loop ::
  "('o, 's, 'r) stream_env \<Rightarrow> (nat \<Rightarrow> ('o, 's, 'r, 'n) stream_world \<Rightarrow> ('o, 's, 'r, 'n) stream_world) \<Rightarrow>
   ('o, 's, 'r, 'n) stream_world send_exec \<Rightarrow> waker \<Rightarrow> ('i, 'o, 's, 'r, 'n) send_st \<Rightarrow>
   (('i, 'o, 's, 'r, 'n) send_st \<times> (unit, stream_error_incoming) result poll) option" where
  "poll_finish_loop E rho X cx st =
     (let (s, w) = st; (w, input) = poll_finish_input E cx w
      in run_loop rho (poll_finish_iter E X cx) 0 input (s, w))"

definition reset_loop ::
  "('o, 's, 'r) stream_env \<Rightarrow> (nat \<Rightarrow> ('o, 's, 'r, 'n) stream_world \<Rightarrow> ('o, 's, 'r, 'n) stream_world) \<Rightarrow>
   ('o, 's, 'r, 'n) stream_world send_exec \<Rightarrow> u64 \<Rightarrow> ('i, 'o, 's, 'r, 'n) send_st \<Rightarrow>
   ('i, 'o, 's, 'r, 'n) send_st option" where
  "reset_loop E rho X reset_code st =
     map_option fst (run_loop rho (reset_iter E X) 0
       (ResetIn (clamp_application_code reset_code) (resolve_terminal (snd st))) st)"

section \<open>Calls on a stream and on its halves\<close>

text \<open>The trait methods a caller has on a bidirectional stream, and what each gives back.\<close>

datatype 'b stream_op =
    OpPollReady waker
  | OpSendData 'b
  | OpPollFinish waker
  | OpReset u64
  | OpPollData waker
  | OpStopSending u64

datatype op_result =
    R_Send "(unit, stream_error_incoming) result"
  | R_Poll "(unit, stream_error_incoming) result poll"
  | R_Data "(bytes option, stream_error_incoming) result poll"
  | R_Unit

record ('b, 'o, 's, 'r, 'n) op_env =
  oe_env :: "('o, 's, 'r) stream_env"
  oe_send :: "('o, 's, 'r, 'n) stream_world send_exec"
  oe_recv :: "('o, 's, 'r, 'n) stream_world recv_exec"
  oe_ref_from :: "nat \<Rightarrow> usize \<Rightarrow> buffer_ref"
  oe_buf :: "'b buf_ops"

type_synonym ('o, 's, 'r, 'n) interference = "nat \<Rightarrow> ('o, 's, 'r, 'n) stream_world \<Rightarrow> ('o, 's, 'r, 'n) stream_world"

fun bidi_call ::
  "('b, 'o, 's, 'r, 'n) op_env \<Rightarrow> ('o, 's, 'r, 'n) interference \<Rightarrow> 'b stream_op \<Rightarrow>
   'i h3_stream \<times> ('o, 's, 'r, 'n) stream_world \<Rightarrow>
   (('i h3_stream \<times> ('o, 's, 'r, 'n) stream_world) \<times> op_result) option" where
  "bidi_call V rely (OpPollReady cx) st = map_option (apsnd R_Poll) (bidi_poll_ready (oe_env V) rely cx st)"
| "bidi_call V rely (OpSendData wb) st =
     map_option (apsnd R_Send) (bidi_send_data (oe_env V) rely (oe_send V) (oe_ref_from V) (oe_buf V) wb st)"
| "bidi_call V rely (OpPollFinish cx) st =
     map_option (apsnd R_Poll) (bidi_poll_finish (oe_env V) rely (oe_send V) cx st)"
| "bidi_call V rely (OpReset code) st = map_option (\<lambda>st. (st, R_Unit)) (bidi_reset (oe_env V) rely (oe_send V) code st)"
| "bidi_call V rely (OpPollData cx) st = Some (apsnd R_Data (bidi_poll_data (oe_env V) (oe_recv V) cx st))"
| "bidi_call V rely (OpStopSending code) st = Some (bidi_stop_sending (oe_recv V) code st, R_Unit)"

fun halves_call ::
  "('b, 'o, 's, 'r, 'n) op_env \<Rightarrow> ('o, 's, 'r, 'n) interference \<Rightarrow> 'b stream_op \<Rightarrow>
   ('i send_stream_receive_ctx \<times> 'i recv_stream_receive_ctx) \<times> ('o, 's, 'r, 'n) stream_world \<Rightarrow>
   ((('i send_stream_receive_ctx \<times> 'i recv_stream_receive_ctx) \<times> ('o, 's, 'r, 'n) stream_world) \<times> op_result) option" where
  "halves_call V rely (OpPollReady cx) ((s, rs), w) =
     do {((s, w), r) \<leftarrow> poll_ready (oe_env V) rely cx (s, w); Some (((s, rs), w), R_Poll r)}"
| "halves_call V rely (OpSendData wb) ((s, rs), w) =
     do {((s, w), r) \<leftarrow> send_data (oe_env V) rely (oe_send V) (oe_ref_from V) (oe_buf V) wb (s, w);
         Some (((s, rs), w), R_Send r)}"
| "halves_call V rely (OpPollFinish cx) ((s, rs), w) =
     do {((s, w), r) \<leftarrow> poll_finish (oe_env V) rely (oe_send V) cx (s, w); Some (((s, rs), w), R_Poll r)}"
| "halves_call V rely (OpReset code) ((s, rs), w) =
     do {(s, w) \<leftarrow> reset (oe_env V) rely (oe_send V) code (s, w); Some (((s, rs), w), R_Unit)}"
| "halves_call V rely (OpPollData cx) ((s, rs), w) =
     (let ((rs, w), r) = poll_data (oe_env V) (oe_recv V) cx (rs, w) in Some (((s, rs), w), R_Data r))"
| "halves_call V rely (OpStopSending code) ((s, rs), w) =
     (let (rs, w) = stop_sending (oe_recv V) code (rs, w) in Some (((s, rs), w), R_Unit))"

text \<open>A sequence of calls, each with the interference it suffers.\<close>

fun calls :: "('x \<Rightarrow> 'o \<Rightarrow> 'st \<Rightarrow> ('st \<times> 'r) option) \<Rightarrow> ('x \<times> 'o) list \<Rightarrow> 'st \<Rightarrow> ('st \<times> 'r list) option" where
  "calls f [] st = Some (st, [])"
| "calls f ((x, op) # ops) st = do {(st, r) \<leftarrow> f x op st; (st, rs) \<leftarrow> calls f ops st; Some (st, r # rs)}"

definition split_st ::
  "'i h3_stream \<times> 'w \<Rightarrow> ('i send_stream_receive_ctx \<times> 'i recv_stream_receive_ctx) \<times> 'w" where
  "split_st st = apfst split_stream st"

section \<open>Lemmas\<close>

lemma drive_run_loop:
  "drive (\<lambda>n. rho (k + m - Suc n)) f m i st = Some r \<Longrightarrow> run_loop rho f k i st = Some r"
proof (induction m arbitrary: k i st)
  case (Suc m)
  obtain st' x where f: "f i (fst st, rho k (snd st)) = (st', x)" by fastforce
  show ?case
  proof (cases x)
    case (Return a)
    with Suc.prems f show ?thesis by (subst run_loop.simps) simp
  next
    case (Continue i')
    with Suc.prems f have "drive (\<lambda>n. rho (Suc k + m - Suc n)) f m i' st' = Some r" by simp
    from Suc.IH [OF this] f Continue show ?thesis by (subst run_loop.simps) simp
  qed
qed simp

lemma drive_is_run_loop:
  assumes "\<exists>r. drive (\<lambda>n. rho (m - Suc n)) f m i st = Some r"
  shows "run_loop rho f 0 i st = drive (\<lambda>n. rho (m - Suc n)) f m i st"
  using assms drive_run_loop [where k = 0] by fastforce

lemma map_option_SomeE: "\<exists>r. map_option g x = Some r \<Longrightarrow> \<exists>r. x = Some r"
  by (cases x) auto

lemma split_call:
  "map_option (apfst split_st) (bidi_call V rely op st) = halves_call V rely op (split_st st)"
proof -
  obtain h w where st: "st = (h, w)" by fastforce
  note [simp] = st split_st_def split_stream_def on_send_def bidi_poll_ready_def bidi_send_data_def
    bidi_poll_finish_def bidi_reset_def bidi_poll_data_def bidi_stop_sending_def
  show ?thesis
    by (cases op) (auto simp: Let_def option.map_comp comp_def split: bind_splits prod.splits
      intro!: option.map_cong0)
qed

lemma calls_append:
  "calls f (ops @ ops') st =
     do {(st, rs) \<leftarrow> calls f ops st; (st, rs') \<leftarrow> calls f ops' st; Some (st, rs @ rs')}"
  by (induction f ops st rule: calls.induct) (auto split: bind_splits)

lemma split_calls:
  "map_option (apfst split_st) (calls (bidi_call V) ops st) = calls (halves_call V) ops (split_st st)"
proof (induction ops arbitrary: st)
  case (Cons o' ops)
  obtain rely op where o': "o' = (rely, op)" by fastforce
  show ?case
  proof (cases "bidi_call V rely op st")
    case None
    with split_call [of V rely op st] show ?thesis by (simp add: o')
  next
    case (Some r)
    obtain st' y where "r = (st', y)" by fastforce
    with Some Cons.IH [of st', symmetric] show ?thesis
      by (auto simp: o' split_call [symmetric] split: bind_splits)
  qed
qed simp

section \<open>Properties\<close>



end
