(* ===== verification/H3_Codes.thy ===== *)
theory H3_Codes
  imports H3_Stream_System
begin

text \<open>
  The codes a stream hands to the native library. QUIC carries an application error code as a 62-bit
  variable-length integer; the crate clamps every code its caller gives before a native call
  (\<open>clamp_application_code\<close>), so that in every reachable world the codes the library was given are
  such integers, whatever the caller asked for.
\<close>

section \<open>Observing the codes\<close>

text \<open>The type of the codes that fit.\<close>

definition is_varint :: "u64 \<Rightarrow> bool" where
  "is_varint code \<longleftrightarrow> unat code < 2 ^ 62"

definition codes_ok :: "('n \<Rightarrow> u64 list) \<Rightarrow> ('o, 's, 'r, 'n) stream_world \<Rightarrow> bool" where
  "codes_ok codes w \<longleftrightarrow> list_all is_varint (codes (w_native w))"

text \<open>The logging native stream keeps the codes in its log.\<close>

fun shutdown_code :: "native_call \<Rightarrow> u64 list" where
  "shutdown_code (NC_Shutdown flags code) = [code]"
| "shutdown_code _ = []"

definition logged_codes :: "native_call list \<Rightarrow> u64 list" where
  "logged_codes log = concat (map shutdown_code (rev log))"

definition log_sys :: "(nat, nat \<times> bytes, (u64, status) result cell, send_event fifo, receive_event fifo, native_call list) sys_params" where
  "log_sys = \<lparr>sp_id = 4, sp_buf = slice_buf, sp_ref_from = native_buffer_ref, sp_env = ref_env, sp_native = log_native,
     sp_complete = (\<lambda>cc log. log), sp_holds = (\<lambda>log. {cc. \<exists>bufs. NC_Send bufs cc \<in> set log}),
     sp_sync = ctx_sync fifo_tx fifo_tx cell_tx\<rparr>"

section \<open>The contract of the log\<close>

text \<open>A native stream whose state remembers the code of each shutdown it was asked for.\<close>

locale code_log =
  fixes P :: "('i, 'b, 'o, 's, 'r, 'n) sys_params" and codes :: "'n \<Rightarrow> u64 list"
  assumes shutdown_codes: "codes (fst (ns_shutdown (sp_native P) flags code n)) = code # codes n"
    and send_codes: "codes (fst (ns_send (sp_native P) bufs cc n)) = codes n"
    and receive_complete_codes: "codes (ns_receive_complete (sp_native P) len n) = codes n"
    and complete_codes: "codes (sp_complete P cc n) = codes n"
begin

lemma codes_ok_view: "native_view w' = native_view w \<Longrightarrow> codes_ok codes w' = codes_ok codes w"
  by (simp add: native_view_def codes_ok_def)

lemma submit_codes:
  "codes (w_native (fst (submit_owned_send buf (ns_send (sp_native P)) w))) = codes (w_native w)"
  using submit_owned_send_view(1) [of buf "ns_send (sp_native P)" w] send_codes [of "buffers buf" "w_next w" "w_native w"]
  by (simp add: native_view_def)

lemma send_effect_codes:
  assumes "codes_ok codes w" and "send_effect (sp_env P) (sp_native P) w w'"
  shows "codes_ok codes w'"
  using assms(2)
proof (cases rule: send_effect.cases)
  case (se_shutdown code flags)
  then have "codes (w_native w') = code # codes (w_native w)"
    using shutdown_codes [of flags code "w_native w"] by (simp add: shutdown_call_def case_prod_beta)
  moreover have "is_varint code"
    using se_shutdown(2) by (simp add: is_varint_def word_le_nat_alt MAX_QUIC_VARINT_eq)
  ultimately show ?thesis using assms(1) by (simp add: codes_ok_def)
next
  case (se_submit buf)
  with assms(1) show ?thesis by (simp add: codes_ok_def submit_codes)
qed (use assms(1) in \<open>simp_all add: codes_ok_view [OF native_view_frame(1)] codes_ok_view [OF native_view_frame(2)]
    codes_ok_view [OF native_view_frame(3)]\<close>)

lemma callback_move_codes:
  assumes "codes_ok codes w"
  shows "codes_ok codes (callback_move P c ev w)"
proof (cases "\<exists>b cc. ev = SE_SendComplete b cc")
  case False
  then have "native_view (snd (fst (stream_callback (sp_env P) ev (c, w)))) = native_view w"
    using callback_native_view [of ev "sp_env P" "(c, w)"] by auto
  then have "codes_ok codes (snd (fst (stream_callback (sp_env P) ev (c, w))))" using assms codes_ok_view by blast
  with False assms show ?thesis
    by (cases ev) (simp_all add: callback_move_def del: stream_callback.simps)
next
  case True
  then obtain b cc where ev: "ev = SE_SendComplete b cc" by blast
  have "w_native (snd (cb_SendComplete E b cc (c, v))) = w_native v" for E and v :: "('o, 's, 'r, 'n) stream_world"
    using callback_helper_view [where st = "(c, v)"]
    by (simp add: cb_SendComplete_def stream_defs box_drop_def)
  with assms show ?thesis by (simp add: callback_move_def ev codes_ok_def complete_codes)
qed

lemma env_step_codes: "codes_ok codes w \<Longrightarrow> codes_ok codes (env_step P move w)"
  using codes_ok_view [OF native_view_simps(6)] by (cases move) (auto simp: callback_move_codes)

lemma poll_data_codes:
  assumes "codes_ok codes w" and op: "\<not> rs_receive_closed rs" "rs_terminal rs = None"
    and r: "poll_data (sp_env P) (recv_stream_executor (sp_native P)) cx (rs, w) = ((rs', w'), polled)"
  shows "codes_ok codes w'"
proof -
  obtain ch p where p: "poll_next (se_recv (sp_env P)) cx (w_recv w) = (ch, p)" by fastforce
  show ?thesis
  proof (cases "\<exists>b. p = PollReady (Some (RE_Data b))")
    case True
    then obtain b where "p = PollReady (Some (RE_Data b))" by blast
    from poll_data_eqs(1) [OF op p this, of "sp_native P"] assms(1) r show ?thesis
      by (auto simp: codes_ok_def receive_complete_codes split: option.splits)
  next
    case False
    with poll_data_no_data [OF op p _ r] have "w' = w\<lparr>w_recv := ch, w_conn_slot := w_conn_slot w'\<rparr>" by blast
    then have "native_view w' = native_view w" by (metis native_view_simps(1,6))
    with assms(1) codes_ok_view show ?thesis by blast
  qed
qed

lemma stream_step_codes: "stream_step P w w' \<Longrightarrow> codes_ok codes w \<Longrightarrow> codes_ok codes w'"
  by (erule stream_step_preserves) (use env_step_codes send_effect_codes poll_data_codes in blast)+

lemma stream_steps_codes: "(stream_step P)\<^sup>*\<^sup>* w w' \<Longrightarrow> codes_ok codes w \<Longrightarrow> codes_ok codes w'"
  by (induction rule: rtranclp_induct) (auto intro: stream_step_codes)

end

interpretation log_codes: code_log log_sys logged_codes
  by unfold_locales (simp_all add: log_sys_def log_native_def logged_codes_def)

section \<open>Properties\<close>

text \<open>
  C20: the type of the codes. However the callback, the halves and the other users of the connection
  slot interleave, and whatever codes the caller passes to \<open>reset\<close> and \<open>stop_sending\<close>, every code the
  native library has been given by the stream is a 62-bit QUIC varint.
\<close>

theorem native_codes_are_varints:
  assumes "code_log P codes" and "stream_initial P w0" and "codes (w_native w0) = []" and "(stream_step P)\<^sup>*\<^sup>* w0 w"
  shows "\<forall>code \<in> set (codes (w_native w)). is_varint code"
proof -
  have "codes_ok codes w"
    by (rule code_log.stream_steps_codes [OF assms(1,4)]) (simp add: codes_ok_def assms(3))
  then show ?thesis by (simp add: codes_ok_def list_all_iff)
qed

theorem native_codes_are_varints_witness:
  "\<exists>w. (stream_step log_sys)\<^sup>*\<^sup>* (ref_world conn_terminal_default) w \<and> logged_codes (w_native w) = [MAX_QUIC_VARINT] \<and>
     is_varint MAX_QUIC_VARINT"
proof -
  let ?w0 = "ref_world conn_terminal_default"
  have sys: "sp_id log_sys = 4" "sp_env log_sys = ref_env" "sp_native log_sys = log_native" by (simp_all add: log_sys_def)
  have run: "env_run log_sys (\<lambda>_. []) = calm" by (intro ext) (simp add: env_run_def calm_def)
  obtain s' w' where r: "reset ref_env calm (stream_executor log_native) (- 1) (ref_sctx, ?w0) = Some (s', w')"
    using reset_returns [of ref_env calm "stream_executor log_native" "- 1" "(ref_sctx, ?w0)"] by auto
  have step: "stream_step log_sys ?w0 w'"
    by (rule sy_reset [where P = log_sys and s = ref_sctx and sched = "\<lambda>_. []" and code = "- 1" and s' = s'])
      (simp_all add: sys run r, simp add: ref_sctx_def)
  have "map_option (\<lambda>(s, w). logged_codes (w_native w))
      (reset ref_env calm (stream_executor log_native) (- 1) (ref_sctx, ?w0)) = Some [MAX_QUIC_VARINT]" by code_simp
  then have v: "logged_codes (w_native w') = [MAX_QUIC_VARINT]" unfolding r by simp
  have init: "stream_initial log_sys ?w0"
    unfolding stream_initial_def ref_world_def
    by (intro exI [of _ conn_terminal_default] exI [of _ h3_config_default] exI [of _ "[]"])
      (simp add: log_sys_def conn_terminal_default_def)
  have "logged_codes (w_native ?w0) = []" by code_simp
  have steps: "(stream_step log_sys)\<^sup>*\<^sup>* ?w0 w'" using step by (rule r_into_rtranclp)
  from native_codes_are_varints [OF log_codes.code_log_axioms init \<open>logged_codes (w_native ?w0) = []\<close> steps] v
  have "is_varint MAX_QUIC_VARINT" by simp
  with steps v show ?thesis by blast
qed

end
