(* ===== verification/Spec2Isabelle.thy ===== *)
theory Spec2Isabelle
  imports H3_Attest H3_Config_Tests H3_Error_Tests H3_Flood_Tests H3_Opener_Tests H3_Callback_Tests H3_Listener_Tests H3_Send_Seam
    H3_Peak_Alloc H3_Conformance_Tests H3_Conn_Loopback H3_Connect H3_Listener H3_Stream_System H3_Send_Cycle H3_Loops H3_Codes
begin

text \<open>
  Verification of \<open>msquic-h3\<close>, an adapter that runs the \<open>h3\<close> HTTP/3 stack over the native MsQuic
  library. The sources are the modules under \<open>src/msquic-h3/src\<close>.

  \<^bold>\<open>The program.\<close> MsQuic calls the adapter back on its own threads, once per stream, connection or
  listener event. A callback owns a sending context: it pushes events into \<open>futures\<close> channels,
  records the cause of a failure in shared slots, and answers the library with a status. The
  frontends \<open>h3\<close> polls (send half, receive half, connection, opener, listener) own the receiving
  contexts: they drain the channels, submit downcalls to the library and report one terminal cause.
  Every callback runs inside a guard that contains panics. A registration counts the handles that are
  alive, so that its owner can wait until all are gone.

  \<^bold>\<open>The theories.\<close> Each models one part, in the order of the code, and ends with its properties.

  \<^item> \<open>H3_Prelude\<close>: words, results, polls and wakers of the standard library; status codes; crate-root
    constants of \<open>lib.rs\<close>.
  \<^item> \<open>H3_Channels\<close>: the contract of \<open>futures\<close> channels as the locales \<open>mpsc_channel\<close> and
    \<open>oneshot_channel\<close>, and a first-in first-out queue and a cell that meet it.
  \<^item> \<open>H3_Error\<close> (\<open>error.rs\<close>): application-code clamp, terminal causes, their conversion to \<open>h3\<close> errors.
    A code the peer sent is the only application code reported, and clean end of stream is not confused
    with a failure.
  \<^item> \<open>H3_Reducer\<close> (\<open>error.rs\<close>, \<open>SendState::transition\<close>): the send-side state machine. One native
    submission per reservation, success only when justified, the provisional marker never surfaces.
  \<^item> \<open>H3_Terminal\<close> (\<open>terminal.rs\<close>): the connection slot and the send slot. Both refine one rule, the
    first authoritative writer wins; a delivered cause is frozen.
  \<^item> \<open>H3_Config\<close> (\<open>config.rs\<close>) and \<open>H3_Buffer\<close> (\<open>buffer.rs\<close>): exact validation, exact copies.
  \<^item> \<open>H3_Callback\<close> (\<open>callback.rs\<close>, \<open>lock_recover\<close> of \<open>lib.rs\<close>): \<open>guard_callback\<close> and the locale \<open>guarded_class\<close>,
    interpreted by the three callback classes; a poisoned lock still yields its value.
  \<^item> \<open>H3_Recv_Budget\<close> (\<open>stream.rs\<close>, \<open>RecvBudget\<close>): admission and draining on 64-bit words; the
    buffered bytes stay bounded and a pended stream is completed once it has drained.
  \<^item> \<open>H3_Stream\<close> (\<open>stream.rs\<close>): the stream callback, its poison disposition and panic recovery. The
    receive queue refines the sequence of events the library indicated.
  \<^item> \<open>H3_Send_Stream\<close> and \<open>H3_Recv_Stream\<close> (\<open>stream.rs\<close>): the two halves, stream construction and the
    combined stream. Errors are committed causes, payloads are submitted once, received bytes are
    delivered in order and then one terminal, no waker is lost.
  \<^item> \<open>H3_Stream_System\<close>: the callback, the two halves and the other users of the connection slot as one
    transition system, with its reachable worlds and invariants.
  \<^item> \<open>H3_Codes\<close>: on that system, every application code handed to the native stream is a QUIC variable-length
    integer, whatever code the caller of \<open>reset\<close> or \<open>stop_sending\<close> passes.
  \<^item> \<open>H3_Send_Cycle\<close>: the send direction end to end, payload by payload, up to the graceful finish.
  \<^item> \<open>H3_Loops\<close>: the four send loops as unbounded recursions, equal to the ones with fuel under every
    interference, and the stream before and after \<open>split\<close>, equal call by call.
  \<^item> \<open>H3_Loopback\<close>: two endpoints over one stream, joined by the documented behaviour of the library (locale
    \<open>quic_wire\<close>). In every interleaving of indications and polls the reader gets the sender's bytes in order and then the
    sender's end; the codes of \<open>reset\<close> and \<open>stop_sending\<close> arrive unchanged.
  \<^item> \<open>H3_Registration\<close> (\<open>registration.rs\<close>): rundown guards and \<open>wait_idle\<close> at the granularity of the
    atomic and locked steps.
  \<^item> \<open>H3_Connection\<close> (\<open>connection.rs\<close>), \<open>H3_Opener\<close> (\<open>opener.rs\<close>), \<open>H3_Listener\<close> (\<open>listener.rs\<close>): contexts,
    callbacks, recovery and frontends. Every native handle is disposed of exactly once, every waiter is
    released, an open delivers the stream it started or the connection's cause.
  \<^item> \<open>H3_Conn_Loopback\<close>: two connections. The code of a close arrives at the peer's accepts and opens, and a
    stream the peer opens is accepted with the connection's configuration and read.
  \<^item> \<open>H3_Connect\<close> (\<open>connection.rs\<close>, \<open>connect\<close>): the connect future through its polls and its drop.
  \<^item> \<open>H3_Attest\<close> (\<open>attest.rs\<close>): the attestation of the loaded native library. The hand-rolled digest is
    SHA-256 as FIPS 180-4 defines it.
  \<^item> \<open>H3_Scenario\<close> and the theories of unit tests: \<open>H3_Error_Tests\<close>, \<open>H3_Terminal_Tests\<close>, \<open>H3_Stream_Tests\<close>, \<open>H3_Flood_Tests\<close>,
    \<open>H3_Send_Seam\<close> (\<open>send_seam.rs\<close>), \<open>H3_Opener_Tests\<close>, \<open>H3_Callback_Tests\<close>, \<open>H3_Listener_Tests\<close> (with
    \<open>registration.rs\<close>), \<open>H3_Config_Tests\<close> (with \<open>buffer.rs\<close> and the carriers of \<open>connection.rs\<close>), \<open>H3_Conformance_Tests\<close>
    (\<open>conformance.rs\<close>, on a reference library between two endpoints, with the failpoint of \<open>H3_Failpoint\<close>). The tests of the crate with their
    builders and doubles, as programs over the models; a lemma \<open><name>_passes\<close> per test \<open>test_<name>\<close> evaluates it, and
    those of \<open>H3_Flood_Tests\<close>, whose data is too large, prove it. They
    validate the models against what the authors expect of the code, on the same inputs. \<open>H3_Send_Seam\<close> also
    proves that the counting double the tests submit to is the production executor over a scripted
    native stream.
  \<^item> \<open>H3_Peak_Alloc\<close> (\<open>buffer.rs\<close>, \<open>peak_alloc\<close>): the counting allocator of the memory gate measures the highest number of
    bytes an operation holds, on wrapping counters.
  \<^item> This theory: the cause is one for all frontends.

  \<^bold>\<open>State.\<close> What a callback and its frontends share is an explicit record (\<open>stream_world\<close>,
  \<open>conn_world\<close>, \<open>listener_world\<close>, \<open>open_world\<close>): the channels, the slots, the budget, the box heap and the native
  state. Owned contexts are records of flags: which sender is still held, what was sent, poisoned or
  not. An operation maps a context and a world to the new ones and its result. The connection slot is
  reached through an \<open>Arc\<close>; every record that holds it has a field for it, and \<open>H3_Stream_System\<close> lets its
  other holders act at any time.

  \<^bold>\<open>Parameters.\<close> Code outside the repository is an argument: channels (\<open>mpsc\<close>, \<open>oneshot\<close>), \<open>Status\<close> and its
  codes (\<open>status_ops\<close>), \<open>Buf\<close> (\<open>buf_ops\<close>), \<open>BufferRef::from\<close>, \<open>StreamId::try_from\<close> and the downcalls of the
  library (\<open>native_stream\<close>, \<open>native_open\<close>, \<open>native_conn\<close>, \<open>native_listener\<close>, \<open>native_registration\<close>). What is relied on is
  stated by locales: the two channel contracts, \<open>buf_source\<close>, \<open>native_streams\<close> and \<open>native_connections\<close> (opens and closes are counted),
  \<open>send_contract\<close> (an accepted send is held until completed), \<open>quic_wire\<close> and \<open>conn_wire\<close> (what a downcall does to the stream and
  the connection the peer sees; \<open>delivers\<close> lists the indications such a stream may cause). Each is interpreted on concrete
  functions, on which the witnesses evaluate.

  \<^bold>\<open>Interference and fuel.\<close> The four loops of the send half call \<open>drive\<close>, which applies an arbitrary
  interference \<open>rely\<close> to the shared world before every iteration. \<open>drive\<close> has fuel \<open>loop_fuel = 6\<close>;
  \<open>send_loops_return\<close> proves that it is never exhausted, since every iteration lowers a rank of the
  local bookkeeping and the input, at most five at the start.

  \<^bold>\<open>Drops and panics.\<close> Rust's drops are written out where they have an effect (closing a native handle,
  releasing a guard, dropping a channel end). A panic of a callback body is an argument: the body may
  stop at any state the theorem allows and the recovery runs from there. An \<open>async\<close> function is split at
  its await into a part before and a poll.

  \<^bold>\<open>Not modelled.\<close> \<open>tracing\<close>, \<open>Debug\<close>, \<open>debug_assert\<close> and the reporting of contained panics have no effect on
  the state. Outside \<open>H3_Callback\<close> a locked section is an update of the guarded value, since \<open>lock_recover\<close> yields it whether or not
  the lock was poisoned. \<open>test.rs\<close>, \<open>basic_server_test\<close> of \<open>listener.rs\<close> and \<open>feature_config_negative.rs\<close> run the \<open>h3\<close> server and
  client over a live library or a nested build, and the benchmark measures; they add no behaviour. Of
  \<open>conformance.rs\<close>, the settings and credentials handed to the library and the teardown are left out.
  Memory orderings are taken as sequentially consistent.
\<close>

section \<open>One connection cause for every frontend\<close>

text \<open>
  A frontend of the connection fails with the cause \<open>t\<close>: a half of the stream, an accept poll
  (\<open>observe_terminal\<close>), an open whose start was cancelled (\<open>stream_open_conn_error\<close>) or failed
  (\<open>prefer_terminal\<close>).
\<close>

inductive cause_reported ::
  "('i, 'b, 'o, 's, 'r, 'n) sys_params \<Rightarrow> ('o, 's, 'r, 'n) stream_world \<Rightarrow> connection_terminal \<Rightarrow> ('o, 's, 'r, 'n) stream_world \<Rightarrow> bool" for P where
  cr_stream: "stream_reports P w t w' \<Longrightarrow> cause_reported P w t w'"
| cr_accept: "observe_terminal (w_conn_slot w) = (sl, convert_conn t) \<Longrightarrow> cause_reported P w t (w\<lparr>w_conn_slot := sl\<rparr>)"
| cr_cancelled: "stream_open_conn_error (w_conn_slot w) = (sl, convert_conn t) \<Longrightarrow> cause_reported P w t (w\<lparr>w_conn_slot := sl\<rparr>)"
| cr_failed: "prefer_terminal status (w_conn_slot w) = (sl, ConnectionErrorIncoming (convert_conn t)) \<Longrightarrow>
    cause_reported P w t (w\<lparr>w_conn_slot := sl\<rparr>)"

lemma slot_frontend_commits:
  assumes "observe_terminal slot = (sl, convert_conn t) \<or> stream_open_conn_error slot = (sl, convert_conn t) \<or>
      prefer_terminal status slot = (sl, ConnectionErrorIncoming (convert_conn t))"
    and "\<forall>m. t \<noteq> CT_Internal m"
  shows "ct_observed sl \<and> ct_terminal sl = Some t"
proof (cases "ct_terminal slot")
  case None
  with assms show ?thesis
    by (cases t) (auto simp: observe_terminal_def stream_open_conn_error_def prefer_terminal_def slot_simps)
next
  case (Some r)
  with assms(1) show ?thesis
    by (auto simp: observe_terminal_def stream_open_conn_error_def prefer_terminal_def slot_simps convert_conn_inj)
qed

lemma slot_frontend_keeps:
  "observe_terminal slot = (sl, e) \<Longrightarrow> ct_terminal sl = ct_terminal slot \<and> (ct_observed slot \<longrightarrow> ct_observed sl)"
  "stream_open_conn_error slot = (sl, e) \<Longrightarrow> ct_terminal sl = ct_terminal slot \<and> (ct_observed slot \<longrightarrow> ct_observed sl)"
  "prefer_terminal status slot = (sl, e') \<Longrightarrow> ct_terminal sl = ct_terminal slot \<and> (ct_observed slot \<longrightarrow> ct_observed sl)"
  by (cases "ct_terminal slot";
      auto simp: observe_terminal_def stream_open_conn_error_def prefer_terminal_def slot_simps)+

lemma reports_step: "stream_reports P w t w' \<Longrightarrow> stream_step P w w'"
  by (cases rule: stream_reports.cases) (blast intro: stream_step.intros)+

lemma cause_reported_keeps:
  assumes "cause_reported P w t w'" and "frozen_cause r w"
  shows "frozen_cause r w'"
  using assms(1)
proof (cases rule: cause_reported.cases)
  case cr_stream
  from frozen_stream_step [OF reports_step [OF this] assms(2)] show ?thesis .
qed (use assms(2) in \<open>auto simp: frozen_cause_def dest: slot_frontend_keeps\<close>)

context stream_system
begin

lemma cause_reported_frozen:
  assumes "cause_reported P w t w'" and "slots_ok rq rrx w" and "\<forall>m. t \<noteq> CT_Internal m"
  shows "frozen_cause t w' \<and> slots_ok rq rrx w'"
proof -
  have slot: "frozen_cause t (w\<lparr>w_conn_slot := sl\<rparr>) \<and> slots_ok rq rrx (w\<lparr>w_conn_slot := sl\<rparr>)"
    if "ct_observed sl \<and> ct_terminal sl = Some t" for sl
  proof
    show "frozen_cause t (w\<lparr>w_conn_slot := sl\<rparr>)" using that by (simp add: frozen_cause_def)
    show "slots_ok rq rrx (w\<lparr>w_conn_slot := sl\<rparr>)" by (rule slots_ok_slot [OF assms(2)]) (use that in auto)
  qed
  note commits = slot_frontend_commits [OF _ assms(3), THEN slot]
  from assms(1) show ?thesis
  proof (cases rule: cause_reported.cases)
    case cr_stream
    from reports_frozen [OF this assms(2,3)] show ?thesis .
  qed (use commits in blast)+
qed

lemma one_cause:
  assumes "stream_reach P w" and "cause_reported P w t w1" and "(stream_step P)\<^sup>*\<^sup>* w1 w2" and "cause_reported P w2 t' w3"
    and "\<forall>m. t \<noteq> CT_Internal m" and "\<forall>m. t' \<noteq> CT_Internal m"
  shows "t' = t"
proof -
  from cause_reported_frozen [OF assms(2) stream_reach_slots [OF assms(1)] assms(5)]
  have w1: "frozen_cause t w1" "slots_ok rq rrx w1" by simp_all
  have "frozen_cause t w3" by (rule cause_reported_keeps [OF assms(4) frozen_stream_steps [OF assms(3) w1(1)]])
  moreover have "slots_ok rq rrx w2" using assms(3) w1(2) by (induction rule: rtranclp_induct) (auto intro: stream_step_slots)
  then have "frozen_cause t' w3" using cause_reported_frozen [OF assms(4) _ assms(6)] by blast
  ultimately show ?thesis by (simp add: frozen_cause_def)
qed

end

text \<open>
  C1: every frontend reports the same connection cause. Once one of the stream's halves, an accept
  poll or an open has failed with a connection cause, any later one, after whatever the callbacks,
  the halves and the slot's other users did in between, that fails with a connection cause fails with
  that same cause. Adapter-internal faults, which are local to a frontend, are the only exception.
\<close>

theorem one_connection_cause:
  assumes "stream_system P rq rtx rrx rpark sq stx srx spark content alive waiting" and "stream_reach P w"
    and "cause_reported P w t w1" and "(stream_step P)\<^sup>*\<^sup>* w1 w2" and "cause_reported P w2 t' w3"
    and "\<forall>m. t \<noteq> CT_Internal m" and "\<forall>m. t' \<noteq> CT_Internal m"
  shows "t' = t"
  by (rule stream_system.one_cause [OF assms])

theorem one_connection_cause_witness:
  "\<exists>w w1 w2 w3 t. stream_reach ref_sys w \<and> cause_reported ref_sys w (CT_PeerApplication 9) w1 \<and>
     (stream_step ref_sys)\<^sup>*\<^sup>* w1 w2 \<and> cause_reported ref_sys w2 t w3 \<and> t = CT_PeerApplication 9"
proof -
  let ?u = "snd (stream_ctx_channel_pre_id ref_env conn_terminal_default h3_config_default ([] :: nat list))"
  let ?v = "env_step ref_sys (MoveSlot (OpRecord (CT_PeerApplication 9))) ?u"
  let ?x = "?v\<lparr>w_conn_slot := fst (observe_terminal (w_conn_slot ?v))\<rparr>"
  let ?y = "env_step ref_sys (MoveSlot (OpRecord CT_Timeout)) ?x"
  let ?call = "poll_ready ref_env calm 7 (ref_sctx, ?y)"
  have reach: "stream_reach ref_sys ?v"
    using ref_initial sy_env [of ref_sys ?u] unfolding stream_reach_def by blast
  have "snd (observe_terminal (w_conn_slot ?v)) = convert_conn (CT_PeerApplication 9)" by code_simp
  then have r1: "cause_reported ref_sys ?v (CT_PeerApplication 9) ?x" by (intro cr_accept) (metis prod.collapse)
  have s: "(stream_step ref_sys)\<^sup>*\<^sup>* ?x ?y" using sy_env [of ref_sys ?x] by blast
  have "map_option snd ?call = Some (PollReady (Err (ConnectionErrorIncoming (ApplicationClose 9))))" by code_simp
  then obtain s' w3 where c: "?call = Some ((s', w3), PollReady (Err (ConnectionErrorIncoming (ApplicationClose 9))))"
    by (cases ?call) auto
  have run: "env_run ref_sys (\<lambda>_. []) = calm" by (intro ext) (simp add: env_run_def calm_def)
  have sys: "sp_env ref_sys = ref_env" by (simp add: ref_sys_def)
  have r2: "stream_reports ref_sys ?y (CT_PeerApplication 9) w3"
    by (rule sr_ready [where s = ref_sctx and sched = "\<lambda>_. []" and cx = 7 and s' = s'])
      (simp add: ref_sys_def ref_sctx_def, unfold run sys c convert_conn.simps, rule refl)
  have "CT_PeerApplication 9 = CT_PeerApplication 9"
    by (rule one_connection_cause [OF ref_system.stream_system_axioms reach r1 s cr_stream [OF r2]]) simp_all
  with reach r1 s cr_stream [OF r2] show ?thesis by blast
qed

end
